(* ===== verification/OB_Prelude.thy ===== *)
theory OB_Prelude
  imports Main "HOL-Library.AList"
begin

text \<open>
  Prelude of the OpenBlade development: the exceptions of the Python code as a datatype, the
  type of an operation that reads and writes a state and may raise, the combinators in which the
  components are written (sequencing, \<open>try/finally\<close>, \<open>try/except\<close>, loops), a weakest-precondition
  calculus for them, and the model of Python's insertion-ordered \<open>dict\<close> as an association list.

  Conventions shared by every component.
  \<^item> An operation of type \<open>('s, 'a) op\<close> returns its outcome and the state \<^emph>\<open>in both cases\<close>: a Python
    method that raises keeps the mutations it made before the \<open>raise\<close>, and so does the model.
  \<^item> An exception is identified by its class. The text of a message is not modelled; a
    \<open>ValueError\<close> carries the fixed part of its message, so that the places that raise it can be told
    apart.
  \<^item> Python's \<open>int\<close> is \<open>int\<close>, \<open>str\<close> is \<open>string\<close> (ASCII), \<open>bytes\<close> is a list of values below 256.
  \<^item> A \<open>dict\<close> iterates in insertion order, assignment to an existing key keeps its position: this is
    \<open>AList.update\<close>; \<open>pop\<close> is \<open>AList.delete\<close>, \<open>get\<close> is \<open>map_of\<close>.
  \<^item> A clock reading and a fresh \<open>uuid4\<close> are arguments of the operations that take them.
\<close>

named_theorems wp_rules \<open>equations that push weakest preconditions through the combinators\<close>
named_theorems keeps_intros \<open>introduction rules for preservation of an invariant by an operation\<close>
named_theorems kf_intros \<open>operations that keep a view of the state\<close>
named_theorems dict_simps \<open>facts on dictionaries\<close>

section \<open>Exceptions\<close>

text \<open>The classes of \<open>domain/errors.py\<close>, then the other exceptions the modelled code raises.\<close>

datatype exc =
    OpenBladeError
  | InvalidStateTransitionError
  | SafetyViolationError
  | RealHardwareDisabledError
  | BarcodeMismatchError
  | DriveCorrelationError
  | DriveOccupiedError
  | SlotOccupiedError
  | SlotEmptyError
  | TapeMountedError
  | DriveLeasedError
  | DriveUnreconciledError
  | JournalWriteError
  | DriveBusyError
  | StaleLeaseError
  | ChangerBusyError
  | NoScratchMediaError
  | TapeFullError
  | ChecksumMismatchError
  | CartridgeNotFoundError
  | CartridgeOfflineError
  | UnsafeCatalogPathError
  | MailslotUnsupportedError
  | ImportExportSlotError
  | ExportRefusedError
  | FileNotFoundError
  | JobNotFoundError
  | FormatRequiresConfirmationError
  | SimulatedWriteFailure
  | SimulatedRobotTimeout
  | SimulatedMountFailure
  | SimulatorFaultError string
  | OperationNotConfirmedError
  | TapeOperationFailedError
  | TapePhysicalStateError
  | UnknownDriveError
  | AllowlistError
  | InvalidTransitionError
  | UnsupportedProtectionError
  | InvalidProtectionPolicyError
  | ValueError string
  | KeyError
  | TypeError
  | PermissionError
  | AssertionError
  | OSFileNotFoundError
  | OperationalError
  | ZeroDivisionError
  | RuntimeError
  | AttributeError
  | CacheError
  | CacheChecksumError
  | CacheIntegrityError
  | CacheEntryInUseError
  | OSError

text \<open>The direct base class, where it is one of the typed OpenBlade errors.\<close>

fun exc_base :: "exc \<Rightarrow> exc option" where
  "exc_base RealHardwareDisabledError = Some SafetyViolationError"
| "exc_base BarcodeMismatchError = Some SafetyViolationError"
| "exc_base DriveCorrelationError = Some SafetyViolationError"
| "exc_base TapeMountedError = Some SafetyViolationError"
| "exc_base DriveLeasedError = Some SafetyViolationError"
| "exc_base DriveUnreconciledError = Some SafetyViolationError"
| "exc_base JournalWriteError = Some SafetyViolationError"
| "exc_base UnsafeCatalogPathError = Some SafetyViolationError"
| "exc_base ExportRefusedError = Some SafetyViolationError"
| "exc_base FormatRequiresConfirmationError = Some SafetyViolationError"
| "exc_base InvalidStateTransitionError = Some OpenBladeError"
| "exc_base SafetyViolationError = Some OpenBladeError"
| "exc_base DriveOccupiedError = Some OpenBladeError"
| "exc_base SlotOccupiedError = Some OpenBladeError"
| "exc_base SlotEmptyError = Some OpenBladeError"
| "exc_base DriveBusyError = Some OpenBladeError"
| "exc_base StaleLeaseError = Some OpenBladeError"
| "exc_base ChangerBusyError = Some OpenBladeError"
| "exc_base NoScratchMediaError = Some OpenBladeError"
| "exc_base TapeFullError = Some OpenBladeError"
| "exc_base ChecksumMismatchError = Some OpenBladeError"
| "exc_base CartridgeNotFoundError = Some OpenBladeError"
| "exc_base CartridgeOfflineError = Some OpenBladeError"
| "exc_base MailslotUnsupportedError = Some OpenBladeError"
| "exc_base ImportExportSlotError = Some OpenBladeError"
| "exc_base FileNotFoundError = Some OpenBladeError"
| "exc_base JobNotFoundError = Some OpenBladeError"
| "exc_base SimulatedWriteFailure = Some OpenBladeError"
| "exc_base SimulatedRobotTimeout = Some OpenBladeError"
| "exc_base SimulatedMountFailure = Some OpenBladeError"
| "exc_base CacheError = Some OpenBladeError"
| "exc_base CacheChecksumError = Some CacheError"
| "exc_base CacheIntegrityError = Some CacheError"
| "exc_base _ = None"

text \<open>\<open>isinstance (exc, OpenBladeError)\<close>.\<close>

definition is_openblade_error :: "exc \<Rightarrow> bool" where
  "is_openblade_error e \<longleftrightarrow> e = OpenBladeError \<or> exc_base e \<noteq> None"

section \<open>Operations\<close>

type_synonym ('s, 'a) op = "'s \<Rightarrow> (exc + 'a) \<times> 's"

definition returnM :: "'a \<Rightarrow> ('s, 'a) op" where
  "returnM x s = (Inr x, s)"

definition raiseM :: "exc \<Rightarrow> ('s, 'a) op" where
  "raiseM e s = (Inl e, s)"

definition bindM :: "('s, 'a) op \<Rightarrow> ('a \<Rightarrow> ('s, 'b) op) \<Rightarrow> ('s, 'b) op" where
  "bindM m f s = (case m s of (Inl e, s') \<Rightarrow> (Inl e, s') | (Inr x, s') \<Rightarrow> f x s')"

definition thenM :: "('s, 'a) op \<Rightarrow> ('s, 'b) op \<Rightarrow> ('s, 'b) op" where
  "thenM m n = bindM m (\<lambda>_. n)"

definition getsM :: "('s \<Rightarrow> 'a) \<Rightarrow> ('s, 'a) op" where
  "getsM f s = (Inr (f s), s)"

definition modifyM :: "('s \<Rightarrow> 's) \<Rightarrow> ('s, unit) op" where
  "modifyM f s = (Inr (), f s)"

definition guardM :: "bool \<Rightarrow> exc \<Rightarrow> ('s, unit) op" where
  "guardM b e = (if b then returnM () else raiseM e)"

definition liftM :: "exc + 'a \<Rightarrow> ('s, 'a) op" where
  "liftM r s = (r, s)"

text \<open>An operation that reads the state and returns a result or an exception.\<close>

definition queryM :: "('s \<Rightarrow> exc + 'a) \<Rightarrow> ('s, 'a) op" where
  "queryM f s = (f s, s)"

text \<open>\<open>try: m finally: c\<close>; an exception of \<open>c\<close> replaces the outcome of \<open>m\<close>, as in Python.\<close>

definition finallyM :: "('s, 'a) op \<Rightarrow> ('s, unit) op \<Rightarrow> ('s, 'a) op" where
  "finallyM m c s =
     (case m s of (r, s1) \<Rightarrow> (case c s1 of (Inl e, s2) \<Rightarrow> (Inl e, s2) | (Inr _, s2) \<Rightarrow> (r, s2)))"

text \<open>\<open>try: m except Exception as e: h e\<close>.\<close>

definition catchM :: "('s, 'a) op \<Rightarrow> (exc \<Rightarrow> ('s, 'a) op) \<Rightarrow> ('s, 'a) op" where
  "catchM m h s = (case m s of (Inl e, s') \<Rightarrow> h e s' | (Inr x, s') \<Rightarrow> (Inr x, s'))"

text \<open>A \<open>for\<close> loop whose body may raise.\<close>

primrec forM :: "'a list \<Rightarrow> ('a \<Rightarrow> ('s, unit) op) \<Rightarrow> ('s, unit) op" where
  "forM [] f = returnM ()"
| "forM (x # xs) f = thenM (f x) (forM xs f)"

text \<open>A loop that collects the results of its body.\<close>

primrec mapM :: "('a \<Rightarrow> ('s, 'b) op) \<Rightarrow> 'a list \<Rightarrow> ('s, 'b list) op" where
  "mapM f [] = returnM []"
| "mapM f (x # xs) = bindM (f x) (\<lambda>y. bindM (mapM f xs) (\<lambda>ys. returnM (y # ys)))"

text \<open>An operation of a part, run on the whole: \<open>g\<close> reads the part, \<open>p\<close> puts it back.\<close>

definition zoomM :: "('s \<Rightarrow> 't) \<Rightarrow> ('t \<Rightarrow> 's \<Rightarrow> 's) \<Rightarrow> ('t, 'a) op \<Rightarrow> ('s, 'a) op" where
  "zoomM g p m s = (case m (g s) of (r, t) \<Rightarrow> (r, p t s))"

lemmas op_defs = returnM_def raiseM_def bindM_def thenM_def getsM_def modifyM_def guardM_def
  liftM_def finallyM_def catchM_def zoomM_def

section \<open>Results\<close>

text \<open>Sequencing of pure functions that may raise, and a comprehension whose body may.\<close>

definition bindR :: "exc + 'a \<Rightarrow> ('a \<Rightarrow> exc + 'b) \<Rightarrow> exc + 'b" where
  "bindR r f = (case r of Inl e \<Rightarrow> Inl e | Inr x \<Rightarrow> f x)"

lemma bindR_simps [simp]: "bindR (Inr x) f = f x" "bindR (Inl e) f = Inl e"
  by (simp_all add: bindR_def)

lemma bindR_Inr_iff: "bindR r f = Inr y \<longleftrightarrow> (\<exists>x. r = Inr x \<and> f x = Inr y)"
  by (cases r) simp_all

primrec mapR :: "('a \<Rightarrow> exc + 'b) \<Rightarrow> 'a list \<Rightarrow> exc + 'b list" where
  "mapR f [] = Inr []"
| "mapR f (x # xs) = bindR (f x) (\<lambda>y. bindR (mapR f xs) (\<lambda>ys. Inr (y # ys)))"

lemma mapR_all: "(\<And>x. x \<in> set xs \<Longrightarrow> f x = Inr (g x)) \<Longrightarrow> mapR f xs = Inr (map g xs)"
  by (induction xs) simp_all

lemma mapR_nth: "mapR f xs = Inr ys \<Longrightarrow> length ys = length xs \<and> (\<forall>j < length xs. f (xs ! j) = Inr (ys ! j))"
proof (induction xs arbitrary: ys)
  case (Cons x xs)
  then obtain y zs where "f x = Inr y" "mapR f xs = Inr zs" "ys = y # zs" by (auto simp: bindR_Inr_iff)
  with Cons.IH [of zs] show ?case by (auto simp: nth_Cons split: nat.splits)
qed simp

section \<open>Weakest preconditions\<close>

text \<open>
  \<open>wp m Q E s\<close>: run from \<open>s\<close>, the operation ends in a state satisfying \<open>Q\<close> when it returns and
  \<open>E\<close> when it raises. Both are total: an operation always has an outcome.
\<close>

definition wp :: "('s, 'a) op \<Rightarrow> ('a \<Rightarrow> 's \<Rightarrow> bool) \<Rightarrow> (exc \<Rightarrow> 's \<Rightarrow> bool) \<Rightarrow> 's \<Rightarrow> bool" where
  "wp m Q E s = (case m s of (Inr x, s') \<Rightarrow> Q x s' | (Inl e, s') \<Rightarrow> E e s')"

lemma wp_return [wp_rules]: "wp (returnM x) Q E = Q x"
  by (simp add: wp_def returnM_def fun_eq_iff)

lemma wp_raise [wp_rules]: "wp (raiseM e) Q E = E e"
  by (simp add: wp_def raiseM_def fun_eq_iff)

lemma wp_bind [wp_rules]: "wp (bindM m f) Q E = wp m (\<lambda>x. wp (f x) Q E) E"
  by (auto simp: wp_def bindM_def fun_eq_iff split: prod.splits sum.splits)

lemma wp_then [wp_rules]: "wp (thenM m n) Q E = wp m (\<lambda>_. wp n Q E) E"
  by (simp add: thenM_def wp_bind)

lemma wp_gets [wp_rules]: "wp (getsM f) Q E = (\<lambda>s. Q (f s) s)"
  by (simp add: wp_def getsM_def fun_eq_iff)

lemma wp_modify [wp_rules]: "wp (modifyM f) Q E = (\<lambda>s. Q () (f s))"
  by (simp add: wp_def modifyM_def fun_eq_iff)

lemma wp_guard [wp_rules]: "wp (guardM b e) Q E = (\<lambda>s. if b then Q () s else E e s)"
  by (simp add: guardM_def wp_return wp_raise)

lemma wp_lift [wp_rules]: "wp (liftM r) Q E = (\<lambda>s. case r of Inr x \<Rightarrow> Q x s | Inl e \<Rightarrow> E e s)"
  by (simp add: wp_def liftM_def fun_eq_iff split: sum.splits)

lemma wp_finally [wp_rules]:
  "wp (finallyM m c) Q E = wp m (\<lambda>x. wp c (\<lambda>_. Q x) E) (\<lambda>e. wp c (\<lambda>_. E e) E)"
  by (auto simp: wp_def finallyM_def fun_eq_iff split: prod.splits sum.splits)

lemma wp_catch [wp_rules]: "wp (catchM m h) Q E = wp m Q (\<lambda>e. wp (h e) Q E)"
  by (auto simp: wp_def catchM_def fun_eq_iff split: prod.splits sum.splits)

lemma wp_zoom [wp_rules]:
  "wp (zoomM g p m) Q E = (\<lambda>s. wp m (\<lambda>x t. Q x (p t s)) (\<lambda>e t. E e (p t s)) (g s))"
  by (auto simp: wp_def zoomM_def fun_eq_iff split: prod.splits sum.splits)

lemma wp_if [wp_rules]: "wp (if b then m else n) Q E = (\<lambda>s. if b then wp m Q E s else wp n Q E s)"
  by simp

lemma wp_case_option [wp_rules]:
  "wp (case z of None \<Rightarrow> m | Some x \<Rightarrow> f x) Q E =
     (\<lambda>s. case z of None \<Rightarrow> wp m Q E s | Some x \<Rightarrow> wp (f x) Q E s)"
  by (cases z) simp_all

lemma wp_query [wp_rules]: "wp (queryM f) Q E = (\<lambda>s. case f s of Inr x \<Rightarrow> Q x s | Inl e \<Rightarrow> E e s)"
  by (simp add: wp_def queryM_def fun_eq_iff split: sum.splits)

lemma wp_mono:
  assumes "wp m Q E s" and "\<And>x t. Q x t \<Longrightarrow> Q' x t" and "\<And>e t. E e t \<Longrightarrow> E' e t"
  shows "wp m Q' E' s"
  using assms by (auto simp: wp_def split: prod.splits sum.splits)

lemma wp_conj:
  "wp m (\<lambda>x t. Q x t \<and> Q' x t) (\<lambda>e t. E e t \<and> E' e t) s \<longleftrightarrow> wp m Q E s \<and> wp m Q' E' s"
  by (auto simp: wp_def split: prod.splits sum.splits)

lemma wp_returns: "wp m Q E s \<Longrightarrow> m s = (Inr x, s') \<Longrightarrow> Q x s'"
  by (simp add: wp_def)

lemma wp_raises: "wp m Q E s \<Longrightarrow> m s = (Inl e, s') \<Longrightarrow> E e s'"
  by (simp add: wp_def)

lemma wp_forM:
  assumes "I s" and "\<And>x t. x \<in> set xs \<Longrightarrow> I t \<Longrightarrow> wp (f x) (\<lambda>_. I) E t"
  shows "wp (forM xs f) (\<lambda>_. I) E s"
  using assms
proof (induction xs arbitrary: s)
  case Nil
  then show ?case by (simp add: wp_rules)
next
  case (Cons x xs)
  then have "wp (f x) (\<lambda>_. I) E s" by simp
  then show ?case
    unfolding forM.simps wp_then by (rule wp_mono) (use Cons in auto)
qed

text \<open>A loop whose invariant names what it has been through.\<close>

lemma wp_forM_prefix:
  assumes "I [] s" and "\<And>ys x zs t. xs = ys @ x # zs \<Longrightarrow> I ys t \<Longrightarrow> wp (f x) (\<lambda>_. I (ys @ [x])) E t"
  shows "wp (forM xs f) (\<lambda>_. I xs) E s"
proof -
  have "wp (forM zs f) (\<lambda>_. I xs) E t" if "xs = ys @ zs" and "I ys t" for ys zs t
    using that
  proof (induction zs arbitrary: ys t)
    case (Cons z zs)
    show ?case unfolding forM.simps wp_then
      by (rule wp_mono [OF assms(2) [OF Cons.prems]]) (use Cons.IH [of "ys @ [z]"] Cons.prems in auto)
  qed (simp add: wp_return)
  from this [of "[]" xs] assms(1) show ?thesis by simp
qed

subsection \<open>Preservation of an invariant\<close>

text \<open>An operation keeps \<open>I\<close> when it ends in a state with \<open>I\<close>, whether it returns or raises.\<close>

definition keeps :: "('s \<Rightarrow> bool) \<Rightarrow> ('s, 'a) op \<Rightarrow> bool" where
  "keeps I m \<longleftrightarrow> (\<forall>s. I s \<longrightarrow> I (snd (m s)))"

lemma keeps_iff_wp: "keeps I m \<longleftrightarrow> (\<forall>s. I s \<longrightarrow> wp m (\<lambda>_. I) (\<lambda>_. I) s)"
  by (auto simp: keeps_def wp_def split: prod.splits sum.splits) (metis sndI surj_pair)+

lemma keepsD: "keeps I m \<Longrightarrow> I s \<Longrightarrow> m s = (r, s') \<Longrightarrow> I s'"
  by (auto simp: keeps_def dest: spec [of _ s])

lemma keepsI_wp: "(\<And>s. I s \<Longrightarrow> wp m (\<lambda>_. I) (\<lambda>_. I) s) \<Longrightarrow> keeps I m"
  by (simp add: keeps_iff_wp)

lemma keeps_return [keeps_intros]: "keeps I (returnM x)"
  and keeps_raise [keeps_intros]: "keeps I (raiseM e)"
  and keeps_gets [keeps_intros]: "keeps I (getsM f)"
  and keeps_guard [keeps_intros]: "keeps I (guardM b e)"
  and keeps_lift [keeps_intros]: "keeps I (liftM r)"
  and keeps_query [keeps_intros]: "keeps I (queryM q)"
  by (simp_all add: keeps_def op_defs queryM_def)

lemma keeps_modify [keeps_intros]: "(\<And>s. I s \<Longrightarrow> I (f s)) \<Longrightarrow> keeps I (modifyM f)"
  by (simp add: keeps_def op_defs)

lemma keeps_bind [keeps_intros]: "keeps I m \<Longrightarrow> (\<And>x. keeps I (f x)) \<Longrightarrow> keeps I (bindM m f)"
  by (auto simp: keeps_iff_wp wp_bind intro: wp_mono)

lemma keeps_then [keeps_intros]: "keeps I m \<Longrightarrow> keeps I n \<Longrightarrow> keeps I (thenM m n)"
  by (simp add: thenM_def keeps_bind)

lemma keeps_finally [keeps_intros]: "keeps I m \<Longrightarrow> keeps I c \<Longrightarrow> keeps I (finallyM m c)"
  by (auto simp: keeps_iff_wp wp_finally intro: wp_mono)

lemma keeps_catch [keeps_intros]: "keeps I m \<Longrightarrow> (\<And>e. keeps I (h e)) \<Longrightarrow> keeps I (catchM m h)"
  by (auto simp: keeps_iff_wp wp_catch intro: wp_mono)

lemma keeps_if [keeps_intros]: "keeps I m \<Longrightarrow> keeps I n \<Longrightarrow> keeps I (if b then m else n)"
  by simp

lemma keeps_case_option [keeps_intros]:
  "keeps I m \<Longrightarrow> (\<And>x. keeps I (f x)) \<Longrightarrow> keeps I (case z of None \<Rightarrow> m | Some x \<Rightarrow> f x)"
  by (cases z) simp_all

lemma keeps_forM [keeps_intros]: "(\<And>x. keeps I (f x)) \<Longrightarrow> keeps I (forM xs f)"
  by (induction xs) (simp_all add: keeps_return keeps_then)

lemma keeps_mapM [keeps_intros]: "(\<And>x. keeps I (f x)) \<Longrightarrow> keeps I (mapM f xs)"
  by (induction xs) (auto intro!: keeps_intros)

lemma keeps_zoom [keeps_intros]:
  assumes "keeps J m" and "\<And>s. I s \<Longrightarrow> J (g s)" and "\<And>s t. I s \<Longrightarrow> J t \<Longrightarrow> I (p t s)"
  shows "keeps I (zoomM g p m)"
  using assms by (auto simp: keeps_def zoomM_def split: prod.splits) (metis snd_conv)

subsection \<open>Views of a state\<close>

text \<open>An operation that keeps the value of a view of the state, whether it returns or raises.\<close>

definition keepsv :: "('s \<Rightarrow> 'v) \<Rightarrow> ('s, 'a) op \<Rightarrow> bool" where
  "keepsv g m \<longleftrightarrow> (\<forall>s. g (snd (m s)) = g s)"

lemma keepsv_keeps: "keepsv g m \<Longrightarrow> keeps (\<lambda>s. P (g s)) m"
  by (simp add: keepsv_def keeps_def)

lemma keepsv_iff: "keepsv g m \<longleftrightarrow> (\<forall>v. keeps (\<lambda>s. g s = v) m)"
  by (auto simp: keepsv_def keeps_def)

lemma kf_basic [kf_intros]:
  "keepsv g (returnM x)" "keepsv g (raiseM e)" "keepsv g (getsM f)" "keepsv g (guardM b e)" "keepsv g (liftM r)" "keepsv g (queryM q)"
  by (simp_all add: keepsv_def op_defs queryM_def)

lemma kf_modify [kf_intros]: "(\<And>s. g (f s) = g s) \<Longrightarrow> keepsv g (modifyM f)"
  by (simp add: keepsv_def op_defs)

lemma kf_bind [kf_intros]: "keepsv g m \<Longrightarrow> (\<And>x. keepsv g (f x)) \<Longrightarrow> keepsv g (bindM m f)"
  by (simp add: keepsv_iff keeps_bind)

lemma kf_then [kf_intros]: "keepsv g m \<Longrightarrow> keepsv g n \<Longrightarrow> keepsv g (thenM m n)"
  by (simp add: keepsv_iff keeps_then)

lemma kf_catch [kf_intros]: "keepsv g m \<Longrightarrow> (\<And>e. keepsv g (h e)) \<Longrightarrow> keepsv g (catchM m h)"
  by (simp add: keepsv_iff keeps_catch)

lemma kf_finally [kf_intros]: "keepsv g m \<Longrightarrow> keepsv g c \<Longrightarrow> keepsv g (finallyM m c)"
  by (simp add: keepsv_iff keeps_finally)

lemma kf_forM [kf_intros]: "(\<And>x. keepsv g (f x)) \<Longrightarrow> keepsv g (forM xs f)"
  by (simp add: keepsv_iff keeps_forM)

lemma kf_if [kf_intros]: "keepsv g m \<Longrightarrow> keepsv g n \<Longrightarrow> keepsv g (if b then m else n)"
  and kf_case_option [kf_intros]: "keepsv g m \<Longrightarrow> (\<And>x. keepsv g (f x)) \<Longrightarrow> keepsv g (case z of None \<Rightarrow> m | Some x \<Rightarrow> f x)"
  and kf_case_prod [kf_intros]: "(\<And>a b. keepsv g (h a b)) \<Longrightarrow> keepsv g (case p of (a, b) \<Rightarrow> h a b)"
  by (auto split: option.splits prod.splits)

lemma keepsvD: "keepsv g m \<Longrightarrow> m s = (r, s') \<Longrightarrow> g s' = g s"
  by (metis keepsv_def snd_conv)

text \<open>A step that keeps the view, in front of a postcondition about it.\<close>

lemma wp_kf: "keepsv g m \<Longrightarrow> (\<And>x s'. g s' = g s \<Longrightarrow> Q x s') \<Longrightarrow> wp m Q (\<lambda>_ _. True) s"
  by (auto simp: wp_def keepsv_def split: prod.splits sum.splits) (metis snd_conv)

lemma wp_kf_both:
  "keepsv g m \<Longrightarrow> (\<And>x s'. g s' = g s \<Longrightarrow> Q x s') \<Longrightarrow> (\<And>e s'. g s' = g s \<Longrightarrow> E e s') \<Longrightarrow> wp m Q E s"
  by (auto simp: wp_def split: prod.splits sum.splits dest: keepsvD)

lemma wp_both:
  assumes "wp m P (\<lambda>_ _. True) s" and "wp m Q (\<lambda>_ _. True) s" and "\<And>x t. P x t \<Longrightarrow> Q x t \<Longrightarrow> R x t"
  shows "wp m R (\<lambda>_ _. True) s"
  using assms by (auto simp: wp_def split: prod.splits sum.splits)

lemma wp_true: "wp m (\<lambda>_ _. True) (\<lambda>_ _. True) s"
  by (simp add: wp_def split: prod.splits sum.splits)

lemma wp_bind_any: "(\<And>x s. wp (f x) Q (\<lambda>_ _. True) s) \<Longrightarrow> wp (bindM m f) Q (\<lambda>_ _. True) s"
  unfolding wp_bind by (rule wp_mono [OF wp_true])

lemma wp_then_any: "(\<And>s. wp n Q (\<lambda>_ _. True) s) \<Longrightarrow> wp (thenM m n) Q (\<lambda>_ _. True) s"
  unfolding wp_then by (rule wp_mono [OF wp_true])

lemma wp_finally_any:
  "wp m Q (\<lambda>_ _. True) s \<Longrightarrow> (\<And>x t. Q x t \<Longrightarrow> wp c (\<lambda>_. R x) (\<lambda>_ _. True) t) \<Longrightarrow> wp (finallyM m c) R (\<lambda>_ _. True) s"
  unfolding wp_finally by (erule wp_mono) (auto intro: wp_true)

lemma keeps_forM_mem: "(\<And>x. x \<in> set xs \<Longrightarrow> keeps I (f x)) \<Longrightarrow> keeps I (forM xs f)"
  by (induction xs) (auto intro: keeps_return keeps_then)

section \<open>Dictionaries\<close>

type_synonym ('k, 'v) dict = "('k \<times> 'v) list"

abbreviation dict_get :: "('k, 'v) dict \<Rightarrow> 'k \<Rightarrow> 'v option" where
  "dict_get \<equiv> map_of"

abbreviation dict_set :: "'k \<Rightarrow> 'v \<Rightarrow> ('k, 'v) dict \<Rightarrow> ('k, 'v) dict" where
  "dict_set \<equiv> AList.update"

abbreviation dict_pop :: "'k \<Rightarrow> ('k, 'v) dict \<Rightarrow> ('k, 'v) dict" where
  "dict_pop \<equiv> AList.delete"

abbreviation dict_keys :: "('k, 'v) dict \<Rightarrow> 'k list" where
  "dict_keys \<equiv> map fst"

abbreviation dict_values :: "('k, 'v) dict \<Rightarrow> 'v list" where
  "dict_values \<equiv> map snd"

definition dict_setdefault :: "'k \<Rightarrow> 'v \<Rightarrow> ('k, 'v) dict \<Rightarrow> ('k, 'v) dict" where
  "dict_setdefault k v d = (case dict_get d k of None \<Rightarrow> d @ [(k, v)] | Some _ \<Rightarrow> d)"

text \<open>\<open>d[k]\<close>: the value, or \<open>KeyError\<close>.\<close>

definition dict_index :: "('k, 'v) dict \<Rightarrow> 'k \<Rightarrow> exc + 'v" where
  "dict_index d k = (case dict_get d k of None \<Rightarrow> Inl KeyError | Some v \<Rightarrow> Inr v)"

text \<open>\<open>d[k]\<close> for a dictionary \<open>d\<close> of the state.\<close>

definition indexM :: "('s \<Rightarrow> ('k, 'v) dict) \<Rightarrow> 'k \<Rightarrow> ('s, 'v) op" where
  "indexM f k = queryM (\<lambda>s. dict_index (f s) k)"

lemma wp_index [wp_rules]:
  "wp (indexM f k) Q E = (\<lambda>s. case dict_get (f s) k of None \<Rightarrow> E KeyError s | Some v \<Rightarrow> Q v s)"
  by (simp add: indexM_def wp_query dict_index_def fun_eq_iff split: option.splits)

lemma keeps_index [keeps_intros]: "keeps I (indexM f k)"
  by (simp add: indexM_def keeps_query)

lemma dict_get_set [dict_simps]: "dict_get (dict_set k v d) = (dict_get d)(k \<mapsto> v)"
  by (rule update_conv')

lemma dict_get_pop [dict_simps]: "dict_get (dict_pop k d) = (dict_get d)(k := None)"
  by (rule delete_conv')

lemma dict_get_setdefault [dict_simps]:
  "dict_get (dict_setdefault k v d) = (case dict_get d k of None \<Rightarrow> (dict_get d)(k \<mapsto> v) | Some _ \<Rightarrow> dict_get d)"
  by (auto simp: dict_setdefault_def fun_eq_iff map_add_def split: option.splits)

lemma dict_keys_set: "dict_keys (dict_set k v d) = (if k \<in> set (dict_keys d) then dict_keys d else dict_keys d @ [k])"
  by (induction d) auto

lemma dict_keys_set_present [dict_simps]:
  "dict_get d k = Some w \<Longrightarrow> dict_keys (dict_set k v d) = dict_keys d"
  using map_of_SomeD [of d k w] by (force simp: dict_keys_set)

lemma dict_distinct_set: "distinct (dict_keys d) \<Longrightarrow> distinct (dict_keys (dict_set k v d))"
  by (rule distinct_update)

lemma dict_set_present:
  assumes "distinct (dict_keys d)" and "dict_get d k = Some w"
  shows "dict_set k v d = map (\<lambda>(k', v'). if k' = k then (k, v) else (k', v')) d"
  using assms
proof (induction d)
  case Nil
  then show ?case by simp
next
  case (Cons p d)
  show ?case
  proof (cases "fst p = k")
    case True
    with Cons.prems(1) have "k \<notin> set (dict_keys d)" by (cases p) simp
    then have "map (\<lambda>(k', v'). if k' = k then (k, v) else (k', v')) d = d"
      by (intro map_idI) force
    with True show ?thesis by (cases p) simp
  next
    case False
    with Cons show ?thesis by (cases p) auto
  qed
qed

lemma dict_get_iff_mem:
  "distinct (dict_keys d) \<Longrightarrow> dict_get d k = Some v \<longleftrightarrow> (k, v) \<in> set d"
  by (rule map_of_eq_Some_iff)

lemma dict_set_mem:
  assumes "distinct (dict_keys d)"
  shows "set (dict_set k v d) = {(k', w) \<in> set d. k' \<noteq> k} \<union> {(k, v)}"
proof -
  have "distinct (dict_keys (dict_set k v d))" by (rule dict_distinct_set [OF assms])
  then have "(a, b) \<in> set (dict_set k v d) \<longleftrightarrow> ((dict_get d)(k \<mapsto> v)) a = Some b" for a b
    by (simp add: dict_get_iff_mem [symmetric] dict_get_set)
  then show ?thesis
    using dict_get_iff_mem [OF assms] by (auto split: if_splits)
qed

lemma dict_set_subset: "x \<in> set (dict_set k v d) \<Longrightarrow> x = (k, v) \<or> x \<in> set d"
  by (induction d) (auto split: if_splits)

lemma dict_get_map_values [dict_simps]: "dict_get (map (\<lambda>(k, v). (k, f v)) d) k = map_option f (dict_get d k)"
  by (induction d) auto

lemma dict_keys_map_values [dict_simps]: "dict_keys (map (\<lambda>(k, v). (k, f v)) d) = dict_keys d"
  by (induction d) auto

text \<open>A dictionary comprehension: a later pair replaces the value of an earlier one.\<close>

definition dict_of :: "('k \<times> 'v) list \<Rightarrow> ('k, 'v) dict" where
  "dict_of ps = foldl (\<lambda>d (k, v). dict_set k v d) [] ps"

lemma dict_set_fresh: "k \<notin> set (dict_keys d) \<Longrightarrow> dict_set k v d = d @ [(k, v)]"
  by (induction d) auto

lemma dict_of_distinct [dict_simps]:
  assumes "distinct (dict_keys ps)"
  shows "dict_of ps = ps"
proof -
  have "foldl (\<lambda>d (k, v). dict_set k v d) d ps = d @ ps" if "distinct (dict_keys (d @ ps))" for d
    using that
  proof (induction ps arbitrary: d)
    case Nil
    then show ?case by simp
  next
    case (Cons p ps)
    obtain k v where p: "p = (k, v)" by (cases p)
    have "dict_set k v d = d @ [(k, v)]" using Cons.prems p by (intro dict_set_fresh) auto
    with Cons.IH [of "d @ [(k, v)]"] Cons.prems p show ?case by simp
  qed
  from this [of "[]"] assms show ?thesis by (simp add: dict_of_def)
qed

lemma dict_of_keys_distinct: "distinct (dict_keys (dict_of ps))"
proof -
  have "distinct (dict_keys (foldl (\<lambda>d (k, v). dict_set k v d) d ps))" if "distinct (dict_keys d)" for d
    using that by (induction ps arbitrary: d) (auto simp: distinct_update)
  then show ?thesis by (simp add: dict_of_def)
qed

section \<open>First match in a list\<close>

text \<open>\<open>next((x for x in xs if p(x)), None)\<close> is \<open>List.find\<close>.\<close>

lemma mem_map_filter: "y \<in> set (List.map_filter f xs) \<longleftrightarrow> (\<exists>x \<in> set xs. f x = Some y)"
  by (force simp: List.map_filter_def)

lemma find_SomeD: "List.find p xs = Some x \<Longrightarrow> x \<in> set xs \<and> p x"
  by (induction xs) (auto split: if_splits)

lemma find_NoneD: "List.find p xs = None \<Longrightarrow> x \<in> set xs \<Longrightarrow> \<not> p x"
  by (simp add: find_None_iff)

lemma find_unique:
  assumes "x \<in> set xs" and "p x" and "\<And>y. y \<in> set xs \<Longrightarrow> p y \<Longrightarrow> y = x"
  shows "List.find p xs = Some x"
proof (cases "List.find p xs")
  case None
  with assms(1,2) show ?thesis by (auto simp: find_None_iff)
next
  case (Some y)
  then have "y \<in> set xs \<and> p y" by (rule find_SomeD)
  with Some assms(3) [of y] show ?thesis by simp
qed

end
