(* ===== verification/Domain_Models.thy ===== *)
theory Domain_Models
  imports OB_Prelude
begin

text \<open>
  The domain layer: the enumerations, the barcode and the value records of
  \<open>src/openblade/domain/models.py\<close>, the transition tables of \<open>domain/states.py\<close>, the safety policies
  of \<open>domain/policies.py\<close>, the free-space policy of \<open>domain/capacity.py\<close>, and the scratch-media
  allowlist of \<open>domain/media_allowlist.py\<close>.

  A \<open>Barcode\<close> object is identified with its \<open>value\<close>, the normalised string; \<open>mk_barcode\<close> is its
  constructor. Strings are ASCII: \<open>str.upper\<close> and \<open>str.strip\<close> are modelled on that range. A time
  point or a duration is an integer.
\<close>

section \<open>Enumerations\<close>

datatype cartridge_state = CS_IN_SLOT | CS_IN_DRIVE | CS_EXPORTED | CS_MISSING | CS_CLEANING

datatype drive_state = DS_EMPTY | DS_LOADED | DS_BUSY | DS_FAILED

datatype mount_state = MS_UNMOUNTED | MS_MOUNTED_RO | MS_MOUNTED_RW | MS_DIRTY

datatype changer_state = CH_IDLE | CH_MOVING | CH_ERROR

datatype job_state = JS_PENDING | JS_RUNNING | JS_COMPLETED | JS_FAILED | JS_FAILED_RECOVERABLE | JS_CANCELLED

datatype mount_mode = READ_ONLY | READ_WRITE

datatype file_instance_state =
    FI_PENDING | FI_STAGING | FI_VERIFYING | FI_ARCHIVED | FI_VERIFIED | FI_FAILED | FI_QUARANTINED

fun cartridge_state_value :: "cartridge_state \<Rightarrow> string" where
  "cartridge_state_value CS_IN_SLOT = ''in_slot''"
| "cartridge_state_value CS_IN_DRIVE = ''in_drive''"
| "cartridge_state_value CS_EXPORTED = ''exported''"
| "cartridge_state_value CS_MISSING = ''missing''"
| "cartridge_state_value CS_CLEANING = ''cleaning''"

fun drive_state_value :: "drive_state \<Rightarrow> string" where
  "drive_state_value DS_EMPTY = ''empty''"
| "drive_state_value DS_LOADED = ''loaded''"
| "drive_state_value DS_BUSY = ''busy''"
| "drive_state_value DS_FAILED = ''failed''"

fun mount_state_value :: "mount_state \<Rightarrow> string" where
  "mount_state_value MS_UNMOUNTED = ''unmounted''"
| "mount_state_value MS_MOUNTED_RO = ''mounted_ro''"
| "mount_state_value MS_MOUNTED_RW = ''mounted_rw''"
| "mount_state_value MS_DIRTY = ''dirty''"

fun changer_state_value :: "changer_state \<Rightarrow> string" where
  "changer_state_value CH_IDLE = ''idle''"
| "changer_state_value CH_MOVING = ''moving''"
| "changer_state_value CH_ERROR = ''error''"

text \<open>Calling an enumeration class on a string: the member with that value, or \<open>ValueError\<close>.\<close>

definition enum_of_value :: "('e \<Rightarrow> string) \<Rightarrow> 'e list \<Rightarrow> string \<Rightarrow> exc + 'e" where
  "enum_of_value val members v =
     (case List.find (\<lambda>m. val m = v) members of
        Some m \<Rightarrow> Inr m
      | None \<Rightarrow> Inl (ValueError ''is not a valid enum value''))"

lemma enum_of_value_of:
  assumes "inj val" and "m \<in> set members"
  shows "enum_of_value val members (val m) = Inr m"
proof -
  have "List.find (\<lambda>x. val x = val m) members = Some m"
    using assms by (intro find_unique) (auto dest: injD)
  then show ?thesis by (simp add: enum_of_value_def)
qed

definition cartridge_state_of :: "string \<Rightarrow> exc + cartridge_state" where
  "cartridge_state_of =
     enum_of_value cartridge_state_value [CS_IN_SLOT, CS_IN_DRIVE, CS_EXPORTED, CS_MISSING, CS_CLEANING]"

definition drive_state_of :: "string \<Rightarrow> exc + drive_state" where
  "drive_state_of = enum_of_value drive_state_value [DS_EMPTY, DS_LOADED, DS_BUSY, DS_FAILED]"

definition mount_state_of :: "string \<Rightarrow> exc + mount_state" where
  "mount_state_of =
     enum_of_value mount_state_value [MS_UNMOUNTED, MS_MOUNTED_RO, MS_MOUNTED_RW, MS_DIRTY]"

definition changer_state_of :: "string \<Rightarrow> exc + changer_state" where
  "changer_state_of = enum_of_value changer_state_value [CH_IDLE, CH_MOVING, CH_ERROR]"

lemma cartridge_state_of_value [simp]: "cartridge_state_of (cartridge_state_value x) = Inr x"
  by (cases x) (simp_all add: cartridge_state_of_def enum_of_value_def)

lemma drive_state_of_value [simp]: "drive_state_of (drive_state_value x) = Inr x"
  by (cases x) (simp_all add: drive_state_of_def enum_of_value_def)

lemma mount_state_of_value [simp]: "mount_state_of (mount_state_value x) = Inr x"
  by (cases x) (simp_all add: mount_state_of_def enum_of_value_def)

lemma changer_state_of_value [simp]: "changer_state_of (changer_state_value x) = Inr x"
  by (cases x) (simp_all add: changer_state_of_def enum_of_value_def)

section \<open>Strings and barcodes\<close>

definition to_upper_char :: "char \<Rightarrow> char" where
  "to_upper_char c = (let n = (of_char c :: nat) in if 97 \<le> n \<and> n \<le> 122 then char_of (n - 32) else c)"

definition str_upper :: "string \<Rightarrow> string" where
  "str_upper = map to_upper_char"

definition is_space_char :: "char \<Rightarrow> bool" where
  "is_space_char c = (let n = (of_char c :: nat) in (9 \<le> n \<and> n \<le> 13) \<or> (28 \<le> n \<and> n \<le> 32))"

definition str_strip :: "string \<Rightarrow> string" where
  "str_strip s = rev (dropWhile is_space_char (rev (dropWhile is_space_char s)))"

text \<open>The class \<open>[A-Z0-9]\<close> of the barcode pattern.\<close>

definition is_barcode_char :: "char \<Rightarrow> bool" where
  "is_barcode_char c = (let n = (of_char c :: nat) in (65 \<le> n \<and> n \<le> 90) \<or> (48 \<le> n \<and> n \<le> 57))"

text \<open>Upper case and the barcode alphabet by the bits of a character, for evaluation. The letters are 1 to 26 in the low five bits.\<close>

definition letter_bits :: "bool \<Rightarrow> bool \<Rightarrow> bool \<Rightarrow> bool \<Rightarrow> bool \<Rightarrow> bool" where
  "letter_bits b0 b1 b2 b3 b4 \<longleftrightarrow> (b0 \<or> b1 \<or> b2 \<or> b3 \<or> b4) \<and> \<not> (b4 \<and> b3 \<and> (b2 \<or> b1 \<and> b0))"

lemma to_upper_char_bits [code]:
  "to_upper_char (Char b0 b1 b2 b3 b4 b5 b6 b7) = Char b0 b1 b2 b3 b4 (b5 \<and> \<not> (b6 \<and> \<not> b7 \<and> letter_bits b0 b1 b2 b3 b4)) b6 b7"
  by (cases b0; cases b1; cases b2; cases b3; cases b4; cases b5; cases b6; cases b7;
      simp add: to_upper_char_def letter_bits_def char_of_def bit_iff_odd)

lemma is_barcode_char_bits [code]:
  "is_barcode_char (Char b0 b1 b2 b3 b4 b5 b6 b7) \<longleftrightarrow>
     \<not> b7 \<and> (b6 \<and> \<not> b5 \<and> letter_bits b0 b1 b2 b3 b4 \<or> \<not> b6 \<and> b5 \<and> b4 \<and> \<not> (b3 \<and> (b2 \<or> b1)))"
  by (cases b0; cases b1; cases b2; cases b3; cases b4; cases b5; cases b6; cases b7;
      simp add: is_barcode_char_def letter_bits_def)

definition barcode_pattern :: "string \<Rightarrow> bool" where
  "barcode_pattern s = (length s = 8 \<and> list_all is_barcode_char s)"

definition mk_barcode :: "string \<Rightarrow> exc + string" where
  "mk_barcode value =
     (let normalized = str_upper value
      in if barcode_pattern normalized then Inr normalized
         else Inl (ValueError ''Barcode must be exactly 8 alphanumeric characters''))"

lemma to_upper_char_barcode_char [simp]: "is_barcode_char c \<Longrightarrow> to_upper_char c = c"
  by (auto simp: is_barcode_char_def to_upper_char_def Let_def)

lemma to_upper_char_idem [simp]: "to_upper_char (to_upper_char c) = to_upper_char c"
  by (auto simp: to_upper_char_def Let_def)

lemma str_upper_idem [simp]: "str_upper (str_upper s) = str_upper s"
  by (simp add: str_upper_def)

lemma str_upper_pattern: "barcode_pattern s \<Longrightarrow> str_upper s = s"
  by (auto simp: barcode_pattern_def str_upper_def list_all_iff intro!: map_idI)

lemma mk_barcode_pattern: "barcode_pattern s \<Longrightarrow> mk_barcode s = Inr s"
  by (simp add: mk_barcode_def str_upper_pattern)

lemma mk_barcode_Inr: "mk_barcode s = Inr b \<longleftrightarrow> b = str_upper s \<and> barcode_pattern b"
  by (auto simp: mk_barcode_def Let_def)

lemma mk_barcode_Inl:
  "mk_barcode s = Inl e \<longleftrightarrow>
     e = ValueError ''Barcode must be exactly 8 alphanumeric characters'' \<and> \<not> barcode_pattern (str_upper s)"
  by (auto simp: mk_barcode_def Let_def)

section \<open>Value records\<close>

record slot_view =
  sv_slot_id :: int
  sv_barcode :: "string option"
  sv_occupied :: bool

text \<open>The constructor of \<open>SlotState\<close> refuses a flag that disagrees with the barcode.\<close>

definition mk_slot_state :: "int \<Rightarrow> string option \<Rightarrow> bool \<Rightarrow> exc + slot_view" where
  "mk_slot_state sid b occ =
     (if occ \<noteq> (b \<noteq> None) then Inl (ValueError ''occupied must match whether barcode is present'')
      else Inr \<lparr>sv_slot_id = sid, sv_barcode = b, sv_occupied = occ\<rparr>)"

record drive_view =
  dv_drive_id :: int
  dv_barcode :: "string option"
  dv_drive_state :: drive_state
  dv_mount_state :: mount_state

record library_inventory =
  inv_library_id :: string
  inv_slots :: "slot_view list"
  inv_drives :: "drive_view list"
  inv_changer_state :: changer_state

section \<open>State transitions (\<open>domain/states.py\<close>)\<close>

definition CARTRIDGE_TRANSITIONS :: "(cartridge_state, cartridge_state list) dict" where
  "CARTRIDGE_TRANSITIONS =
     [(CS_IN_SLOT, [CS_IN_DRIVE, CS_EXPORTED]),
      (CS_IN_DRIVE, [CS_IN_SLOT]),
      (CS_EXPORTED, [CS_IN_SLOT]),
      (CS_MISSING, [CS_IN_SLOT]),
      (CS_CLEANING, [CS_IN_SLOT, CS_IN_DRIVE])]"

definition DRIVE_TRANSITIONS :: "(drive_state, drive_state list) dict" where
  "DRIVE_TRANSITIONS =
     [(DS_EMPTY, [DS_LOADED]),
      (DS_LOADED, [DS_EMPTY, DS_BUSY, DS_FAILED]),
      (DS_BUSY, [DS_LOADED, DS_FAILED]),
      (DS_FAILED, [DS_EMPTY])]"

definition MOUNT_TRANSITIONS :: "(mount_state, mount_state list) dict" where
  "MOUNT_TRANSITIONS =
     [(MS_UNMOUNTED, [MS_MOUNTED_RO, MS_MOUNTED_RW]),
      (MS_MOUNTED_RO, [MS_UNMOUNTED]),
      (MS_MOUNTED_RW, [MS_UNMOUNTED, MS_DIRTY]),
      (MS_DIRTY, [MS_UNMOUNTED])]"

definition validate_transition :: "('st, 'st list) dict \<Rightarrow> 'st \<Rightarrow> 'st \<Rightarrow> exc + unit" where
  "validate_transition transitions from_state to_state =
     (if from_state = to_state then Inr ()
      else (let valid = (case dict_get transitions from_state of None \<Rightarrow> [] | Some v \<Rightarrow> v)
            in if to_state \<notin> set valid then Inl InvalidStateTransitionError else Inr ()))"

definition validate_cartridge_transition :: "cartridge_state \<Rightarrow> cartridge_state \<Rightarrow> exc + unit" where
  "validate_cartridge_transition = validate_transition CARTRIDGE_TRANSITIONS"

definition validate_drive_transition :: "drive_state \<Rightarrow> drive_state \<Rightarrow> exc + unit" where
  "validate_drive_transition = validate_transition DRIVE_TRANSITIONS"

definition validate_mount_transition :: "mount_state \<Rightarrow> mount_state \<Rightarrow> exc + unit" where
  "validate_mount_transition = validate_transition MOUNT_TRANSITIONS"

definition can_unload_drive :: "drive_state \<Rightarrow> mount_state \<Rightarrow> bool" where
  "can_unload_drive ds ms = (ms = MS_UNMOUNTED \<and> ds \<in> {DS_LOADED, DS_FAILED})"

lemmas transition_defs = validate_cartridge_transition_def validate_drive_transition_def
  validate_mount_transition_def validate_transition_def CARTRIDGE_TRANSITIONS_def
  DRIVE_TRANSITIONS_def MOUNT_TRANSITIONS_def

lemma validate_transition_outcome:
  "validate_transition tr a b = Inr () \<or> validate_transition tr a b = Inl InvalidStateTransitionError"
  by (simp add: validate_transition_def Let_def)

lemma validate_transition_case:
  "case_sum f g (validate_transition tr a b) =
     (if validate_transition tr a b = Inr () then g () else f InvalidStateTransitionError)"
  using validate_transition_outcome [of tr a b] by auto

lemma transition_case [wp_rules]:
  "case_sum f g (validate_cartridge_transition a b) =
     (if validate_cartridge_transition a b = Inr () then g () else f InvalidStateTransitionError)"
  "case_sum f' g' (validate_drive_transition c d) =
     (if validate_drive_transition c d = Inr () then g' () else f' InvalidStateTransitionError)"
  "case_sum f'' g'' (validate_mount_transition m n) =
     (if validate_mount_transition m n = Inr () then g'' () else f'' InvalidStateTransitionError)"
  by (simp_all add: validate_cartridge_transition_def validate_drive_transition_def
      validate_mount_transition_def validate_transition_case)

text \<open>
  The tables read as relations. These equations carry the simulator's proofs: which transitions the
  three validators accept.
\<close>

lemma cartridge_transition_ok [simp]:
  "validate_cartridge_transition a CS_IN_DRIVE = Inr () \<longleftrightarrow> a \<in> {CS_IN_SLOT, CS_IN_DRIVE, CS_CLEANING}"
  "validate_cartridge_transition a CS_IN_SLOT = Inr ()"
  by (cases a; simp add: transition_defs)+

lemma drive_transition_ok [simp]:
  "validate_drive_transition a DS_LOADED = Inr () \<longleftrightarrow> a \<noteq> DS_FAILED"
  "validate_drive_transition a DS_EMPTY = Inr () \<longleftrightarrow> a \<noteq> DS_BUSY"
  "validate_drive_transition a DS_BUSY = Inr () \<longleftrightarrow> a \<in> {DS_LOADED, DS_BUSY}"
  by (cases a; simp add: transition_defs)+

lemma mount_transition_ok [simp]:
  "validate_mount_transition a MS_UNMOUNTED = Inr ()"
  "validate_mount_transition a MS_MOUNTED_RO = Inr () \<longleftrightarrow> a \<in> {MS_UNMOUNTED, MS_MOUNTED_RO}"
  "validate_mount_transition a MS_MOUNTED_RW = Inr () \<longleftrightarrow> a \<in> {MS_UNMOUNTED, MS_MOUNTED_RW}"
  "validate_mount_transition a MS_DIRTY = Inr () \<longleftrightarrow> a \<in> {MS_MOUNTED_RW, MS_DIRTY}"
  by (cases a; simp add: transition_defs)+

section \<open>Safety policies (\<open>domain/policies.py\<close>)\<close>

record safety_token =
  tok_token :: string
  tok_operation :: string
  tok_target_barcode :: string
  tok_expires_at :: int

text \<open>\<open>SafetyToken.generate\<close>: the random token and the clock reading are arguments.\<close>

definition generate_token :: "string \<Rightarrow> int \<Rightarrow> string \<Rightarrow> string \<Rightarrow> int \<Rightarrow> safety_token" where
  "generate_token rnd now operation target_barcode ttl_seconds =
     \<lparr>tok_token = rnd, tok_operation = operation, tok_target_barcode = target_barcode,
      tok_expires_at = now + ttl_seconds\<rparr>"

definition token_is_valid :: "int \<Rightarrow> safety_token \<Rightarrow> bool" where
  "token_is_valid now t = (now < tok_expires_at t)"

definition token_validate :: "int \<Rightarrow> safety_token \<Rightarrow> exc + unit" where
  "token_validate now t = (if \<not> token_is_valid now t then Inl SafetyViolationError else Inr ())"

record format_confirmation =
  fc_expected_barcode :: string
  fc_safety_token :: safety_token
  fc_operator_note :: string

definition confirmation_validate :: "int \<Rightarrow> format_confirmation \<Rightarrow> string \<Rightarrow> exc + unit" where
  "confirmation_validate now c actual_barcode =
     (case token_validate now (fc_safety_token c) of
        Inl e \<Rightarrow> Inl e
      | Inr _ \<Rightarrow> if fc_expected_barcode c \<noteq> actual_barcode then Inl BarcodeMismatchError else Inr ())"

record real_hardware_guard =
  rhg_config_backend :: string
  rhg_real_hardware_enabled :: bool
  rhg_operator_acknowledgment :: string

definition hardware_guard_validate :: "real_hardware_guard \<Rightarrow> exc + unit" where
  "hardware_guard_validate g =
     (if rhg_config_backend g \<noteq> ''real'' \<or> \<not> rhg_real_hardware_enabled g then Inl RealHardwareDisabledError
      else if rhg_operator_acknowledgment g = [] then Inl RealHardwareDisabledError
      else Inr ())"

lemma confirmation_validate_ok:
  "confirmation_validate now c b = Inr () \<longleftrightarrow>
     now < tok_expires_at (fc_safety_token c) \<and> fc_expected_barcode c = b"
  by (auto simp: confirmation_validate_def token_validate_def token_is_valid_def)

section \<open>Free-space policy (\<open>domain/capacity.py\<close>)\<close>

definition CAPACITY_RESERVE_MAX_BYTES :: int where
  "CAPACITY_RESERVE_MAX_BYTES = 64 * 1024 * 1024"

definition CAPACITY_RESERVE_DIVISOR :: int where
  "CAPACITY_RESERVE_DIVISOR = 100"

definition capacity_reserve_bytes :: "int \<Rightarrow> int" where
  "capacity_reserve_bytes capacity_bytes =
     (if capacity_bytes \<le> 0 then 0
      else min CAPACITY_RESERVE_MAX_BYTES (capacity_bytes div CAPACITY_RESERVE_DIVISOR))"

definition usable_remaining_bytes :: "int \<Rightarrow> int \<Rightarrow> int" where
  "usable_remaining_bytes capacity_bytes used_bytes =
     (let free = capacity_bytes - used_bytes
      in max 0 (free - capacity_reserve_bytes capacity_bytes))"

definition has_room_for :: "int \<Rightarrow> int \<Rightarrow> int \<Rightarrow> bool" where
  "has_room_for capacity_bytes used_bytes size_bytes =
     (let usable = usable_remaining_bytes capacity_bytes used_bytes
      in usable > 0 \<and> usable \<ge> size_bytes)"

lemmas capacity_defs = capacity_reserve_bytes_def usable_remaining_bytes_def has_room_for_def
  CAPACITY_RESERVE_MAX_BYTES_def CAPACITY_RESERVE_DIVISOR_def Let_def

lemma capacity_reserve_nonneg: "0 \<le> capacity_reserve_bytes c"
  by (auto simp: capacity_defs pos_imp_zdiv_nonneg_iff)

lemma has_room_for_bound:
  assumes "has_room_for cap used sz"
  shows "used + sz + capacity_reserve_bytes cap \<le> cap" and "used + capacity_reserve_bytes cap < cap"
  using assms by (auto simp: has_room_for_def usable_remaining_bytes_def Let_def)

lemma has_room_for_antimono:
  "has_room_for cap used sz \<Longrightarrow> used' \<le> used \<Longrightarrow> sz' \<le> sz \<Longrightarrow> has_room_for cap used' sz'"
  by (auto simp: has_room_for_def usable_remaining_bytes_def Let_def)

section \<open>Scratch allowlist (\<open>domain/media_allowlist.py\<close>)\<close>

definition is_separator_char :: "char \<Rightarrow> bool" where
  "is_separator_char c = (is_space_char c \<or> c = CHR '','')"

text \<open>\<open>re.split\<close> on a non-empty run of separators.\<close>

function split_separators :: "string \<Rightarrow> string list" where
  "split_separators s =
     (let tok = takeWhile (\<lambda>c. \<not> is_separator_char c) s;
          rest = dropWhile (\<lambda>c. \<not> is_separator_char c) s
      in if rest = [] then [tok] else tok # split_separators (dropWhile is_separator_char rest))"
  by pat_completeness auto
termination
proof (relation "measure length")
  fix s :: string and tok rest
  assume rest: "rest = dropWhile (\<lambda>c. \<not> is_separator_char c) s" and ne: "rest \<noteq> []"
  from ne have "is_separator_char (hd rest)" unfolding rest by (metis hd_dropWhile)
  with ne have "length (dropWhile is_separator_char rest) < length rest"
    by (cases rest) (auto simp: le_imp_less_Suc length_dropWhile_le)
  also have "length rest \<le> length s" unfolding rest by (rule length_dropWhile_le)
  finally show "(dropWhile is_separator_char rest, s) \<in> measure length" by simp
qed simp

declare split_separators.simps [simp del]

text \<open>The de-duplicating dictionary \<open>seen\<close> of the source, as the list of its keys.\<close>

fun parse_tokens :: "string list \<Rightarrow> string list \<Rightarrow> string list" where
  "parse_tokens [] seen = seen"
| "parse_tokens (tok # toks) seen =
     (if tok = [] then parse_tokens toks seen
      else (let b = str_upper (str_strip tok)
            in parse_tokens toks (if b \<in> set seen then seen else seen @ [b])))"

definition parse_barcodes :: "string option \<Rightarrow> string list" where
  "parse_barcodes raw = parse_tokens (split_separators (case raw of None \<Rightarrow> [] | Some r \<Rightarrow> r)) []"

fun format_barcodes :: "string list \<Rightarrow> string" where
  "format_barcodes [] = []"
| "format_barcodes [b] = b"
| "format_barcodes (b # bs) = b @ '','' @ format_barcodes bs"

definition check_subset :: "string list \<Rightarrow> string list \<Rightarrow> exc + string list" where
  "check_subset requested allowlist =
     (if allowlist = [] then Inl AllowlistError
      else if requested = [] then Inl AllowlistError
      else (let offenders = filter (\<lambda>b. b \<notin> set allowlist) requested
            in if offenders \<noteq> [] then Inl AllowlistError else Inr requested))"

definition is_scratch_barcode :: "string \<Rightarrow> string list \<Rightarrow> bool" where
  "is_scratch_barcode barcode allowlist =
     (allowlist \<noteq> [] \<and> str_upper (str_strip barcode) \<in> set allowlist)"

subsection \<open>Parsing and printing barcode lists\<close>

text \<open>A token the parser can return: non-empty, without separators, in upper case.\<close>

definition clean_token :: "string \<Rightarrow> bool" where
  "clean_token b \<longleftrightarrow> b \<noteq> [] \<and> (\<forall>c \<in> set b. \<not> is_separator_char c) \<and> str_upper b = b"

lemma clean_token_strip: "\<forall>c \<in> set b. \<not> is_separator_char c \<Longrightarrow> str_strip b = b"
proof -
  assume "\<forall>c \<in> set b. \<not> is_separator_char c"
  then have none: "\<forall>c \<in> set b. \<not> is_space_char c" by (simp add: is_separator_char_def)
  have id: "dropWhile is_space_char xs = xs" if "\<forall>c \<in> set xs. \<not> is_space_char c" for xs
    using that by (cases xs) auto
  from none show ?thesis by (simp add: str_strip_def id)
qed

lemma of_char_comma: "of_char x = (44 :: nat) \<longleftrightarrow> x = CHR '',''"
  by (subst of_char_eq_iff [symmetric, where ?'a = nat]) simp

lemma is_separator_char_code:
  "is_separator_char x \<longleftrightarrow>
     (of_char x :: nat) \<in> {9..13} \<or> (of_char x :: nat) \<in> {28..32} \<or> of_char x = (44 :: nat)"
  unfolding of_char_comma by (simp add: is_separator_char_def is_space_char_def Let_def)

lemma to_upper_char_separator: "is_separator_char (to_upper_char c) = is_separator_char c"
proof (cases "97 \<le> (of_char c :: nat) \<and> (of_char c :: nat) \<le> 122")
  case True
  then have "of_char c - 32 < (256 :: nat)" by linarith
  with True have "of_char (to_upper_char c) = (of_char c - 32 :: nat)"
    by (simp add: to_upper_char_def)
  with True show ?thesis unfolding is_separator_char_code by (simp, linarith)
next
  case False
  then have "to_upper_char c = c" by (auto simp: to_upper_char_def Let_def)
  then show ?thesis by simp
qed

lemma clean_token_upper:
  "b \<noteq> [] \<Longrightarrow> \<forall>c \<in> set b. \<not> is_separator_char c \<Longrightarrow> clean_token (str_upper b)"
  unfolding clean_token_def by (simp add: str_upper_def to_upper_char_separator)

lemma split_separators_clean:
  "tok \<in> set (split_separators s) \<Longrightarrow> \<forall>c \<in> set tok. \<not> is_separator_char c"
proof (induction s rule: split_separators.induct)
  case (1 s)
  let ?tok = "takeWhile (\<lambda>c. \<not> is_separator_char c) s"
  let ?rest = "dropWhile (\<lambda>c. \<not> is_separator_char c) s"
  have tok: "\<forall>c \<in> set ?tok. \<not> is_separator_char c" by (auto dest: set_takeWhileD)
  show ?case
  proof (cases "?rest = []")
    case True
    then have "split_separators s = [?tok]" by (simp add: split_separators.simps [of s])
    with "1.prems" tok show ?thesis by simp
  next
    case False
    then have "split_separators s = ?tok # split_separators (dropWhile is_separator_char ?rest)"
      by (auto simp: split_separators.simps [of s] Let_def)
    with "1.prems" tok "1.IH" [OF refl refl False] show ?thesis by (metis set_ConsD)
  qed
qed

lemma parse_tokens_clean:
  assumes "\<forall>tok \<in> set toks. \<forall>c \<in> set tok. \<not> is_separator_char c"
    and "distinct seen" and "\<forall>b \<in> set seen. clean_token b"
  shows "distinct (parse_tokens toks seen) \<and> (\<forall>b \<in> set (parse_tokens toks seen). clean_token b)"
  using assms
proof (induction toks seen rule: parse_tokens.induct)
  case (1 seen)
  then show ?case by simp
next
  case (2 tok toks seen)
  show ?case
  proof (cases "tok = []")
    case True
    with 2 show ?thesis by simp
  next
    case False
    let ?b = "str_upper (str_strip tok)"
    from False "2.prems"(1) have "clean_token ?b"
      by (simp add: clean_token_strip clean_token_upper)
    with "2.prems" have "distinct (if ?b \<in> set seen then seen else seen @ [?b])"
      and "\<forall>b \<in> set (if ?b \<in> set seen then seen else seen @ [?b]). clean_token b"
      by simp_all
    with "2.IH"(2) [OF False refl] "2.prems"(1) False show ?thesis by (simp add: Let_def)
  qed
qed

lemma parse_tokens_fresh:
  "distinct (seen @ bs) \<Longrightarrow> \<forall>b \<in> set bs. clean_token b \<Longrightarrow> parse_tokens bs seen = seen @ bs"
proof (induction bs arbitrary: seen)
  case Nil
  then show ?case by simp
next
  case (Cons b bs)
  then have "b \<noteq> []" and "str_upper (str_strip b) = b" and "b \<notin> set seen"
    by (auto simp: clean_token_def clean_token_strip)
  then show ?case using Cons.IH [of "seen @ [b]"] Cons.prems by (simp add: Let_def)
qed

lemma split_separators_format:
  "bs \<noteq> [] \<Longrightarrow> \<forall>b \<in> set bs. clean_token b \<Longrightarrow> split_separators (format_barcodes bs) = bs"
proof (induction bs rule: format_barcodes.induct)
  case (2 b)
  then have "takeWhile (\<lambda>c. \<not> is_separator_char c) b = b" "dropWhile (\<lambda>c. \<not> is_separator_char c) b = []"
    by (auto simp: clean_token_def takeWhile_eq_all_conv)
  then show ?case by (simp add: split_separators.simps [of b])
next
  case (3 b b' bs)
  let ?rest = "format_barcodes (b' # bs)"
  have comma: "is_separator_char CHR '',''" by (simp add: is_separator_char_def)
  have b: "\<forall>c \<in> set b. \<not> is_separator_char c" using "3.prems" by (simp add: clean_token_def)
  have "?rest \<noteq> [] \<and> \<not> is_separator_char (hd ?rest)"
    using "3.prems" by (cases bs; cases b') (auto simp: clean_token_def)
  then have drop: "dropWhile is_separator_char ?rest = ?rest" by (cases ?rest) auto
  have "split_separators (b @ CHR '','' # ?rest) = b # split_separators ?rest"
    using b comma drop
    by (subst split_separators.simps) (simp add: Let_def takeWhile_append dropWhile_append)
  also have "split_separators ?rest = b' # bs" using "3.IH" "3.prems" by simp
  finally show ?case by simp
qed simp

lemma parse_format_clean:
  assumes "distinct bs" and "\<forall>b \<in> set bs. clean_token b"
  shows "parse_barcodes (Some (format_barcodes bs)) = bs"
proof (cases bs)
  case Nil
  then show ?thesis by (simp add: parse_barcodes_def split_separators.simps)
next
  case (Cons b bs')
  then have "split_separators (format_barcodes bs) = bs"
    using assms by (intro split_separators_format) auto
  then show ?thesis using assms parse_tokens_fresh [of "[]" bs] by (simp add: parse_barcodes_def)
qed

lemma parse_barcodes_clean:
  "distinct (parse_barcodes raw) \<and> (\<forall>b \<in> set (parse_barcodes raw). clean_token b)"
  unfolding parse_barcodes_def
  by (rule parse_tokens_clean) (auto dest: split_separators_clean)

section \<open>Properties of the domain policies\<close>

text \<open>Free-space policy: a medium takes a file exactly when, after the file, the reserve is still
  free and at least one byte beyond the reserve was free before (so a zero-byte file is refused on a
  tape whose free space is within the reserve), and the reserve itself is non-negative, at most 64 MiB
  and at most one percent of a positive capacity.\<close>

theorem has_room_for_spec:
  "(has_room_for cap used sz \<longleftrightarrow>
      used + capacity_reserve_bytes cap < cap \<and> used + sz + capacity_reserve_bytes cap \<le> cap)
   \<and> 0 \<le> capacity_reserve_bytes cap \<and> capacity_reserve_bytes cap \<le> 64 * 1024 * 1024
   \<and> 100 * capacity_reserve_bytes cap \<le> max 0 cap"
proof (intro conjI)
  show "has_room_for cap used sz \<longleftrightarrow>
      used + capacity_reserve_bytes cap < cap \<and> used + sz + capacity_reserve_bytes cap \<le> cap"
    by (auto simp: has_room_for_def usable_remaining_bytes_def Let_def)
  show "0 \<le> capacity_reserve_bytes cap" by (rule capacity_reserve_nonneg)
  show "capacity_reserve_bytes cap \<le> 64 * 1024 * 1024" by (simp add: capacity_defs)
  have "100 * min m (cap div 100) \<le> cap" for m
    using min.cobounded2 [of m "cap div 100"] by linarith
  then show "100 * capacity_reserve_bytes cap \<le> max 0 cap"
    by (simp add: capacity_reserve_bytes_def CAPACITY_RESERVE_DIVISOR_def)
qed

text \<open>The allowlist parser is a normal form: whatever text the operator supplies, printing the
  parsed barcodes and parsing them again gives the same list, which has no duplicate.\<close>

theorem parse_barcodes_normal_form:
  "parse_barcodes (Some (format_barcodes (parse_barcodes raw))) = parse_barcodes raw
   \<and> distinct (parse_barcodes raw)"
  using parse_barcodes_clean [of raw] parse_format_clean by blast

end
