(* ===== verification/Sim_Faults.thy ===== *)
theory Sim_Faults
  imports OB_Prelude
begin

text \<open>
  Fault injection of the simulator: the static \<open>FaultConfig\<close> of \<open>simulator/faults.py\<close> and the counting
  \<open>FaultInjector\<close> of \<open>simulator/fault_injection.py\<close>. The injector is mutable and may be shared by the
  library and the LTFS backend; \<open>should_fault\<close> therefore returns the updated injector. The free-form
  \<open>extra\<close> dictionary of a fault spec, which no code reads, is left out. A payload of
  \<open>FaultConfig.from_json\<close> is a record whose keys read with \<open>.get\<close> are optional.
\<close>

section \<open>Static faults (\<open>simulator/faults.py\<close>)\<close>

datatype sim_fault =
    SF_LOAD_FAILURE | SF_UNLOAD_FAILURE | SF_DRIVE_TIMEOUT | SF_MOUNT_FAILURE | SF_WRITE_FAILURE
  | SF_CHECKSUM_MISMATCH | SF_NO_FREE_SPACE | SF_ROBOT_LOCK_CONFLICT | SF_CHANGER_TIMEOUT | SF_MOVE_FAILURE

fun sim_fault_value :: "sim_fault \<Rightarrow> string" where
  "sim_fault_value SF_LOAD_FAILURE = ''load_failure''"
| "sim_fault_value SF_UNLOAD_FAILURE = ''unload_failure''"
| "sim_fault_value SF_DRIVE_TIMEOUT = ''drive_timeout''"
| "sim_fault_value SF_MOUNT_FAILURE = ''mount_failure''"
| "sim_fault_value SF_WRITE_FAILURE = ''write_failure''"
| "sim_fault_value SF_CHECKSUM_MISMATCH = ''checksum_mismatch''"
| "sim_fault_value SF_NO_FREE_SPACE = ''no_free_space''"
| "sim_fault_value SF_ROBOT_LOCK_CONFLICT = ''robot_lock_conflict''"
| "sim_fault_value SF_CHANGER_TIMEOUT = ''changer_timeout''"
| "sim_fault_value SF_MOVE_FAILURE = ''move_failure''"

definition sim_fault_members :: "sim_fault list" where
  "sim_fault_members =
     [SF_LOAD_FAILURE, SF_UNLOAD_FAILURE, SF_DRIVE_TIMEOUT, SF_MOUNT_FAILURE, SF_WRITE_FAILURE,
      SF_CHECKSUM_MISMATCH, SF_NO_FREE_SPACE, SF_ROBOT_LOCK_CONFLICT, SF_CHANGER_TIMEOUT, SF_MOVE_FAILURE]"

record fault_config =
  fc_faults :: "(sim_fault, bool) dict"
  fc_write_fail_after_bytes :: "int option"

definition should_fail :: "fault_config \<Rightarrow> sim_fault \<Rightarrow> bool" where
  "should_fail cfg f = (case dict_get (fc_faults cfg) f of None \<Rightarrow> False | Some enabled \<Rightarrow> enabled)"

definition no_faults :: fault_config where
  "no_faults = \<lparr>fc_faults = [], fc_write_fail_after_bytes = None\<rparr>"

definition with_fault :: "sim_fault \<Rightarrow> fault_config" where
  "with_fault f = \<lparr>fc_faults = [(f, True)], fc_write_fail_after_bytes = None\<rparr>"

record fault_config_json =
  fj_faults :: "(string, bool) dict"
  fj_write_fail_after_bytes :: "int option"

definition fault_config_to_json :: "fault_config \<Rightarrow> fault_config_json" where
  "fault_config_to_json cfg =
     \<lparr>fj_faults = map (\<lambda>(f, enabled). (sim_fault_value f, enabled)) (fc_faults cfg),
      fj_write_fail_after_bytes = fc_write_fail_after_bytes cfg\<rparr>"

text \<open>The dictionary comprehension: names that are no member of the enumeration are skipped.\<close>

fun parse_faults :: "(string, bool) dict \<Rightarrow> (sim_fault, bool) dict" where
  "parse_faults [] = []"
| "parse_faults ((name, enabled) # rest) =
     (case List.find (\<lambda>f. sim_fault_value f = name) sim_fault_members of
        None \<Rightarrow> parse_faults rest
      | Some f \<Rightarrow> (f, enabled) # parse_faults rest)"

definition fault_config_from_json :: "fault_config_json option \<Rightarrow> fault_config" where
  "fault_config_from_json payload =
     (case payload of
        None \<Rightarrow> no_faults
      | Some p \<Rightarrow> \<lparr>fc_faults = parse_faults (fj_faults p),
                   fc_write_fail_after_bytes = fj_write_fail_after_bytes p\<rparr>)"

lemma find_sim_fault: "List.find (\<lambda>g. sim_fault_value g = sim_fault_value f) sim_fault_members = Some f"
  by (cases f) (simp_all add: sim_fault_members_def)

lemma fault_config_roundtrip [simp]: "fault_config_from_json (Some (fault_config_to_json cfg)) = cfg"
proof -
  have "parse_faults (map (\<lambda>(f, enabled). (sim_fault_value f, enabled)) fs) = fs" for fs
    by (induction fs) (auto simp: find_sim_fault)
  then show ?thesis by (simp add: fault_config_from_json_def fault_config_to_json_def)
qed

section \<open>Counting faults (\<open>simulator/fault_injection.py\<close>)\<close>

datatype injected_fault =
    IF_LOAD_FAILURE | IF_UNLOAD_FAILURE | IF_WRITE_ERROR | IF_READ_ERROR | IF_CHECKSUM_MISMATCH
  | IF_DRIVE_UNAVAILABLE | IF_TAPE_NOT_FOUND | IF_MOUNT_TIMEOUT | IF_PARTIAL_WRITE | IF_CATALOG_DB_FAILURE

record fault_spec =
  fs_fault_type :: injected_fault
  fs_target :: string
  fs_trigger_after :: int
  fs_max_triggers :: int
  fs_error_message :: string

record tracked_fault =
  tf_spec :: fault_spec
  tf_successful_operations :: int
  tf_trigger_count :: int

definition exhausted :: "tracked_fault \<Rightarrow> bool" where
  "exhausted t = (tf_trigger_count t \<ge> fs_max_triggers (tf_spec t))"

fun default_fault_message :: "injected_fault \<Rightarrow> string" where
  "default_fault_message IF_LOAD_FAILURE = ''Injected load failure''"
| "default_fault_message IF_UNLOAD_FAILURE = ''Injected unload failure''"
| "default_fault_message IF_WRITE_ERROR = ''Injected write error''"
| "default_fault_message IF_READ_ERROR = ''Injected read error''"
| "default_fault_message IF_CHECKSUM_MISMATCH = ''Injected checksum mismatch''"
| "default_fault_message IF_DRIVE_UNAVAILABLE = ''Injected drive unavailable fault''"
| "default_fault_message IF_TAPE_NOT_FOUND = ''Injected tape not found fault''"
| "default_fault_message IF_MOUNT_TIMEOUT = ''Injected mount timeout''"
| "default_fault_message IF_PARTIAL_WRITE = ''Injected partial write''"
| "default_fault_message IF_CATALOG_DB_FAILURE = ''Injected catalog database failure''"

record fault_injector =
  fi_faults :: "tracked_fault list"
  fi_last_triggered :: "fault_spec option"

definition new_injector :: fault_injector where
  "new_injector = \<lparr>fi_faults = [], fi_last_triggered = None\<rparr>"

definition inject :: "fault_spec \<Rightarrow> fault_injector \<Rightarrow> fault_injector" where
  "inject spec fi =
     fi\<lparr>fi_faults := fi_faults fi @
       [\<lparr>tf_spec = spec, tf_successful_operations = 0, tf_trigger_count = 0\<rparr>]\<rparr>"

definition clear_faults :: "fault_injector \<Rightarrow> fault_injector" where
  "clear_faults fi = fi\<lparr>fi_faults := [], fi_last_triggered := None\<rparr>"

definition fault_matches :: "fault_spec \<Rightarrow> injected_fault \<Rightarrow> string \<Rightarrow> bool" where
  "fault_matches spec ft target =
     (if fs_fault_type spec \<noteq> ft then False
      else if fs_target spec \<in> {'''', ''*''} then True
      else fs_target spec = target)"

text \<open>The loop of \<open>should_fault\<close>: the faults with their counters advanced, and the one that fired.\<close>

fun scan_faults :: "injected_fault \<Rightarrow> string \<Rightarrow> tracked_fault list \<Rightarrow> tracked_fault list \<times> fault_spec option" where
  "scan_faults ft target [] = ([], None)"
| "scan_faults ft target (t # ts) =
     (if exhausted t \<or> \<not> fault_matches (tf_spec t) ft target then
        (let (ts', hit) = scan_faults ft target ts in (t # ts', hit))
      else if tf_successful_operations t < fs_trigger_after (tf_spec t) then
        (let (ts', hit) = scan_faults ft target ts
         in (t\<lparr>tf_successful_operations := tf_successful_operations t + 1\<rparr> # ts', hit))
      else (t\<lparr>tf_trigger_count := tf_trigger_count t + 1\<rparr> # ts, Some (tf_spec t)))"

definition should_fault :: "injected_fault \<Rightarrow> string \<Rightarrow> fault_injector \<Rightarrow> bool \<times> fault_injector" where
  "should_fault ft target fi =
     (case scan_faults ft target (fi_faults fi) of
        (fs, None) \<Rightarrow> (False, fi\<lparr>fi_faults := fs\<rparr>)
      | (fs, Some spec) \<Rightarrow> (True, fi\<lparr>fi_faults := fs, fi_last_triggered := Some spec\<rparr>))"

definition matching_spec :: "injected_fault \<Rightarrow> string \<Rightarrow> fault_injector \<Rightarrow> fault_spec option" where
  "matching_spec ft target fi =
     (case fi_last_triggered fi of
        Some spec \<Rightarrow>
          if fault_matches spec ft target then Some spec
          else map_option tf_spec (List.find (\<lambda>t. fault_matches (tf_spec t) ft target) (fi_faults fi))
      | None \<Rightarrow>
          map_option tf_spec (List.find (\<lambda>t. fault_matches (tf_spec t) ft target) (fi_faults fi)))"

definition get_error_message :: "injected_fault \<Rightarrow> string \<Rightarrow> fault_injector \<Rightarrow> string" where
  "get_error_message ft target fi =
     (let fallback = (if target \<noteq> [] then default_fault_message ft @ '' for '' @ target
                      else default_fault_message ft)
      in case matching_spec ft target fi of
           Some spec \<Rightarrow> if fs_error_message spec \<noteq> [] then fs_error_message spec else fallback
         | None \<Rightarrow> fallback)"

definition active_faults :: "fault_injector \<Rightarrow> fault_spec list" where
  "active_faults fi = map tf_spec (filter (\<lambda>t. \<not> exhausted t) (fi_faults fi))"

text \<open>
  \<open>_maybe_raise_injected_fault\<close>, common to the two backends: the component holding the reference is
  given by its reader and writer.
\<close>

definition maybe_raise_injected_fault ::
  "('s \<Rightarrow> fault_injector option) \<Rightarrow> (fault_injector \<Rightarrow> 's \<Rightarrow> 's) \<Rightarrow> injected_fault \<Rightarrow> string \<Rightarrow> ('s, unit) op" where
  "maybe_raise_injected_fault rd wr ft target s =
     (case rd s of
        None \<Rightarrow> (Inr (), s)
      | Some fi \<Rightarrow>
          (case should_fault ft target fi of
             (True, fi') \<Rightarrow> (Inl (SimulatorFaultError (get_error_message ft target fi')), wr fi' s)
           | (False, fi') \<Rightarrow> (Inr (), wr fi' s)))"

lemma wp_maybe_raise_injected_fault:
  assumes "\<And>fi. Q () (wr fi s)" and "Q () s" and "\<And>m fi. E (SimulatorFaultError m) (wr fi s)"
  shows "wp (maybe_raise_injected_fault rd wr ft target) Q E s"
  using assms by (auto simp: wp_def maybe_raise_injected_fault_def split: option.splits prod.splits bool.splits)

lemma wp_maybe_raise_none: "rd s = None \<Longrightarrow> wp (maybe_raise_injected_fault rd wr ft target) Q E s = Q () s"
  by (simp add: wp_def maybe_raise_injected_fault_def)

section \<open>Behaviour of the injector\<close>

text \<open>The answers of \<open>n\<close> consecutive queries.\<close>

fun query_run :: "injected_fault \<Rightarrow> string \<Rightarrow> nat \<Rightarrow> fault_injector \<Rightarrow> bool list" where
  "query_run ft target 0 fi = []"
| "query_run ft target (Suc n) fi =
     (case should_fault ft target fi of (b, fi') \<Rightarrow> b # query_run ft target n fi')"

lemma query_run_single:
  assumes "fault_matches spec ft target"
    and "s = max 0 (fs_trigger_after spec) \<or> c = 0"
    and "0 \<le> s" and "s \<le> max 0 (fs_trigger_after spec)" and "0 \<le> c"
  shows "query_run ft target n
       \<lparr>fi_faults = [\<lparr>tf_spec = spec, tf_successful_operations = s, tf_trigger_count = c\<rparr>], fi_last_triggered = l\<rparr> =
     map (\<lambda>k. c < fs_max_triggers spec \<and> fs_trigger_after spec - s \<le> int k
             \<and> int k < max 0 (fs_trigger_after spec - s) + (fs_max_triggers spec - c)) [0..<n]"
  using assms(2-)
proof (induction n arbitrary: s c l)
  case 0
  then show ?case by simp
next
  case (Suc n)
  have up: "[0..<Suc n] = 0 # map Suc [0..<n]" by (simp add: upt_conv_Cons map_Suc_upt)
  consider "c \<ge> fs_max_triggers spec" | "c < fs_max_triggers spec" "s < fs_trigger_after spec"
    | "c < fs_max_triggers spec" "s \<ge> fs_trigger_after spec" by linarith
  then show ?case
  proof cases
    case 1
    then show ?thesis using Suc.IH [OF Suc.prems, of l]
      by (simp add: should_fault_def exhausted_def up del: upt_Suc)
  next
    case 2
    then have "c = 0" using Suc.prems by auto
    with 2 Suc.prems Suc.IH [of "s + 1" c l] assms(1) show ?thesis
      by (auto simp: should_fault_def exhausted_def up simp del: upt_Suc)
  next
    case 3
    then have "s = max 0 (fs_trigger_after spec)" using Suc.prems by linarith
    with 3 Suc.prems Suc.IH [of s "c + 1" "Some spec"] assms(1) show ?thesis
      by (auto simp: should_fault_def exhausted_def up simp del: upt_Suc)
  qed
qed

text \<open>A single injected fault spec fires on a window of matching operations and on no other: with
  \<open>a = trigger_after\<close> and \<open>m = max_triggers\<close>, the \<open>k\<close>-th matching query (counting from zero) raises
  exactly when \<open>a \<le> k < max 0 a + m\<close>, however many operations follow.\<close>

theorem injected_fault_window:
  assumes "fault_matches spec ft target"
  shows "query_run ft target n (inject spec new_injector) =
     map (\<lambda>k. fs_trigger_after spec \<le> int k \<and> int k < max 0 (fs_trigger_after spec) + fs_max_triggers spec) [0..<n]"
proof -
  have "0 < fs_max_triggers spec" if "int k < max 0 (fs_trigger_after spec) + fs_max_triggers spec"
    and "fs_trigger_after spec \<le> int k" for k
    using that by (auto simp: max_def split: if_splits)
  then show ?thesis
    using query_run_single [OF assms, of 0 0 n None]
    by (auto simp: inject_def new_injector_def intro!: map_cong)
qed

theorem injected_fault_window_witness:
  "query_run IF_LOAD_FAILURE ''OB0001L8'' 5
     (inject \<lparr>fs_fault_type = IF_LOAD_FAILURE, fs_target = ''*'', fs_trigger_after = 1, fs_max_triggers = 2,
              fs_error_message = ''''\<rparr> new_injector) = [False, True, True, False, False]"
  by (subst injected_fault_window) (simp_all add: fault_matches_def upt_rec)

end
