(* ===== verification/Sim_Library.thy ===== *)
theory Sim_Library
  imports Complex_Main Domain_Models Sim_Faults "HOL-Library.List_Lexorder" "HOL-Library.Char_ord"
begin

text \<open>
  The in-memory tape library of \<open>simulator/library.py\<close> (with \<open>simulator/drive.py\<close> and
  \<open>simulator/changer.py\<close>): storage slots, import/export elements, drives, the state of every known
  cartridge, the changer and its lock.

  Every public method is an operation on the record \<open>mock_library\<close>. The reentrant \<open>_lock\<close> makes each
  locked section atomic, so a method is a sequence of atomic sections; where the changer lock matters
  between threads, \<open>enter_changer\<close>, the body and \<open>leave_changer\<close> are definitions of their own.
  \<open>time.sleep\<close> has no effect on the state but refuses a negative delay. Log calls
  are dropped. A snapshot payload (\<open>to_json\<close>/\<open>from_json\<close>) is a record with the keys of the document,
  optional where the code reads them with \<open>.get\<close>.
\<close>

section \<open>State\<close>

record lib_slot =
  slot_id :: int
  slot_barcode :: "string option"

record mock_drive =
  drive_id :: int
  drive_barcode :: "string option"
  drive_state :: drive_state
  drive_mount_state :: mount_state

record mock_library =
  library_id :: string
  load_delay :: rat
  lib_fault_config :: fault_config
  lib_injector :: "fault_injector option"
  changer_locked :: bool
  lib_slots :: "(int, lib_slot) dict"
  lib_ie_slots :: "(int, lib_slot) dict"
  lib_drives :: "(int, mock_drive) dict"
  cartridge_states :: "(string, cartridge_state) dict"
  lib_changer :: changer_state

datatype op_result = Op_result (res_success: bool) (res_message: string) (res_barcode: "string option")
  (res_details: "(string, int) dict")

subsection \<open>Construction\<close>

definition str_lower :: "string \<Rightarrow> string" where
  "str_lower = map (\<lambda>c. let n = (of_char c :: nat) in if 65 \<le> n \<and> n \<le> 90 then char_of (n + 32) else c)"

definition TIMING_PROFILES :: "(string, rat) dict" where
  "TIMING_PROFILES = [(''instant'', 0), (''realistic'', 3), (''hardware'', 35)]"

text \<open>The \<open>load\<close> entry of the profile named by the environment variable, unless a delay is given.\<close>

definition resolve_load_delay :: "string option \<Rightarrow> rat option \<Rightarrow> rat" where
  "resolve_load_delay env explicit_delay =
     (case explicit_delay of
        Some d \<Rightarrow> d
      | None \<Rightarrow>
          (let profile_name = str_lower (str_strip (case env of None \<Rightarrow> ''instant'' | Some v \<Rightarrow> v))
           in case dict_get TIMING_PROFILES profile_name of Some d \<Rightarrow> d | None \<Rightarrow> 0))"

definition mk_library ::
  "string option \<Rightarrow> string \<Rightarrow> int \<Rightarrow> int \<Rightarrow> rat option \<Rightarrow> fault_config option \<Rightarrow> fault_injector option \<Rightarrow> int \<Rightarrow> mock_library" where
  "mk_library env lib_id num_slots num_drives delay cfg fi num_ie =
     \<lparr>library_id = lib_id,
      load_delay = resolve_load_delay env delay,
      lib_fault_config = (case cfg of None \<Rightarrow> no_faults | Some c \<Rightarrow> c),
      lib_injector = fi,
      changer_locked = False,
      lib_slots = map (\<lambda>i. (i, \<lparr>slot_id = i, slot_barcode = None\<rparr>)) [1..num_slots],
      lib_ie_slots = map (\<lambda>i. (i, \<lparr>slot_id = i, slot_barcode = None\<rparr>)) [num_slots + 1..num_slots + num_ie],
      lib_drives = map (\<lambda>i. (i, \<lparr>drive_id = i, drive_barcode = None, drive_state = DS_EMPTY,
                                  drive_mount_state = MS_UNMOUNTED\<rparr>)) [0..num_drives - 1],
      cartridge_states = [],
      lib_changer = CH_IDLE\<rparr>"

section \<open>Locations and the invariant check\<close>

datatype location = Loc_slot int | Loc_ie int | Loc_drive int

text \<open>Every occupied element, in the order the check visits them.\<close>

definition placed_slots :: "(int \<Rightarrow> location) \<Rightarrow> (int, lib_slot) dict \<Rightarrow> (string \<times> location) list" where
  "placed_slots mk d = List.map_filter (\<lambda>(k, sl). map_option (\<lambda>b. (b, mk k)) (slot_barcode sl)) d"

definition placed_drives :: "(int, mock_drive) dict \<Rightarrow> (string \<times> location) list" where
  "placed_drives d = List.map_filter (\<lambda>(k, dr). map_option (\<lambda>b. (b, Loc_drive k)) (drive_barcode dr)) d"

definition placed :: "mock_library \<Rightarrow> (string \<times> location) list" where
  "placed L = placed_slots Loc_slot (lib_slots L) @ placed_slots Loc_ie (lib_ie_slots L)
     @ placed_drives (lib_drives L)"

text \<open>\<open>locations.setdefault(barcode, []).append(place)\<close>\<close>

definition add_location :: "(string, location list) dict \<Rightarrow> string \<times> location \<Rightarrow> (string, location list) dict" where
  "add_location d p =
     dict_set (fst p) ((case dict_get d (fst p) of None \<Rightarrow> [] | Some ls \<Rightarrow> ls) @ [snd p]) d"

definition locations :: "mock_library \<Rightarrow> (string, location list) dict" where
  "locations L = foldl add_location [] (placed L)"

abbreviation "invalid_locations_error \<equiv> ValueError ''has invalid locations''"
abbreviation "one_location_error \<equiv> ValueError ''must exist in exactly one location''"
abbreviation "no_location_error \<equiv> ValueError ''must not exist in library locations''"

fun check_single_locations :: "(string, location list) dict \<Rightarrow> exc + unit" where
  "check_single_locations [] = Inr ()"
| "check_single_locations ((b, ls) # rest) =
     (if length ls \<noteq> 1 then Inl invalid_locations_error else check_single_locations rest)"

fun check_states :: "(string, location list) dict \<Rightarrow> (string, cartridge_state) dict \<Rightarrow> exc + unit" where
  "check_states locs [] = Inr ()"
| "check_states locs ((b, st) # rest) =
     (let location_count = length (case dict_get locs b of None \<Rightarrow> [] | Some ls \<Rightarrow> ls)
      in if st \<in> {CS_IN_SLOT, CS_IN_DRIVE, CS_CLEANING} \<and> location_count \<noteq> 1 then Inl one_location_error
         else if st \<in> {CS_EXPORTED, CS_MISSING} \<and> location_count \<noteq> 0 then Inl no_location_error
         else check_states locs rest)"

definition validate_invariants :: "mock_library \<Rightarrow> exc + unit" where
  "validate_invariants L =
     (case check_single_locations (locations L) of
        Inl e \<Rightarrow> Inl e
      | Inr _ \<Rightarrow> check_states (locations L) (cartridge_states L))"

definition validate_invariantsM :: "(mock_library, unit) op" where
  "validate_invariantsM = queryM validate_invariants"

definition location_count :: "string \<Rightarrow> mock_library \<Rightarrow> nat" where
  "location_count b L =
     length (filter (\<lambda>sl. slot_barcode sl = Some b) (dict_values (lib_slots L) @ dict_values (lib_ie_slots L)))
     + length (filter (\<lambda>dr. drive_barcode dr = Some b) (dict_values (lib_drives L)))"

section \<open>Primitive accesses\<close>

definition set_slot_barcode :: "int \<Rightarrow> string option \<Rightarrow> mock_library \<Rightarrow> mock_library" where
  "set_slot_barcode k b L =
     (case dict_get (lib_slots L) k of
        None \<Rightarrow> L
      | Some sl \<Rightarrow> L\<lparr>lib_slots := dict_set k (sl\<lparr>slot_barcode := b\<rparr>) (lib_slots L)\<rparr>)"

definition set_ie_barcode :: "int \<Rightarrow> string option \<Rightarrow> mock_library \<Rightarrow> mock_library" where
  "set_ie_barcode k b L =
     (case dict_get (lib_ie_slots L) k of
        None \<Rightarrow> L
      | Some sl \<Rightarrow> L\<lparr>lib_ie_slots := dict_set k (sl\<lparr>slot_barcode := b\<rparr>) (lib_ie_slots L)\<rparr>)"

definition set_drive :: "int \<Rightarrow> string option \<Rightarrow> drive_state \<Rightarrow> mount_state \<Rightarrow> mock_library \<Rightarrow> mock_library" where
  "set_drive k b ds ms L =
     (case dict_get (lib_drives L) k of
        None \<Rightarrow> L
      | Some dr \<Rightarrow> L\<lparr>lib_drives := dict_set k
          (dr\<lparr>drive_barcode := b, drive_state := ds, drive_mount_state := ms\<rparr>) (lib_drives L)\<rparr>)"

definition set_cartridge_state :: "string \<Rightarrow> cartridge_state \<Rightarrow> mock_library \<Rightarrow> mock_library" where
  "set_cartridge_state b st L = L\<lparr>cartridge_states := dict_set b st (cartridge_states L)\<rparr>"

definition pop_cartridge_state :: "string \<Rightarrow> mock_library \<Rightarrow> mock_library" where
  "pop_cartridge_state b L = L\<lparr>cartridge_states := dict_pop b (cartridge_states L)\<rparr>"

section \<open>Operations\<close>

definition reset :: "(mock_library, unit) op" where
  "reset = modifyM (\<lambda>L. L\<lparr>
     lib_slots := map (\<lambda>(k, sl). (k, sl\<lparr>slot_barcode := None\<rparr>)) (lib_slots L),
     lib_ie_slots := map (\<lambda>(k, sl). (k, sl\<lparr>slot_barcode := None\<rparr>)) (lib_ie_slots L),
     lib_drives := map (\<lambda>(k, dr). (k, dr\<lparr>drive_barcode := None, drive_state := DS_EMPTY,
                                            drive_mount_state := MS_UNMOUNTED\<rparr>)) (lib_drives L),
     cartridge_states := [],
     lib_changer := CH_IDLE\<rparr>)"

definition add_cartridge :: "int \<Rightarrow> string \<Rightarrow> (mock_library, unit) op" where
  "add_cartridge sid barcode =
     bindM (indexM lib_slots sid) (\<lambda>sl.
     thenM (guardM (slot_barcode sl = None) SlotOccupiedError)
     (bindM (liftM (mk_barcode barcode)) (\<lambda>normalized.
     bindM (getsM (location_count normalized)) (\<lambda>n.
     thenM (guardM (\<not> n > 0) SlotOccupiedError)
     (bindM (getsM (\<lambda>L. dict_get (cartridge_states L) normalized)) (\<lambda>previous_state.
     thenM (case previous_state of
              None \<Rightarrow> returnM ()
            | Some st \<Rightarrow> liftM (validate_cartridge_transition st CS_IN_SLOT))
     (thenM (modifyM (\<lambda>L. set_cartridge_state normalized CS_IN_SLOT (set_slot_barcode sid (Some normalized) L)))
      validate_invariantsM)))))))"

definition seed_slots :: "string list \<Rightarrow> (mock_library, unit) op" where
  "seed_slots barcodes =
     thenM reset
     (bindM (getsM (\<lambda>L. zip (dict_keys (lib_slots L)) barcodes)) (\<lambda>ps.
      forM ps (\<lambda>(sid, b). add_cartridge sid b)))"

definition remove_cartridge :: "int \<Rightarrow> (mock_library, string) op" where
  "remove_cartridge sid =
     bindM (indexM lib_slots sid) (\<lambda>sl.
     case slot_barcode sl of
       None \<Rightarrow> raiseM SlotEmptyError
     | Some b \<Rightarrow>
         thenM (modifyM (\<lambda>L. pop_cartridge_state b (set_slot_barcode sid None L)))
         (thenM validate_invariantsM (returnM b)))"

definition slot_state :: "lib_slot \<Rightarrow> slot_view" where
  "slot_state sl = \<lparr>sv_slot_id = slot_id sl, sv_barcode = slot_barcode sl, sv_occupied = (slot_barcode sl \<noteq> None)\<rparr>"

definition drive_status :: "mock_drive \<Rightarrow> drive_view" where
  "drive_status dr = \<lparr>dv_drive_id = drive_id dr, dv_barcode = drive_barcode dr,
     dv_drive_state = drive_state dr, dv_mount_state = drive_mount_state dr\<rparr>"

definition inventory :: "mock_library \<Rightarrow> library_inventory" where
  "inventory L = \<lparr>inv_library_id = library_id L,
     inv_slots = map slot_state (dict_values (lib_slots L)),
     inv_drives = map drive_status (dict_values (lib_drives L)),
     inv_changer_state = lib_changer L\<rparr>"

definition list_tapes :: "mock_library \<Rightarrow> (int \<times> string) list" where
  "list_tapes L =
     List.map_filter (\<lambda>sl. map_option (\<lambda>b. (slot_id sl, b)) (slot_barcode sl)) (dict_values (lib_slots L))"

subsection \<open>Changer lock and faults\<close>

definition enter_changer :: "(mock_library, unit) op" where
  "enter_changer =
     bindM (getsM lib_fault_config) (\<lambda>cfg.
     thenM (guardM (\<not> should_fail cfg SF_ROBOT_LOCK_CONFLICT) ChangerBusyError)
     (bindM (getsM changer_locked) (\<lambda>locked.
     thenM (guardM (\<not> locked) ChangerBusyError)
      (modifyM (\<lambda>L. L\<lparr>changer_locked := True, lib_changer := CH_MOVING\<rparr>)))))"

definition leave_changer :: "(mock_library, unit) op" where
  "leave_changer = modifyM (\<lambda>L. L\<lparr>changer_locked := False, lib_changer := CH_IDLE\<rparr>)"

definition maybe_fail :: "sim_fault list \<Rightarrow> (mock_library, unit) op" where
  "maybe_fail faults =
     bindM (getsM lib_fault_config) (\<lambda>cfg.
      guardM (\<not> list_ex (should_fail cfg) faults) SimulatedRobotTimeout)"

definition lib_maybe_raise_injected_fault :: "injected_fault \<Rightarrow> string \<Rightarrow> (mock_library, unit) op" where
  "lib_maybe_raise_injected_fault =
     maybe_raise_injected_fault lib_injector (\<lambda>fi L. L\<lparr>lib_injector := Some fi\<rparr>)"

definition sleepM :: "(mock_library, unit) op" where
  "sleepM = bindM (getsM load_delay) (\<lambda>d. guardM (0 \<le> d) (ValueError ''sleep length must be non-negative''))"

text \<open>\<open>str(drive_id)\<close> for the target of a fault on an empty element.\<close>

fun nat_digits :: "nat \<Rightarrow> string" where
  "nat_digits n = (if n < 10 then [char_of (48 + n)] else nat_digits (n div 10) @ [char_of (48 + n mod 10)])"

declare nat_digits.simps [simp del]

definition int_str :: "int \<Rightarrow> string" where
  "int_str i = (if i < 0 then ''-'' @ nat_digits (nat (- i)) else nat_digits (nat i))"

definition fault_target_for_load :: "int \<Rightarrow> int \<Rightarrow> mock_library \<Rightarrow> string" where
  "fault_target_for_load source_slot did L =
     (case dict_get (lib_slots L) source_slot of
        Some sl \<Rightarrow> (case slot_barcode sl of Some b \<Rightarrow> b | None \<Rightarrow> int_str did)
      | None \<Rightarrow> int_str did)"

definition fault_target_for_unload :: "int \<Rightarrow> mock_library \<Rightarrow> string" where
  "fault_target_for_unload did L =
     (case dict_get (lib_drives L) did of
        Some dr \<Rightarrow> (case drive_barcode dr of Some b \<Rightarrow> b | None \<Rightarrow> int_str did)
      | None \<Rightarrow> int_str did)"

definition cartridge_state_or :: "cartridge_state \<Rightarrow> string \<Rightarrow> mock_library \<Rightarrow> cartridge_state" where
  "cartridge_state_or dflt b L = (case dict_get (cartridge_states L) b of None \<Rightarrow> dflt | Some st \<Rightarrow> st)"

subsection \<open>Load, unload and move\<close>

text \<open>The section of \<open>load\<close> under \<open>_lock\<close>.\<close>

definition load_locked :: "int \<Rightarrow> int \<Rightarrow> (mock_library, op_result) op" where
  "load_locked source_slot did =
     bindM (indexM lib_slots source_slot) (\<lambda>sl.
     bindM (indexM lib_drives did) (\<lambda>dr.
     case slot_barcode sl of
       None \<Rightarrow> raiseM SlotEmptyError
     | Some b \<Rightarrow>
         thenM (guardM (drive_barcode dr = None) DriveOccupiedError)
         (bindM (getsM (cartridge_state_or CS_IN_SLOT b)) (\<lambda>current_state.
         thenM (liftM (validate_cartridge_transition current_state CS_IN_DRIVE))
         (thenM (liftM (validate_drive_transition (drive_state dr) DS_LOADED))
         (thenM (modifyM (\<lambda>L. set_cartridge_state b CS_IN_DRIVE
                   (set_drive did (Some b) DS_LOADED MS_UNMOUNTED (set_slot_barcode source_slot None L))))
         (thenM validate_invariantsM
          (returnM (Op_result True ''loaded'' (Some b) [(''drive'', did)])))))))))"

definition load :: "int \<Rightarrow> int \<Rightarrow> (mock_library, op_result) op" where
  "load source_slot did =
     bindM (getsM (fault_target_for_load source_slot did)) (\<lambda>target.
     thenM (lib_maybe_raise_injected_fault IF_LOAD_FAILURE target)
     (thenM enter_changer
      (finallyM
        (thenM (maybe_fail [SF_LOAD_FAILURE, SF_CHANGER_TIMEOUT, SF_DRIVE_TIMEOUT])
        (thenM sleepM (load_locked source_slot did)))
        leave_changer)))"

definition unload_locked :: "int \<Rightarrow> int \<Rightarrow> (mock_library, op_result) op" where
  "unload_locked did target_slot =
     bindM (indexM lib_drives did) (\<lambda>dr.
     bindM (indexM lib_slots target_slot) (\<lambda>sl.
     case drive_barcode dr of
       None \<Rightarrow> raiseM SlotEmptyError
     | Some b \<Rightarrow>
         thenM (guardM (slot_barcode sl = None) SlotOccupiedError)
         (thenM (guardM (can_unload_drive (drive_state dr) (drive_mount_state dr)) TapeMountedError)
         (bindM (getsM (cartridge_state_or CS_IN_DRIVE b)) (\<lambda>current_state.
         thenM (liftM (validate_cartridge_transition current_state CS_IN_SLOT))
         (thenM (liftM (validate_drive_transition (drive_state dr) DS_EMPTY))
         (thenM (modifyM (\<lambda>L. set_cartridge_state b CS_IN_SLOT
                   (set_slot_barcode target_slot (Some b) (set_drive did None DS_EMPTY MS_UNMOUNTED L))))
         (thenM validate_invariantsM
          (returnM (Op_result True ''unloaded'' (Some b) [(''slot'', target_slot)]))))))))))"

definition unload :: "int \<Rightarrow> int \<Rightarrow> (mock_library, op_result) op" where
  "unload did target_slot =
     bindM (getsM (fault_target_for_unload did)) (\<lambda>target.
     thenM (lib_maybe_raise_injected_fault IF_UNLOAD_FAILURE target)
     (thenM enter_changer
      (finallyM
        (thenM (maybe_fail [SF_UNLOAD_FAILURE, SF_CHANGER_TIMEOUT, SF_DRIVE_TIMEOUT])
        (thenM sleepM (unload_locked did target_slot)))
        leave_changer)))"

definition move_locked :: "int \<Rightarrow> int \<Rightarrow> (mock_library, op_result) op" where
  "move_locked source_slot target_slot =
     bindM (indexM lib_slots source_slot) (\<lambda>source.
     bindM (indexM lib_slots target_slot) (\<lambda>target.
     case slot_barcode source of
       None \<Rightarrow> raiseM SlotEmptyError
     | Some b \<Rightarrow>
         thenM (guardM (slot_barcode target = None) SlotOccupiedError)
         (bindM (getsM (cartridge_state_or CS_IN_SLOT b)) (\<lambda>current_state.
         thenM (liftM (validate_cartridge_transition current_state CS_IN_SLOT))
         (thenM (modifyM (\<lambda>L. set_slot_barcode source_slot None (set_slot_barcode target_slot (Some b) L)))
         (thenM validate_invariantsM
          (returnM (Op_result True ''moved'' (Some b)
             [(''source'', source_slot), (''target'', target_slot)]))))))))"

definition move :: "int \<Rightarrow> int \<Rightarrow> (mock_library, op_result) op" where
  "move source_slot target_slot =
     thenM enter_changer
      (finallyM
        (bindM (getsM lib_fault_config) (\<lambda>cfg.
         if should_fail cfg SF_MOVE_FAILURE then
           returnM (Op_result False ''Injected move failure'' None
             [(''source'', source_slot), (''target'', target_slot)])
         else
           thenM (maybe_fail [SF_CHANGER_TIMEOUT])
           (thenM sleepM (move_locked source_slot target_slot))))
        leave_changer)"

subsection \<open>Queries\<close>

definition get_drive :: "int \<Rightarrow> mock_library \<Rightarrow> exc + drive_view" where
  "get_drive did L = (case dict_index (lib_drives L) did of Inl e \<Rightarrow> Inl e | Inr dr \<Rightarrow> Inr (drive_status dr))"

definition get_slot :: "int \<Rightarrow> mock_library \<Rightarrow> exc + slot_view" where
  "get_slot sid L = (case dict_index (lib_slots L) sid of Inl e \<Rightarrow> Inl e | Inr sl \<Rightarrow> Inr (slot_state sl))"

definition get_cartridge_state :: "string \<Rightarrow> mock_library \<Rightarrow> exc + cartridge_state option" where
  "get_cartridge_state barcode L =
     (case mk_barcode barcode of Inl e \<Rightarrow> Inl e | Inr b \<Rightarrow> Inr (dict_get (cartridge_states L) b))"

definition slot_of :: "string \<Rightarrow> mock_library \<Rightarrow> int option" where
  "slot_of b L = map_option fst (List.find (\<lambda>(k, sl). slot_barcode sl = Some b) (lib_slots L))"

definition drive_of :: "string \<Rightarrow> mock_library \<Rightarrow> int option" where
  "drive_of b L = map_option fst (List.find (\<lambda>(k, dr). drive_barcode dr = Some b) (lib_drives L))"

definition find_slot_by_barcode :: "string \<Rightarrow> mock_library \<Rightarrow> exc + int option" where
  "find_slot_by_barcode barcode L =
     (case mk_barcode barcode of Inl e \<Rightarrow> Inl e | Inr normalized \<Rightarrow> Inr (slot_of normalized L))"

definition find_drive_by_barcode :: "string \<Rightarrow> mock_library \<Rightarrow> exc + int option" where
  "find_drive_by_barcode barcode L =
     (case mk_barcode barcode of Inl e \<Rightarrow> Inl e | Inr normalized \<Rightarrow> Inr (drive_of normalized L))"

definition import_export_slots :: "mock_library \<Rightarrow> slot_view list" where
  "import_export_slots L = map slot_state (sort_key slot_id (dict_values (lib_ie_slots L)))"

definition get_all_barcodes :: "mock_library \<Rightarrow> string list" where
  "get_all_barcodes L = sort (dict_keys (cartridge_states L))"

subsection \<open>Mount state, export and the mailslot\<close>

definition set_drive_mount_state :: "int \<Rightarrow> mount_state \<Rightarrow> (mock_library, unit) op" where
  "set_drive_mount_state did ms =
     bindM (indexM lib_drives did) (\<lambda>dr.
     thenM (liftM (validate_mount_transition (drive_mount_state dr) ms))
     (bindM (if ms \<in> {MS_MOUNTED_RO, MS_MOUNTED_RW, MS_DIRTY} then
               thenM (liftM (validate_drive_transition (drive_state dr) DS_BUSY)) (returnM DS_BUSY)
             else if drive_barcode dr = None then
               thenM (liftM (validate_drive_transition (drive_state dr) DS_EMPTY)) (returnM DS_EMPTY)
             else
               thenM (liftM (validate_drive_transition (drive_state dr) DS_LOADED)) (returnM DS_LOADED))
      (\<lambda>ds. thenM (modifyM (set_drive did (drive_barcode dr) ds ms)) validate_invariantsM)))"

definition export_cartridge :: "string \<Rightarrow> (mock_library, unit) op" where
  "export_cartridge b =
     modifyM (\<lambda>L.
       case List.find (\<lambda>(k, sl). slot_barcode sl = Some b) (lib_slots L) of
         Some (k, sl) \<Rightarrow> set_cartridge_state b CS_EXPORTED (set_slot_barcode k None L)
       | None \<Rightarrow>
        (case List.find (\<lambda>(k, sl). slot_barcode sl = Some b) (lib_ie_slots L) of
           Some (k, sl) \<Rightarrow> set_cartridge_state b CS_EXPORTED (set_ie_barcode k None L)
         | None \<Rightarrow>
          (case List.find (\<lambda>(k, dr). drive_barcode dr = Some b) (lib_drives L) of
             Some (k, dr) \<Rightarrow> set_cartridge_state b CS_EXPORTED (set_drive k None DS_EMPTY MS_UNMOUNTED L)
           | None \<Rightarrow>
               (if b \<in> set (dict_keys (cartridge_states L)) then set_cartridge_state b CS_EXPORTED L else L))))"

text \<open>The comprehension and the loop of \<open>seed_import_export_slots\<close>; an empty barcode counts as none.\<close>

definition mk_barcode_opt :: "string option \<Rightarrow> exc + string option" where
  "mk_barcode_opt b =
     (case b of
        None \<Rightarrow> Inr None
      | Some s \<Rightarrow> if s = [] then Inr None else (case mk_barcode s of Inl e \<Rightarrow> Inl e | Inr v \<Rightarrow> Inr (Some v)))"

fun mk_slots :: "(int, string option) dict \<Rightarrow> exc + (int, lib_slot) dict" where
  "mk_slots [] = Inr []"
| "mk_slots ((k, b) # rest) =
     (case mk_barcode_opt b of
        Inl e \<Rightarrow> Inl e
      | Inr v \<Rightarrow> (case mk_slots rest of
                    Inl e \<Rightarrow> Inl e
                  | Inr sls \<Rightarrow> Inr ((k, \<lparr>slot_id = k, slot_barcode = v\<rparr>) # sls)))"

definition default_states :: "(int, lib_slot) dict \<Rightarrow> cartridge_state \<Rightarrow> (string, cartridge_state) dict \<Rightarrow> (string, cartridge_state) dict" where
  "default_states sls st d =
     foldl (\<lambda>d sl. case slot_barcode sl of None \<Rightarrow> d | Some b \<Rightarrow> dict_setdefault b st d) d (dict_values sls)"

definition seed_import_export_slots :: "(int, string option) dict \<Rightarrow> (mock_library, unit) op" where
  "seed_import_export_slots entries =
     bindM (liftM (mk_slots entries)) (\<lambda>sls.
     thenM (modifyM (\<lambda>L. L\<lparr>lib_ie_slots := sls,
               cartridge_states := default_states sls CS_IN_SLOT (cartridge_states L)\<rparr>))
      validate_invariantsM)"

definition import_locked :: "int \<Rightarrow> int \<Rightarrow> (mock_library, op_result) op" where
  "import_locked ie_slot target_slot =
     bindM (getsM (\<lambda>L. dict_get (lib_ie_slots L) ie_slot)) (\<lambda>source.
     case source of None \<Rightarrow> raiseM SlotEmptyError | Some src \<Rightarrow>
     (case slot_barcode src of None \<Rightarrow> raiseM SlotEmptyError | Some b \<Rightarrow>
     bindM (getsM (\<lambda>L. dict_get (lib_slots L) target_slot)) (\<lambda>target.
     case target of None \<Rightarrow> raiseM SlotEmptyError | Some tgt \<Rightarrow>
       thenM (guardM (slot_barcode tgt = None) SlotOccupiedError)
       (thenM (modifyM (\<lambda>L. set_cartridge_state b CS_IN_SLOT
                 (set_ie_barcode ie_slot None (set_slot_barcode target_slot (Some b) L))))
       (thenM validate_invariantsM
        (returnM (Op_result True ''imported'' (Some b)
           [(''source_ie_slot'', ie_slot), (''target_slot'', target_slot)])))))))"

definition import_cartridge :: "int \<Rightarrow> int \<Rightarrow> (mock_library, op_result) op" where
  "import_cartridge ie_slot target_slot =
     thenM enter_changer
      (finallyM
        (thenM (maybe_fail [SF_CHANGER_TIMEOUT]) (thenM sleepM (import_locked ie_slot target_slot)))
        leave_changer)"

definition export_to_ie_locked :: "int \<Rightarrow> int \<Rightarrow> (mock_library, op_result) op" where
  "export_to_ie_locked source_slot ie_slot =
     bindM (getsM (\<lambda>L. dict_get (lib_slots L) source_slot)) (\<lambda>source.
     case source of None \<Rightarrow> raiseM SlotEmptyError | Some src \<Rightarrow>
     (case slot_barcode src of None \<Rightarrow> raiseM SlotEmptyError | Some b \<Rightarrow>
     bindM (getsM (\<lambda>L. dict_get (lib_ie_slots L) ie_slot)) (\<lambda>target.
     case target of None \<Rightarrow> raiseM SlotEmptyError | Some tgt \<Rightarrow>
       thenM (guardM (slot_barcode tgt = None) SlotOccupiedError)
       (thenM (modifyM (\<lambda>L. set_cartridge_state b CS_IN_SLOT
                 (set_slot_barcode source_slot None (set_ie_barcode ie_slot (Some b) L))))
       (thenM validate_invariantsM
        (returnM (Op_result True ''exported'' (Some b)
           [(''source_slot'', source_slot), (''ie_slot'', ie_slot)])))))))"

definition export_cartridge_to_ie :: "int \<Rightarrow> int \<Rightarrow> (mock_library, op_result) op" where
  "export_cartridge_to_ie source_slot ie_slot =
     thenM enter_changer
      (finallyM
        (thenM (maybe_fail [SF_CHANGER_TIMEOUT]) (thenM sleepM (export_to_ie_locked source_slot ie_slot)))
        leave_changer)"

end
