(* ===== verification/Sim_Library_Inv.thy ===== *)
theory Sim_Library_Inv
  imports Sim_Library
begin

text \<open>
  The invariant of the simulated library and that every operation keeps it. The occupancy function
  \<open>occ\<close> (what is in an element) is the abstract view: on libraries whose dictionaries have distinct
  keys, the run-time check \<open>_validate_invariants_locked\<close> is a statement about \<open>occ\<close> and the cartridge
  states, and every mutation is a function update of \<open>occ\<close>.
\<close>

named_theorems occ_simps \<open>how the primitive updates change the abstract view of a library\<close>

section \<open>Occupancy\<close>

fun occ :: "mock_library \<Rightarrow> location \<Rightarrow> string option" where
  "occ L (Loc_slot k) = Option.bind (dict_get (lib_slots L) k) slot_barcode"
| "occ L (Loc_ie k) = Option.bind (dict_get (lib_ie_slots L) k) slot_barcode"
| "occ L (Loc_drive k) = Option.bind (dict_get (lib_drives L) k) drive_barcode"

definition keys_ok :: "mock_library \<Rightarrow> bool" where
  "keys_ok L \<longleftrightarrow> distinct (dict_keys (lib_slots L)) \<and> distinct (dict_keys (lib_ie_slots L))
     \<and> distinct (dict_keys (lib_drives L)) \<and> distinct (dict_keys (cartridge_states L))"

lemma placed_slots_iff:
  assumes "distinct (dict_keys d)"
  shows "(b, l) \<in> set (placed_slots mk d) \<longleftrightarrow> (\<exists>k sl. dict_get d k = Some sl \<and> slot_barcode sl = Some b \<and> l = mk k)"
  using assms by (force simp: placed_slots_def mem_map_filter dict_get_iff_mem)

lemma placed_drives_iff:
  assumes "distinct (dict_keys d)"
  shows "(b, l) \<in> set (placed_drives d) \<longleftrightarrow> (\<exists>k dr. dict_get d k = Some dr \<and> drive_barcode dr = Some b \<and> l = Loc_drive k)"
  using assms by (force simp: placed_drives_def mem_map_filter dict_get_iff_mem)

lemma placed_iff_occ: "keys_ok L \<Longrightarrow> (b, l) \<in> set (placed L) \<longleftrightarrow> occ L l = Some b"
  by (cases l) (auto simp: keys_ok_def placed_def placed_slots_iff placed_drives_iff bind_eq_Some_conv)

lemma distinct_placed_slots: "inj mk \<Longrightarrow> distinct (dict_keys d) \<Longrightarrow> distinct (placed_slots mk d)"
  by (induction d) (force simp: placed_slots_def map_filter_def inj_eq)+

lemma distinct_placed_drives: "distinct (dict_keys d) \<Longrightarrow> distinct (placed_drives d)"
  by (induction d) (force simp: placed_drives_def map_filter_def)+

lemma distinct_placed: "keys_ok L \<Longrightarrow> distinct (placed L)"
  unfolding placed_def keys_ok_def
  by (auto simp: distinct_placed_slots distinct_placed_drives inj_def placed_slots_iff placed_drives_iff)

section \<open>What the run-time check decides\<close>

definition locs_of :: "string \<Rightarrow> mock_library \<Rightarrow> location list" where
  "locs_of b L = map snd (filter (\<lambda>p. fst p = b) (placed L))"

lemma dict_get_foldl_add_location:
  "dict_get (foldl add_location d ps) b =
     (let new = map snd (filter (\<lambda>p. fst p = b) ps)
      in case dict_get d b of None \<Rightarrow> if new = [] then None else Some new | Some ls \<Rightarrow> Some (ls @ new))"
proof (induction ps arbitrary: d)
  case Nil
  then show ?case by (simp split: option.splits)
next
  case (Cons p ps)
  have "dict_get (add_location d p) b =
      (if fst p = b then Some ((case dict_get d b of None \<Rightarrow> [] | Some ls \<Rightarrow> ls) @ [snd p]) else dict_get d b)"
    by (simp add: add_location_def dict_simps)
  then show ?case
    by (simp add: Cons.IH Let_def split: option.splits)
qed

lemma dict_get_locations: "dict_get (locations L) b = (if locs_of b L = [] then None else Some (locs_of b L))"
  by (simp add: locations_def dict_get_foldl_add_location locs_of_def Let_def)

lemma distinct_locations: "distinct (dict_keys (locations L))"
proof -
  have "distinct (dict_keys (foldl add_location d ps))" if "distinct (dict_keys d)" for d ps
    using that by (induction ps arbitrary: d) (simp_all add: add_location_def distinct_update)
  then show ?thesis by (simp add: locations_def)
qed

lemma check_single_locations_ok: "check_single_locations d = Inr () \<longleftrightarrow> (\<forall>(b, ls) \<in> set d. length ls = 1)"
  by (induction d rule: check_single_locations.induct) auto

lemma check_states_ok:
  "check_states locs d = Inr () \<longleftrightarrow>
     (\<forall>(b, st) \<in> set d. let n = length (case dict_get locs b of None \<Rightarrow> [] | Some ls \<Rightarrow> ls)
        in (st \<in> {CS_IN_SLOT, CS_IN_DRIVE, CS_CLEANING} \<longrightarrow> n = 1) \<and> (st \<in> {CS_EXPORTED, CS_MISSING} \<longrightarrow> n = 0))"
  by (induction locs d rule: check_states.induct) (auto simp: Let_def)

lemma length_filter_le_one:
  assumes "distinct xs"
  shows "length (filter P xs) \<le> 1 \<longleftrightarrow> (\<forall>x \<in> set xs. \<forall>y \<in> set xs. P x \<longrightarrow> P y \<longrightarrow> x = y)"
proof -
  have "length (filter P xs) = card {x \<in> set xs. P x}"
    using assms by (metis distinct_card distinct_filter set_filter)
  moreover have "card {x \<in> set xs. P x} \<le> Suc 0 \<longleftrightarrow> (\<forall>x \<in> {x \<in> set xs. P x}. \<forall>y \<in> {x \<in> set xs. P x}. x = y)"
    by (rule card_le_Suc0_iff_eq) simp
  ultimately show ?thesis by auto
qed

lemma locs_of_le_one:
  assumes "keys_ok L"
  shows "length (locs_of b L) \<le> 1 \<longleftrightarrow> (\<forall>l l'. occ L l = Some b \<longrightarrow> occ L l' = Some b \<longrightarrow> l = l')"
proof -
  have "length (locs_of b L) \<le> 1 \<longleftrightarrow>
      (\<forall>p \<in> set (placed L). \<forall>q \<in> set (placed L). fst p = b \<longrightarrow> fst q = b \<longrightarrow> p = q)"
    unfolding locs_of_def length_map by (rule length_filter_le_one [OF distinct_placed [OF assms]])
  also have "\<dots> \<longleftrightarrow> (\<forall>l l'. (b, l) \<in> set (placed L) \<longrightarrow> (b, l') \<in> set (placed L) \<longrightarrow> l = l')"
    by force
  finally show ?thesis by (simp only: placed_iff_occ [OF assms])
qed

lemma locs_of_empty: "keys_ok L \<Longrightarrow> locs_of b L = [] \<longleftrightarrow> (\<forall>l. occ L l \<noteq> Some b)"
  using placed_iff_occ [of L b] by (force simp: locs_of_def filter_empty_conv)

definition unique_occ :: "mock_library \<Rightarrow> bool" where
  "unique_occ L \<longleftrightarrow> (\<forall>b l l'. occ L l = Some b \<longrightarrow> occ L l' = Some b \<longrightarrow> l = l')"

definition states_agree :: "mock_library \<Rightarrow> bool" where
  "states_agree L \<longleftrightarrow> (\<forall>b st. dict_get (cartridge_states L) b = Some st \<longrightarrow>
     (st \<in> {CS_IN_SLOT, CS_IN_DRIVE, CS_CLEANING} \<longrightarrow> (\<exists>l. occ L l = Some b))
     \<and> (st \<in> {CS_EXPORTED, CS_MISSING} \<longrightarrow> (\<forall>l. occ L l \<noteq> Some b)))"

lemma validate_invariants_iff:
  assumes "keys_ok L"
  shows "validate_invariants L = Inr () \<longleftrightarrow> unique_occ L \<and> states_agree L"
proof -
  have one: "check_single_locations (locations L) = Inr () \<longleftrightarrow> unique_occ L"
  proof -
    have "check_single_locations (locations L) = Inr () \<longleftrightarrow>
        (\<forall>b ls. dict_get (locations L) b = Some ls \<longrightarrow> length ls = 1)"
      using dict_get_iff_mem [OF distinct_locations] by (force simp: check_single_locations_ok)
    also have "\<dots> \<longleftrightarrow> (\<forall>b. length (locs_of b L) \<le> 1)"
      by (auto simp: dict_get_locations le_Suc_eq)
    also have "\<dots> \<longleftrightarrow> unique_occ L" by (simp only: locs_of_le_one [OF assms] unique_occ_def)
    finally show ?thesis .
  qed
  have get: "(case dict_get (locations L) b of None \<Rightarrow> [] | Some ls \<Rightarrow> ls) = locs_of b L" for b
    by (simp add: dict_get_locations)
  have two: "check_states (locations L) (cartridge_states L) = Inr () \<longleftrightarrow> states_agree L" if "unique_occ L"
  proof -
    have "length (locs_of b L) = 1 \<longleftrightarrow> (\<exists>l. occ L l = Some b)" for b
      using that locs_of_le_one [OF assms, of b] locs_of_empty [OF assms, of b]
      by (auto simp: unique_occ_def le_Suc_eq)
    moreover have "length (locs_of b L) = 0 \<longleftrightarrow> (\<forall>l. occ L l \<noteq> Some b)" for b
      using locs_of_empty [OF assms, of b] by simp
    moreover have "distinct (dict_keys (cartridge_states L))" using assms by (simp add: keys_ok_def)
    ultimately show ?thesis
      unfolding check_states_ok get Let_def states_agree_def
      by (simp add: dict_get_iff_mem split_paired_Ball_Sigma case_prod_beta Ball_def)
  qed
  show ?thesis
    using one two by (auto simp: validate_invariants_def split: sum.splits)
qed

lemma location_count_locs: "location_count b L = length (locs_of b L)"
proof -
  have s: "length (filter (\<lambda>p. fst p = b) (placed_slots mk d)) = length (filter (\<lambda>sl. slot_barcode sl = Some b) (dict_values d))" for mk d
    by (induction d) (auto simp: placed_slots_def map_filter_def)
  have d: "length (filter (\<lambda>p. fst p = b) (placed_drives d)) = length (filter (\<lambda>dr. drive_barcode dr = Some b) (dict_values d))" for d
    by (induction d) (auto simp: placed_drives_def map_filter_def)
  show ?thesis by (simp add: location_count_def locs_of_def placed_def s d)
qed

lemma location_count_zero: "keys_ok L \<Longrightarrow> location_count b L = 0 \<longleftrightarrow> (\<forall>l. occ L l \<noteq> Some b)"
  using locs_of_empty [of L b] by (simp add: location_count_locs)

section \<open>The invariant\<close>

fun allowed_states :: "location \<Rightarrow> cartridge_state set" where
  "allowed_states (Loc_drive k) = {CS_IN_DRIVE, CS_CLEANING}"
| "allowed_states (Loc_slot k) = {CS_IN_SLOT, CS_CLEANING}"
| "allowed_states (Loc_ie k) = {CS_IN_SLOT, CS_CLEANING}"

definition present_state :: "cartridge_state \<Rightarrow> bool" where
  "present_state s \<longleftrightarrow> s \<in> {CS_IN_SLOT, CS_IN_DRIVE, CS_CLEANING}"

lemma not_present: "s \<in> {CS_EXPORTED, CS_MISSING} \<longleftrightarrow> \<not> present_state s"
  by (cases s) (simp_all add: present_state_def)

lemma allowed_present: "s \<in> allowed_states l \<Longrightarrow> present_state s"
  by (cases l) (auto simp: present_state_def)

text \<open>
  The physical invariant, on the abstract view: a cartridge is in at most one element, its recorded
  state says where it is, and every barcode is well formed.
\<close>

definition phys_inv :: "(location \<Rightarrow> string option) \<Rightarrow> (string \<Rightarrow> cartridge_state option) \<Rightarrow> bool" where
  "phys_inv oc st \<longleftrightarrow>
     (\<forall>b l l'. oc l = Some b \<longrightarrow> oc l' = Some b \<longrightarrow> l = l')
     \<and> (\<forall>l b. oc l = Some b \<longrightarrow> (\<exists>s \<in> allowed_states l. st b = Some s))
     \<and> (\<forall>b s. st b = Some s \<longrightarrow> present_state s \<longrightarrow> (\<exists>l. oc l = Some b))
     \<and> (\<forall>b s. st b = Some s \<longrightarrow> barcode_pattern b)"

lemma phys_unique: "phys_inv oc st \<Longrightarrow> oc l = Some b \<Longrightarrow> oc l' = Some b \<Longrightarrow> l = l'"
  unfolding phys_inv_def by blast

lemma phys_state: "phys_inv oc st \<Longrightarrow> oc l = Some b \<Longrightarrow> \<exists>s \<in> allowed_states l. st b = Some s"
  unfolding phys_inv_def by blast

lemma phys_present: "phys_inv oc st \<Longrightarrow> st b = Some s \<Longrightarrow> present_state s \<Longrightarrow> \<exists>l. oc l = Some b"
  unfolding phys_inv_def by blast

lemma phys_pattern: "phys_inv oc st \<Longrightarrow> st b = Some s \<Longrightarrow> barcode_pattern b"
  unfolding phys_inv_def by blast

lemma phys_occ_pattern: "phys_inv oc st \<Longrightarrow> oc l = Some b \<Longrightarrow> barcode_pattern b"
  unfolding phys_inv_def by blast

text \<open>One cartridge \<open>b\<close> changes, all others keep place and state.\<close>

lemma phys_inv_change:
  assumes "phys_inv oc st"
    and "\<And>l c. c \<noteq> b \<Longrightarrow> oc' l = Some c \<longleftrightarrow> oc l = Some c" and "\<And>c. c \<noteq> b \<Longrightarrow> st' c = st c"
    and "\<And>l l'. oc' l = Some b \<Longrightarrow> oc' l' = Some b \<Longrightarrow> l = l'"
    and "\<And>l. oc' l = Some b \<Longrightarrow> \<exists>s \<in> allowed_states l. st' b = Some s"
    and "\<And>s. st' b = Some s \<Longrightarrow> (present_state s \<longrightarrow> (\<exists>l. oc' l = Some b)) \<and> barcode_pattern b"
  shows "phys_inv oc' st'"
  unfolding phys_inv_def
proof (intro conjI allI impI)
  fix c l l' assume "oc' l = Some c" "oc' l' = Some c"
  then show "l = l'" by (cases "c = b") (use assms(4) assms(2) phys_unique [OF assms(1)] in auto)
next
  fix l c assume "oc' l = Some c"
  then show "\<exists>s \<in> allowed_states l. st' c = Some s"
    by (cases "c = b") (use assms(5) assms(2,3) phys_state [OF assms(1)] in auto)
next
  fix c s assume "st' c = Some s" "present_state s"
  then show "\<exists>l. oc' l = Some c"
    by (cases "c = b") (use assms(6) assms(2,3) phys_present [OF assms(1)] in auto)
next
  fix c s assume "st' c = Some s"
  then show "barcode_pattern c"
    by (cases "c = b") (use assms(6) assms(3) phys_pattern [OF assms(1)] in auto)
qed

lemma phys_inv_relocate:
  assumes "phys_inv oc st" and "oc l = Some b" and "oc l' = None" and "s \<in> allowed_states l'"
  shows "phys_inv (oc(l := None, l' := Some b)) (st(b \<mapsto> s))"
  by (rule phys_inv_change [OF assms(1), where b = b])
     (use assms phys_unique [OF assms(1)] phys_occ_pattern [OF assms(1,2)] in \<open>auto split: if_splits intro: exI [of _ l']\<close>)

lemma phys_inv_add:
  assumes "phys_inv oc st" and "\<forall>l. oc l \<noteq> Some b" and "oc l' = None" and "s \<in> allowed_states l'"
    and "barcode_pattern b"
  shows "phys_inv (oc(l' := Some b)) (st(b \<mapsto> s))"
  by (rule phys_inv_change [OF assms(1), where b = b]) (use assms in \<open>auto split: if_splits\<close>)

lemma phys_inv_export:
  assumes "phys_inv oc st" and "oc l = Some b"
  shows "phys_inv (oc(l := None)) (st(b \<mapsto> CS_EXPORTED))"
  by (rule phys_inv_change [OF assms(1), where b = b])
     (use assms phys_unique [OF assms(1)] phys_occ_pattern [OF assms] in \<open>auto simp: present_state_def split: if_splits\<close>)

lemma phys_inv_export_absent:
  assumes "phys_inv oc st" and "\<forall>l. oc l \<noteq> Some b" and "st b = Some s"
  shows "phys_inv oc (st(b \<mapsto> CS_EXPORTED))"
  by (rule phys_inv_change [OF assms(1), where b = b])
     (use assms phys_pattern [OF assms(1,3)] in \<open>auto simp: present_state_def\<close>)

lemma phys_inv_remove:
  assumes "phys_inv oc st" and "oc l = Some b"
  shows "phys_inv (oc(l := None)) (st(b := None))"
  by (rule phys_inv_change [OF assms(1), where b = b])
     (use assms phys_unique [OF assms(1)] in \<open>auto split: if_splits\<close>)

definition drive_ok :: "mock_drive \<Rightarrow> bool" where
  "drive_ok dr \<longleftrightarrow> (drive_state dr = DS_BUSY \<longleftrightarrow> drive_mount_state dr \<noteq> MS_UNMOUNTED)
     \<and> (drive_state dr \<in> {DS_LOADED, DS_BUSY} \<longrightarrow> drive_barcode dr \<noteq> None)
     \<and> (drive_state dr = DS_EMPTY \<longrightarrow> drive_barcode dr = None)"

definition ids_ok :: "mock_library \<Rightarrow> bool" where
  "ids_ok L \<longleftrightarrow> (\<forall>k sl. dict_get (lib_slots L) k = Some sl \<longrightarrow> slot_id sl = k)
     \<and> (\<forall>k sl. dict_get (lib_ie_slots L) k = Some sl \<longrightarrow> slot_id sl = k)
     \<and> (\<forall>k dr. dict_get (lib_drives L) k = Some dr \<longrightarrow> drive_id dr = k \<and> drive_ok dr)"

definition lib_inv :: "mock_library \<Rightarrow> bool" where
  "lib_inv L \<longleftrightarrow> keys_ok L \<and> ids_ok L \<and> phys_inv (occ L) (dict_get (cartridge_states L))"

lemma lib_inv_validates: "lib_inv L \<Longrightarrow> validate_invariants L = Inr ()"
proof -
  assume "lib_inv L"
  then have k: "keys_ok L" and p: "phys_inv (occ L) (dict_get (cartridge_states L))"
    by (simp_all add: lib_inv_def)
  have "unique_occ L" using phys_unique [OF p] by (auto simp: unique_occ_def)
  moreover have "states_agree L"
    unfolding states_agree_def not_present present_state_def [symmetric]
    using phys_present [OF p] phys_state [OF p] allowed_present by fastforce
  ultimately show ?thesis by (simp add: validate_invariants_iff [OF k])
qed

section \<open>The primitive updates on the abstract view\<close>

lemma occ_set_slot [occ_simps]:
  "dict_get (lib_slots L) k = Some sl \<Longrightarrow> occ (set_slot_barcode k b L) = (occ L)(Loc_slot k := b)"
  by (rule ext, rename_tac l, case_tac l) (auto simp: set_slot_barcode_def dict_simps)

lemma occ_set_ie [occ_simps]:
  "dict_get (lib_ie_slots L) k = Some sl \<Longrightarrow> occ (set_ie_barcode k b L) = (occ L)(Loc_ie k := b)"
  by (rule ext, rename_tac l, case_tac l) (auto simp: set_ie_barcode_def dict_simps)

lemma occ_set_drive [occ_simps]:
  "dict_get (lib_drives L) k = Some dr \<Longrightarrow> occ (set_drive k b ds ms L) = (occ L)(Loc_drive k := b)"
  by (rule ext, rename_tac l, case_tac l) (auto simp: set_drive_def dict_simps)

lemma occ_set_cartridge_state [occ_simps]: "occ (set_cartridge_state b st L) = occ L"
  by (rule ext, rename_tac l, case_tac l) (simp_all add: set_cartridge_state_def)

lemma states_set [occ_simps]:
  "cartridge_states (set_slot_barcode k b L) = cartridge_states L"
  "cartridge_states (set_ie_barcode k b L) = cartridge_states L"
  "cartridge_states (set_drive k b ds ms L) = cartridge_states L"
  "dict_get (cartridge_states (set_cartridge_state c st L)) = (dict_get (cartridge_states L))(c \<mapsto> st)"
  by (auto simp: set_slot_barcode_def set_ie_barcode_def set_drive_def set_cartridge_state_def dict_simps
      split: option.splits)

lemma slots_set [occ_simps]:
  "lib_slots (set_ie_barcode k b L) = lib_slots L"
  "lib_slots (set_drive k b ds ms L) = lib_slots L"
  "lib_slots (set_cartridge_state c st L) = lib_slots L"
  by (auto simp: set_ie_barcode_def set_drive_def set_cartridge_state_def split: option.splits)

lemma ie_slots_set [occ_simps]:
  "lib_ie_slots (set_slot_barcode k b L) = lib_ie_slots L"
  "lib_ie_slots (set_drive k b ds ms L) = lib_ie_slots L"
  "lib_ie_slots (set_cartridge_state c st L) = lib_ie_slots L"
  by (auto simp: set_slot_barcode_def set_drive_def set_cartridge_state_def split: option.splits)

lemma drives_set [occ_simps]:
  "lib_drives (set_slot_barcode k b L) = lib_drives L"
  "lib_drives (set_ie_barcode k b L) = lib_drives L"
  "lib_drives (set_cartridge_state c st L) = lib_drives L"
  by (auto simp: set_slot_barcode_def set_ie_barcode_def set_cartridge_state_def split: option.splits)

lemma get_slots_set [occ_simps]:
  "dict_get (lib_slots (set_slot_barcode k b L)) j =
     (if j = k then map_option (\<lambda>sl. sl\<lparr>slot_barcode := b\<rparr>) (dict_get (lib_slots L) k) else dict_get (lib_slots L) j)"
  "dict_get (lib_ie_slots (set_ie_barcode k b L)) j =
     (if j = k then map_option (\<lambda>sl. sl\<lparr>slot_barcode := b\<rparr>) (dict_get (lib_ie_slots L) k) else dict_get (lib_ie_slots L) j)"
  "dict_get (lib_drives (set_drive k b ds ms L)) j =
     (if j = k then map_option (\<lambda>dr. dr\<lparr>drive_barcode := b, drive_state := ds, drive_mount_state := ms\<rparr>) (dict_get (lib_drives L) k)
      else dict_get (lib_drives L) j)"
  by (auto simp: set_slot_barcode_def set_ie_barcode_def set_drive_def dict_simps split: option.splits)

lemma keys_ok_set [occ_simps]:
  "keys_ok L \<Longrightarrow> keys_ok (set_slot_barcode k b L)"
  "keys_ok L \<Longrightarrow> keys_ok (set_ie_barcode k b L)"
  "keys_ok L \<Longrightarrow> keys_ok (set_drive k b ds ms L)"
  "keys_ok L \<Longrightarrow> keys_ok (set_cartridge_state b' st L)"
  by (auto simp: keys_ok_def set_slot_barcode_def set_ie_barcode_def set_drive_def set_cartridge_state_def
      distinct_update split: option.splits)

lemma ids_ok_set [occ_simps]:
  "ids_ok L \<Longrightarrow> ids_ok (set_slot_barcode k b L)"
  "ids_ok L \<Longrightarrow> ids_ok (set_ie_barcode k b L)"
  "ids_ok L \<Longrightarrow> ids_ok (set_cartridge_state b' st L)"
  "ids_ok L \<Longrightarrow> drive_ok \<lparr>drive_id = k, drive_barcode = b, drive_state = ds, drive_mount_state = ms\<rparr> \<Longrightarrow>
     ids_ok (set_drive k b ds ms L)"
  by (auto simp: ids_ok_def occ_simps drive_ok_def split: if_splits)

lemma pop_simps [occ_simps]:
  "occ (pop_cartridge_state b L) = occ L"
  "dict_get (cartridge_states (pop_cartridge_state b L)) = (dict_get (cartridge_states L))(b := None)"
  "keys_ok L \<Longrightarrow> keys_ok (pop_cartridge_state b L)"
  "ids_ok L \<Longrightarrow> ids_ok (pop_cartridge_state b L)"
  by (rule ext, rename_tac l, case_tac l)
     (simp_all add: pop_cartridge_state_def dict_simps keys_ok_def ids_ok_def distinct_delete)

section \<open>Searching the elements for a barcode\<close>

lemma find_dict:
  assumes "distinct (dict_keys d)"
  shows "List.find (\<lambda>(k, v). p v) d = Some (k, v) \<Longrightarrow> dict_get d k = Some v \<and> p v"
    and "List.find (\<lambda>(k, v). p v) d = None \<Longrightarrow> dict_get d k = Some v \<Longrightarrow> \<not> p v"
  using find_SomeD [of "\<lambda>(k, v). p v" d "(k, v)"] find_NoneD [of "\<lambda>(k, v). p v" d "(k, v)"]
  by (auto simp: dict_get_iff_mem [OF assms])

lemma find_slot_occ:
  assumes "keys_ok L"
  shows "List.find (\<lambda>(k, sl). slot_barcode sl = Some b) (lib_slots L) = Some (k, sl) \<Longrightarrow>
      dict_get (lib_slots L) k = Some sl \<and> occ L (Loc_slot k) = Some b"
    and "List.find (\<lambda>(k, sl). slot_barcode sl = Some b) (lib_slots L) = None \<Longrightarrow> occ L (Loc_slot k) \<noteq> Some b"
proof -
  have d: "distinct (dict_keys (lib_slots L))" using assms by (simp add: keys_ok_def)
  show "List.find (\<lambda>(k, sl). slot_barcode sl = Some b) (lib_slots L) = Some (k, sl) \<Longrightarrow> dict_get (lib_slots L) k = Some sl \<and> occ L (Loc_slot k) = Some b"
    by (drule find_dict(1) [OF d]) simp
  show "List.find (\<lambda>(k, sl). slot_barcode sl = Some b) (lib_slots L) = None \<Longrightarrow> occ L (Loc_slot k) \<noteq> Some b"
    by (auto simp: bind_eq_Some_conv dest: find_dict(2) [OF d])
qed

lemma find_ie_occ:
  assumes "keys_ok L"
  shows "List.find (\<lambda>(k, sl). slot_barcode sl = Some b) (lib_ie_slots L) = Some (k, sl) \<Longrightarrow>
      dict_get (lib_ie_slots L) k = Some sl \<and> occ L (Loc_ie k) = Some b"
    and "List.find (\<lambda>(k, sl). slot_barcode sl = Some b) (lib_ie_slots L) = None \<Longrightarrow> occ L (Loc_ie k) \<noteq> Some b"
proof -
  have d: "distinct (dict_keys (lib_ie_slots L))" using assms by (simp add: keys_ok_def)
  show "List.find (\<lambda>(k, sl). slot_barcode sl = Some b) (lib_ie_slots L) = Some (k, sl) \<Longrightarrow> dict_get (lib_ie_slots L) k = Some sl \<and> occ L (Loc_ie k) = Some b"
    by (drule find_dict(1) [OF d]) simp
  show "List.find (\<lambda>(k, sl). slot_barcode sl = Some b) (lib_ie_slots L) = None \<Longrightarrow> occ L (Loc_ie k) \<noteq> Some b"
    by (auto simp: bind_eq_Some_conv dest: find_dict(2) [OF d])
qed

lemma find_drive_occ:
  assumes "keys_ok L"
  shows "List.find (\<lambda>(k, dr). drive_barcode dr = Some b) (lib_drives L) = Some (k, dr) \<Longrightarrow>
      dict_get (lib_drives L) k = Some dr \<and> occ L (Loc_drive k) = Some b"
    and "List.find (\<lambda>(k, dr). drive_barcode dr = Some b) (lib_drives L) = None \<Longrightarrow> occ L (Loc_drive k) \<noteq> Some b"
proof -
  have d: "distinct (dict_keys (lib_drives L))" using assms by (simp add: keys_ok_def)
  show "List.find (\<lambda>(k, dr). drive_barcode dr = Some b) (lib_drives L) = Some (k, dr) \<Longrightarrow> dict_get (lib_drives L) k = Some dr \<and> occ L (Loc_drive k) = Some b"
    by (drule find_dict(1) [OF d]) simp
  show "List.find (\<lambda>(k, dr). drive_barcode dr = Some b) (lib_drives L) = None \<Longrightarrow> occ L (Loc_drive k) \<noteq> Some b"
    by (auto simp: bind_eq_Some_conv dest: find_dict(2) [OF d])
qed

end
