(* ===== verification/Sim_Library_Props.thy ===== *)
theory Sim_Library_Props
  imports Sim_Library_Inv
begin

text \<open>
  What each operation of the simulated library does, on every branch: the locked sections are
  specified exactly (the resulting library, or the exception and that nothing changed), the public
  operations up to the fault injector's counters and the changer. From this: the invariant is kept,
  the run-time check never fires, a refused operation moves nothing, and the abstract placement
  changes by the move of one cartridge.
\<close>

section \<open>Media: what the invariant depends on\<close>

definition media :: "mock_library \<Rightarrow>
    (int, lib_slot) dict \<times> (int, lib_slot) dict \<times> (int, mock_drive) dict \<times> (string, cartridge_state) dict" where
  "media L = (lib_slots L, lib_ie_slots L, lib_drives L, cartridge_states L)"

lemma media_eqD:
  assumes "media L' = media L"
  shows "lib_slots L' = lib_slots L" "lib_ie_slots L' = lib_ie_slots L" "lib_drives L' = lib_drives L"
    "cartridge_states L' = cartridge_states L" "occ L' = occ L" "lib_inv L' = lib_inv L"
proof -
  show f: "lib_slots L' = lib_slots L" "lib_ie_slots L' = lib_ie_slots L" "lib_drives L' = lib_drives L"
    "cartridge_states L' = cartridge_states L"
    using assms by (simp_all add: media_def)
  show o: "occ L' = occ L" by (rule ext, rename_tac l, case_tac l) (simp_all add: f)
  show "lib_inv L' = lib_inv L" by (simp add: lib_inv_def keys_ok_def ids_ok_def f o)
qed

lemma media_updates [simp]:
  "media (L\<lparr>lib_injector := x\<rparr>) = media L" "media (L\<lparr>changer_locked := c\<rparr>) = media L"
  "media (L\<lparr>lib_changer := ch\<rparr>) = media L"
  by (simp_all add: media_def)

lemma lib_inv_updates [simp]:
  "lib_inv (L\<lparr>lib_injector := x\<rparr>) = lib_inv L" "lib_inv (L\<lparr>changer_locked := c\<rparr>) = lib_inv L"
  "lib_inv (L\<lparr>lib_changer := ch\<rparr>) = lib_inv L"
  by (rule media_eqD(6), simp)+

text \<open>The exceptions that come before the body of a changer operation runs.\<close>

definition busy_excs :: "exc set" where
  "busy_excs = {ChangerBusyError, SimulatedRobotTimeout, ValueError ''sleep length must be non-negative''}"

text \<open>The exceptions of the run-time invariant check.\<close>

definition check_excs :: "exc set" where
  "check_excs = {invalid_locations_error, one_location_error, no_location_error}"

lemma wp_enter_changer [wp_rules]:
  "wp enter_changer Q E = (\<lambda>L.
     if should_fail (lib_fault_config L) SF_ROBOT_LOCK_CONFLICT \<or> changer_locked L then E ChangerBusyError L
     else Q () (L\<lparr>changer_locked := True, lib_changer := CH_MOVING\<rparr>))"
  by (auto simp: enter_changer_def wp_rules fun_eq_iff)

lemma wp_validate_invariantsM [wp_rules]:
  "wp validate_invariantsM Q E = (\<lambda>L. case validate_invariants L of Inr x \<Rightarrow> Q x L | Inl e \<Rightarrow> E e L)"
  by (simp add: validate_invariantsM_def wp_query)

text \<open>
  The bracket around a body: what the body guarantees of the media, the operation guarantees, and an
  operation refused by the lock, by an injected timeout or by the sleep changed no media.
\<close>

lemma wp_changer_bracket:
  assumes body: "\<And>L1. media L1 = media L \<Longrightarrow> wp body (\<lambda>r L2. Q r (media L2)) (\<lambda>e L2. E e (media L2)) L1"
    and early: "\<And>e. e \<in> busy_excs \<Longrightarrow> E e (media L)"
  shows "wp (thenM enter_changer (finallyM (thenM (maybe_fail fs) (thenM sleepM body)) leave_changer))
           (\<lambda>r L'. Q r (media L')) (\<lambda>e L'. E e (media L')) L"
  using early body [of "L\<lparr>changer_locked := True, lib_changer := CH_MOVING\<rparr>"]
  by (auto simp: wp_rules maybe_fail_def sleepM_def leave_changer_def busy_excs_def)

lemma wp_injected_bracket:
  assumes body: "\<And>L1. media L1 = media L \<Longrightarrow> wp body (\<lambda>r L2. Q r (media L2)) (\<lambda>e L2. E e (media L2)) L1"
    and early: "\<And>e. e \<in> busy_excs \<Longrightarrow> E e (media L)" and inj: "\<And>m. E (SimulatorFaultError m) (media L)"
  shows "wp (bindM (getsM tg) (\<lambda>target. thenM (lib_maybe_raise_injected_fault ft target)
           (thenM enter_changer (finallyM (thenM (maybe_fail fs) (thenM sleepM body)) leave_changer))))
           (\<lambda>r L'. Q r (media L')) (\<lambda>e L'. E e (media L')) L"
  unfolding wp_bind wp_gets lib_maybe_raise_injected_fault_def
proof (subst wp_then, rule wp_maybe_raise_injected_fault)
  fix fi :: fault_injector
  let ?L = "L\<lparr>lib_injector := Some fi\<rparr>"
  show "wp (thenM enter_changer (finallyM (thenM (maybe_fail fs) (thenM sleepM body)) leave_changer))
      (\<lambda>r L'. Q r (media L')) (\<lambda>e L'. E e (media L')) ?L"
    by (rule wp_changer_bracket) (use body early in \<open>simp_all\<close>)
next
  show "wp (thenM enter_changer (finallyM (thenM (maybe_fail fs) (thenM sleepM body)) leave_changer))
      (\<lambda>r L'. Q r (media L')) (\<lambda>e L'. E e (media L')) L"
    by (rule wp_changer_bracket [OF body early])
next
  fix m fi
  show "E (SimulatorFaultError m) (media (L\<lparr>lib_injector := Some fi\<rparr>))" using inj by simp
qed

section \<open>The locked sections\<close>

text \<open>A relocation of one cartridge keeps the invariant.\<close>

lemma lib_inv_relocate:
  assumes "lib_inv L" and "occ L l = Some b" and "occ L l' = None" and "st \<in> allowed_states l'"
    and "keys_ok L'" and "ids_ok L'" and "occ L' = (occ L)(l := None, l' := Some b)"
    and "dict_get (cartridge_states L') = (dict_get (cartridge_states L))(b \<mapsto> st)"
  shows "lib_inv L'"
  using assms phys_inv_relocate [of "occ L" _ l b l' st] by (simp add: lib_inv_def)

lemma occ_slot_iff: "occ L (Loc_slot k) = Some b \<longleftrightarrow> (\<exists>sl. dict_get (lib_slots L) k = Some sl \<and> slot_barcode sl = Some b)"
  and occ_ie_iff: "occ L (Loc_ie k) = Some b \<longleftrightarrow> (\<exists>sl. dict_get (lib_ie_slots L) k = Some sl \<and> slot_barcode sl = Some b)"
  and occ_drive_iff: "occ L (Loc_drive k) = Some b \<longleftrightarrow> (\<exists>dr. dict_get (lib_drives L) k = Some dr \<and> drive_barcode dr = Some b)"
  by (auto simp: bind_eq_Some_conv)

definition load_result :: "int \<Rightarrow> int \<Rightarrow> string \<Rightarrow> mock_library \<Rightarrow> mock_library" where
  "load_result s d b L =
     set_cartridge_state b CS_IN_DRIVE (set_drive d (Some b) DS_LOADED MS_UNMOUNTED (set_slot_barcode s None L))"

lemma load_result_inv:
  assumes "lib_inv L" and "dict_get (lib_slots L) s = Some sl" and "slot_barcode sl = Some b"
    and "dict_get (lib_drives L) d = Some dr" and "drive_barcode dr = None"
  shows "occ (load_result s d b L) = (occ L)(Loc_slot s := None, Loc_drive d := Some b)"
    and "lib_inv (load_result s d b L)"
proof -
  show o: "occ (load_result s d b L) = (occ L)(Loc_slot s := None, Loc_drive d := Some b)"
    using assms(2,4) by (simp add: load_result_def occ_simps)
  show "lib_inv (load_result s d b L)"
    by (rule lib_inv_relocate [OF assms(1) _ _ _ _ _ o, where st = CS_IN_DRIVE])
       (use assms in \<open>simp_all add: load_result_def lib_inv_def occ_simps drive_ok_def\<close>)
qed

lemma wp_load_locked:
  assumes "lib_inv L"
  shows "wp (load_locked s d)
     (\<lambda>r L'. \<exists>b sl dr. dict_get (lib_slots L) s = Some sl \<and> slot_barcode sl = Some b
        \<and> dict_get (lib_drives L) d = Some dr \<and> drive_barcode dr = None \<and> drive_state dr \<noteq> DS_FAILED
        \<and> r = Op_result True ''loaded'' (Some b) [(''drive'', d)] \<and> L' = load_result s d b L)
     (\<lambda>e L'. L' = L \<and> e \<in> {KeyError, SlotEmptyError, DriveOccupiedError, InvalidStateTransitionError}) L"
  using lib_inv_validates [OF load_result_inv(2) [OF assms]]
  unfolding load_locked_def load_result_def [symmetric]
  by (auto simp: wp_rules split: option.splits)

definition unload_result :: "int \<Rightarrow> int \<Rightarrow> string \<Rightarrow> mock_library \<Rightarrow> mock_library" where
  "unload_result d s b L =
     set_cartridge_state b CS_IN_SLOT (set_slot_barcode s (Some b) (set_drive d None DS_EMPTY MS_UNMOUNTED L))"

lemma unload_result_inv:
  assumes "lib_inv L" and "dict_get (lib_drives L) d = Some dr" and "drive_barcode dr = Some b"
    and "dict_get (lib_slots L) s = Some sl" and "slot_barcode sl = None"
  shows "occ (unload_result d s b L) = (occ L)(Loc_drive d := None, Loc_slot s := Some b)"
    and "lib_inv (unload_result d s b L)"
proof -
  show o: "occ (unload_result d s b L) = (occ L)(Loc_drive d := None, Loc_slot s := Some b)"
    using assms(2,4) by (simp add: unload_result_def occ_simps)
  show "lib_inv (unload_result d s b L)"
    by (rule lib_inv_relocate [OF assms(1) _ _ _ _ _ o, where st = CS_IN_SLOT])
       (use assms in \<open>simp_all add: unload_result_def lib_inv_def occ_simps drive_ok_def\<close>)
qed

lemma wp_unload_locked:
  assumes "lib_inv L"
  shows "wp (unload_locked d s)
     (\<lambda>r L'. \<exists>b sl dr. dict_get (lib_drives L) d = Some dr \<and> drive_barcode dr = Some b
        \<and> dict_get (lib_slots L) s = Some sl \<and> slot_barcode sl = None
        \<and> can_unload_drive (drive_state dr) (drive_mount_state dr)
        \<and> r = Op_result True ''unloaded'' (Some b) [(''slot'', s)] \<and> L' = unload_result d s b L)
     (\<lambda>e L'. L' = L \<and> e \<in> {KeyError, SlotEmptyError, SlotOccupiedError, TapeMountedError, InvalidStateTransitionError}) L"
  using lib_inv_validates [OF unload_result_inv(2) [OF assms]]
  unfolding unload_locked_def unload_result_def [symmetric]
  by (auto simp: wp_rules split: option.splits)

definition move_result :: "int \<Rightarrow> int \<Rightarrow> string \<Rightarrow> mock_library \<Rightarrow> mock_library" where
  "move_result s t b L = set_slot_barcode s None (set_slot_barcode t (Some b) L)"

lemma move_result_inv:
  assumes "lib_inv L" and "dict_get (lib_slots L) s = Some sl" and "slot_barcode sl = Some b"
    and "dict_get (lib_slots L) t = Some tg" and "slot_barcode tg = None"
  shows "occ (move_result s t b L) = (occ L)(Loc_slot s := None, Loc_slot t := Some b)"
    and "lib_inv (move_result s t b L)"
proof -
  have "s \<noteq> t" using assms by auto
  then show o: "occ (move_result s t b L) = (occ L)(Loc_slot s := None, Loc_slot t := Some b)"
    using assms(2,4) by (simp add: move_result_def occ_simps fun_upd_twist)
  obtain st where st: "st \<in> allowed_states (Loc_slot s)" "dict_get (cartridge_states L) b = Some st"
    using assms(1,2,3) phys_state [of "occ L" _ "Loc_slot s" b] by (auto simp: lib_inv_def)
  show "lib_inv (move_result s t b L)"
    by (rule lib_inv_relocate [OF assms(1) _ _ _ _ _ o, where st = st])
       (use assms st in \<open>simp_all add: move_result_def lib_inv_def occ_simps map_upd_triv\<close>)
qed

lemma wp_move_locked:
  assumes "lib_inv L"
  shows "wp (move_locked s t)
     (\<lambda>r L'. \<exists>b sl tg. dict_get (lib_slots L) s = Some sl \<and> slot_barcode sl = Some b
        \<and> dict_get (lib_slots L) t = Some tg \<and> slot_barcode tg = None
        \<and> r = Op_result True ''moved'' (Some b) [(''source'', s), (''target'', t)] \<and> L' = move_result s t b L)
     (\<lambda>e L'. L' = L \<and> e \<in> {KeyError, SlotEmptyError, SlotOccupiedError}) L"
  using lib_inv_validates [OF move_result_inv(2) [OF assms]]
  unfolding move_locked_def move_result_def [symmetric]
  by (auto simp: wp_rules split: option.splits)

definition import_result :: "int \<Rightarrow> int \<Rightarrow> string \<Rightarrow> mock_library \<Rightarrow> mock_library" where
  "import_result i t b L =
     set_cartridge_state b CS_IN_SLOT (set_ie_barcode i None (set_slot_barcode t (Some b) L))"

lemma import_result_inv:
  assumes "lib_inv L" and "dict_get (lib_ie_slots L) i = Some sl" and "slot_barcode sl = Some b"
    and "dict_get (lib_slots L) t = Some tg" and "slot_barcode tg = None"
  shows "occ (import_result i t b L) = (occ L)(Loc_ie i := None, Loc_slot t := Some b)"
    and "lib_inv (import_result i t b L)"
proof -
  show o: "occ (import_result i t b L) = (occ L)(Loc_ie i := None, Loc_slot t := Some b)"
    using assms(2,4) by (simp add: import_result_def occ_simps fun_upd_twist)
  show "lib_inv (import_result i t b L)"
    by (rule lib_inv_relocate [OF assms(1) _ _ _ _ _ o, where st = CS_IN_SLOT])
       (use assms in \<open>simp_all add: import_result_def lib_inv_def occ_simps\<close>)
qed

lemma wp_import_locked:
  assumes "lib_inv L"
  shows "wp (import_locked i t)
     (\<lambda>r L'. \<exists>b sl tg. dict_get (lib_ie_slots L) i = Some sl \<and> slot_barcode sl = Some b
        \<and> dict_get (lib_slots L) t = Some tg \<and> slot_barcode tg = None
        \<and> r = Op_result True ''imported'' (Some b) [(''source_ie_slot'', i), (''target_slot'', t)]
        \<and> L' = import_result i t b L)
     (\<lambda>e L'. L' = L \<and> e \<in> {SlotEmptyError, SlotOccupiedError}) L"
  using lib_inv_validates [OF import_result_inv(2) [OF assms]]
  unfolding import_locked_def import_result_def [symmetric]
  by (auto simp: wp_rules split: option.splits)

definition export_result :: "int \<Rightarrow> int \<Rightarrow> string \<Rightarrow> mock_library \<Rightarrow> mock_library" where
  "export_result s i b L =
     set_cartridge_state b CS_IN_SLOT (set_slot_barcode s None (set_ie_barcode i (Some b) L))"

lemma export_result_inv:
  assumes "lib_inv L" and "dict_get (lib_slots L) s = Some sl" and "slot_barcode sl = Some b"
    and "dict_get (lib_ie_slots L) i = Some tg" and "slot_barcode tg = None"
  shows "occ (export_result s i b L) = (occ L)(Loc_slot s := None, Loc_ie i := Some b)"
    and "lib_inv (export_result s i b L)"
proof -
  show o: "occ (export_result s i b L) = (occ L)(Loc_slot s := None, Loc_ie i := Some b)"
    using assms(2,4) by (simp add: export_result_def occ_simps fun_upd_twist)
  show "lib_inv (export_result s i b L)"
    by (rule lib_inv_relocate [OF assms(1) _ _ _ _ _ o, where st = CS_IN_SLOT])
       (use assms in \<open>simp_all add: export_result_def lib_inv_def occ_simps\<close>)
qed

lemma wp_export_to_ie_locked:
  assumes "lib_inv L"
  shows "wp (export_to_ie_locked s i)
     (\<lambda>r L'. \<exists>b sl tg. dict_get (lib_slots L) s = Some sl \<and> slot_barcode sl = Some b
        \<and> dict_get (lib_ie_slots L) i = Some tg \<and> slot_barcode tg = None
        \<and> r = Op_result True ''exported'' (Some b) [(''source_slot'', s), (''ie_slot'', i)]
        \<and> L' = export_result s i b L)
     (\<lambda>e L'. L' = L \<and> e \<in> {SlotEmptyError, SlotOccupiedError}) L"
  using lib_inv_validates [OF export_result_inv(2) [OF assms]]
  unfolding export_to_ie_locked_def export_result_def [symmetric]
  by (auto simp: wp_rules split: option.splits)

section \<open>The public operations\<close>

lemma media_result:
  assumes "media L1 = media L"
  shows "media (load_result s d b L1) = media (load_result s d b L)"
    "media (unload_result d s b L1) = media (unload_result d s b L)"
    "media (move_result s t b L1) = media (move_result s t b L)"
    "media (import_result i t b L1) = media (import_result i t b L)"
    "media (export_result s i b L1) = media (export_result s i b L)"
  using media_eqD(1-4) [OF assms]
  by (auto simp: media_def load_result_def unload_result_def move_result_def import_result_def export_result_def
      set_slot_barcode_def set_ie_barcode_def set_drive_def set_cartridge_state_def split: option.splits)

lemma load_media:
  assumes "lib_inv L"
  shows "wp (load s d)
     (\<lambda>r L'. \<exists>b x y. dict_get (lib_slots L) s = Some x \<and> slot_barcode x = Some b \<and> dict_get (lib_drives L) d = Some y
        \<and> drive_barcode y = None \<and> drive_state y \<noteq> DS_FAILED
        \<and> r = Op_result True ''loaded'' (Some b) [(''drive'', d)] \<and> media L' = media (load_result s d b L))
     (\<lambda>e L'. media L' = media L) L"
  unfolding load_def
proof (rule wp_injected_bracket [where Q = "\<lambda>r m. \<exists>b x y. dict_get (lib_slots L) s = Some x \<and> slot_barcode x = Some b \<and> dict_get (lib_drives L) d = Some y
        \<and> drive_barcode y = None \<and> drive_state y \<noteq> DS_FAILED
        \<and> r = Op_result True ''loaded'' (Some b) [(''drive'', d)] \<and> m = media (load_result s d b L)" and E = "\<lambda>e m. m = media L"])
  fix L1 assume m: "media L1 = media L"
  have "lib_inv L1" using assms by (simp add: media_eqD(6) [OF m])
  from wp_load_locked [OF this]
  show "wp (load_locked s d) (\<lambda>r L2. \<exists>b x y. dict_get (lib_slots L) s = Some x \<and> slot_barcode x = Some b \<and> dict_get (lib_drives L) d = Some y
        \<and> drive_barcode y = None \<and> drive_state y \<noteq> DS_FAILED
        \<and> r = Op_result True ''loaded'' (Some b) [(''drive'', d)] \<and> media L2 = media (load_result s d b L)) (\<lambda>e L2. media L2 = media L) L1"
    by (rule wp_mono) (auto simp: m media_eqD [OF m] media_result [OF m])
qed simp_all

lemma unload_media:
  assumes "lib_inv L"
  shows "wp (unload d s)
     (\<lambda>r L'. \<exists>b x y. dict_get (lib_drives L) d = Some x \<and> drive_barcode x = Some b \<and> dict_get (lib_slots L) s = Some y
        \<and> slot_barcode y = None \<and> can_unload_drive (drive_state x) (drive_mount_state x)
        \<and> r = Op_result True ''unloaded'' (Some b) [(''slot'', s)] \<and> media L' = media (unload_result d s b L))
     (\<lambda>e L'. media L' = media L) L"
  unfolding unload_def
proof (rule wp_injected_bracket [where Q = "\<lambda>r m. \<exists>b x y. dict_get (lib_drives L) d = Some x \<and> drive_barcode x = Some b \<and> dict_get (lib_slots L) s = Some y
        \<and> slot_barcode y = None \<and> can_unload_drive (drive_state x) (drive_mount_state x)
        \<and> r = Op_result True ''unloaded'' (Some b) [(''slot'', s)] \<and> m = media (unload_result d s b L)" and E = "\<lambda>e m. m = media L"])
  fix L1 assume m: "media L1 = media L"
  have "lib_inv L1" using assms by (simp add: media_eqD(6) [OF m])
  from wp_unload_locked [OF this]
  show "wp (unload_locked d s) (\<lambda>r L2. \<exists>b x y. dict_get (lib_drives L) d = Some x \<and> drive_barcode x = Some b \<and> dict_get (lib_slots L) s = Some y
        \<and> slot_barcode y = None \<and> can_unload_drive (drive_state x) (drive_mount_state x)
        \<and> r = Op_result True ''unloaded'' (Some b) [(''slot'', s)] \<and> media L2 = media (unload_result d s b L)) (\<lambda>e L2. media L2 = media L) L1"
    by (rule wp_mono) (auto simp: m media_eqD [OF m] media_result [OF m])
qed simp_all

lemma import_media:
  assumes "lib_inv L"
  shows "wp (import_cartridge i t)
     (\<lambda>r L'. \<exists>b x y. dict_get (lib_ie_slots L) i = Some x \<and> slot_barcode x = Some b \<and> dict_get (lib_slots L) t = Some y
        \<and> slot_barcode y = None
        \<and> r = Op_result True ''imported'' (Some b) [(''source_ie_slot'', i), (''target_slot'', t)] \<and> media L' = media (import_result i t b L))
     (\<lambda>e L'. media L' = media L) L"
  unfolding import_cartridge_def
proof (rule wp_changer_bracket [where Q = "\<lambda>r m. \<exists>b x y. dict_get (lib_ie_slots L) i = Some x \<and> slot_barcode x = Some b \<and> dict_get (lib_slots L) t = Some y
        \<and> slot_barcode y = None
        \<and> r = Op_result True ''imported'' (Some b) [(''source_ie_slot'', i), (''target_slot'', t)] \<and> m = media (import_result i t b L)" and E = "\<lambda>e m. m = media L"])
  fix L1 assume m: "media L1 = media L"
  have "lib_inv L1" using assms by (simp add: media_eqD(6) [OF m])
  from wp_import_locked [OF this]
  show "wp (import_locked i t) (\<lambda>r L2. \<exists>b x y. dict_get (lib_ie_slots L) i = Some x \<and> slot_barcode x = Some b \<and> dict_get (lib_slots L) t = Some y
        \<and> slot_barcode y = None
        \<and> r = Op_result True ''imported'' (Some b) [(''source_ie_slot'', i), (''target_slot'', t)] \<and> media L2 = media (import_result i t b L)) (\<lambda>e L2. media L2 = media L) L1"
    by (rule wp_mono) (auto simp: m media_eqD [OF m] media_result [OF m])
qed simp_all

lemma export_to_ie_media:
  assumes "lib_inv L"
  shows "wp (export_cartridge_to_ie s i)
     (\<lambda>r L'. \<exists>b x y. dict_get (lib_slots L) s = Some x \<and> slot_barcode x = Some b \<and> dict_get (lib_ie_slots L) i = Some y
        \<and> slot_barcode y = None
        \<and> r = Op_result True ''exported'' (Some b) [(''source_slot'', s), (''ie_slot'', i)] \<and> media L' = media (export_result s i b L))
     (\<lambda>e L'. media L' = media L) L"
  unfolding export_cartridge_to_ie_def
proof (rule wp_changer_bracket [where Q = "\<lambda>r m. \<exists>b x y. dict_get (lib_slots L) s = Some x \<and> slot_barcode x = Some b \<and> dict_get (lib_ie_slots L) i = Some y
        \<and> slot_barcode y = None
        \<and> r = Op_result True ''exported'' (Some b) [(''source_slot'', s), (''ie_slot'', i)] \<and> m = media (export_result s i b L)" and E = "\<lambda>e m. m = media L"])
  fix L1 assume m: "media L1 = media L"
  have "lib_inv L1" using assms by (simp add: media_eqD(6) [OF m])
  from wp_export_to_ie_locked [OF this]
  show "wp (export_to_ie_locked s i) (\<lambda>r L2. \<exists>b x y. dict_get (lib_slots L) s = Some x \<and> slot_barcode x = Some b \<and> dict_get (lib_ie_slots L) i = Some y
        \<and> slot_barcode y = None
        \<and> r = Op_result True ''exported'' (Some b) [(''source_slot'', s), (''ie_slot'', i)] \<and> media L2 = media (export_result s i b L)) (\<lambda>e L2. media L2 = media L) L1"
    by (rule wp_mono) (auto simp: m media_eqD [OF m] media_result [OF m])
qed simp_all

text \<open>\<open>move\<close> answers a configured move failure with an unsuccessful result before it tries.\<close>

lemma move_media:
  assumes "lib_inv L"
  shows "wp (move s t)
     (\<lambda>r L'. if res_success r
        then \<exists>b x y. dict_get (lib_slots L) s = Some x \<and> slot_barcode x = Some b \<and> dict_get (lib_slots L) t = Some y
          \<and> slot_barcode y = None \<and> r = Op_result True ''moved'' (Some b) [(''source'', s), (''target'', t)]
          \<and> media L' = media (move_result s t b L)
        else media L' = media L)
     (\<lambda>e L'. media L' = media L) L"
proof -
  let ?L1 = "L\<lparr>changer_locked := True, lib_changer := CH_MOVING\<rparr>"
  have m: "media ?L1 = media L" by simp
  have "lib_inv ?L1" using assms by simp
  from wp_move_locked [OF this, of s t]
  have body: "wp (move_locked s t)
     (\<lambda>r L'. if res_success r
        then \<exists>b x y. dict_get (lib_slots L) s = Some x \<and> slot_barcode x = Some b \<and> dict_get (lib_slots L) t = Some y
          \<and> slot_barcode y = None \<and> r = Op_result True ''moved'' (Some b) [(''source'', s), (''target'', t)]
          \<and> media L' = media (move_result s t b L)
        else media L' = media L) (\<lambda>e L'. media L' = media L) ?L1"
    by (rule wp_mono) (auto simp: m media_result [OF m])
  then show ?thesis
    by (auto simp: move_def wp_rules maybe_fail_def sleepM_def leave_changer_def elim!: wp_mono)
qed

section \<open>Adding, removing and exporting cartridges\<close>

lemma wp_add_cartridge:
  assumes "lib_inv L"
  shows "wp (add_cartridge s c)
     (\<lambda>_ L'. \<exists>b. mk_barcode c = Inr b \<and> occ L (Loc_slot s) = None \<and> s \<in> dom (dict_get (lib_slots L)) \<and> (\<forall>l. occ L l \<noteq> Some b)
        \<and> lib_inv L' \<and> occ L' = (occ L)(Loc_slot s := Some b)
        \<and> dict_get (cartridge_states L') = (dict_get (cartridge_states L))(b \<mapsto> CS_IN_SLOT))
     (\<lambda>e L'. L' = L \<and> e \<notin> check_excs) L"
proof -
  have k: "keys_ok L" using assms by (simp add: lib_inv_def)
  have "lib_inv (set_cartridge_state b CS_IN_SLOT (set_slot_barcode s (Some b) L))"
    if "dict_get (lib_slots L) s = Some sl" "slot_barcode sl = None" "location_count b L = 0" "mk_barcode c = Inr b" for sl b
    using that assms phys_inv_add [of "occ L" "dict_get (cartridge_states L)" b "Loc_slot s" CS_IN_SLOT]
      location_count_zero [OF k, of b]
    by (auto simp: lib_inv_def occ_simps mk_barcode_Inr)
  with lib_inv_validates show ?thesis
    using location_count_zero [OF k]
    by (auto simp: add_cartridge_def wp_rules occ_simps check_excs_def mk_barcode_Inl split: option.splits sum.splits)
qed

lemma wp_remove_cartridge:
  assumes "lib_inv L"
  shows "wp (remove_cartridge s)
     (\<lambda>b L'. occ L (Loc_slot s) = Some b \<and> lib_inv L' \<and> occ L' = (occ L)(Loc_slot s := None)
        \<and> dict_get (cartridge_states L') = (dict_get (cartridge_states L))(b := None))
     (\<lambda>e L'. L' = L \<and> e \<in> {KeyError, SlotEmptyError}) L"
proof -
  have "lib_inv (pop_cartridge_state b (set_slot_barcode s None L))"
    if "dict_get (lib_slots L) s = Some sl" "slot_barcode sl = Some b" for sl b
    using that assms phys_inv_remove [of "occ L" "dict_get (cartridge_states L)" "Loc_slot s" b]
    by (simp add: lib_inv_def occ_simps)
  with lib_inv_validates show ?thesis
    by (auto simp: remove_cartridge_def wp_rules occ_simps split: option.splits sum.splits)
qed

text \<open>What \<open>export_cartridge\<close> does: the cartridge leaves its element, wherever it is, and a known
  cartridge is recorded as exported.\<close>

definition exported :: "string \<Rightarrow> mock_library \<Rightarrow> mock_library \<Rightarrow> bool" where
  "exported b L L' \<longleftrightarrow> lib_inv L' \<and> occ L' = (\<lambda>l. if occ L l = Some b then None else occ L l)
     \<and> dict_get (cartridge_states L') =
         (dict_get (cartridge_states L))(b := map_option (\<lambda>_. CS_EXPORTED) (dict_get (cartridge_states L) b))"

lemma exported_hit:
  assumes "lib_inv L" and "occ L l = Some b" and "occ L' = (occ L)(l := None)"
    and "dict_get (cartridge_states L') = (dict_get (cartridge_states L))(b \<mapsto> CS_EXPORTED)"
    and "keys_ok L'" and "ids_ok L'"
  shows "exported b L L'"
proof -
  have p: "phys_inv (occ L) (dict_get (cartridge_states L))" using assms(1) by (simp add: lib_inv_def)
  have "lib_inv L'" using assms phys_inv_export [OF p assms(2)] by (simp add: lib_inv_def)
  moreover have "occ L' = (\<lambda>l'. if occ L l' = Some b then None else occ L l')"
  proof
    fix l'
    have "occ L l' \<noteq> Some b" if "l' \<noteq> l" using phys_unique [OF p assms(2), of l'] that by blast
    then show "occ L' l' = (if occ L l' = Some b then None else occ L l')"
      by (cases "l' = l") (simp_all add: assms(2,3) del: occ.simps)
  qed
  moreover obtain st where "dict_get (cartridge_states L) b = Some st" using phys_state [OF p assms(2)] by blast
  ultimately show ?thesis by (simp only: exported_def assms(4) option.map)
qed

lemma exported_miss:
  assumes "lib_inv L" and "\<forall>l. occ L l \<noteq> Some b"
  shows "exported b L (if b \<in> set (dict_keys (cartridge_states L)) then set_cartridge_state b CS_EXPORTED L else L)"
proof (cases "dict_get (cartridge_states L) b")
  case None
  then have "b \<notin> set (dict_keys (cartridge_states L))" by (simp add: map_of_eq_None_iff)
  with None assms show ?thesis by (simp add: exported_def fun_eq_iff)
next
  case (Some st)
  then have "b \<in> set (dict_keys (cartridge_states L))" by (force dest: map_of_SomeD)
  moreover have "lib_inv (set_cartridge_state b CS_EXPORTED L)"
    using assms(1) phys_inv_export_absent [of "occ L" "dict_get (cartridge_states L)", OF _ assms(2) Some] by (simp add: lib_inv_def occ_simps)
  ultimately show ?thesis using Some assms(2) by (simp add: exported_def occ_simps fun_eq_iff)
qed

lemma exported_slot:
  assumes "lib_inv L" and "dict_get (lib_slots L) k = Some sl" and "occ L (Loc_slot k) = Some b"
  shows "exported b L (set_cartridge_state b CS_EXPORTED (set_slot_barcode k None L))"
  by (rule exported_hit [OF assms(1,3)]) (use assms in \<open>simp_all add: lib_inv_def occ_simps del: occ.simps\<close>)

lemma exported_ie:
  assumes "lib_inv L" and "dict_get (lib_ie_slots L) k = Some sl" and "occ L (Loc_ie k) = Some b"
  shows "exported b L (set_cartridge_state b CS_EXPORTED (set_ie_barcode k None L))"
  by (rule exported_hit [OF assms(1,3)]) (use assms in \<open>simp_all add: lib_inv_def occ_simps del: occ.simps\<close>)

lemma exported_drive:
  assumes "lib_inv L" and "dict_get (lib_drives L) k = Some dr" and "occ L (Loc_drive k) = Some b"
  shows "exported b L (set_cartridge_state b CS_EXPORTED (set_drive k None DS_EMPTY MS_UNMOUNTED L))"
  by (rule exported_hit [OF assms(1,3)])
     (use assms in \<open>simp_all add: lib_inv_def occ_simps drive_ok_def del: occ.simps\<close>)

lemma wp_export_cartridge:
  assumes "lib_inv L"
  shows "wp (export_cartridge b) (\<lambda>_. exported b L) (\<lambda>_ _. False) L"
proof -
  have k: "keys_ok L" using assms by (simp add: lib_inv_def)
  have no: "\<forall>l. occ L l \<noteq> Some b"
    if "List.find (\<lambda>(k, sl). slot_barcode sl = Some b) (lib_slots L) = None"
      "List.find (\<lambda>(k, sl). slot_barcode sl = Some b) (lib_ie_slots L) = None"
      "List.find (\<lambda>(k, dr). drive_barcode dr = Some b) (lib_drives L) = None"
    using find_slot_occ(2) [OF k that(1)] find_ie_occ(2) [OF k that(2)] find_drive_occ(2) [OF k that(3)]
    by (intro allI, rename_tac l, case_tac l) blast+
  show ?thesis
    unfolding export_cartridge_def wp_modify
  proof (split option.split, intro conjI impI allI; (split prod.split, intro allI impI)?)
    fix p k' sl assume "List.find (\<lambda>(k, sl). slot_barcode sl = Some b) (lib_slots L) = Some p" "p = (k', sl)"
    then show "exported b L (set_cartridge_state b CS_EXPORTED (set_slot_barcode k' None L))"
      using find_slot_occ(1) [OF k] exported_slot [OF assms] by blast
  next
    assume n1: "List.find (\<lambda>(k, sl). slot_barcode sl = Some b) (lib_slots L) = None"
    show "exported b L (case List.find (\<lambda>(k, sl). slot_barcode sl = Some b) (lib_ie_slots L) of
           Some (k, sl) \<Rightarrow> set_cartridge_state b CS_EXPORTED (set_ie_barcode k None L)
         | None \<Rightarrow>
          (case List.find (\<lambda>(k, dr). drive_barcode dr = Some b) (lib_drives L) of
             Some (k, dr) \<Rightarrow> set_cartridge_state b CS_EXPORTED (set_drive k None DS_EMPTY MS_UNMOUNTED L)
           | None \<Rightarrow>
               (if b \<in> set (dict_keys (cartridge_states L)) then set_cartridge_state b CS_EXPORTED L else L)))"
    proof (cases "List.find (\<lambda>(k, sl). slot_barcode sl = Some b) (lib_ie_slots L)")
      case (Some p)
      then show ?thesis using find_ie_occ(1) [OF k] exported_ie [OF assms] by (cases p) fastforce
    next
      case n2: None
      show ?thesis
      proof (cases "List.find (\<lambda>(k, dr). drive_barcode dr = Some b) (lib_drives L)")
        case None
        then show ?thesis using exported_miss [OF assms no [OF n1 n2 None]] n2 by (simp only: option.case)
      next
        case (Some p)
        then show ?thesis using n2 find_drive_occ(1) [OF k] exported_drive [OF assms] by (cases p) fastforce
      qed
    qed
  qed
qed

section \<open>Mount state, reset and seeding\<close>

lemma wp_set_drive_mount_state:
  assumes "lib_inv L"
  shows "wp (set_drive_mount_state d ms)
     (\<lambda>_ L'. lib_inv L' \<and> occ L' = occ L \<and> cartridge_states L' = cartridge_states L
        \<and> (\<exists>dr ds. dict_get (lib_drives L) d = Some dr \<and> (ds = DS_BUSY \<longleftrightarrow> ms \<noteq> MS_UNMOUNTED)
             \<and> L' = set_drive d (drive_barcode dr) ds ms L))
     (\<lambda>e L'. L' = L \<and> e \<in> {KeyError, InvalidStateTransitionError}) L"
proof -
  have res: "lib_inv (set_drive d (drive_barcode dr) ds ms L) \<and> occ (set_drive d (drive_barcode dr) ds ms L) = occ L"
    if "dict_get (lib_drives L) d = Some dr" and "drive_ok (dr\<lparr>drive_state := ds, drive_mount_state := ms\<rparr>)" for dr ds
  proof -
    have o: "occ (set_drive d (drive_barcode dr) ds ms L) = occ L"
      by (rule ext, rename_tac l, case_tac l) (use that in \<open>auto simp: set_drive_def dict_simps\<close>)
    show ?thesis using assms that by (auto simp: lib_inv_def occ_simps o drive_ok_def)
  qed
  show ?thesis
  proof (cases "dict_get (lib_drives L) d")
    case None
    then show ?thesis by (simp add: set_drive_mount_state_def wp_rules)
  next
    case (Some dr)
    then have "drive_ok dr" using assms by (simp add: lib_inv_def ids_ok_def)
    then show ?thesis
      using Some res [OF Some, of DS_BUSY] res [OF Some, of DS_LOADED] res [OF Some, of DS_EMPTY] lib_inv_validates
      by (cases ms) (auto simp: set_drive_mount_state_def wp_rules drive_ok_def states_set)
  qed
qed

lemma phys_inv_empty: "(\<And>l. oc l = None) \<Longrightarrow> phys_inv oc Map.empty"
  by (simp add: phys_inv_def)

lemma wp_reset:
  assumes "lib_inv L"
  shows "wp reset (\<lambda>_ L'. lib_inv L' \<and> (\<forall>l. occ L' l = None) \<and> cartridge_states L' = []
       \<and> dict_keys (lib_slots L') = dict_keys (lib_slots L)) (\<lambda>_ _. False) L"
  unfolding reset_def wp_modify
proof (intro conjI allI)
  let ?L = "L\<lparr>
     lib_slots := map (\<lambda>(k, sl). (k, sl\<lparr>slot_barcode := None\<rparr>)) (lib_slots L),
     lib_ie_slots := map (\<lambda>(k, sl). (k, sl\<lparr>slot_barcode := None\<rparr>)) (lib_ie_slots L),
     lib_drives := map (\<lambda>(k, dr). (k, dr\<lparr>drive_barcode := None, drive_state := DS_EMPTY,
                                            drive_mount_state := MS_UNMOUNTED\<rparr>)) (lib_drives L),
     cartridge_states := [],
     lib_changer := CH_IDLE\<rparr>"
  show o: "occ ?L l = None" for l by (cases l) (simp_all add: dict_simps option.map_comp Option.bind_map_option o_def)
  have "keys_ok ?L" using assms by (simp add: lib_inv_def keys_ok_def dict_simps del: map_map)
  moreover have "ids_ok ?L"
    using assms unfolding lib_inv_def ids_ok_def by (auto simp: dict_simps drive_ok_def)
  moreover have "phys_inv (occ ?L) (dict_get (cartridge_states ?L))"
    using phys_inv_empty [of "occ ?L", OF o] by simp
  ultimately show "lib_inv ?L" by (simp only: lib_inv_def)
qed (simp_all add: dict_simps del: map_map)

lemma wp_seed_slots:
  assumes "lib_inv L"
  shows "wp (seed_slots bs) (\<lambda>_. lib_inv) (\<lambda>e L'. lib_inv L' \<and> e \<notin> check_excs) L"
proof -
  have "wp (forM ps (\<lambda>(sid, b). add_cartridge sid b)) (\<lambda>_. lib_inv) (\<lambda>e L'. lib_inv L' \<and> e \<notin> check_excs) L1"
    if "lib_inv L1" for ps L1
    by (rule wp_forM [where I = lib_inv, OF that]) (auto intro: wp_mono [OF wp_add_cartridge])
  then show ?thesis
    unfolding seed_slots_def wp_then wp_bind wp_gets
    by (intro wp_mono [OF wp_reset [OF assms]]) simp_all
qed

section \<open>Every operation keeps the invariant\<close>

lemma lib_inv_if_media: "media L' = media (R :: mock_library) \<Longrightarrow> lib_inv R \<Longrightarrow> lib_inv L'"
  using media_eqD(6) by blast

lemma keeps_load: "keeps lib_inv (load s d)"
  by (rule keepsI_wp, rule wp_mono, erule load_media)
     (auto intro: lib_inv_if_media load_result_inv(2))

lemma keeps_unload: "keeps lib_inv (unload d s)"
  by (rule keepsI_wp, rule wp_mono, erule unload_media)
     (auto intro: lib_inv_if_media unload_result_inv(2))

lemma keeps_move: "keeps lib_inv (move s t)"
  by (rule keepsI_wp, rule wp_mono, erule move_media)
     (auto intro: lib_inv_if_media move_result_inv(2) split: if_splits)

lemma keeps_import: "keeps lib_inv (import_cartridge i t)"
  by (rule keepsI_wp, rule wp_mono, erule import_media)
     (auto intro: lib_inv_if_media import_result_inv(2))

lemma keeps_export_to_ie: "keeps lib_inv (export_cartridge_to_ie s i)"
  by (rule keepsI_wp, rule wp_mono, erule export_to_ie_media)
     (auto intro: lib_inv_if_media export_result_inv(2))

lemma keeps_add_cartridge: "keeps lib_inv (add_cartridge s c)"
  by (rule keepsI_wp, rule wp_mono, erule wp_add_cartridge) auto

lemma keeps_remove_cartridge: "keeps lib_inv (remove_cartridge s)"
  by (rule keepsI_wp, rule wp_mono, erule wp_remove_cartridge) auto

lemma keeps_export_cartridge: "keeps lib_inv (export_cartridge b)"
  by (rule keepsI_wp, rule wp_mono, erule wp_export_cartridge) (auto simp: exported_def)

lemma keeps_set_drive_mount_state: "keeps lib_inv (set_drive_mount_state d ms)"
  by (rule keepsI_wp, rule wp_mono, erule wp_set_drive_mount_state) auto

lemma keeps_reset: "keeps lib_inv reset"
  by (rule keepsI_wp, rule wp_mono, erule wp_reset) auto

lemma keeps_seed_slots: "keeps lib_inv (seed_slots bs)"
  by (rule keepsI_wp, rule wp_mono, erule wp_seed_slots) auto

lemmas keeps_library = keeps_load keeps_unload keeps_move keeps_import keeps_export_to_ie keeps_add_cartridge
  keeps_remove_cartridge keeps_export_cartridge keeps_set_drive_mount_state keeps_reset keeps_seed_slots

lemma lib_inv_mk_library: "lib_inv (mk_library env lid ns nd delay cfg fi nie)"
proof -
  let ?L = "mk_library env lid ns nd delay cfg fi nie"
  have g: "dict_get (map (\<lambda>i. (i, f i)) xs) k = (if k \<in> set xs then Some (f k) else None)" for f :: "int \<Rightarrow> 'a" and xs k
    by (induction xs) auto
  have o: "occ ?L l = None" for l by (cases l) (simp_all add: mk_library_def g)
  have "keys_ok ?L" by (simp add: keys_ok_def mk_library_def o_def)
  moreover have "ids_ok ?L" unfolding ids_ok_def by (simp add: mk_library_def g drive_ok_def split: if_splits)
  moreover have "phys_inv (occ ?L) (dict_get (cartridge_states ?L))"
    using phys_inv_empty [of "occ ?L", OF o] by (simp add: mk_library_def)
  ultimately show ?thesis by (simp only: lib_inv_def)
qed

section \<open>The library as a state machine\<close>

text \<open>The calls of a client, and the states they lead to. \<open>seed_import_export_slots\<close> is not a call of
  this machine: it replaces the mailslot without regard to the rest and checks afterwards.\<close>

datatype lib_call =
    Call_reset
  | Call_seed_slots "string list"
  | Call_add_cartridge int string
  | Call_remove_cartridge int
  | Call_load int int
  | Call_unload int int
  | Call_move int int
  | Call_set_drive_mount_state int mount_state
  | Call_export_cartridge string
  | Call_import_cartridge int int
  | Call_export_cartridge_to_ie int int

fun run_call :: "lib_call \<Rightarrow> mock_library \<Rightarrow> mock_library" where
  "run_call Call_reset L = snd (reset L)"
| "run_call (Call_seed_slots bs) L = snd (seed_slots bs L)"
| "run_call (Call_add_cartridge s b) L = snd (add_cartridge s b L)"
| "run_call (Call_remove_cartridge s) L = snd (remove_cartridge s L)"
| "run_call (Call_load s d) L = snd (load s d L)"
| "run_call (Call_unload d s) L = snd (unload d s L)"
| "run_call (Call_move s t) L = snd (move s t L)"
| "run_call (Call_set_drive_mount_state d ms) L = snd (set_drive_mount_state d ms L)"
| "run_call (Call_export_cartridge b) L = snd (export_cartridge b L)"
| "run_call (Call_import_cartridge i t) L = snd (import_cartridge i t L)"
| "run_call (Call_export_cartridge_to_ie s i) L = snd (export_cartridge_to_ie s i L)"

inductive lib_reachable :: "mock_library \<Rightarrow> mock_library \<Rightarrow> bool" for L0 where
  start: "lib_reachable L0 L0"
| step: "lib_reachable L0 L \<Longrightarrow> lib_reachable L0 (run_call c L)"

lemma run_call_inv: "lib_inv L \<Longrightarrow> lib_inv (run_call c L)"
  by (cases c) (use keeps_library in \<open>auto simp: keeps_def\<close>)

lemma reachable_inv: "lib_reachable L0 L \<Longrightarrow> lib_inv L0 \<Longrightarrow> lib_inv L"
  by (induction rule: lib_reachable.induct) (simp_all add: run_call_inv)

subsection \<open>The changer lock\<close>

definition changer_free :: "mock_library \<Rightarrow> bool" where
  "changer_free L \<longleftrightarrow> \<not> changer_locked L \<and> lib_changer L = CH_IDLE"

lemma changer_free_set [simp]:
  "changer_free (set_slot_barcode k b L) = changer_free L"
  "changer_free (set_ie_barcode k b L) = changer_free L"
  "changer_free (set_drive k b ds ms L) = changer_free L"
  "changer_free (set_cartridge_state c st L) = changer_free L"
  "changer_free (pop_cartridge_state c L) = changer_free L"
  "changer_free (L\<lparr>lib_injector := x\<rparr>) = changer_free L"
  by (auto simp: changer_free_def set_slot_barcode_def set_ie_barcode_def set_drive_def set_cartridge_state_def
      pop_cartridge_state_def split: option.splits)

lemma keeps_validate_invariantsM [keeps_intros]: "keeps I validate_invariantsM"
  by (simp add: validate_invariantsM_def keeps_query)

lemma keeps_lib_injected [keeps_intros]: "keeps changer_free (lib_maybe_raise_injected_fault ft t)"
  unfolding lib_maybe_raise_injected_fault_def
  by (rule keepsI_wp, rule wp_maybe_raise_injected_fault) simp_all

lemma keeps_changer_bracket [keeps_intros]:
  "keeps changer_free (thenM enter_changer (finallyM body leave_changer))"
proof (rule keepsI_wp)
  fix L assume "changer_free L"
  moreover have "wp body (\<lambda>_ _. True) (\<lambda>_ _. True) L1" for L1
    by (simp add: wp_def split: prod.splits sum.splits)
  ultimately show "wp (thenM enter_changer (finallyM body leave_changer)) (\<lambda>_. changer_free) (\<lambda>_. changer_free) L"
    by (simp add: wp_rules leave_changer_def changer_free_def)
qed

lemma run_call_changer_free: "changer_free L \<Longrightarrow> changer_free (run_call c L)"
proof -
  assume L: "changer_free L"
  have add: "keeps changer_free (add_cartridge s b)" for s b
    unfolding add_cartridge_def by (intro keeps_intros) simp_all
  have reset: "keeps changer_free reset"
    unfolding reset_def by (rule keeps_modify) (simp add: changer_free_def)
  have seed: "keeps changer_free (seed_slots bs)" for bs
    unfolding seed_slots_def by (auto intro!: keeps_intros add reset)
  have rem: "keeps changer_free (remove_cartridge s)" for s
    unfolding remove_cartridge_def by (intro keeps_intros) simp_all
  have mnt: "keeps changer_free (set_drive_mount_state d ms)" for d ms
    unfolding set_drive_mount_state_def by (intro keeps_intros) simp_all
  have exp: "keeps changer_free (export_cartridge b)" for b
    unfolding export_cartridge_def by (rule keeps_modify) (simp split: option.splits)
  have moves: "keeps changer_free (load s d)" "keeps changer_free (unload s d)" "keeps changer_free (move s d)"
    "keeps changer_free (import_cartridge s d)" "keeps changer_free (export_cartridge_to_ie s d)" for s d
    unfolding load_def unload_def move_def import_cartridge_def export_cartridge_to_ie_def
    by (intro keeps_intros)+
  show ?thesis
    by (cases c) (use L add reset seed rem mnt exp moves in \<open>simp_all add: keeps_def\<close>)
qed

lemma reachable_changer_free: "lib_reachable L0 L \<Longrightarrow> changer_free L0 \<Longrightarrow> changer_free L"
  by (induction rule: lib_reachable.induct) (simp_all add: run_call_changer_free)

section \<open>Properties\<close>

text \<open>A library with one cartridge in slot 1, for the witnesses.\<close>

definition demo_library :: mock_library where
  "demo_library = run_call (Call_add_cartridge 1 ''OB0001L8'') (mk_library None ''LIB'' 2 1 None None None 1)"

lemma demo_reachable: "lib_reachable (mk_library None ''LIB'' 2 1 None None None 1) demo_library"
  unfolding demo_library_def by (intro lib_reachable.intros)

lemma demo_inv: "lib_inv demo_library"
  by (rule reachable_inv [OF demo_reachable lib_inv_mk_library])



text \<open>A load either returns, and then the named slot held a cartridge and the drive was empty and
  not failed, exactly that cartridge is now in that drive (loaded and unmounted), every other element
  is as before and the invariant holds; or it raises, and then no element, drive or cartridge state
  has changed.\<close>

theorem load_spec:
  assumes "lib_inv L"
  shows "wp (load s d)
     (\<lambda>r L'. \<exists>b. occ L (Loc_slot s) = Some b \<and> occ L (Loc_drive d) = None
        \<and> r = Op_result True ''loaded'' (Some b) [(''drive'', d)]
        \<and> occ L' = (occ L)(Loc_slot s := None, Loc_drive d := Some b)
        \<and> get_drive d L' = Inr \<lparr>dv_drive_id = d, dv_barcode = Some b, dv_drive_state = DS_LOADED, dv_mount_state = MS_UNMOUNTED\<rparr>
        \<and> dict_get (cartridge_states L') = (dict_get (cartridge_states L))(b \<mapsto> CS_IN_DRIVE)
        \<and> lib_inv L')
     (\<lambda>e L'. media L' = media L) L"
proof (rule wp_mono [OF load_media [OF assms]])
  fix r L'
  assume "\<exists>b x y. dict_get (lib_slots L) s = Some x \<and> slot_barcode x = Some b \<and> dict_get (lib_drives L) d = Some y
     \<and> drive_barcode y = None \<and> drive_state y \<noteq> DS_FAILED
     \<and> r = Op_result True ''loaded'' (Some b) [(''drive'', d)] \<and> media L' = media (load_result s d b L)"
  then obtain b x y where h: "dict_get (lib_slots L) s = Some x" "slot_barcode x = Some b"
    "dict_get (lib_drives L) d = Some y" "drive_barcode y = None"
    and r: "r = Op_result True ''loaded'' (Some b) [(''drive'', d)]" and m: "media L' = media (load_result s d b L)"
    by blast
  note res = load_result_inv [OF assms h]
  have "drive_id y = d" using assms h(3) by (simp add: lib_inv_def ids_ok_def)
  then have "get_drive d L' = Inr \<lparr>dv_drive_id = d, dv_barcode = Some b, dv_drive_state = DS_LOADED, dv_mount_state = MS_UNMOUNTED\<rparr>"
    using h(3) by (simp add: get_drive_def dict_index_def media_eqD(3) [OF m] load_result_def occ_simps drive_status_def)
  moreover have "dict_get (cartridge_states L') = (dict_get (cartridge_states L))(b \<mapsto> CS_IN_DRIVE)"
    by (simp add: media_eqD(4) [OF m] load_result_def occ_simps)
  moreover have "occ L' = (occ L)(Loc_slot s := None, Loc_drive d := Some b)" "lib_inv L'"
    using res by (simp_all only: media_eqD(5,6) [OF m])
  ultimately show "\<exists>b. occ L (Loc_slot s) = Some b \<and> occ L (Loc_drive d) = None
        \<and> r = Op_result True ''loaded'' (Some b) [(''drive'', d)]
        \<and> occ L' = (occ L)(Loc_slot s := None, Loc_drive d := Some b)
        \<and> get_drive d L' = Inr \<lparr>dv_drive_id = d, dv_barcode = Some b, dv_drive_state = DS_LOADED, dv_mount_state = MS_UNMOUNTED\<rparr>
        \<and> dict_get (cartridge_states L') = (dict_get (cartridge_states L))(b \<mapsto> CS_IN_DRIVE)
        \<and> lib_inv L'"
    using h r by (intro exI [of _ b]) simp
qed

theorem load_spec_witness: "\<exists>L'. load 1 0 demo_library = (Inr (Op_result True ''loaded'' (Some ''OB0001L8'') [(''drive'', 0)]), L')
    \<and> lib_inv L' \<and> occ L' (Loc_drive 0) = Some ''OB0001L8''"
proof -
  have "fst (load 1 0 demo_library) = Inr (Op_result True ''loaded'' (Some ''OB0001L8'') [(''drive'', 0)])"
    by code_simp
  then show ?thesis using load_spec [OF demo_inv, of 1 0] by (cases "load 1 0 demo_library") (auto simp: wp_def simp del: occ.simps)
qed

text \<open>C2. An unload returns only when the drive's volume is unmounted, and puts its cartridge into the
  empty slot named; when it raises, no element, drive or cartridge state has changed. In particular a
  mounted (or dirty) tape cannot leave its drive this way.\<close>

theorem unload_spec:
  assumes "lib_inv L"
  shows "wp (unload d s)
     (\<lambda>r L'. \<exists>b v. get_drive d L = Inr v \<and> dv_barcode v = Some b \<and> dv_mount_state v = MS_UNMOUNTED
        \<and> occ L (Loc_slot s) = None
        \<and> r = Op_result True ''unloaded'' (Some b) [(''slot'', s)]
        \<and> occ L' = (occ L)(Loc_drive d := None, Loc_slot s := Some b)
        \<and> dict_get (cartridge_states L') = (dict_get (cartridge_states L))(b \<mapsto> CS_IN_SLOT)
        \<and> lib_inv L')
     (\<lambda>e L'. media L' = media L) L"
proof (rule wp_mono [OF unload_media [OF assms]])
  fix r L'
  assume "\<exists>b x y. dict_get (lib_drives L) d = Some x \<and> drive_barcode x = Some b \<and> dict_get (lib_slots L) s = Some y
     \<and> slot_barcode y = None \<and> can_unload_drive (drive_state x) (drive_mount_state x)
     \<and> r = Op_result True ''unloaded'' (Some b) [(''slot'', s)] \<and> media L' = media (unload_result d s b L)"
  then obtain b x y where h: "dict_get (lib_drives L) d = Some x" "drive_barcode x = Some b"
    "dict_get (lib_slots L) s = Some y" "slot_barcode y = None"
    and c: "can_unload_drive (drive_state x) (drive_mount_state x)"
    and r: "r = Op_result True ''unloaded'' (Some b) [(''slot'', s)]" and m: "media L' = media (unload_result d s b L)"
    by blast
  have "dict_get (cartridge_states L') = (dict_get (cartridge_states L))(b \<mapsto> CS_IN_SLOT)"
    by (simp add: media_eqD(4) [OF m] unload_result_def occ_simps)
  moreover have "occ L' = (occ L)(Loc_drive d := None, Loc_slot s := Some b)" "lib_inv L'"
    using unload_result_inv [OF assms h] by (simp_all only: media_eqD(5,6) [OF m])
  ultimately show "\<exists>b v. get_drive d L = Inr v \<and> dv_barcode v = Some b \<and> dv_mount_state v = MS_UNMOUNTED
        \<and> occ L (Loc_slot s) = None \<and> r = Op_result True ''unloaded'' (Some b) [(''slot'', s)]
        \<and> occ L' = (occ L)(Loc_drive d := None, Loc_slot s := Some b)
        \<and> dict_get (cartridge_states L') = (dict_get (cartridge_states L))(b \<mapsto> CS_IN_SLOT) \<and> lib_inv L'"
    using h r c
    by (intro exI [of _ b] exI [of _ "drive_status x"])
       (simp add: get_drive_def dict_index_def drive_status_def can_unload_drive_def)
qed

definition demo_loaded :: mock_library where
  "demo_loaded = run_call (Call_load 1 0) demo_library"

lemma demo_loaded_inv: "lib_inv demo_loaded"
  unfolding demo_loaded_def by (rule run_call_inv [OF demo_inv])

theorem unload_spec_witness: "\<exists>L'. unload 0 2 demo_loaded = (Inr (Op_result True ''unloaded'' (Some ''OB0001L8'') [(''slot'', 2)]), L')
    \<and> lib_inv L' \<and> occ L' (Loc_slot 2) = Some ''OB0001L8''"
proof -
  have "fst (unload 0 2 demo_loaded) = Inr (Op_result True ''unloaded'' (Some ''OB0001L8'') [(''slot'', 2)])"
    by code_simp
  then show ?thesis using unload_spec [OF demo_loaded_inv, of 0 2] by (cases "unload 0 2 demo_loaded") (auto simp: wp_def simp del: occ.simps)
qed

text \<open>A load that returned can be undone: unloading the drive into the slot it came from, when that
  returns, restores the contents of every element.\<close>

theorem load_unload_roundtrip:
  assumes "lib_inv L" and "load s d L = (Inr r, L1)" and "unload d s L1 = (Inr r', L2)"
  shows "occ L2 = occ L \<and> res_barcode r' = res_barcode r"
proof -
  obtain b x y where h: "dict_get (lib_slots L) s = Some x" "slot_barcode x = Some b"
      "dict_get (lib_drives L) d = Some y" "drive_barcode y = None"
    and r: "res_barcode r = Some b" and m: "media L1 = media (load_result s d b L)"
    using wp_returns [OF load_media [OF assms(1)] assms(2)] by auto
  note i1 = load_result_inv(2) [OF assms(1) h, folded media_eqD(6) [OF m]]
  obtain b' x' y' where h': "dict_get (lib_drives L1) d = Some x'" "drive_barcode x' = Some b'"
      "dict_get (lib_slots L1) s = Some y'" "slot_barcode y' = None"
    and r': "res_barcode r' = Some b'" and m': "media L2 = media (unload_result d s b' L1)"
    using wp_returns [OF unload_media [OF i1] assms(3)] by auto
  have "b' = b"
    using h(3) h'(1,2) by (auto simp: media_eqD(3) [OF m] load_result_def occ_simps)
  moreover have "occ L2 = ((occ L)(Loc_slot s := None, Loc_drive d := Some b))(Loc_drive d := None, Loc_slot s := Some b')"
    by (simp only: media_eqD(5) [OF m'] unload_result_inv(1) [OF i1 h'] media_eqD(5) [OF m] load_result_inv(1) [OF assms(1) h])
  ultimately show ?thesis using h r r' by (auto simp: fun_eq_iff)
qed

theorem load_unload_roundtrip_witness:
  "occ (snd (unload 0 1 (snd (load 1 0 demo_library)))) = occ demo_library"
proof -
  have "fst (load 1 0 demo_library) = Inr (Op_result True ''loaded'' (Some ''OB0001L8'') [(''drive'', 0)])"
    and "fst (unload 0 1 (snd (load 1 0 demo_library))) = Inr (Op_result True ''unloaded'' (Some ''OB0001L8'') [(''slot'', 1)])"
    by code_simp+
  then show ?thesis
    using load_unload_roundtrip [OF demo_inv, of 1 0 _ "snd (load 1 0 demo_library)" _ "snd (unload 0 1 (snd (load 1 0 demo_library)))"]
    by (metis prod.collapse)
qed

text \<open>C36. A load is never refused without a reason: without faults, with the changer free and a
  non-negative delay, loading an occupied slot into an empty drive that has not failed returns.\<close>

theorem load_succeeds:
  assumes "lib_inv L" and "lib_injector L = None" and "lib_fault_config L = no_faults" and "changer_free L"
    and "0 \<le> load_delay L" and "occ L (Loc_slot s) = Some b"
    and "get_drive d L = Inr v" and "dv_barcode v = None" and "dv_drive_state v \<noteq> DS_FAILED"
  shows "\<exists>L'. load s d L = (Inr (Op_result True ''loaded'' (Some b) [(''drive'', d)]), L')"
proof -
  obtain sl where sl: "dict_get (lib_slots L) s = Some sl" "slot_barcode sl = Some b"
    using assms(6) by (auto simp: bind_eq_Some_conv)
  obtain dr where dr: "dict_get (lib_drives L) d = Some dr" "drive_barcode dr = None" "drive_state dr \<noteq> DS_FAILED"
    using assms(7-9) by (auto simp: get_drive_def dict_index_def drive_status_def split: option.splits sum.splits)
  have nf: "should_fail no_faults f = False" for f by (simp add: should_fail_def no_faults_def)
  obtain st where st: "dict_get (cartridge_states L) b = Some st" "st \<in> {CS_IN_SLOT, CS_CLEANING}"
    using assms(1) phys_state [of "occ L" _ "Loc_slot s", OF _ assms(6)] by (auto simp: lib_inv_def)
  let ?L1 = "L\<lparr>changer_locked := True, lib_changer := CH_MOVING\<rparr>"
  have "validate_invariants (load_result s d b ?L1) = Inr ()"
    using assms(1) sl dr by (intro lib_inv_validates load_result_inv(2)) simp_all
  then have "wp (load s d) (\<lambda>r L'. r = Op_result True ''loaded'' (Some b) [(''drive'', d)]) (\<lambda>_ _. False) L"
    using assms(2-5) sl dr st
    unfolding load_def lib_maybe_raise_injected_fault_def load_locked_def load_result_def [symmetric]
    by (auto simp: wp_rules maybe_fail_def sleepM_def leave_changer_def nf changer_free_def cartridge_state_or_def
        wp_maybe_raise_none)
  then show ?thesis by (cases "load s d L") (auto simp: wp_def split: sum.splits)
qed

theorem load_succeeds_witness:
  "\<exists>L'. load 1 0 demo_library = (Inr (Op_result True ''loaded'' (Some ''OB0001L8'') [(''drive'', 0)]), L')"
  by (rule load_succeeds [OF demo_inv, where v = "\<lparr>dv_drive_id = 0, dv_barcode = None, dv_drive_state = DS_EMPTY, dv_mount_state = MS_UNMOUNTED\<rparr>"])
     (code_simp, code_simp, unfold changer_free_def, code_simp, code_simp, code_simp, code_simp, simp_all)

text \<open>Looking a barcode up finds the slot it is in, and no slot otherwise; the barcode is normalised
  before the search.\<close>

theorem find_slot_by_barcode_spec:
  assumes "lib_inv L" and "mk_barcode c = Inr b"
  shows "\<exists>r. find_slot_by_barcode c L = Inr r \<and> (\<forall>k. r = Some k \<longleftrightarrow> occ L (Loc_slot k) = Some b)"
proof -
  have k: "keys_ok L" and p: "phys_inv (occ L) (dict_get (cartridge_states L))" using assms(1) by (simp_all add: lib_inv_def)
  show ?thesis
  proof (cases "List.find (\<lambda>(k, sl). slot_barcode sl = Some b) (lib_slots L)")
    case None
    with find_slot_occ(2) [OF k] assms(2) show ?thesis
      by (simp add: find_slot_by_barcode_def slot_of_def del: occ.simps)
  next
    case (Some q)
    obtain j sl where q: "q = (j, sl)" by (cases q)
    have "occ L (Loc_slot j) = Some b" using find_slot_occ(1) [OF k Some [unfolded q]] by blast
    then have "j = k' \<longleftrightarrow> occ L (Loc_slot k') = Some b" for k' using phys_unique [OF p, of "Loc_slot j" b "Loc_slot k'"] by blast
    with Some q assms(2) show ?thesis by (simp add: find_slot_by_barcode_def slot_of_def del: occ.simps)
  qed
qed

theorem find_slot_by_barcode_spec_witness: "find_slot_by_barcode ''ob0001l8'' demo_library = Inr (Some 1)"
proof -
  have "mk_barcode ''ob0001l8'' = Inr ''OB0001L8''" by code_simp
  from find_slot_by_barcode_spec [OF demo_inv this] obtain r where r: "find_slot_by_barcode ''ob0001l8'' demo_library = Inr r"
    "\<forall>k. r = Some k \<longleftrightarrow> occ demo_library (Loc_slot k) = Some ''OB0001L8''" by blast
  moreover have "occ demo_library (Loc_slot 1) = Some ''OB0001L8''" by code_simp
  ultimately show ?thesis by (metis)
qed

end
