(* ===== verification/Sim_Snapshot.thy ===== *)
theory Sim_Snapshot
  imports Sim_Library_Props
begin

text \<open>
  Snapshots of the simulated library: \<open>to_json\<close> and \<open>from_json\<close> of \<open>simulator/library.py\<close>. A document
  is a record with the keys of the code; a key that is read with \<open>.get\<close> is optional. The numbers and
  strings of the document are taken as parsed (\<open>json.loads\<close>).
\<close>

section \<open>Documents\<close>

record slot_json =
  sj_slot_id :: int
  sj_barcode :: "string option"

record drive_json =
  dj_drive_id :: int
  dj_barcode :: "string option"
  dj_drive_state :: string
  dj_mount_state :: string

record library_json =
  lj_library_id :: string
  lj_load_delay :: "rat option"
  lj_fault_config :: "fault_config_json option"
  lj_changer_state :: "string option"
  lj_slots :: "slot_json list"
  lj_import_export_slots :: "slot_json list option"
  lj_drives :: "drive_json list"
  lj_cartridge_states :: "(string, string) dict option"

definition slot_to_json :: "lib_slot \<Rightarrow> slot_json" where
  "slot_to_json sl = \<lparr>sj_slot_id = slot_id sl, sj_barcode = slot_barcode sl\<rparr>"

definition drive_to_json :: "mock_drive \<Rightarrow> drive_json" where
  "drive_to_json dr = \<lparr>dj_drive_id = drive_id dr, dj_barcode = drive_barcode dr,
     dj_drive_state = drive_state_value (drive_state dr), dj_mount_state = mount_state_value (drive_mount_state dr)\<rparr>"

definition library_to_json :: "mock_library \<Rightarrow> library_json" where
  "library_to_json L =
     \<lparr>lj_library_id = library_id L,
      lj_load_delay = Some (load_delay L),
      lj_fault_config = Some (fault_config_to_json (lib_fault_config L)),
      lj_changer_state = Some (changer_state_value (lib_changer L)),
      lj_slots = map slot_to_json (dict_values (lib_slots L)),
      lj_import_export_slots = Some (map slot_to_json (dict_values (lib_ie_slots L))),
      lj_drives = map drive_to_json (dict_values (lib_drives L)),
      lj_cartridge_states = Some (map (\<lambda>(b, st). (b, cartridge_state_value st)) (cartridge_states L))\<rparr>"

definition slot_from_json :: "slot_json \<Rightarrow> exc + (int \<times> lib_slot)" where
  "slot_from_json item =
     bindR (mk_barcode_opt (sj_barcode item)) (\<lambda>b.
       Inr (sj_slot_id item, \<lparr>slot_id = sj_slot_id item, slot_barcode = b\<rparr>))"

definition drive_from_json :: "drive_json \<Rightarrow> exc + (int \<times> mock_drive)" where
  "drive_from_json item =
     bindR (mk_barcode_opt (dj_barcode item)) (\<lambda>b.
     bindR (drive_state_of (dj_drive_state item)) (\<lambda>ds.
     bindR (mount_state_of (dj_mount_state item)) (\<lambda>ms.
       Inr (dj_drive_id item, \<lparr>drive_id = dj_drive_id item, drive_barcode = b, drive_state = ds, drive_mount_state = ms\<rparr>))))"

definition default_drive_states :: "(int, mock_drive) dict \<Rightarrow> cartridge_state \<Rightarrow> (string, cartridge_state) dict \<Rightarrow> (string, cartridge_state) dict" where
  "default_drive_states drs st d =
     foldl (\<lambda>d dr. case drive_barcode dr of None \<Rightarrow> d | Some b \<Rightarrow> dict_setdefault b st d) d (dict_values drs)"

definition library_from_json :: "library_json \<Rightarrow> exc + mock_library" where
  "library_from_json raw =
     bindR (changer_state_of (case lj_changer_state raw of None \<Rightarrow> changer_state_value CH_IDLE | Some v \<Rightarrow> v)) (\<lambda>ch.
     bindR (mapR slot_from_json (lj_slots raw)) (\<lambda>sls.
     bindR (mapR slot_from_json (case lj_import_export_slots raw of None \<Rightarrow> [] | Some xs \<Rightarrow> xs)) (\<lambda>ies.
     bindR (mapR drive_from_json (lj_drives raw)) (\<lambda>drs.
     bindR (mapR (\<lambda>(b, v). bindR (cartridge_state_of v) (\<lambda>st. Inr (b, st)))
              (case lj_cartridge_states raw of None \<Rightarrow> [] | Some d \<Rightarrow> d)) (\<lambda>sts.
     let L = (mk_library None (lj_library_id raw) (int (length (lj_slots raw))) (int (length (lj_drives raw)))
                (Some (case lj_load_delay raw of None \<Rightarrow> 0 | Some d \<Rightarrow> d))
                (Some (fault_config_from_json (lj_fault_config raw))) None 0)
               \<lparr>lib_changer := ch, lib_slots := dict_of sls, lib_ie_slots := dict_of ies, lib_drives := dict_of drs,
                cartridge_states :=
                  default_drive_states (dict_of drs) CS_IN_DRIVE
                    (default_states (dict_of ies) CS_IN_SLOT (default_states (dict_of sls) CS_IN_SLOT sts))\<rparr>
     in bindR (validate_invariants L) (\<lambda>_. Inr L))))))"

section \<open>Round trip\<close>

lemma mk_barcode_opt_pattern: "(\<And>c. b = Some c \<Longrightarrow> barcode_pattern c) \<Longrightarrow> mk_barcode_opt b = Inr b"
  by (auto simp: mk_barcode_opt_def mk_barcode_pattern barcode_pattern_def split: option.splits)

lemma lib_inv_pattern:
  assumes "lib_inv L" and "occ L l = Some b"
  shows "barcode_pattern b"
  using assms phys_occ_pattern by (auto simp: lib_inv_def)

lemma slots_roundtrip:
  assumes "distinct (dict_keys d)" and "\<And>k sl. dict_get d k = Some sl \<Longrightarrow> slot_id sl = k \<and> (\<forall>b. slot_barcode sl = Some b \<longrightarrow> barcode_pattern b)"
  shows "mapR slot_from_json (map slot_to_json (dict_values d)) = Inr d"
proof -
  have "mapR slot_from_json (map slot_to_json (dict_values d)) = Inr (map (\<lambda>x. (sj_slot_id x, \<lparr>slot_id = sj_slot_id x, slot_barcode = sj_barcode x\<rparr>)) (map slot_to_json (dict_values d)))"
  proof (rule mapR_all)
    fix x assume "x \<in> set (map slot_to_json (dict_values d))"
    then obtain k sl where "dict_get d k = Some sl" "x = slot_to_json sl"
      using dict_get_iff_mem [OF assms(1)] by auto
    with assms(2) show "slot_from_json x = Inr (sj_slot_id x, \<lparr>slot_id = sj_slot_id x, slot_barcode = sj_barcode x\<rparr>)"
      by (simp add: slot_from_json_def slot_to_json_def mk_barcode_opt_pattern)
  qed
  moreover have "map (\<lambda>x. (sj_slot_id x, \<lparr>slot_id = sj_slot_id x, slot_barcode = sj_barcode x\<rparr>)) (map slot_to_json (dict_values d)) = d"
    using assms(2) dict_get_iff_mem [OF assms(1)] by (auto simp: slot_to_json_def intro!: map_idI)
  ultimately show ?thesis by simp
qed

lemma drives_roundtrip:
  assumes "distinct (dict_keys d)" and "\<And>k dr. dict_get d k = Some dr \<Longrightarrow> drive_id dr = k \<and> (\<forall>b. drive_barcode dr = Some b \<longrightarrow> barcode_pattern b)"
  shows "mapR drive_from_json (map drive_to_json (dict_values d)) = Inr d"
proof -
  have "mapR (drive_from_json \<circ> drive_to_json) (dict_values d) = Inr (map (\<lambda>dr. (drive_id dr, dr)) (dict_values d))"
  proof (rule mapR_all)
    fix dr assume "dr \<in> set (dict_values d)"
    then obtain k where "dict_get d k = Some dr" using dict_get_iff_mem [OF assms(1)] by auto
    with assms(2) show "(drive_from_json \<circ> drive_to_json) dr = Inr (drive_id dr, dr)"
      by (simp add: drive_from_json_def drive_to_json_def mk_barcode_opt_pattern)
  qed
  moreover have "mapR (drive_from_json \<circ> drive_to_json) xs = mapR drive_from_json (map drive_to_json xs)" for xs
    by (induction xs) simp_all
  moreover have "map (\<lambda>dr. (drive_id dr, dr)) (dict_values d) = d"
    using assms(2) dict_get_iff_mem [OF assms(1)] by (auto intro!: map_idI)
  ultimately show ?thesis by simp
qed

lemma states_roundtrip:
  "mapR (\<lambda>(b, v). bindR (cartridge_state_of v) (\<lambda>st. Inr (b, st))) (map (\<lambda>(b, st). (b, cartridge_state_value st)) d) = Inr d"
  by (induction d) auto

lemma default_states_known:
  assumes "\<And>sl b. sl \<in> set (dict_values sls) \<Longrightarrow> slot_barcode sl = Some b \<Longrightarrow> dict_get d b \<noteq> None"
  shows "default_states sls st d = d"
proof -
  have "foldl (\<lambda>d sl. case slot_barcode sl of None \<Rightarrow> d | Some b \<Rightarrow> dict_setdefault b st d) d xs = d"
    if "\<And>sl b. sl \<in> set xs \<Longrightarrow> slot_barcode sl = Some b \<Longrightarrow> dict_get d b \<noteq> None" for xs
    using that by (induction xs) (force simp: dict_setdefault_def split: option.splits)+
  with assms show ?thesis unfolding default_states_def by blast
qed

lemma default_drive_states_known:
  assumes "\<And>dr b. dr \<in> set (dict_values drs) \<Longrightarrow> drive_barcode dr = Some b \<Longrightarrow> dict_get d b \<noteq> None"
  shows "default_drive_states drs st d = d"
proof -
  have "foldl (\<lambda>d dr. case drive_barcode dr of None \<Rightarrow> d | Some b \<Rightarrow> dict_setdefault b st d) d xs = d"
    if "\<And>dr b. dr \<in> set xs \<Longrightarrow> drive_barcode dr = Some b \<Longrightarrow> dict_get d b \<noteq> None" for xs
    using that by (induction xs) (force simp: dict_setdefault_def split: option.splits)+
  with assms show ?thesis unfolding default_drive_states_def by blast
qed

text \<open>C37. Restoring a snapshot of a library that satisfies the invariant gives back that library: slots,
  import/export elements, drives with their states, cartridge states, changer state, fault
  configuration and delay; the fault injector, which a snapshot does not carry, is gone and the
  changer is free.\<close>

theorem library_snapshot_roundtrip:
  assumes "lib_inv L"
  shows "library_from_json (library_to_json L) = Inr (L\<lparr>lib_injector := None, changer_locked := False\<rparr>)"
proof -
  have k: "keys_ok L" and ids: "ids_ok L" and p: "phys_inv (occ L) (dict_get (cartridge_states L))"
    using assms by (simp_all add: lib_inv_def)
  have st: "dict_get (cartridge_states L) b \<noteq> None" if "occ L l = Some b" for l b
    using phys_state [OF p that] by auto
  have pat: "barcode_pattern b" if "occ L l = Some b" for l b by (rule lib_inv_pattern [OF assms that])
  have pats: "dict_get (lib_slots L) k = Some sl \<Longrightarrow> slot_barcode sl = Some b \<Longrightarrow> barcode_pattern b"
    "dict_get (lib_ie_slots L) k = Some sl \<Longrightarrow> slot_barcode sl = Some b \<Longrightarrow> barcode_pattern b"
    "dict_get (lib_drives L) k = Some dr \<Longrightarrow> drive_barcode dr = Some b \<Longrightarrow> barcode_pattern b" for k sl dr b
    using pat [of "Loc_slot k" b] pat [of "Loc_ie k" b] pat [of "Loc_drive k" b] by simp_all
  have d: "distinct (dict_keys (lib_slots L))" "distinct (dict_keys (lib_ie_slots L))" "distinct (dict_keys (lib_drives L))"
    using k by (simp_all add: keys_ok_def)
  have m: "sl \<in> set (dict_values (lib_slots L)) \<Longrightarrow> slot_barcode sl = Some b \<Longrightarrow> \<exists>k. occ L (Loc_slot k) = Some b"
    "sl \<in> set (dict_values (lib_ie_slots L)) \<Longrightarrow> slot_barcode sl = Some b \<Longrightarrow> \<exists>k. occ L (Loc_ie k) = Some b"
    "dr \<in> set (dict_values (lib_drives L)) \<Longrightarrow> drive_barcode dr = Some b \<Longrightarrow> \<exists>k. occ L (Loc_drive k) = Some b"
    for sl dr b
    using dict_get_iff_mem [OF d(1)] dict_get_iff_mem [OF d(2)] dict_get_iff_mem [OF d(3)]
    by (force simp: bind_eq_Some_conv)+
  have "mapR slot_from_json (map slot_to_json (dict_values (lib_slots L))) = Inr (lib_slots L)"
    by (rule slots_roundtrip [OF d(1)]) (use ids pats in \<open>unfold ids_ok_def, blast\<close>)
  moreover have "mapR slot_from_json (map slot_to_json (dict_values (lib_ie_slots L))) = Inr (lib_ie_slots L)"
    by (rule slots_roundtrip [OF d(2)]) (use ids pats in \<open>unfold ids_ok_def, blast\<close>)
  moreover have "mapR drive_from_json (map drive_to_json (dict_values (lib_drives L))) = Inr (lib_drives L)"
    by (rule drives_roundtrip [OF d(3)]) (use ids pats in \<open>unfold ids_ok_def, blast\<close>)
  moreover have "default_states (lib_slots L) CS_IN_SLOT (cartridge_states L) = cartridge_states L"
    "default_states (lib_ie_slots L) CS_IN_SLOT (cartridge_states L) = cartridge_states L"
    "default_drive_states (lib_drives L) CS_IN_DRIVE (cartridge_states L) = cartridge_states L"
    by (rule default_states_known default_drive_states_known; use m st in blast)+
  moreover have "validate_invariants (L\<lparr>lib_injector := None, changer_locked := False\<rparr>) = Inr ()"
  proof -
    have "locations (L\<lparr>lib_injector := None, changer_locked := False\<rparr>) = locations L"
      by (simp add: locations_def placed_def)
    then show ?thesis using lib_inv_validates [OF assms] by (simp add: validate_invariants_def split: sum.splits)
  qed
  moreover have "mk_library None (library_id L) n m (Some (load_delay L)) (Some (lib_fault_config L)) None 0
      \<lparr>lib_changer := lib_changer L, lib_slots := lib_slots L, lib_ie_slots := lib_ie_slots L, lib_drives := lib_drives L,
       cartridge_states := cartridge_states L\<rparr> = L\<lparr>lib_injector := None, changer_locked := False\<rparr>" for n m
    by (simp add: mk_library_def resolve_load_delay_def)
  ultimately show ?thesis
    by (simp add: library_from_json_def library_to_json_def states_roundtrip dict_of_distinct d Let_def del: map_map)
qed

theorem library_snapshot_roundtrip_witness:
  "library_from_json (library_to_json demo_loaded) = Inr (demo_loaded\<lparr>lib_injector := None, changer_locked := False\<rparr>)"
  by (rule library_snapshot_roundtrip [OF demo_loaded_inv])

end
