(* ===== verification/Lease_Store.thy ===== *)
theory Lease_Store
  imports Domain_Models
begin

text \<open>
  Drive leases: the \<open>DriveLease\<close> of \<open>domain/models.py\<close>, the \<open>LeaseStore\<close> protocol of
  \<open>jobs/scheduler.py\<close> as a record of operations, the process-local \<open>InMemoryLeaseStore\<close>, and the lease
  table of the catalog (\<open>catalog/repository.py\<close>), whose transactions (\<open>BEGIN IMMEDIATE\<close>) are atomic.

  The locale \<open>lease_store\<close> states what a client may rely on: the operations act on the sequence of
  leases ever granted as the table operations do. Mutual exclusion and fencing are proved there once
  and hold for both stores by interpretation. A clock reading is an argument of every operation; fresh
  identifiers (\<open>uuid4\<close>) are a supply \<open>ids\<close>, the \<open>k\<close>-th identifier drawn being \<open>ids k\<close>.
\<close>

section \<open>Leases\<close>

record drive_lease =
  dl_id :: string
  dl_drive_id :: int
  dl_job_id :: string
  dl_barcode :: string
  dl_physical_drive_id :: "int option"
  dl_fencing_token :: int
  dl_acquired_at :: int
  dl_heartbeat_at :: int
  dl_expires_at :: int
  dl_released_at :: "int option"

definition lease_live :: "drive_lease \<Rightarrow> int \<Rightarrow> bool" where
  "lease_live l now \<longleftrightarrow> dl_released_at l = None \<and> dl_expires_at l > now"

definition new_lease :: "string \<Rightarrow> int \<Rightarrow> string \<Rightarrow> string \<Rightarrow> int \<Rightarrow> int \<Rightarrow> int \<Rightarrow> drive_lease" where
  "new_lease lid did job b tok now ttl =
     \<lparr>dl_id = lid, dl_drive_id = did, dl_job_id = job, dl_barcode = b, dl_physical_drive_id = None,
      dl_fencing_token = tok, dl_acquired_at = now, dl_heartbeat_at = now, dl_expires_at = now + ttl,
      dl_released_at = None\<rparr>"

definition free_drives :: "int \<Rightarrow> int \<Rightarrow> int list \<Rightarrow> drive_lease list \<Rightarrow> int list" where
  "free_drives now num_drives exclude ls =
     (let busy = map dl_drive_id (filter (\<lambda>l. lease_live l now) ls)
      in filter (\<lambda>d. d \<notin> set busy \<and> d \<notin> set exclude) [0..num_drives - 1])"

text \<open>The loop that grants leases: the \<open>k\<close>-th identifier and the next token for each pair.\<close>

fun grant :: "(nat \<Rightarrow> string) \<Rightarrow> nat \<Rightarrow> int \<Rightarrow> string \<Rightarrow> int \<Rightarrow> int \<Rightarrow> (int \<times> string) list \<Rightarrow> drive_lease list" where
  "grant ids k now job ttl tok [] = []"
| "grant ids k now job ttl tok ((d, b) # ps) =
     new_lease (ids k) d job b (tok + 1) now ttl # grant ids (Suc k) now job ttl (tok + 1) ps"

section \<open>The lease table of the catalog\<close>

text \<open>\<open>coalesce(max(fencing_token), 0)\<close>\<close>

definition max_token :: "drive_lease list \<Rightarrow> int" where
  "max_token ls = (if ls = [] then 0 else Max (set (map dl_fencing_token ls)))"

definition acquire_drive_leases ::
  "(nat \<Rightarrow> string) \<Rightarrow> int \<Rightarrow> string \<Rightarrow> string list \<Rightarrow> int \<Rightarrow> int \<Rightarrow> int list \<Rightarrow> drive_lease list
     \<Rightarrow> drive_lease list option \<times> drive_lease list" where
  "acquire_drive_leases ids now job barcodes num_drives ttl exclude ls =
     (let free = free_drives now num_drives exclude ls
      in if length free < length barcodes then (None, ls)
         else let rows = grant ids 0 now job ttl (max_token ls) (zip free barcodes)
              in (Some rows, ls @ rows))"

definition acquire_drive_lease_at ::
  "string \<Rightarrow> int \<Rightarrow> string \<Rightarrow> int \<Rightarrow> string \<Rightarrow> int \<Rightarrow> drive_lease list \<Rightarrow> drive_lease option \<times> drive_lease list" where
  "acquire_drive_lease_at lid now job did b ttl ls =
     (let held = length (filter (\<lambda>l. dl_drive_id l = did \<and> lease_live l now) ls)
      in if held \<noteq> 0 then (None, ls)
         else let row = new_lease lid did job b (max_token ls + 1) now ttl in (Some row, ls @ [row]))"

definition heartbeat_leases :: "int \<Rightarrow> string list \<Rightarrow> int \<Rightarrow> drive_lease list \<Rightarrow> drive_lease list" where
  "heartbeat_leases now lease_ids ttl =
     map (\<lambda>l. if dl_id l \<in> set lease_ids \<and> lease_live l now
              then l\<lparr>dl_heartbeat_at := now, dl_expires_at := now + ttl\<rparr> else l)"

definition set_lease_physical_drive :: "string \<Rightarrow> int \<Rightarrow> drive_lease list \<Rightarrow> drive_lease list" where
  "set_lease_physical_drive lid p = map (\<lambda>l. if dl_id l = lid then l\<lparr>dl_physical_drive_id := Some p\<rparr> else l)"

definition release_leases :: "int \<Rightarrow> string list \<Rightarrow> drive_lease list \<Rightarrow> drive_lease list" where
  "release_leases now lease_ids =
     map (\<lambda>l. if dl_id l \<in> set lease_ids \<and> dl_released_at l = None then l\<lparr>dl_released_at := Some now\<rparr> else l)"

definition lease_is_live :: "int \<Rightarrow> string \<Rightarrow> int \<Rightarrow> drive_lease list \<Rightarrow> bool" where
  "lease_is_live now lid tok ls =
     (case List.find (\<lambda>l. dl_id l = lid) ls of
        None \<Rightarrow> False
      | Some l \<Rightarrow> dl_fencing_token l = tok \<and> lease_live l now)"

definition live_leases :: "int \<Rightarrow> drive_lease list \<Rightarrow> drive_lease list" where
  "live_leases now ls = sort_key dl_fencing_token (filter (\<lambda>l. lease_live l now) ls)"

definition expired_leases :: "int \<Rightarrow> drive_lease list \<Rightarrow> drive_lease list" where
  "expired_leases now ls =
     sort_key dl_fencing_token (filter (\<lambda>l. dl_released_at l = None \<and> dl_expires_at l \<le> now) ls)"

definition release_leases_for_job :: "int \<Rightarrow> string \<Rightarrow> drive_lease list \<Rightarrow> nat \<times> drive_lease list" where
  "release_leases_for_job now job ls =
     (length (filter (\<lambda>l. dl_job_id l = job \<and> dl_released_at l = None) ls),
      map (\<lambda>l. if dl_job_id l = job \<and> dl_released_at l = None then l\<lparr>dl_released_at := Some now\<rparr> else l) ls)"

section \<open>The protocol\<close>

record 's store_ops =
  so_acquire :: "(nat \<Rightarrow> string) \<Rightarrow> int \<Rightarrow> string \<Rightarrow> string list \<Rightarrow> int \<Rightarrow> int \<Rightarrow> int list \<Rightarrow> 's \<Rightarrow> drive_lease list option \<times> 's"
  so_acquire_at :: "string \<Rightarrow> int \<Rightarrow> string \<Rightarrow> int \<Rightarrow> string \<Rightarrow> int \<Rightarrow> 's \<Rightarrow> drive_lease option \<times> 's"
  so_unreconciled_drives :: "'s \<Rightarrow> (int, string option) dict"
  so_unreconciled_barcodes :: "'s \<Rightarrow> string list"
  so_heartbeat :: "int \<Rightarrow> string list \<Rightarrow> int \<Rightarrow> 's \<Rightarrow> 's"
  so_set_physical_drive :: "string \<Rightarrow> int \<Rightarrow> 's \<Rightarrow> 's"
  so_release :: "int \<Rightarrow> string list \<Rightarrow> 's \<Rightarrow> 's"
  so_is_live :: "int \<Rightarrow> string \<Rightarrow> int \<Rightarrow> 's \<Rightarrow> bool"
  so_live_leases :: "int \<Rightarrow> 's \<Rightarrow> drive_lease list"

section \<open>The process-local store\<close>

record mem_store =
  ms_unreconciled :: "(int, string option) dict"
  ms_unreconciled_barcode_set :: "string list"
  ms_leases :: "(string, drive_lease) dict"
  ms_last_token :: int

definition mem_init :: mem_store where
  "mem_init = \<lparr>ms_unreconciled = [], ms_unreconciled_barcode_set = [], ms_leases = [], ms_last_token = 0\<rparr>"

definition mem_put :: "drive_lease \<Rightarrow> mem_store \<Rightarrow> mem_store" where
  "mem_put l s = s\<lparr>ms_leases := dict_set (dl_id l) l (ms_leases s)\<rparr>"

fun mem_grant :: "(nat \<Rightarrow> string) \<Rightarrow> nat \<Rightarrow> int \<Rightarrow> string \<Rightarrow> int \<Rightarrow> (int \<times> string) list \<Rightarrow> mem_store \<Rightarrow> drive_lease list \<times> mem_store" where
  "mem_grant ids k now job ttl [] s = ([], s)"
| "mem_grant ids k now job ttl ((d, b) # ps) s =
     (let s1 = s\<lparr>ms_last_token := ms_last_token s + 1\<rparr>;
          l = new_lease (ids k) d job b (ms_last_token s1) now ttl;
          (ls, s2) = mem_grant ids (Suc k) now job ttl ps (mem_put l s1)
      in (l # ls, s2))"

definition mem_acquire ::
  "(nat \<Rightarrow> string) \<Rightarrow> int \<Rightarrow> string \<Rightarrow> string list \<Rightarrow> int \<Rightarrow> int \<Rightarrow> int list \<Rightarrow> mem_store \<Rightarrow> drive_lease list option \<times> mem_store" where
  "mem_acquire ids now job barcodes num_drives ttl exclude s =
     (let free = free_drives now num_drives exclude (dict_values (ms_leases s))
      in if length free < length barcodes then (None, s)
         else let (ls, s') = mem_grant ids 0 now job ttl (zip free barcodes) s in (Some ls, s'))"

definition mem_acquire_at :: "string \<Rightarrow> int \<Rightarrow> string \<Rightarrow> int \<Rightarrow> string \<Rightarrow> int \<Rightarrow> mem_store \<Rightarrow> drive_lease option \<times> mem_store" where
  "mem_acquire_at lid now job did b ttl s =
     (if list_ex (\<lambda>l. dl_drive_id l = did \<and> lease_live l now) (dict_values (ms_leases s)) then (None, s)
      else let s1 = s\<lparr>ms_last_token := ms_last_token s + 1\<rparr>;
               l = new_lease lid did job b (ms_last_token s1) now ttl
           in (Some l, mem_put l s1))"

definition mem_update :: "string \<Rightarrow> (drive_lease \<Rightarrow> bool) \<Rightarrow> (drive_lease \<Rightarrow> drive_lease) \<Rightarrow> mem_store \<Rightarrow> mem_store" where
  "mem_update lid p f s =
     (case dict_get (ms_leases s) lid of
        None \<Rightarrow> s
      | Some l \<Rightarrow> if p l then s\<lparr>ms_leases := dict_set lid (f l) (ms_leases s)\<rparr> else s)"

definition mem_heartbeat :: "int \<Rightarrow> string list \<Rightarrow> int \<Rightarrow> mem_store \<Rightarrow> mem_store" where
  "mem_heartbeat now lease_ids ttl s =
     fold (\<lambda>lid. mem_update lid (\<lambda>l. lease_live l now) (\<lambda>l. l\<lparr>dl_heartbeat_at := now, dl_expires_at := now + ttl\<rparr>)) lease_ids s"

definition mem_set_physical_drive :: "string \<Rightarrow> int \<Rightarrow> mem_store \<Rightarrow> mem_store" where
  "mem_set_physical_drive lid p s = mem_update lid (\<lambda>_. True) (\<lambda>l. l\<lparr>dl_physical_drive_id := Some p\<rparr>) s"

definition mem_release :: "int \<Rightarrow> string list \<Rightarrow> mem_store \<Rightarrow> mem_store" where
  "mem_release now lease_ids s =
     fold (\<lambda>lid. mem_update lid (\<lambda>l. dl_released_at l = None) (\<lambda>l. l\<lparr>dl_released_at := Some now\<rparr>)) lease_ids s"

definition mem_is_live :: "int \<Rightarrow> string \<Rightarrow> int \<Rightarrow> mem_store \<Rightarrow> bool" where
  "mem_is_live now lid tok s =
     (case dict_get (ms_leases s) lid of None \<Rightarrow> False | Some l \<Rightarrow> dl_fencing_token l = tok \<and> lease_live l now)"

definition mem_live_leases :: "int \<Rightarrow> mem_store \<Rightarrow> drive_lease list" where
  "mem_live_leases now s = filter (\<lambda>l. lease_live l now) (dict_values (ms_leases s))"

definition mem_ops :: "mem_store store_ops" where
  "mem_ops = \<lparr>so_acquire = mem_acquire, so_acquire_at = mem_acquire_at, so_unreconciled_drives = ms_unreconciled,
     so_unreconciled_barcodes = ms_unreconciled_barcode_set, so_heartbeat = mem_heartbeat,
     so_set_physical_drive = mem_set_physical_drive, so_release = mem_release, so_is_live = mem_is_live,
     so_live_leases = mem_live_leases\<rparr>"

section \<open>Facts on the table\<close>

lemma max_token_ge: "l \<in> set ls \<Longrightarrow> dl_fencing_token l \<le> max_token ls"
  by (auto simp: max_token_def)

lemma grant_props:
  "map dl_drive_id (grant ids k now job ttl tok ps) = map fst ps"
  "map dl_barcode (grant ids k now job ttl tok ps) = map snd ps"
  "map dl_id (grant ids k now job ttl tok ps) = map ids [k..<k + length ps]"
  "map dl_fencing_token (grant ids k now job ttl tok ps) = [tok + 1..tok + int (length ps)]"
  "l \<in> set (grant ids k now job ttl tok ps) \<Longrightarrow>
     dl_job_id l = job \<and> dl_expires_at l = now + ttl \<and> dl_released_at l = None \<and> dl_acquired_at l = now"
proof -
  show "map dl_drive_id (grant ids k now job ttl tok ps) = map fst ps"
    "map dl_barcode (grant ids k now job ttl tok ps) = map snd ps"
    by (induction ids k now job ttl tok ps rule: grant.induct) (simp_all add: new_lease_def)
  show "map dl_id (grant ids k now job ttl tok ps) = map ids [k..<k + length ps]"
    by (induction ids k now job ttl tok ps rule: grant.induct) (simp_all add: new_lease_def upt_conv_Cons del: upt_Suc)
  show "map dl_fencing_token (grant ids k now job ttl tok ps) = [tok + 1..tok + int (length ps)]"
    by (induction ids k now job ttl tok ps rule: grant.induct) (simp_all add: new_lease_def upto_rec1 add.assoc)
  show "l \<in> set (grant ids k now job ttl tok ps) \<Longrightarrow>
     dl_job_id l = job \<and> dl_expires_at l = now + ttl \<and> dl_released_at l = None \<and> dl_acquired_at l = now"
    by (induction ids k now job ttl tok ps rule: grant.induct) (auto simp: new_lease_def)
qed

lemma free_drives_iff:
  "d \<in> set (free_drives now n ex ls) \<longleftrightarrow> 0 \<le> d \<and> d < n \<and> d \<notin> set ex \<and> (\<forall>l \<in> set ls. dl_drive_id l = d \<longrightarrow> \<not> lease_live l now)"
  by (auto simp: free_drives_def Let_def)

lemma free_drives_distinct: "distinct (free_drives now n ex ls)"
  by (simp add: free_drives_def Let_def)

lemma max_token_append:
  "max_token (ls @ [l]) = (if ls = [] then dl_fencing_token l else max (max_token ls) (dl_fencing_token l))"
  by (auto simp: max_token_def max.commute)

lemma lease_live_antimono: "lease_live l t' \<Longrightarrow> t \<le> t' \<Longrightarrow> lease_live l t"
  by (auto simp: lease_live_def)

section \<open>The contract of a lease store\<close>

text \<open>
  What the clients rely on. \<open>leases\<close> is the sequence of all leases ever granted and \<open>inv\<close> the store's
  representation invariant; every operation acts on \<open>leases\<close> as the table operation does, provided the
  identifiers drawn are new.
\<close>

definition fresh_ids :: "(nat \<Rightarrow> string) \<Rightarrow> drive_lease list \<Rightarrow> bool" where
  "fresh_ids ids ls \<longleftrightarrow> inj ids \<and> (\<forall>k. ids k \<notin> dl_id ` set ls)"

locale lease_store =
  fixes ops :: "'s store_ops" and leases :: "'s \<Rightarrow> drive_lease list" and inv :: "'s \<Rightarrow> bool"
  assumes acquire: "inv s \<Longrightarrow> fresh_ids ids (leases s) \<Longrightarrow> so_acquire ops ids now job bs n ttl ex s = (r, s') \<Longrightarrow>
      acquire_drive_leases ids now job bs n ttl ex (leases s) = (r, leases s') \<and> inv s'"
    and acquire_at: "inv s \<Longrightarrow> lid \<notin> dl_id ` set (leases s) \<Longrightarrow> so_acquire_at ops lid now job d b ttl s = (q, s') \<Longrightarrow>
      acquire_drive_lease_at lid now job d b ttl (leases s) = (q, leases s') \<and> inv s'"
    and heartbeat: "inv s \<Longrightarrow> leases (so_heartbeat ops now lids ttl s) = heartbeat_leases now lids ttl (leases s)
      \<and> inv (so_heartbeat ops now lids ttl s)"
    and set_physical: "inv s \<Longrightarrow> leases (so_set_physical_drive ops lid p s) = set_lease_physical_drive lid p (leases s)
      \<and> inv (so_set_physical_drive ops lid p s)"
    and release: "inv s \<Longrightarrow> leases (so_release ops now lids s) = release_leases now lids (leases s)
      \<and> inv (so_release ops now lids s)"
    and is_live: "inv s \<Longrightarrow> so_is_live ops now lid tok s = lease_is_live now lid tok (leases s)"
    and live: "inv s \<Longrightarrow> set (so_live_leases ops now s) = {l \<in> set (leases s). lease_live l now}"
    and live_order: "inv s \<Longrightarrow> sorted (map dl_fencing_token (leases s)) \<Longrightarrow>
      so_live_leases ops now s = filter (\<lambda>l. lease_live l now) (leases s)"
    and ids: "inv s \<Longrightarrow> distinct (map dl_id (leases s))"

section \<open>Mutual exclusion and fencing\<close>

text \<open>At no time from \<open>t\<close> on do two leases of the table both claim a drive, unless the table changes;
  and tokens identify leases.\<close>

definition exclusive_from :: "int \<Rightarrow> drive_lease list \<Rightarrow> bool" where
  "exclusive_from t ls \<longleftrightarrow>
     (\<forall>l \<in> set ls. \<forall>l' \<in> set ls. lease_live l t \<longrightarrow> lease_live l' t \<longrightarrow> dl_drive_id l = dl_drive_id l' \<longrightarrow> dl_id l = dl_id l')"

definition tokens_ok :: "drive_lease list \<Rightarrow> bool" where
  "tokens_ok ls \<longleftrightarrow> distinct (map dl_fencing_token ls) \<and> (\<forall>l \<in> set ls. 0 < dl_fencing_token l)"

lemma exclusive_later: "exclusive_from t ls \<Longrightarrow> t \<le> t' \<Longrightarrow> exclusive_from t' ls"
  unfolding exclusive_from_def using lease_live_antimono by blast

lemma exclusive_mono:
  assumes "exclusive_from t ls"
    and "\<And>l. l \<in> set ls \<Longrightarrow> dl_id (f l) = dl_id l \<and> dl_drive_id (f l) = dl_drive_id l \<and> (lease_live (f l) t \<longrightarrow> lease_live l t)"
  shows "exclusive_from t (map f ls)"
  unfolding exclusive_from_def
proof (intro ballI impI)
  fix x y assume x: "x \<in> set (map f ls)" and y: "y \<in> set (map f ls)" and "lease_live x t" "lease_live y t" "dl_drive_id x = dl_drive_id y"
  moreover obtain l where "x = f l" "l \<in> set ls" using x by auto
  moreover obtain l' where "y = f l'" "l' \<in> set ls" using y by auto
  ultimately show "dl_id x = dl_id y" using assms(1) assms(2) [of l] assms(2) [of l'] unfolding exclusive_from_def by metis
qed

lemma exclusive_heartbeat: "exclusive_from t ls \<Longrightarrow> exclusive_from t (heartbeat_leases t lids ttl ls)"
  unfolding heartbeat_leases_def by (rule exclusive_mono) auto

lemma exclusive_release: "exclusive_from t ls \<Longrightarrow> exclusive_from t (release_leases now lids ls)"
  unfolding release_leases_def by (rule exclusive_mono) (auto simp: lease_live_def)

lemma exclusive_set_physical: "exclusive_from t ls \<Longrightarrow> exclusive_from t (set_lease_physical_drive lid p ls)"
  unfolding set_lease_physical_drive_def by (rule exclusive_mono) (auto simp: lease_live_def)

lemma exclusive_append:
  assumes "exclusive_from t ls" and "distinct (map dl_drive_id rows)"
    and "\<And>l r. l \<in> set ls \<Longrightarrow> r \<in> set rows \<Longrightarrow> lease_live l t \<Longrightarrow> dl_drive_id l \<noteq> dl_drive_id r"
  shows "exclusive_from t (ls @ rows)"
proof -
  have inj: "inj_on dl_drive_id (set rows)" using assms(2) by (simp add: distinct_map)
  show ?thesis
    unfolding exclusive_from_def
  proof (intro ballI impI)
    fix x y assume x: "x \<in> set (ls @ rows)" and y: "y \<in> set (ls @ rows)" and live: "lease_live x t" "lease_live y t"
      and eq: "dl_drive_id x = dl_drive_id y"
    consider "x \<in> set ls" "y \<in> set ls" | "x \<in> set rows" "y \<in> set rows" | "x \<in> set ls" "y \<in> set rows" | "x \<in> set rows" "y \<in> set ls"
      using x y by auto
    then show "dl_id x = dl_id y"
    proof cases
      case 1
      with assms(1) live eq show ?thesis unfolding exclusive_from_def by blast
    next
      case 2
      then have "x = y" using inj eq by (rule_tac inj_onD)
      then show ?thesis by simp
    next
      case 3
      with assms(3) [OF 3 live(1)] eq show ?thesis by simp
    next
      case 4
      with assms(3) [OF 4(2,1) live(2)] eq show ?thesis by simp
    qed
  qed
qed

lemma zip_free_drives: "length free \<ge> length bs \<Longrightarrow> map fst (zip free bs) = take (length bs) free"
  by (simp add: map_fst_zip_take)

lemma acquire_drive_leases_some:
  assumes "acquire_drive_leases ids now job bs n ttl ex ls = (Some rows, ls')"
  shows "ls' = ls @ rows \<and> map dl_barcode rows = bs \<and> distinct (map dl_drive_id rows)
    \<and> (\<forall>r \<in> set rows. dl_drive_id r \<in> set (free_drives now n ex ls) \<and> dl_job_id r = job \<and> dl_expires_at r = now + ttl
         \<and> dl_released_at r = None \<and> max_token ls < dl_fencing_token r)
    \<and> map dl_id rows = map ids [0..<length bs]
    \<and> map dl_fencing_token rows = [max_token ls + 1..max_token ls + int (length bs)]"
proof -
  let ?free = "free_drives now n ex ls"
  have len: "length bs \<le> length ?free" and rows: "rows = grant ids 0 now job ttl (max_token ls) (zip ?free bs)" and ls': "ls' = ls @ rows"
    using assms by (auto simp: acquire_drive_leases_def Let_def split: if_splits)
  have l: "length (zip ?free bs) = length bs" using len by simp
  have d: "map dl_drive_id rows = take (length bs) ?free" unfolding rows grant_props(1) by (rule zip_free_drives [OF len])
  then have in_free: "dl_drive_id r \<in> set ?free" if "r \<in> set rows" for r
    using that by (metis image_eqI in_set_takeD set_map)
  have tok: "map dl_fencing_token rows = [max_token ls + 1..max_token ls + int (length bs)]"
    unfolding rows grant_props(4) l ..
  then have "max_token ls < dl_fencing_token r" if "r \<in> set rows" for r
  proof -
    have "dl_fencing_token r \<in> set [max_token ls + 1..max_token ls + int (length bs)]" using that tok [symmetric] by simp
    then show ?thesis by simp
  qed
  moreover have "map dl_barcode rows = bs" unfolding rows grant_props(2) using len by (simp add: map_snd_zip_take)
  moreover have "map dl_id rows = map ids [0..<length bs]" unfolding rows grant_props(3) l by simp
  moreover have "distinct (map dl_drive_id rows)" unfolding d by (intro distinct_take free_drives_distinct)
  ultimately show ?thesis using ls' in_free tok grant_props(5) [of _ ids 0 now job ttl "max_token ls" "zip ?free bs"] rows by auto
qed

lemma max_token_nonneg: "tokens_ok ls \<Longrightarrow> 0 \<le> max_token ls"
proof (cases ls)
  case (Cons l ls')
  assume "tokens_ok ls"
  with Cons have "0 < dl_fencing_token l" by (simp add: tokens_ok_def)
  also have "\<dots> \<le> max_token ls" using Cons by (intro max_token_ge) simp
  finally show ?thesis by simp
qed (simp add: max_token_def)

lemma tokens_append:
  assumes "tokens_ok ls" and "map dl_fencing_token rows = [max_token ls + 1..max_token ls + int k]"
  shows "tokens_ok (ls @ rows)"
proof -
  have "max_token ls < dl_fencing_token r" if "r \<in> set rows" for r
  proof -
    have "dl_fencing_token r \<in> set (map dl_fencing_token rows)" using that by simp
    then show ?thesis unfolding assms(2) by simp
  qed
  moreover have "0 \<le> max_token ls" by (rule max_token_nonneg [OF assms(1)])
  moreover have "distinct (map dl_fencing_token rows)" unfolding assms(2) by simp
  ultimately show ?thesis
    using assms(1) max_token_ge [of _ ls] by (force simp: tokens_ok_def)
qed

section \<open>Histories\<close>

text \<open>
  Any number of processes using one store, under a clock that does not run backwards: the state is the
  time and the store, a step is one operation of the protocol or the passing of time.
\<close>

inductive store_history :: "'s store_ops \<Rightarrow> ('s \<Rightarrow> drive_lease list) \<Rightarrow> int \<Rightarrow> 's \<Rightarrow> int \<Rightarrow> 's \<Rightarrow> bool" for ops leases t0 s0 where
  hist_start: "store_history ops leases t0 s0 t0 s0"
| hist_tick: "store_history ops leases t0 s0 t s \<Longrightarrow> t \<le> t' \<Longrightarrow> store_history ops leases t0 s0 t' s"
| hist_acquire: "store_history ops leases t0 s0 t s \<Longrightarrow> fresh_ids ids (leases s) \<Longrightarrow>
    store_history ops leases t0 s0 t (snd (so_acquire ops ids t job bs n ttl ex s))"
| hist_acquire_at: "store_history ops leases t0 s0 t s \<Longrightarrow> lid \<notin> dl_id ` set (leases s) \<Longrightarrow>
    store_history ops leases t0 s0 t (snd (so_acquire_at ops lid t job d b ttl s))"
| hist_heartbeat: "store_history ops leases t0 s0 t s \<Longrightarrow> store_history ops leases t0 s0 t (so_heartbeat ops t lids ttl s)"
| hist_set_physical: "store_history ops leases t0 s0 t s \<Longrightarrow> store_history ops leases t0 s0 t (so_set_physical_drive ops lid p s)"
| hist_release: "store_history ops leases t0 s0 t s \<Longrightarrow> store_history ops leases t0 s0 t (so_release ops t lids s)"

lemma tokens_ok_map: "tokens_ok ls \<Longrightarrow> (\<And>l. dl_fencing_token (f l) = dl_fencing_token l) \<Longrightarrow> tokens_ok (map f ls)"
  by (simp add: tokens_ok_def o_def)

lemma tokens_ok_table:
  "tokens_ok ls \<Longrightarrow> tokens_ok (heartbeat_leases now lids ttl ls)"
  "tokens_ok ls \<Longrightarrow> tokens_ok (set_lease_physical_drive lid p ls)"
  "tokens_ok ls \<Longrightarrow> tokens_ok (release_leases now lids ls)"
  unfolding heartbeat_leases_def set_lease_physical_drive_def release_leases_def by (rule tokens_ok_map; simp)+

definition dead_at :: "int \<Rightarrow> string \<Rightarrow> drive_lease list \<Rightarrow> bool" where
  "dead_at t lid ls \<longleftrightarrow> lid \<in> dl_id ` set ls \<and> (\<forall>l \<in> set ls. dl_id l = lid \<longrightarrow> \<not> lease_live l t)"

lemma dead_at_map:
  assumes d: "dead_at t lid ls" and i: "\<And>l. dl_id (f l) = dl_id l" and v: "\<And>l. lease_live (f l) t \<Longrightarrow> lease_live l t"
  shows "dead_at t lid (map f ls)"
proof -
  have "dl_id ` set (map f ls) = dl_id ` set ls" by (simp only: set_map image_image i)
  moreover have "\<not> lease_live (f l) t" if "l \<in> set ls" "dl_id (f l) = lid" for l
    using d v [of l] that i [of l] unfolding dead_at_def by metis
  ultimately show ?thesis using d unfolding dead_at_def by auto
qed

lemma dead_at_heartbeat: "dead_at t lid ls \<Longrightarrow> dead_at t lid (heartbeat_leases t lids ttl ls)"
  unfolding heartbeat_leases_def by (rule dead_at_map) (auto split: if_splits)

lemma dead_at_set_physical: "dead_at t lid ls \<Longrightarrow> dead_at t lid (set_lease_physical_drive lid' p ls)"
  unfolding set_lease_physical_drive_def by (rule dead_at_map) (auto simp: lease_live_def split: if_splits)

lemma dead_at_release: "dead_at t lid ls \<Longrightarrow> dead_at t lid (release_leases now lids ls)"
  unfolding release_leases_def by (rule dead_at_map) (auto simp: lease_live_def split: if_splits)

lemmas dead_at_table = dead_at_heartbeat dead_at_set_physical dead_at_release

context lease_store
begin

lemma history_inv:
  assumes "store_history ops leases t0 s0 t s" and "inv s0" and "leases s0 = []"
  shows "inv s \<and> exclusive_from t (leases s) \<and> tokens_ok (leases s)"
  using assms
proof (induction rule: store_history.induct)
  case hist_start
  then show ?case by (simp add: exclusive_from_def tokens_ok_def)
next
  case (hist_tick t s t')
  then show ?case using exclusive_later by blast
next
  case (hist_acquire t s ids job bs n ttl ex)
  then have i: "inv s" and e: "exclusive_from t (leases s)" and k: "tokens_ok (leases s)" by simp_all
  obtain r s' where r: "so_acquire ops ids t job bs n ttl ex s = (r, s')" by fastforce
  from acquire [OF i hist_acquire.hyps(2) r]
  have a: "acquire_drive_leases ids t job bs n ttl ex (leases s) = (r, leases s')" and i': "inv s'" by simp_all
  show ?case
  proof (cases r)
    case None
    with a have "leases s' = leases s" by (auto simp: acquire_drive_leases_def Let_def split: if_splits)
    with i' e k r show ?thesis by simp
  next
    case (Some rows)
    note p = acquire_drive_leases_some [OF a [unfolded Some]]
    have "exclusive_from t (leases s')"
      using p e by (auto simp: free_drives_iff intro!: exclusive_append)
    moreover have "tokens_ok (leases s')" using p tokens_append [OF k, of rows "length bs"] by simp
    ultimately show ?thesis using i' r by simp
  qed
next
  case (hist_acquire_at t s lid job d b ttl)
  then have i: "inv s" and e: "exclusive_from t (leases s)" and k: "tokens_ok (leases s)" by simp_all
  obtain q s' where q: "so_acquire_at ops lid t job d b ttl s = (q, s')" by fastforce
  from acquire_at [OF i hist_acquire_at.hyps(2) q]
  have a: "acquire_drive_lease_at lid t job d b ttl (leases s) = (q, leases s')" and i': "inv s'" by simp_all
  show ?case
  proof (cases "filter (\<lambda>l. dl_drive_id l = d \<and> lease_live l t) (leases s) = []")
    case False
    with a have "leases s' = leases s" by (auto simp: acquire_drive_lease_at_def Let_def)
    with i' e k q show ?thesis by simp
  next
    case True
    let ?row = "new_lease lid d job b (max_token (leases s) + 1) t ttl"
    have ls: "leases s' = leases s @ [?row]" using a True by (auto simp: acquire_drive_lease_at_def Let_def)
    have "exclusive_from t (leases s')" unfolding ls
      using True by (intro exclusive_append [OF e]) (auto simp: filter_empty_conv new_lease_def)
    moreover have "tokens_ok (leases s')" unfolding ls
      using tokens_append [OF k, of "[?row]" 1] by (simp add: new_lease_def)
    ultimately show ?thesis using i' q by simp
  qed
next
  case (hist_heartbeat t s lids ttl)
  then show ?case using heartbeat by (simp add: exclusive_heartbeat tokens_ok_table)
next
  case (hist_set_physical t s lid p)
  then show ?case using set_physical by (simp add: exclusive_set_physical tokens_ok_table)
next
  case (hist_release t s lids)
  then show ?case using release by (simp add: exclusive_release tokens_ok_table)
qed

text \<open>Mutual exclusion as a client sees it: what the store lists as live names each drive once.\<close>

lemma live_exclusive:
  assumes "store_history ops leases t0 s0 t s" and "inv s0" and "leases s0 = []"
    and "l \<in> set (so_live_leases ops t s)" and "l' \<in> set (so_live_leases ops t s)" and "dl_drive_id l = dl_drive_id l'"
  shows "l = l'"
proof -
  have i: "inv s" and e: "exclusive_from t (leases s)" using history_inv [OF assms(1-3)] by simp_all
  have "dl_id l = dl_id l'" using e assms(4-6) live [OF i] unfolding exclusive_from_def by auto
  moreover have "inj_on dl_id (set (leases s))" using ids [OF i] by (simp add: distinct_map)
  ultimately show ?thesis using assms(4,5) live [OF i] by (auto dest: inj_onD)
qed

text \<open>Fencing: a lease that is live under its token excludes every other live lease of its drive.\<close>

lemma live_token_excludes:
  assumes "store_history ops leases t0 s0 t s" and "inv s0" and "leases s0 = []"
    and "so_is_live ops t lid tok s" and "l \<in> set (so_live_leases ops t s)"
    and "\<exists>l0 \<in> set (leases s). dl_id l0 = lid \<and> dl_drive_id l0 = dl_drive_id l"
  shows "dl_id l = lid \<and> dl_fencing_token l = tok"
proof -
  have i: "inv s" using history_inv [OF assms(1-3)] by simp
  obtain l0 where l0: "List.find (\<lambda>l. dl_id l = lid) (leases s) = Some l0" "dl_fencing_token l0 = tok" "lease_live l0 t"
    using assms(4) unfolding is_live [OF i] lease_is_live_def by (auto split: option.splits)
  then have m: "l0 \<in> set (leases s)" "dl_id l0 = lid" using find_SomeD by fastforce+
  obtain l1 where l1: "l1 \<in> set (leases s)" "dl_id l1 = lid" "dl_drive_id l1 = dl_drive_id l" using assms(6) by blast
  have "l1 = l0" using ids [OF i] m l1 by (auto simp: distinct_map dest: inj_onD)
  then have "l = l0" using live_exclusive [OF assms(1-3,5), of l0] live [OF i] l0(3) m(1) l1(3) by simp
  with m l0 show ?thesis by simp
qed

text \<open>A lease that has expired or was released is never live again: no operation revives it.\<close>

lemma history_dead:
  assumes "store_history ops leases t0 s0 t s" and "inv s0" and "lid \<in> dl_id ` set (leases s0)"
    and "\<And>l. l \<in> set (leases s0) \<Longrightarrow> dl_id l = lid \<Longrightarrow> \<not> lease_live l t0"
  shows "inv s \<and> dead_at t lid (leases s)"
  using assms
proof (induction rule: store_history.induct)
  case hist_start
  then show ?case by (auto simp: dead_at_def)
next
  case (hist_tick t s t')
  then show ?case unfolding dead_at_def using lease_live_antimono by blast
next
  case (hist_acquire t s ids job bs n ttl ex)
  then have i: "inv s" and d: "lid \<in> dl_id ` set (leases s)" "\<forall>l \<in> set (leases s). dl_id l = lid \<longrightarrow> \<not> lease_live l t" by (simp_all add: dead_at_def)
  obtain r s' where r: "so_acquire ops ids t job bs n ttl ex s = (r, s')" by fastforce
  note a = acquire [OF i hist_acquire.hyps(2) r]
  show ?case
  proof (cases r)
    case None
    with a have "leases s' = leases s" by (auto simp: acquire_drive_leases_def Let_def split: if_splits)
    with a d r show ?thesis by (simp add: dead_at_def)
  next
    case (Some rows)
    with a have p: "leases s' = leases s @ rows" "map dl_id rows = map ids [0..<length bs]"
      using acquire_drive_leases_some [of ids t job bs n ttl ex "leases s" rows "leases s'"] by simp_all
    have "dl_id l \<in> range ids" if "l \<in> set rows" for l using arg_cong [OF p(2), of set] that by auto
    then have "dl_id l \<noteq> lid" if "l \<in> set rows" for l
      using that d(1) hist_acquire.hyps(2) unfolding fresh_ids_def by (metis rangeE)
    with p(1) a d r show ?thesis by (auto simp: dead_at_def)
  qed
next
  case (hist_acquire_at t s lid' job d b ttl)
  then have i: "inv s" and dd: "lid \<in> dl_id ` set (leases s)" "\<forall>l \<in> set (leases s). dl_id l = lid \<longrightarrow> \<not> lease_live l t" by (simp_all add: dead_at_def)
  obtain q s' where q: "so_acquire_at ops lid' t job d b ttl s = (q, s')" by fastforce
  let ?row = "new_lease lid' d job b (max_token (leases s) + 1) t ttl"
  have "leases s' = leases s \<or> leases s' = leases s @ [?row]" and i': "inv s'"
    using acquire_at [OF i hist_acquire_at.hyps(2) q] by (auto simp: acquire_drive_lease_at_def Let_def split: if_splits)
  moreover have "dl_id ?row \<noteq> lid" using dd(1) hist_acquire_at.hyps(2) by (auto simp: new_lease_def)
  ultimately show ?case using dd q by (auto simp: dead_at_def)
next
  case (hist_heartbeat t s lids ttl)
  then show ?case using heartbeat [of s t lids ttl] by (simp add: dead_at_table)
next
  case (hist_set_physical t s l p)
  then show ?case using set_physical [of s l p] by (simp add: dead_at_table)
next
  case (hist_release t s lids)
  then show ?case using release [of s t lids] by (simp add: dead_at_table)
qed

end

section \<open>The process-local store keeps the contract\<close>

definition mem_leases :: "mem_store \<Rightarrow> drive_lease list" where
  "mem_leases s = dict_values (ms_leases s)"

definition mem_inv :: "mem_store \<Rightarrow> bool" where
  "mem_inv s \<longleftrightarrow> distinct (dict_keys (ms_leases s)) \<and> (\<forall>(k, l) \<in> set (ms_leases s). dl_id l = k)
     \<and> ms_last_token s = max_token (mem_leases s) \<and> 0 \<le> ms_last_token s"

lemma mem_keys_ids: "mem_inv s \<Longrightarrow> dict_keys (ms_leases s) = map dl_id (mem_leases s)"
  by (auto simp: mem_inv_def mem_leases_def)

lemma mem_get_iff: "mem_inv s \<Longrightarrow> dict_get (ms_leases s) lid = Some l \<longleftrightarrow> l \<in> set (mem_leases s) \<and> dl_id l = lid"
proof -
  assume i: "mem_inv s"
  then have "dict_get (ms_leases s) lid = Some l \<longleftrightarrow> (lid, l) \<in> set (ms_leases s)"
    by (simp add: mem_inv_def dict_get_iff_mem)
  also have "\<dots> \<longleftrightarrow> l \<in> set (mem_leases s) \<and> dl_id l = lid"
    using i by (force simp: mem_inv_def mem_leases_def)
  finally show ?thesis .
qed

lemma mem_put_fresh:
  assumes "mem_inv s" and "dl_id l \<notin> dl_id ` set (mem_leases s)" and "dl_fencing_token l = ms_last_token s + 1"
  shows "mem_leases (mem_put l (s\<lparr>ms_last_token := ms_last_token s + 1\<rparr>)) = mem_leases s @ [l]"
    and "mem_inv (mem_put l (s\<lparr>ms_last_token := ms_last_token s + 1\<rparr>))"
proof -
  have f: "dl_id l \<notin> set (dict_keys (ms_leases s))" using assms(2) mem_keys_ids [OF assms(1)] by simp
  then have d: "dict_set (dl_id l) l (ms_leases s) = ms_leases s @ [(dl_id l, l)]" by (rule dict_set_fresh)
  show "mem_leases (mem_put l (s\<lparr>ms_last_token := ms_last_token s + 1\<rparr>)) = mem_leases s @ [l]"
    by (simp add: mem_leases_def mem_put_def d)
  then show "mem_inv (mem_put l (s\<lparr>ms_last_token := ms_last_token s + 1\<rparr>))"
    using assms(1,3) f by (auto simp: mem_inv_def mem_put_def d max_token_append max_def max_token_def split: if_splits)
qed

lemma mem_grant_spec:
  assumes "mem_inv s" and "inj ids" and "\<forall>j \<ge> k. ids j \<notin> dl_id ` set (mem_leases s)" and "mem_grant ids k now job ttl ps s = (ls, s')"
  shows "ls = grant ids k now job ttl (ms_last_token s) ps \<and> mem_leases s' = mem_leases s @ ls \<and> mem_inv s'"
  using assms(1,3,4)
proof (induction ps arbitrary: k s ls s')
  case Nil
  then show ?case by simp
next
  case (Cons p ps)
  obtain d b where p: "p = (d, b)" by (cases p)
  let ?l = "new_lease (ids k) d job b (ms_last_token s + 1) now ttl"
  let ?s = "mem_put ?l (s\<lparr>ms_last_token := ms_last_token s + 1\<rparr>)"
  have l: "dl_id ?l \<notin> dl_id ` set (mem_leases s)" "dl_fencing_token ?l = ms_last_token s + 1" "dl_id ?l = ids k"
    using Cons.prems(2) by (simp_all add: new_lease_def)
  note put = mem_put_fresh [OF Cons.prems(1) l(1,2)]
  obtain ls1 where g: "mem_grant ids (Suc k) now job ttl ps ?s = (ls1, s')" and ls: "ls = ?l # ls1"
    using Cons.prems(3) by (auto simp: p Let_def split: prod.splits)
  have "\<forall>j \<ge> Suc k. ids j \<notin> dl_id ` set (mem_leases ?s)"
    using Cons.prems(2) put(1) l(3) assms(2) by (auto simp: inj_eq)
  from Cons.IH [OF put(2) this g] ls put(1) p show ?case by (simp add: mem_put_def)
qed

lemma mem_acquire_refines:
  assumes "mem_inv s" and "fresh_ids ids (mem_leases s)" and "mem_acquire ids now job bs n ttl ex s = (r, s')"
  shows "acquire_drive_leases ids now job bs n ttl ex (mem_leases s) = (r, mem_leases s') \<and> mem_inv s'"
proof (cases "length (free_drives now n ex (mem_leases s)) < length bs")
  case True
  then show ?thesis using assms(1,3) by (auto simp: mem_acquire_def acquire_drive_leases_def mem_leases_def)
next
  case False
  obtain ls where g: "mem_grant ids 0 now job ttl (zip (free_drives now n ex (mem_leases s)) bs) s = (ls, s')" and r: "r = Some ls"
    using assms(3) False by (auto simp: mem_acquire_def mem_leases_def Let_def split: prod.splits)
  have "ms_last_token s = max_token (mem_leases s)" using assms(1) by (simp add: mem_inv_def)
  with mem_grant_spec [OF assms(1) _ _ g] assms(2) r False show ?thesis
    by (auto simp: fresh_ids_def acquire_drive_leases_def Let_def)
qed

lemma mem_acquire_at_refines:
  assumes "mem_inv s" and "lid \<notin> dl_id ` set (mem_leases s)" and "mem_acquire_at lid now job d b ttl s = (q, s')"
  shows "acquire_drive_lease_at lid now job d b ttl (mem_leases s) = (q, mem_leases s') \<and> mem_inv s'"
proof (cases "list_ex (\<lambda>l. dl_drive_id l = d \<and> lease_live l now) (mem_leases s)")
  case True
  then have "filter (\<lambda>l. dl_drive_id l = d \<and> lease_live l now) (mem_leases s) \<noteq> []" by (auto simp: list_ex_iff filter_empty_conv)
  moreover have "q = None" "s' = s" using True assms(3) by (simp_all add: mem_acquire_at_def mem_leases_def)
  ultimately show ?thesis using assms(1) by (simp add: acquire_drive_lease_at_def)
next
  case False
  then have f: "filter (\<lambda>l. dl_drive_id l = d \<and> lease_live l now) (mem_leases s) = []" by (auto simp: list_ex_iff filter_empty_conv)
  let ?l = "new_lease lid d job b (ms_last_token s + 1) now ttl"
  have "ms_last_token s = max_token (mem_leases s)" using assms(1) by (simp add: mem_inv_def)
  moreover have "dl_id ?l \<notin> dl_id ` set (mem_leases s)" using assms(2) by (simp add: new_lease_def)
  moreover have "q = Some ?l" "s' = mem_put ?l (s\<lparr>ms_last_token := ms_last_token s + 1\<rparr>)"
    using assms(3) False by (auto simp: mem_acquire_at_def mem_leases_def Let_def)
  ultimately show ?thesis
    using mem_put_fresh [OF assms(1), of ?l] f by (simp add: acquire_drive_lease_at_def Let_def new_lease_def)
qed

lemma mem_update_refines:
  assumes "mem_inv s" and "\<And>l. dl_id (f l) = dl_id l \<and> dl_fencing_token (f l) = dl_fencing_token l"
  shows "mem_leases (mem_update lid p f s) = map (\<lambda>l. if dl_id l = lid \<and> p l then f l else l) (mem_leases s)"
    and "mem_inv (mem_update lid p f s)"
proof -
  have ids: "dl_id l = k" if "(k, l) \<in> set (ms_leases s)" for k l using assms(1) that by (auto simp: mem_inv_def)
  have "mem_leases (mem_update lid p f s) = map (\<lambda>l. if dl_id l = lid \<and> p l then f l else l) (mem_leases s)
      \<and> distinct (dict_keys (ms_leases (mem_update lid p f s))) \<and> (\<forall>(k, l) \<in> set (ms_leases (mem_update lid p f s)). dl_id l = k)"
  proof (cases "\<exists>l. dict_get (ms_leases s) lid = Some l \<and> p l")
    case True
    then obtain l0 where l0: "dict_get (ms_leases s) lid = Some l0" "p l0" by blast
    have d: "distinct (dict_keys (ms_leases s))" using assms(1) by (simp add: mem_inv_def)
    have only: "l = l0" if "(lid, l) \<in> set (ms_leases s)" for l using that l0(1) dict_get_iff_mem [OF d, of lid l] by simp
    have u: "ms_leases (mem_update lid p f s) = map (\<lambda>(k, l). if k = lid then (lid, f l0) else (k, l)) (ms_leases s)"
      using l0 by (simp add: mem_update_def dict_set_present [OF d l0(1)])
    have kk: "dict_keys (map (\<lambda>(k, l). if k = lid then (lid, f l0) else (k, l)) (ms_leases s)) = dict_keys (ms_leases s)"
      by (induction "ms_leases s") auto
    have i0: "dl_id l0 = lid" using mem_get_iff [OF assms(1)] l0(1) by simp
    have vv: "dict_values (map (\<lambda>(k, l). if k = lid then (lid, f l0) else (k, l)) (ms_leases s)) =
        map (\<lambda>l. if dl_id l = lid \<and> p l then f l else l) (dict_values (ms_leases s))"
      using ids only l0(2) by (fastforce simp: o_def intro!: map_cong)
    show ?thesis
      unfolding u mem_leases_def
    proof (intro conjI)
      show "distinct (dict_keys (map (\<lambda>(k, l). if k = lid then (lid, f l0) else (k, l)) (ms_leases s)))"
        unfolding kk by (rule d)
    qed (use vv i0 ids assms(2) in \<open>auto simp del: map_map split: if_splits\<close>)
  next
    case False
    then have "mem_update lid p f s = s" by (auto simp: mem_update_def split: option.splits)
    moreover have "map (\<lambda>l. if dl_id l = lid \<and> p l then f l else l) (mem_leases s) = mem_leases s"
      using False mem_get_iff [OF assms(1), of lid] by (intro map_idI) auto
    ultimately show ?thesis using assms(1) by (simp add: mem_inv_def)
  qed
  note r = this
  then show "mem_leases (mem_update lid p f s) = map (\<lambda>l. if dl_id l = lid \<and> p l then f l else l) (mem_leases s)" by simp
  have "map dl_fencing_token (mem_leases (mem_update lid p f s)) = map dl_fencing_token (mem_leases s)"
    using r assms(2) by (simp add: o_def)
  then have "max_token (mem_leases (mem_update lid p f s)) = max_token (mem_leases s)"
    unfolding max_token_def by (metis list.map_disc_iff)
  moreover have "ms_last_token (mem_update lid p f s) = ms_last_token s" by (simp add: mem_update_def split: option.splits)
  ultimately show "mem_inv (mem_update lid p f s)" using r assms(1) by (simp add: mem_inv_def)
qed

lemma mem_update_fold:
  assumes "mem_inv s" and "\<And>l. dl_id (f l) = dl_id l \<and> dl_fencing_token (f l) = dl_fencing_token l \<and> f (f l) = f l"
  shows "mem_leases (fold (\<lambda>lid. mem_update lid p f) lids s) = map (\<lambda>l. if dl_id l \<in> set lids \<and> p l then f l else l) (mem_leases s)
    \<and> mem_inv (fold (\<lambda>lid. mem_update lid p f) lids s)"
  using assms(1)
proof (induction lids arbitrary: s)
  case Nil
  then show ?case by (simp add: map_idI)
next
  case (Cons lid lids)
  note u = mem_update_refines [OF Cons.prems, of f lid p]
  have "mem_inv (mem_update lid p f s)" using u(2) assms(2) by simp
  from Cons.IH [OF this] u(1) assms(2) show ?case by (auto simp: o_def intro!: map_cong)
qed

lemma mem_find_id:
  assumes "mem_inv s"
  shows "List.find (\<lambda>l. dl_id l = lid) (mem_leases s) = dict_get (ms_leases s) lid"
proof (cases "dict_get (ms_leases s) lid")
  case None
  then have "\<forall>l \<in> set (mem_leases s). dl_id l \<noteq> lid" using mem_get_iff [OF assms, of lid] by (metis option.simps(3))
  with None show ?thesis by (simp add: find_None_iff)
next
  case (Some l)
  have l: "l \<in> set (mem_leases s)" "dl_id l = lid" using Some mem_get_iff [OF assms] by auto
  have "List.find (\<lambda>l. dl_id l = lid) (mem_leases s) = Some l"
  proof (rule find_unique [of l, OF l(1)])
    show "dl_id l = lid" by (rule l(2))
    fix y assume "y \<in> set (mem_leases s)" "dl_id y = lid"
    then have "dict_get (ms_leases s) lid = Some y" using mem_get_iff [OF assms] by simp
    with Some show "y = l" by simp
  qed
  with Some show ?thesis by simp
qed

interpretation mem: lease_store mem_ops mem_leases mem_inv
proof
  fix s ids now job bs n ttl ex r s'
  assume "mem_inv s" "fresh_ids ids (mem_leases s)" "so_acquire mem_ops ids now job bs n ttl ex s = (r, s')"
  then show "acquire_drive_leases ids now job bs n ttl ex (mem_leases s) = (r, mem_leases s') \<and> mem_inv s'"
    by (simp add: mem_ops_def mem_acquire_refines)
next
  fix s lid now job d b ttl q s'
  assume "mem_inv s" "lid \<notin> dl_id ` set (mem_leases s)" "so_acquire_at mem_ops lid now job d b ttl s = (q, s')"
  then show "acquire_drive_lease_at lid now job d b ttl (mem_leases s) = (q, mem_leases s') \<and> mem_inv s'"
    by (simp add: mem_ops_def mem_acquire_at_refines)
next
  fix s now lids ttl assume i: "mem_inv s"
  show "mem_leases (so_heartbeat mem_ops now lids ttl s) = heartbeat_leases now lids ttl (mem_leases s) \<and> mem_inv (so_heartbeat mem_ops now lids ttl s)"
    using mem_update_fold [OF i, of "\<lambda>l. l\<lparr>dl_heartbeat_at := now, dl_expires_at := now + ttl\<rparr>" "\<lambda>l. lease_live l now" lids]
    by (simp add: mem_ops_def mem_heartbeat_def heartbeat_leases_def)
next
  fix s lid p assume i: "mem_inv s"
  show "mem_leases (so_set_physical_drive mem_ops lid p s) = set_lease_physical_drive lid p (mem_leases s) \<and> mem_inv (so_set_physical_drive mem_ops lid p s)"
    using mem_update_refines [OF i, of "\<lambda>l. l\<lparr>dl_physical_drive_id := Some p\<rparr>" lid "\<lambda>_. True"]
    by (simp add: mem_ops_def mem_set_physical_drive_def set_lease_physical_drive_def)
next
  fix s now lids assume i: "mem_inv s"
  show "mem_leases (so_release mem_ops now lids s) = release_leases now lids (mem_leases s) \<and> mem_inv (so_release mem_ops now lids s)"
    using mem_update_fold [OF i, of "\<lambda>l. l\<lparr>dl_released_at := Some now\<rparr>" "\<lambda>l. dl_released_at l = None" lids]
    by (simp add: mem_ops_def mem_release_def release_leases_def)
next
  fix s now lid tok assume i: "mem_inv s"
  show "so_is_live mem_ops now lid tok s = lease_is_live now lid tok (mem_leases s)"
    by (simp add: mem_ops_def mem_is_live_def lease_is_live_def mem_find_id [OF i])
next
  fix s now assume "mem_inv s"
  show "set (so_live_leases mem_ops now s) = {l \<in> set (mem_leases s). lease_live l now}"
    by (simp add: mem_ops_def mem_live_leases_def mem_leases_def)
next
  fix s now assume "mem_inv s" "sorted (map dl_fencing_token (mem_leases s))"
  show "so_live_leases mem_ops now s = filter (\<lambda>l. lease_live l now) (mem_leases s)"
    by (simp add: mem_ops_def mem_live_leases_def mem_leases_def)
next
  fix s assume "mem_inv s"
  then show "distinct (map dl_id (mem_leases s))" by (simp add: mem_keys_ids [symmetric] mem_inv_def)
qed

lemma mem_init_inv: "mem_inv mem_init" "mem_leases mem_init = []"
  by (simp_all add: mem_init_def mem_inv_def mem_leases_def max_token_def)

end
