(* ===== verification/Catalog.thy ===== *)
theory Catalog
  imports Lease_Store Sim_Library
begin

text \<open>
  The part of \<open>catalog/repository.py\<close> that jobs, leases and recovery rest on:
  the tables as lists in insertion order, one transaction as one atomic operation.
  A committed transaction is visible to every session; an operation that raises before its commit has
  changed nothing. A journal detail is a dictionary of JSON scalars and lists of strings; the metadata of a job is carried
  as its text.
\<close>

section \<open>Tables\<close>

datatype jval = J_none | J_int int | J_str string | J_bool bool | J_strs "string list"

record journal_entry =
  je_id :: int
  je_job_id :: string
  je_at :: int
  je_event :: string
  je_detail :: "(string, jval) dict"

record job_row =
  jb_id :: string
  jb_job_type :: string
  jb_state :: string
  jb_metadata_json :: string
  jb_error :: "string option"
  jb_created_at :: int
  jb_updated_at :: int

record record_row =
  rr_id :: string
  rr_path :: string
  rr_size_bytes :: int
  rr_checksum_sha256 :: string
  rr_volume_group_id :: string
  rr_shard_count :: "int option"
  rr_shard_index :: "int option"
  rr_block_size :: "int option"
  rr_shard_profile :: "string option"
  rr_parent_id :: "string option"
  rr_created_at :: int

record instance_row =
  ir_id :: string
  ir_file_record_id :: string
  ir_barcode :: string
  ir_tape_path :: string
  ir_state :: file_instance_state
  ir_archived_at :: "int option"
  ir_checksum_verified :: bool
  ir_created_at :: int

record staged_instance =
  si_instance_id :: string
  si_file_record_id :: string
  si_barcode :: string
  si_tape_path :: string
  si_shard_index :: "int option"
  si_state :: file_instance_state

record cartridge_row =
  cr_barcode :: string
  cr_volume_group_id :: "string option"
  cr_capacity_bytes :: int
  cr_used_bytes :: int
  cr_state :: string
  cr_formatted :: bool

record group_row =
  gr_id :: string
  gr_name :: string

datatype tape_op_type = TO_LOAD | TO_UNLOAD | TO_FORMAT | TO_WRITE | TO_READ | TO_MOVE | TO_VERIFY | TO_EJECT | TO_IMPORT | TO_EXPORT

datatype tape_op_status = TS_QUEUED | TS_RUNNING | TS_COMPLETED | TS_FAILED | TS_CANCELLED | TS_SKIPPED

record tape_op_row =
  tp_op_id :: string
  tp_op_type :: tape_op_type
  tp_barcode :: string
  tp_drive_id :: "int option"
  tp_slot_id :: "int option"
  tp_tape_path :: "string option"
  tp_size_bytes :: "int option"
  tp_checksum :: "string option"
  tp_requested_by :: string
  tp_job_id :: "string option"
  tp_priority :: int
  tp_status :: tape_op_status
  tp_result :: "(string, jval) dict"
  tp_error :: "string option"
  tp_created_at :: int
  tp_started_at :: "int option"
  tp_completed_at :: "int option"

record catalog =
  cat_jobs :: "job_row list"
  cat_journal :: "journal_entry list"
  cat_leases :: "drive_lease list"
  cat_records :: "record_row list"
  cat_instances :: "instance_row list"
  cat_tokens :: "safety_token list"
  cat_cartridges :: "cartridge_row list"
  cat_groups :: "group_row list"
  cat_tape_ops :: "tape_op_row list"

definition empty_catalog :: catalog where
  "empty_catalog = \<lparr>cat_jobs = [], cat_journal = [], cat_leases = [], cat_records = [], cat_instances = [], cat_tokens = [],
     cat_cartridges = [], cat_groups = [], cat_tape_ops = []\<rparr>"

section \<open>Journal\<close>

definition next_journal_id :: "catalog \<Rightarrow> int" where
  "next_journal_id c = fold max (map je_id (cat_journal c)) 0 + 1"

definition add_entry :: "string \<Rightarrow> int \<Rightarrow> string \<Rightarrow> (string, jval) dict \<Rightarrow> catalog \<Rightarrow> journal_entry \<times> catalog" where
  "add_entry job now event detail c =
     (let e = \<lparr>je_id = next_journal_id c, je_job_id = job, je_at = now, je_event = event, je_detail = detail\<rparr>
      in (e, c\<lparr>cat_journal := cat_journal c @ [e]\<rparr>))"

definition journal :: "int \<Rightarrow> string \<Rightarrow> string \<Rightarrow> (string, jval) dict \<Rightarrow> (catalog, journal_entry) op" where
  "journal now job event detail c = (case add_entry job now event detail c of (e, c') \<Rightarrow> (Inr e, c'))"

text \<open>\<open>journal_durable\<close>: \<open>fails k\<close> says whether the \<open>k\<close>-th attempt meets a locked database; there are as
  many retries as delays, then the last error is raised.\<close>

definition JOURNAL_RETRIES :: nat where
  "JOURNAL_RETRIES = 3"

fun journal_attempts :: "(nat \<Rightarrow> bool) \<Rightarrow> nat \<Rightarrow> nat \<Rightarrow> int \<Rightarrow> string \<Rightarrow> string \<Rightarrow> (string, jval) dict \<Rightarrow> (catalog, unit) op" where
  "journal_attempts fails k 0 now job event detail =
     (if fails k then raiseM OperationalError else thenM (journal now job event detail) (returnM ()))"
| "journal_attempts fails k (Suc n) now job event detail =
     (if fails k then journal_attempts fails (Suc k) n now job event detail
      else thenM (journal now job event detail) (returnM ()))"

definition journal_durable :: "(nat \<Rightarrow> bool) \<Rightarrow> int \<Rightarrow> string \<Rightarrow> string \<Rightarrow> (string, jval) dict \<Rightarrow> (catalog, unit) op" where
  "journal_durable fails now job event detail = journal_attempts fails 0 JOURNAL_RETRIES now job event detail"

definition sort_entries :: "journal_entry list \<Rightarrow> journal_entry list" where
  "sort_entries es = sort_key je_at (sort_key je_id es)"

definition job_journal :: "string \<Rightarrow> catalog \<Rightarrow> journal_entry list" where
  "job_journal job c = sort_entries (filter (\<lambda>e. je_job_id e = job) (cat_journal c))"

definition journal_events :: "string \<Rightarrow> int option \<Rightarrow> catalog \<Rightarrow> journal_entry list" where
  "journal_events event since c =
     sort_entries (filter (\<lambda>e. je_event e = event \<and> (case since of None \<Rightarrow> True | Some t \<Rightarrow> je_at e \<ge> t)) (cat_journal c))"

section \<open>Jobs\<close>

definition create_job_row :: "string \<Rightarrow> int \<Rightarrow> string \<Rightarrow> string \<Rightarrow> (catalog, job_row) op" where
  "create_job_row jid now job_type metadata c =
     (let row = \<lparr>jb_id = jid, jb_job_type = job_type, jb_state = ''pending'', jb_metadata_json = metadata, jb_error = None,
                 jb_created_at = now, jb_updated_at = now\<rparr>
      in (Inr row, c\<lparr>cat_jobs := cat_jobs c @ [row]\<rparr>))"

definition get_job_row :: "string \<Rightarrow> catalog \<Rightarrow> job_row option" where
  "get_job_row jid c = List.find (\<lambda>j. jb_id j = jid) (cat_jobs c)"

definition update_job_state :: "int \<Rightarrow> string \<Rightarrow> string \<Rightarrow> string option \<Rightarrow> (catalog, unit) op" where
  "update_job_state now jid state err =
     bindM (getsM (get_job_row jid)) (\<lambda>found.
      case found of
        None \<Rightarrow> raiseM FileNotFoundError
      | Some _ \<Rightarrow> modifyM (\<lambda>c. c\<lparr>cat_jobs := map (\<lambda>j. if jb_id j = jid
            then j\<lparr>jb_state := state, jb_error := err, jb_updated_at := now\<rparr> else j) (cat_jobs c)\<rparr>))"

definition list_jobs :: "string option \<Rightarrow> catalog \<Rightarrow> job_row list" where
  "list_jobs state c =
     sort_key (\<lambda>j. - jb_created_at j) (filter (\<lambda>j. case state of None \<Rightarrow> True | Some s \<Rightarrow> jb_state j = s) (cat_jobs c))"

section \<open>Safety tokens\<close>

definition save_safety_token :: "safety_token \<Rightarrow> catalog \<Rightarrow> catalog" where
  "save_safety_token t c =
     c\<lparr>cat_tokens := (if list_ex (\<lambda>u. tok_token u = tok_token t) (cat_tokens c)
        then map (\<lambda>u. if tok_token u = tok_token t then t else u) (cat_tokens c) else cat_tokens c @ [t])\<rparr>"

definition get_safety_token :: "string \<Rightarrow> catalog \<Rightarrow> safety_token option" where
  "get_safety_token v c = List.find (\<lambda>u. tok_token u = v) (cat_tokens c)"

definition delete_safety_token :: "string \<Rightarrow> catalog \<Rightarrow> bool \<times> catalog" where
  "delete_safety_token v c =
     (length (filter (\<lambda>u. tok_token u = v) (cat_tokens c)) = 1,
      c\<lparr>cat_tokens := filter (\<lambda>u. tok_token u \<noteq> v) (cat_tokens c)\<rparr>)"

section \<open>File instances\<close>

definition get_instance :: "string \<Rightarrow> catalog \<Rightarrow> instance_row option" where
  "get_instance iid c = List.find (\<lambda>i. ir_id i = iid) (cat_instances c)"

definition update_instances :: "(instance_row \<Rightarrow> bool) \<Rightarrow> (instance_row \<Rightarrow> instance_row) \<Rightarrow> catalog \<Rightarrow> catalog" where
  "update_instances p f c = c\<lparr>cat_instances := map (\<lambda>i. if p i then f i else i) (cat_instances c)\<rparr>"

definition create_file_instance :: "string \<Rightarrow> int \<Rightarrow> string \<Rightarrow> string \<Rightarrow> string \<Rightarrow> (catalog, instance_row) op" where
  "create_file_instance iid now frid b path c =
     (let i = \<lparr>ir_id = iid, ir_file_record_id = frid, ir_barcode = b, ir_tape_path = path, ir_state = FI_PENDING,
               ir_archived_at = None, ir_checksum_verified = False, ir_created_at = now\<rparr>
      in (Inr i, c\<lparr>cat_instances := cat_instances c @ [i]\<rparr>))"

definition mark_instance_archived :: "int \<Rightarrow> string \<Rightarrow> bool \<Rightarrow> (catalog, unit) op" where
  "mark_instance_archived now iid verified =
     bindM (getsM (get_instance iid)) (\<lambda>found.
     thenM (guardM (found \<noteq> None) FileNotFoundError)
      (modifyM (update_instances (\<lambda>i. ir_id i = iid)
         (\<lambda>i. i\<lparr>ir_state := FI_ARCHIVED, ir_archived_at := Some now, ir_checksum_verified := verified\<rparr>))))"

definition mark_instance_failed :: "string \<Rightarrow> (catalog, unit) op" where
  "mark_instance_failed iid =
     bindM (getsM (get_instance iid)) (\<lambda>found.
     thenM (guardM (found \<noteq> None) FileNotFoundError)
      (modifyM (update_instances (\<lambda>i. ir_id i = iid) (\<lambda>i. i\<lparr>ir_state := FI_FAILED\<rparr>))))"

definition STAGED_INSTANCE_STATES :: "file_instance_state list" where
  "STAGED_INSTANCE_STATES = [FI_STAGING, FI_VERIFYING]"

definition SHARD_STAGED_EVENT :: string where
  "SHARD_STAGED_EVENT = ''shard_staged''"

definition jval_of_int :: "int option \<Rightarrow> jval" where
  "jval_of_int n = (case n of None \<Rightarrow> J_none | Some i \<Rightarrow> J_int i)"

definition create_staged_instance ::
  "string \<Rightarrow> int \<Rightarrow> string \<Rightarrow> string \<Rightarrow> string \<Rightarrow> string \<Rightarrow> file_instance_state \<Rightarrow> (catalog, instance_row) op" where
  "create_staged_instance iid now job frid b path state =
     thenM (guardM (state \<in> set STAGED_INSTANCE_STATES) (ValueError ''staged instance state must be staging/verifying''))
     (bindM (getsM (\<lambda>c. List.find (\<lambda>r. rr_id r = frid) (cat_records c))) (\<lambda>found.
      case found of
        None \<Rightarrow> raiseM FileNotFoundError
      | Some record \<Rightarrow>
          let i = \<lparr>ir_id = iid, ir_file_record_id = frid, ir_barcode = b, ir_tape_path = path, ir_state = state,
                   ir_archived_at = None, ir_checksum_verified = False, ir_created_at = now\<rparr>
          in thenM (modifyM (\<lambda>c. c\<lparr>cat_instances := cat_instances c @ [i]\<rparr>))
             (thenM (journal now job SHARD_STAGED_EVENT
                [(''barcode'', J_str b), (''instance_id'', J_str iid), (''shard_index'', jval_of_int (rr_shard_index record)),
                 (''tape_path'', J_str path)])
              (returnM i))))"

text \<open>\<open>str(detail.get("instance_id"))\<close>; a list shows its strings between quotes (code 39), which no barcode contains.\<close>

fun items_repr :: "string list \<Rightarrow> string" where
  "items_repr [] = []"
| "items_repr [x] = char_of (39 :: nat) # x @ [char_of (39 :: nat)]"
| "items_repr (x # y # xs) = char_of (39 :: nat) # x @ [char_of (39 :: nat)] @ '', '' @ items_repr (y # xs)"

fun jval_str :: "jval option \<Rightarrow> string" where
  "jval_str None = ''None''"
| "jval_str (Some J_none) = ''None''"
| "jval_str (Some (J_bool b)) = (if b then ''True'' else ''False'')"
| "jval_str (Some (J_int i)) = int_str i"
| "jval_str (Some (J_str s)) = s"
| "jval_str (Some (J_strs xs)) = ''['' @ items_repr xs @ '']''"

definition staged_ids :: "string \<Rightarrow> catalog \<Rightarrow> string list" where
  "staged_ids job c =
     map (\<lambda>e. jval_str (dict_get (je_detail e) ''instance_id'')) (filter (\<lambda>e. je_event e = SHARD_STAGED_EVENT) (job_journal job c))"

definition list_staged_instances :: "string \<Rightarrow> catalog \<Rightarrow> staged_instance list" where
  "list_staged_instances job c =
     (let wanted = staged_ids job c;
          rows = List.map_filter (\<lambda>i.
            if ir_id i \<in> set wanted \<and> ir_state i \<in> set STAGED_INSTANCE_STATES
            then map_option (\<lambda>r. \<lparr>si_instance_id = ir_id i, si_file_record_id = ir_file_record_id i, si_barcode = ir_barcode i,
                   si_tape_path = ir_tape_path i, si_shard_index = rr_shard_index r, si_state = ir_state i\<rparr>)
                 (List.find (\<lambda>r. rr_id r = ir_file_record_id i) (cat_records c))
            else None) (cat_instances c)
      in sort_key (\<lambda>s. if si_shard_index s = None then 1 else 0 :: int)
           (sort_key (\<lambda>s. case si_shard_index s of None \<Rightarrow> 0 | Some n \<Rightarrow> n) (sort_key si_barcode rows)))"

text \<open>\<open>_load_instances_in\<close>: the loop over the distinct ids, in order of first occurrence.\<close>

definition dedup_ids :: "string list \<Rightarrow> string list" where
  "dedup_ids xs = rev (remdups (rev xs))"

fun load_instances_in :: "string list \<Rightarrow> file_instance_state list \<Rightarrow> catalog \<Rightarrow> exc + instance_row list" where
  "load_instances_in [] allowed c = Inr []"
| "load_instances_in (iid # iids) allowed c =
     (case get_instance iid c of
        None \<Rightarrow> Inl FileNotFoundError
      | Some i \<Rightarrow>
          if ir_state i \<notin> set allowed then Inl (ValueError ''file instance state'')
          else bindR (load_instances_in iids allowed c) (\<lambda>is. Inr (i # is)))"

definition mark_instances_verifying :: "string list \<Rightarrow> (catalog, unit) op" where
  "mark_instances_verifying iids =
     bindM (queryM (load_instances_in (dedup_ids iids) STAGED_INSTANCE_STATES)) (\<lambda>instances.
      modifyM (update_instances (\<lambda>i. ir_id i \<in> set (map ir_id instances)) (\<lambda>i. i\<lparr>ir_state := FI_VERIFYING\<rparr>)))"

definition mark_instances_archived :: "int \<Rightarrow> string list \<Rightarrow> bool \<Rightarrow> (catalog, unit) op" where
  "mark_instances_archived now iids verified =
     bindM (queryM (load_instances_in (dedup_ids iids) [FI_VERIFYING])) (\<lambda>instances.
      modifyM (update_instances (\<lambda>i. ir_id i \<in> set (map ir_id instances))
        (\<lambda>i. i\<lparr>ir_state := FI_ARCHIVED, ir_archived_at := Some now, ir_checksum_verified := verified\<rparr>)))"

section \<open>Cartridges, groups and records\<close>

definition get_cartridge :: "string \<Rightarrow> catalog \<Rightarrow> cartridge_row option" where
  "get_cartridge b c = List.find (\<lambda>r. cr_barcode r = b) (cat_cartridges c)"

definition DEFAULT_CAPACITY_BYTES :: int where
  "DEFAULT_CAPACITY_BYTES = 12000000000"

definition update_cartridge :: "string \<Rightarrow> (cartridge_row \<Rightarrow> cartridge_row) \<Rightarrow> catalog \<Rightarrow> catalog" where
  "update_cartridge b f c = c\<lparr>cat_cartridges := map (\<lambda>r. if cr_barcode r = b then f r else r) (cat_cartridges c)\<rparr>"

definition catalog_add_cartridge :: "string \<Rightarrow> string option \<Rightarrow> catalog \<Rightarrow> catalog" where
  "catalog_add_cartridge b vg c =
     (case get_cartridge b c of
        None \<Rightarrow> c\<lparr>cat_cartridges := cat_cartridges c @ [\<lparr>cr_barcode = b, cr_volume_group_id = vg,
           cr_capacity_bytes = DEFAULT_CAPACITY_BYTES, cr_used_bytes = 0, cr_state = ''in_slot'', cr_formatted = False\<rparr>]\<rparr>
      | Some _ \<Rightarrow> (case vg of None \<Rightarrow> c | Some g \<Rightarrow> update_cartridge b (\<lambda>r. r\<lparr>cr_volume_group_id := Some g\<rparr>) c))"

definition catalog_set_cartridge_state :: "string \<Rightarrow> string \<Rightarrow> catalog \<Rightarrow> catalog" where
  "catalog_set_cartridge_state b st c = update_cartridge b (\<lambda>r. r\<lparr>cr_state := st\<rparr>) c"

definition list_cartridges :: "catalog \<Rightarrow> cartridge_row list" where
  "list_cartridges c = sort_key cr_barcode (cat_cartridges c)"

definition get_volume_group :: "string \<Rightarrow> catalog \<Rightarrow> group_row option" where
  "get_volume_group name c = List.find (\<lambda>g. gr_name g = name) (cat_groups c)"

definition create_volume_group :: "string \<Rightarrow> string \<Rightarrow> catalog \<Rightarrow> group_row \<times> catalog" where
  "create_volume_group new_id name c =
     (case get_volume_group name c of
        Some g \<Rightarrow> (g, c)
      | None \<Rightarrow> (let g = \<lparr>gr_id = new_id, gr_name = name\<rparr> in (g, c\<lparr>cat_groups := cat_groups c @ [g]\<rparr>)))"

definition list_volume_groups :: "catalog \<Rightarrow> group_row list" where
  "list_volume_groups c = sort_key gr_name (cat_groups c)"

definition get_file_record_by_id :: "string \<Rightarrow> catalog \<Rightarrow> record_row option" where
  "get_file_record_by_id fid c = List.find (\<lambda>r. rr_id r = fid) (cat_records c)"

definition list_instances_for_barcode :: "string \<Rightarrow> catalog \<Rightarrow> instance_row list" where
  "list_instances_for_barcode b c = sort_key ir_created_at (filter (\<lambda>i. ir_barcode i = b) (cat_instances c))"

section \<open>Tape operation log\<close>

definition put_tape_op :: "tape_op_row \<Rightarrow> tape_op_row list \<Rightarrow> tape_op_row list" where
  "put_tape_op row ops =
     (if list_ex (\<lambda>r. tp_op_id r = tp_op_id row) ops
      then map (\<lambda>r. if tp_op_id r = tp_op_id row then row else r) ops else ops @ [row])"

definition find_tape_op :: "string \<Rightarrow> tape_op_row list \<Rightarrow> tape_op_row option" where
  "find_tape_op oid ops = List.find (\<lambda>r. tp_op_id r = oid) ops"

definition update_tape_op :: "string \<Rightarrow> (tape_op_row \<Rightarrow> tape_op_row) \<Rightarrow> tape_op_row list \<Rightarrow> tape_op_row option \<times> tape_op_row list" where
  "update_tape_op oid f ops =
     (case find_tape_op oid ops of
        None \<Rightarrow> (None, ops)
      | Some r \<Rightarrow> (let r' = (f r)\<lparr>tp_op_id := oid\<rparr> in (Some r', put_tape_op r' ops)))"

definition list_tape_ops :: "string option \<Rightarrow> tape_op_status option \<Rightarrow> nat \<Rightarrow> tape_op_row list \<Rightarrow> tape_op_row list" where
  "list_tape_ops b st n ops =
     take n (sort_key (\<lambda>r. - tp_created_at r)
       (filter (\<lambda>r. (case b of None \<Rightarrow> True | Some x \<Rightarrow> tp_barcode r = x) \<and> (case st of None \<Rightarrow> True | Some x \<Rightarrow> tp_status r = x)) ops))"

lemma find_put_tape_op: "find_tape_op (tp_op_id row) (put_tape_op row ops) = Some row"
proof (cases "list_ex (\<lambda>r. tp_op_id r = tp_op_id row) ops")
  case True
  then have "List.find (\<lambda>r. tp_op_id r = tp_op_id row) (map (\<lambda>r. if tp_op_id r = tp_op_id row then row else r) ops) = Some row"
    by (induction ops) auto
  with True show ?thesis by (simp add: find_tape_op_def put_tape_op_def)
next
  case False
  then have "List.find (\<lambda>r. tp_op_id r = tp_op_id row) (ops @ [row]) = Some row"
    by (induction ops) auto
  with False show ?thesis by (simp add: find_tape_op_def put_tape_op_def)
qed

end
