(* ===== verification/File_Catalog.thy ===== *)
theory File_Catalog
  imports Catalog
begin

text \<open>
  Paths (\<open>pathlib.PurePosixPath\<close>) and the part of \<open>catalog/repository.py\<close> that keeps file records under
  them: looking a record up, creating or overwriting it, deleting one that holds nothing archived, and finding
  the instance a restore reads.
\<close>

section \<open>Paths\<close>

text \<open>\<open>PurePosixPath\<close>: a root and parts; empty parts and single dots vanish, two leading slashes are kept.\<close>

record posix_path =
  px_root :: string
  px_parts :: "string list"

fun split_slash :: "string \<Rightarrow> string \<Rightarrow> string list" where
  "split_slash acc [] = [acc]"
| "split_slash acc (c # cs) = (if c = CHR ''/'' then acc # split_slash [] cs else split_slash (acc @ [c]) cs)"

definition path_root :: "string \<Rightarrow> string" where
  "path_root s = (if take 1 s \<noteq> ''/'' then [] else if take 2 s = ''//'' \<and> take 3 s \<noteq> ''///'' then ''//'' else ''/'')"

definition pure_posix :: "string \<Rightarrow> posix_path" where
  "pure_posix s = \<lparr>px_root = path_root s, px_parts = filter (\<lambda>p. p \<noteq> [] \<and> p \<noteq> ''.'') (split_slash [] s)\<rparr>"

definition path_join :: "posix_path \<Rightarrow> string \<Rightarrow> posix_path" where
  "path_join p s =
     (let q = pure_posix s in if px_root q \<noteq> [] then q else \<lparr>px_root = px_root p, px_parts = px_parts p @ px_parts q\<rparr>)"

fun join_slash :: "string list \<Rightarrow> string" where
  "join_slash [] = []"
| "join_slash [p] = p"
| "join_slash (p # q # ps) = p @ ''/'' @ join_slash (q # ps)"

definition path_str :: "posix_path \<Rightarrow> string" where
  "path_str p = (if px_root p = [] \<and> px_parts p = [] then ''.'' else px_root p @ join_slash (px_parts p))"

text \<open>\<open>name\<close>: the last part.\<close>

definition posix_name :: "posix_path \<Rightarrow> string" where
  "posix_name p = (if px_parts p = [] then [] else last (px_parts p))"

lemma split_slash_no_slash: "CHR ''/'' \<notin> set acc \<Longrightarrow> p \<in> set (split_slash acc s) \<Longrightarrow> CHR ''/'' \<notin> set p"
  by (induction acc s rule: split_slash.induct) (auto split: if_splits)

lemma split_slash_none: "CHR ''/'' \<notin> set s \<Longrightarrow> split_slash acc s = [acc @ s]"
  by (induction s arbitrary: acc) auto

text \<open>A name is one component of a path.\<close>

definition path_name :: "string \<Rightarrow> bool" where
  "path_name p \<longleftrightarrow> p \<noteq> [] \<and> p \<noteq> ''.'' \<and> CHR ''/'' \<notin> set p"

lemma pure_posix_names: "p \<in> set (px_parts (pure_posix s)) \<Longrightarrow> path_name p"
  by (auto simp: pure_posix_def path_name_def dest: split_slash_no_slash [rotated])

lemma pure_posix_name: "path_name p \<Longrightarrow> pure_posix p = \<lparr>px_root = [], px_parts = [p]\<rparr>"
  by (cases p) (auto simp: pure_posix_def path_name_def split_slash_none path_root_def)

lemma posix_name_cases: "posix_name (pure_posix s) = [] \<or> path_name (posix_name (pure_posix s))"
  using pure_posix_names [OF last_in_set, of s] by (auto simp: posix_name_def)

lemma join_names: "\<forall>p \<in> set ps. path_name p \<Longrightarrow> foldl path_join q ps = \<lparr>px_root = px_root q, px_parts = px_parts q @ ps\<rparr>"
  by (induction ps arbitrary: q) (auto simp: path_join_def pure_posix_name)

section \<open>The catalog of files\<close>

definition get_file_record :: "string \<Rightarrow> catalog \<Rightarrow> record_row option" where
  "get_file_record path c = List.find (\<lambda>r. rr_path r = path_str (pure_posix path)) (cat_records c)"

text \<open>An existing record is updated in place, its instances staying attached.\<close>

definition create_file_record ::
  "string \<Rightarrow> int \<Rightarrow> string \<Rightarrow> int \<Rightarrow> string \<Rightarrow> string \<Rightarrow> int option \<Rightarrow> int option \<Rightarrow> int option \<Rightarrow> string option \<Rightarrow> string option
     \<Rightarrow> (catalog, record_row) op" where
  "create_file_record new_id now path sz checksum vg sc si bs prof parent c =
     (let normalized = path_str (pure_posix path) in
      case get_file_record normalized c of
        None \<Rightarrow>
          (let r = \<lparr>rr_id = new_id, rr_path = normalized, rr_size_bytes = sz, rr_checksum_sha256 = checksum, rr_volume_group_id = vg,
                    rr_shard_count = sc, rr_shard_index = si, rr_block_size = bs, rr_shard_profile = prof, rr_parent_id = parent,
                    rr_created_at = now\<rparr>
           in (Inr r, c\<lparr>cat_records := cat_records c @ [r]\<rparr>))
      | Some old \<Rightarrow>
          (let r = old\<lparr>rr_size_bytes := sz, rr_checksum_sha256 := checksum, rr_volume_group_id := vg, rr_shard_count := sc,
                       rr_shard_index := si, rr_block_size := bs, rr_shard_profile := prof, rr_parent_id := parent\<rparr>
           in (Inr r, c\<lparr>cat_records := map (\<lambda>x. if rr_id x = rr_id old then r else x) (cat_records c)\<rparr>)))"

text \<open>Deleting a record deletes its instances with it.\<close>

definition delete_file_record_if_unarchived :: "string \<Rightarrow> catalog \<Rightarrow> catalog" where
  "delete_file_record_if_unarchived path c =
     (case get_file_record path c of
        None \<Rightarrow> c
      | Some r \<Rightarrow>
          if list_ex (\<lambda>i. ir_file_record_id i = rr_id r
               \<and> (ir_state i \<in> {FI_ARCHIVED, FI_VERIFIED} \<or> ir_state i \<in> set STAGED_INSTANCE_STATES)) (cat_instances c)
          then c
          else c\<lparr>cat_records := filter (\<lambda>x. rr_id x \<noteq> rr_id r) (cat_records c),
                 cat_instances := filter (\<lambda>i. ir_file_record_id i \<noteq> rr_id r) (cat_instances c)\<rparr>)"

section \<open>The instance to restore\<close>

text \<open>\<open>get_latest_instance_for_path\<close>: of the archived or verified instances, the last by creation time.\<close>

definition get_latest_instance_for_path :: "string \<Rightarrow> catalog \<Rightarrow> exc + record_row \<times> instance_row" where
  "get_latest_instance_for_path path c =
     (case get_file_record path c of
        None \<Rightarrow> Inl FileNotFoundError
      | Some r \<Rightarrow>
          (let archived = sort_key ir_created_at (filter (\<lambda>i. ir_state i \<in> {FI_ARCHIVED, FI_VERIFIED})
                 (filter (\<lambda>i. ir_file_record_id i = rr_id r) (cat_instances c)))
           in if archived = [] then Inl FileNotFoundError else Inr (r, last archived)))"

lemma get_latest_instance_Inl: "get_latest_instance_for_path path c = Inl x \<Longrightarrow> x = FileNotFoundError"
  by (auto simp: get_latest_instance_for_path_def Let_def split: option.splits if_splits)

lemma sorted_le_last: "j \<in> set xs \<Longrightarrow> sorted (map f xs) \<Longrightarrow> f j \<le> f (last xs)"
  by (induction xs) (auto split: if_splits)

lemma get_latest_instance_Inr:
  assumes "get_latest_instance_for_path path c = Inr (r, i)"
  shows "r \<in> set (cat_records c)" and "rr_path r = path_str (pure_posix path)"
    and "i \<in> set (cat_instances c)" and "ir_file_record_id i = rr_id r" and "ir_state i \<in> {FI_ARCHIVED, FI_VERIFIED}"
    and "\<And>j. j \<in> set (cat_instances c) \<Longrightarrow> ir_file_record_id j = rr_id r \<Longrightarrow> ir_state j \<in> {FI_ARCHIVED, FI_VERIFIED}
      \<Longrightarrow> ir_created_at j \<le> ir_created_at i"
proof -
  let ?xs = "filter (\<lambda>i. ir_state i \<in> {FI_ARCHIVED, FI_VERIFIED}) (filter (\<lambda>i. ir_file_record_id i = rr_id r) (cat_instances c))"
  have r: "get_file_record path c = Some r" and ne: "sort_key ir_created_at ?xs \<noteq> []" and i: "i = last (sort_key ir_created_at ?xs)"
    using assms by (auto simp: get_latest_instance_for_path_def Let_def split: option.splits if_splits)
  from r show "r \<in> set (cat_records c)" and "rr_path r = path_str (pure_posix path)"
    by (auto simp: get_file_record_def find_Some_iff)
  have "i \<in> set ?xs" using last_in_set [OF ne] i by (simp only: set_sort)
  then show "i \<in> set (cat_instances c)" and "ir_file_record_id i = rr_id r" and "ir_state i \<in> {FI_ARCHIVED, FI_VERIFIED}" by auto
  fix j
  assume "j \<in> set (cat_instances c)" and "ir_file_record_id j = rr_id r" and "ir_state j \<in> {FI_ARCHIVED, FI_VERIFIED}"
  then have "j \<in> set (sort_key ir_created_at ?xs)" by simp
  moreover have "sorted (map ir_created_at (sort_key ir_created_at ?xs))" by simp
  ultimately show "ir_created_at j \<le> ir_created_at i"
    using sorted_le_last [of j "sort_key ir_created_at ?xs" ir_created_at] i by blast
qed

lemma get_latest_cat_jobs: "get_latest_instance_for_path p (c\<lparr>cat_jobs := js\<rparr>) = get_latest_instance_for_path p c"
  by (simp add: get_latest_instance_for_path_def get_file_record_def Let_def split: option.split)

end
