(* ===== verification/Sim_Ltfs.thy ===== *)
theory Sim_Ltfs
  imports Sim_Library_Props
begin

text \<open>
  The simulated LTFS backend of \<open>simulator/ltfs_volume.py\<close>: the volumes, their files and accounting,
  the table of active mounts, and the library it drives.

  A tape object is the entry of \<open>_tapes\<close> under its normalised barcode and an active mount the entry of
  \<open>_active_mounts\<close> under its handle id: a mutation of the object is an update of the entry. The fault
  injector may be the very object the library holds, so the backend's reference is a datatype that
  says which. SHA-256 is the argument \<open>sha\<close>; clock readings and fresh identifiers are arguments. Bytes
  are numbers below 256, a path is its string. The file system outside the volumes is not part of the
  state: \<open>write_file\<close> takes the bytes read from its source and \<open>read_file\<close> returns the bytes it writes
  to its destination.
\<close>

section \<open>State\<close>

type_synonym bytes = "nat list"

record file_record =
  fr_tape_path :: string
  fr_size_bytes :: int
  fr_checksum_sha256 :: string
  fr_content :: bytes
  fr_modified_at :: int

record tape_contents =
  tc_barcode :: string
  tc_capacity_bytes :: int
  tc_used_bytes :: int
  tc_files :: "(string, file_record) dict"
  tc_formatted :: bool
  tc_mount_state :: mount_state

record mount_handle =
  mh_handle_id :: string
  mh_barcode :: string
  mh_drive_id :: int
  mh_mode :: mount_mode
  mh_mount_path :: string

record active_mount =
  am_handle :: mount_handle
  am_barcode :: string
  am_drive_id :: int
  am_mode :: mount_mode
  am_active :: bool
  am_dirty :: bool
  am_write_in_progress :: bool

datatype injector_ref = No_injector | Library_injector | Own_injector fault_injector

record ltfs_backend =
  lt_library :: mock_library
  lt_capacity_bytes :: int
  lt_fault_config :: fault_config
  lt_injector :: injector_ref
  lt_tapes :: "(string, tape_contents) dict"
  lt_active_mounts :: "(string, active_mount) dict"

record file_instance =
  inst_id :: string
  inst_file_record_id :: string
  inst_barcode :: string
  inst_tape_path :: string
  inst_state :: file_instance_state
  inst_archived_at :: "int option"

record ltfs_file_stat =
  st_path :: string
  st_size_bytes :: int
  st_checksum_sha256 :: string
  st_modified_at :: int

definition new_tape :: "string \<Rightarrow> int \<Rightarrow> tape_contents" where
  "new_tape b cap = \<lparr>tc_barcode = b, tc_capacity_bytes = cap, tc_used_bytes = 0, tc_files = [],
     tc_formatted = False, tc_mount_state = MS_UNMOUNTED\<rparr>"

definition mk_ltfs :: "mock_library \<Rightarrow> int \<Rightarrow> fault_config option \<Rightarrow> injector_ref \<Rightarrow> ltfs_backend" where
  "mk_ltfs L cap cfg iref =
     \<lparr>lt_library = L, lt_capacity_bytes = cap,
      lt_fault_config = (case cfg of None \<Rightarrow> no_faults | Some c \<Rightarrow> c),
      lt_injector = iref,
      lt_tapes = map (\<lambda>b. (b, new_tape b cap)) (get_all_barcodes L),
      lt_active_mounts = []\<rparr>"

section \<open>Accesses\<close>

definition get_injector :: "ltfs_backend \<Rightarrow> fault_injector option" where
  "get_injector B =
     (case lt_injector B of No_injector \<Rightarrow> None | Library_injector \<Rightarrow> lib_injector (lt_library B)
      | Own_injector fi \<Rightarrow> Some fi)"

definition put_injector :: "fault_injector \<Rightarrow> ltfs_backend \<Rightarrow> ltfs_backend" where
  "put_injector fi B =
     (case lt_injector B of No_injector \<Rightarrow> B
      | Library_injector \<Rightarrow> B\<lparr>lt_library := (lt_library B)\<lparr>lib_injector := Some fi\<rparr>\<rparr>
      | Own_injector _ \<Rightarrow> B\<lparr>lt_injector := Own_injector fi\<rparr>)"

definition ltfs_maybe_raise_injected_fault :: "injected_fault \<Rightarrow> string \<Rightarrow> (ltfs_backend, unit) op" where
  "ltfs_maybe_raise_injected_fault = maybe_raise_injected_fault get_injector put_injector"

definition on_library :: "(mock_library, 'a) op \<Rightarrow> (ltfs_backend, 'a) op" where
  "on_library m = zoomM lt_library (\<lambda>L B. B\<lparr>lt_library := L\<rparr>) m"

definition set_tape :: "string \<Rightarrow> (tape_contents \<Rightarrow> tape_contents) \<Rightarrow> ltfs_backend \<Rightarrow> ltfs_backend" where
  "set_tape b f B =
     (case dict_get (lt_tapes B) b of None \<Rightarrow> B | Some t \<Rightarrow> B\<lparr>lt_tapes := dict_set b (f t) (lt_tapes B)\<rparr>)"

definition set_mount :: "string \<Rightarrow> (active_mount \<Rightarrow> active_mount) \<Rightarrow> ltfs_backend \<Rightarrow> ltfs_backend" where
  "set_mount h f B =
     (case dict_get (lt_active_mounts B) h of None \<Rightarrow> B
      | Some m \<Rightarrow> B\<lparr>lt_active_mounts := dict_set h (f m) (lt_active_mounts B)\<rparr>)"

text \<open>\<open>ensure_tape\<close> returns the tape object; the model returns its key and its current contents.\<close>

definition ensure_tape :: "string \<Rightarrow> (ltfs_backend, string \<times> tape_contents) op" where
  "ensure_tape barcode =
     bindM (liftM (mk_barcode barcode)) (\<lambda>normalized.
     thenM (ltfs_maybe_raise_injected_fault IF_TAPE_NOT_FOUND normalized)
     (bindM (getsM (\<lambda>B. dict_get (lt_tapes B) normalized)) (\<lambda>t.
      case t of
        Some tape \<Rightarrow> returnM (normalized, tape)
      | None \<Rightarrow>
          bindM (getsM (\<lambda>B. get_all_barcodes (lt_library B))) (\<lambda>known.
          thenM (guardM (normalized \<in> set known) CartridgeNotFoundError)
          (bindM (getsM (\<lambda>B. new_tape normalized (lt_capacity_bytes B))) (\<lambda>tape.
          thenM (modifyM (\<lambda>B. B\<lparr>lt_tapes := dict_set normalized tape (lt_tapes B)\<rparr>))
           (returnM (normalized, tape))))))))"

definition require_active_mount :: "mount_handle \<Rightarrow> (ltfs_backend, active_mount) op" where
  "require_active_mount h =
     bindM (getsM (\<lambda>B. dict_get (lt_active_mounts B) (mh_handle_id h))) (\<lambda>m.
      case m of
        None \<Rightarrow> raiseM CartridgeNotFoundError
      | Some am \<Rightarrow> thenM (guardM (am_active am) CartridgeNotFoundError) (returnM am))"

definition should_flip_checksum :: "string \<Rightarrow> (ltfs_backend, bool) op" where
  "should_flip_checksum target B =
     (if should_fail (lt_fault_config B) SF_CHECKSUM_MISMATCH then (Inr True, B)
      else case get_injector B of
             None \<Rightarrow> (Inr False, B)
           | Some fi \<Rightarrow> (case should_fault IF_CHECKSUM_MISMATCH target fi of (b, fi') \<Rightarrow> (Inr b, put_injector fi' B)))"

definition flip_checksum :: "string \<Rightarrow> string" where
  "flip_checksum c =
     (case c of [] \<Rightarrow> c | x # xs \<Rightarrow> (if x \<noteq> CHR ''0'' then CHR ''0'' else CHR ''1'') # xs)"

section \<open>Operations\<close>

definition format_tape :: "string \<Rightarrow> string \<Rightarrow> tape_contents \<Rightarrow> (ltfs_backend, op_result) op" where
  "format_tape barcode key tape =
     thenM (modifyM (set_tape key (\<lambda>t. t\<lparr>tc_files := [], tc_used_bytes := 0, tc_formatted := True,
                                         tc_mount_state := MS_UNMOUNTED\<rparr>)))
     (thenM (modifyM (\<lambda>B. B\<lparr>lt_active_mounts :=
                filter (\<lambda>(_, m). am_barcode m \<noteq> tc_barcode tape) (lt_active_mounts B)\<rparr>))
     (bindM (queryM (\<lambda>B. find_drive_by_barcode barcode (lt_library B))) (\<lambda>did.
     thenM (case did of None \<Rightarrow> returnM () | Some d \<Rightarrow> on_library (set_drive_mount_state d MS_UNMOUNTED))
      (returnM (Op_result True ''formatted'' (Some (tc_barcode tape)) [])))))"

definition ltfs_format :: "int \<Rightarrow> string \<Rightarrow> format_confirmation option \<Rightarrow> (ltfs_backend, op_result) op" where
  "ltfs_format now barcode confirmation =
     (case confirmation of
        None \<Rightarrow> raiseM FormatRequiresConfirmationError
      | Some c \<Rightarrow>
          thenM (liftM (confirmation_validate now c barcode))
          (bindM (ensure_tape barcode) (\<lambda>(key, tape). format_tape barcode key tape)))"

text \<open>The mounts found \<open>active_for_tape\<close>: the source compares with the \<^emph>\<open>argument\<close>, not with its
  normalised form.\<close>

definition active_for :: "string \<Rightarrow> ltfs_backend \<Rightarrow> active_mount list" where
  "active_for b B = filter (\<lambda>m. am_barcode m = b) (dict_values (lt_active_mounts B))"

definition target_mount_state :: "mount_mode \<Rightarrow> mount_state" where
  "target_mount_state mode = (if mode = READ_ONLY then MS_MOUNTED_RO else MS_MOUNTED_RW)"

definition mount_tape ::
  "string \<Rightarrow> string \<Rightarrow> string \<Rightarrow> mount_mode \<Rightarrow> int \<Rightarrow> string \<Rightarrow> tape_contents \<Rightarrow> (ltfs_backend, mount_handle) op" where
  "mount_tape hid normalized barcode mode did key tape =
     thenM (guardM (tc_formatted tape) FormatRequiresConfirmationError)
     (bindM (getsM (active_for barcode)) (\<lambda>active_for_tape.
     thenM (guardM (\<not> (active_for_tape \<noteq> [] \<and>
                (mode = READ_WRITE \<or> list_ex (\<lambda>m. am_mode m = READ_WRITE) active_for_tape)))
              SimulatedMountFailure)
     (thenM (if active_for_tape = [] then
               thenM (on_library (set_drive_mount_state did (target_mount_state mode)))
                (modifyM (set_tape key (\<lambda>t. t\<lparr>tc_mount_state := target_mount_state mode\<rparr>)))
             else returnM ())
     (let handle = \<lparr>mh_handle_id = hid, mh_barcode = normalized, mh_drive_id = did, mh_mode = mode,
                    mh_mount_path = ''mock-mount/'' @ barcode\<rparr>
      in thenM (modifyM (\<lambda>B. B\<lparr>lt_active_mounts := dict_set hid
                 \<lparr>am_handle = handle, am_barcode = tc_barcode tape, am_drive_id = did, am_mode = mode,
                  am_active = True, am_dirty = False, am_write_in_progress = False\<rparr> (lt_active_mounts B)\<rparr>))
           (returnM handle)))))"

definition ltfs_mount :: "string \<Rightarrow> string \<Rightarrow> mount_mode \<Rightarrow> (ltfs_backend, mount_handle) op" where
  "ltfs_mount hid barcode mode =
     bindM (liftM (mk_barcode barcode)) (\<lambda>normalized.
     thenM (ltfs_maybe_raise_injected_fault IF_MOUNT_TIMEOUT normalized)
     (thenM (ltfs_maybe_raise_injected_fault IF_DRIVE_UNAVAILABLE normalized)
     (bindM (getsM lt_fault_config) (\<lambda>cfg.
     thenM (guardM (\<not> should_fail cfg SF_MOUNT_FAILURE) SimulatedMountFailure)
     (bindM (queryM (\<lambda>B. find_drive_by_barcode barcode (lt_library B))) (\<lambda>found.
      case found of None \<Rightarrow> raiseM CartridgeNotFoundError | Some did \<Rightarrow>
      bindM (ensure_tape barcode) (\<lambda>(key, tape). mount_tape hid normalized barcode mode did key tape)))))))"

definition unmounted_state :: "active_mount \<Rightarrow> active_mount list \<Rightarrow> mount_state" where
  "unmounted_state am remaining =
     (if am_write_in_progress am \<or> am_dirty am then MS_DIRTY
      else if list_ex (\<lambda>m. am_mode m = READ_WRITE) remaining then MS_MOUNTED_RW
      else if remaining \<noteq> [] then MS_MOUNTED_RO
      else MS_UNMOUNTED)"

definition unmount_tape :: "mount_handle \<Rightarrow> active_mount \<Rightarrow> string \<Rightarrow> tape_contents \<Rightarrow> (ltfs_backend, op_result) op" where
  "unmount_tape h am key tape =
     bindM (getsM (active_for (tc_barcode tape))) (\<lambda>remaining.
     thenM (modifyM (set_tape key (\<lambda>t. t\<lparr>tc_mount_state := unmounted_state am remaining\<rparr>)))
     (thenM (on_library (set_drive_mount_state (mh_drive_id h) (unmounted_state am remaining)))
      (returnM (Op_result True ''unmounted'' (Some (mh_barcode h)) [(''drive'', mh_drive_id h)]))))"

definition ltfs_unmount :: "mount_handle \<Rightarrow> (ltfs_backend, op_result) op" where
  "ltfs_unmount h =
     bindM (getsM (\<lambda>B. dict_get (lt_active_mounts B) (mh_handle_id h))) (\<lambda>found.
     case found of None \<Rightarrow> raiseM CartridgeNotFoundError | Some am \<Rightarrow>
     thenM (guardM (am_active am) CartridgeNotFoundError)
     (thenM (modifyM (\<lambda>B. B\<lparr>lt_active_mounts := dict_pop (mh_handle_id h) (lt_active_mounts B)\<rparr>))
     (bindM (ensure_tape (mh_barcode h)) (\<lambda>(key, tape). unmount_tape h am key tape))))"

text \<open>\<open>projected_used_bytes\<close> of a write.\<close>

definition projected_used_bytes :: "tape_contents \<Rightarrow> string \<Rightarrow> int \<Rightarrow> int" where
  "projected_used_bytes t path stored =
     tc_used_bytes t - (case dict_get (tc_files t) path of None \<Rightarrow> 0 | Some r \<Rightarrow> fr_size_bytes r) + stored"

definition store_file :: "string \<Rightarrow> file_record \<Rightarrow> int \<Rightarrow> tape_contents \<Rightarrow> tape_contents" where
  "store_file path r used t = t\<lparr>tc_files := dict_set path r (tc_files t), tc_used_bytes := used\<rparr>"

text \<open>The section of \<open>_write_mounted_bytes\<close> under the lock; the current contents of the tape are read
  there.\<close>

definition write_mounted_locked ::
  "(bytes \<Rightarrow> string) \<Rightarrow> int \<Rightarrow> string \<Rightarrow> string \<Rightarrow> string \<Rightarrow> bytes \<Rightarrow> int \<Rightarrow> string option \<Rightarrow> (ltfs_backend, string) op" where
  "write_mounted_locked sha now hid key path content stored_size checksum_opt =
     bindM (getsM lt_fault_config) (\<lambda>cfg.
     thenM (modifyM (set_mount hid (\<lambda>m. m\<lparr>am_write_in_progress := True\<rparr>)))
     (thenM (if should_fail cfg SF_NO_FREE_SPACE then
               thenM (modifyM (set_mount hid (\<lambda>m. m\<lparr>am_write_in_progress := False\<rparr>))) (raiseM TapeFullError)
             else returnM ())
     (thenM (if should_fail cfg SF_WRITE_FAILURE then
               thenM (modifyM (set_mount hid (\<lambda>m. m\<lparr>am_write_in_progress := False, am_dirty := True\<rparr>)))
                (raiseM SimulatedWriteFailure)
             else returnM ())
     (thenM (case fc_write_fail_after_bytes cfg of
               None \<Rightarrow> returnM ()
             | Some failure_point \<Rightarrow>
                 if failure_point < int (length content) then
                   thenM (modifyM (set_mount hid (\<lambda>m. m\<lparr>am_write_in_progress := False, am_dirty := True\<rparr>)))
                    (raiseM SimulatedWriteFailure)
                 else returnM ())
     (bindM (indexM lt_tapes key) (\<lambda>tape.
      let projected = projected_used_bytes tape path stored_size;
          checksum = (case checksum_opt of None \<Rightarrow> sha content | Some c \<Rightarrow> if c = [] then sha content else c)
      in
      thenM (if projected > tc_capacity_bytes tape then
               thenM (modifyM (set_mount hid (\<lambda>m. m\<lparr>am_write_in_progress := False\<rparr>))) (raiseM TapeFullError)
             else returnM ())
      (thenM (modifyM (set_tape key (\<lambda>t. (store_file path \<lparr>fr_tape_path = path, fr_size_bytes = stored_size,
                 fr_checksum_sha256 = checksum, fr_content = content, fr_modified_at = now\<rparr> projected t)
                 \<lparr>tc_mount_state := MS_MOUNTED_RW\<rparr>)))
      (thenM (modifyM (set_mount hid (\<lambda>m. m\<lparr>am_write_in_progress := False\<rparr>)))
       (returnM checksum)))))))))"

definition write_mounted_bytes ::
  "(bytes \<Rightarrow> string) \<Rightarrow> int \<Rightarrow> string \<Rightarrow> mount_handle \<Rightarrow> string \<Rightarrow> bytes \<Rightarrow> int option \<Rightarrow> string option
    \<Rightarrow> (ltfs_backend, file_instance) op" where
  "write_mounted_bytes sha now new_id h path content size_bytes checksum_opt =
     thenM (ltfs_maybe_raise_injected_fault IF_WRITE_ERROR (mh_barcode h))
     (thenM (ltfs_maybe_raise_injected_fault IF_PARTIAL_WRITE (mh_barcode h))
     (bindM (require_active_mount h) (\<lambda>am.
     thenM (guardM (mh_mode h = READ_WRITE) PermissionError)
     (bindM (ensure_tape (mh_barcode h)) (\<lambda>(key, tape).
     bindM (write_mounted_locked sha now (mh_handle_id h) key path content
              (case size_bytes of None \<Rightarrow> int (length content) | Some n \<Rightarrow> n) checksum_opt) (\<lambda>checksum.
     thenM (on_library (set_drive_mount_state (mh_drive_id h) MS_MOUNTED_RW))
     (bindM (liftM (mk_barcode (mh_barcode h))) (\<lambda>b.
      returnM \<lparr>inst_id = new_id, inst_file_record_id = checksum, inst_barcode = b, inst_tape_path = path,
               inst_state = FI_ARCHIVED, inst_archived_at = Some now\<rparr>))))))))"

text \<open>\<open>write_file\<close>: the bytes of the source file are the argument.\<close>

definition ltfs_write_file ::
  "(bytes \<Rightarrow> string) \<Rightarrow> int \<Rightarrow> string \<Rightarrow> mount_handle \<Rightarrow> bytes \<Rightarrow> string \<Rightarrow> (ltfs_backend, file_instance) op" where
  "ltfs_write_file sha now new_id h content dest = write_mounted_bytes sha now new_id h dest content None None"

definition write_metadata_bytes :: "(bytes \<Rightarrow> string) \<Rightarrow> int \<Rightarrow> string \<Rightarrow> string \<Rightarrow> bytes \<Rightarrow> (ltfs_backend, unit) op" where
  "write_metadata_bytes sha now barcode path content =
     bindM (liftM (mk_barcode barcode)) (\<lambda>b.
     thenM (ltfs_maybe_raise_injected_fault IF_WRITE_ERROR b)
     (thenM (ltfs_maybe_raise_injected_fault IF_PARTIAL_WRITE b)
     (bindM (ensure_tape barcode) (\<lambda>(key, tape).
      let projected = projected_used_bytes tape path (int (length content))
      in thenM (guardM (\<not> projected > tc_capacity_bytes tape) TapeFullError)
          (modifyM (set_tape key (store_file path \<lparr>fr_tape_path = path, fr_size_bytes = int (length content),
             fr_checksum_sha256 = sha content, fr_content = content, fr_modified_at = now\<rparr> projected)))))))"

text \<open>\<open>read_bytes\<close>: with one argument a search over all volumes, with two a read from one.\<close>

definition read_bytes_anywhere :: "string \<Rightarrow> (ltfs_backend, bytes option) op" where
  "read_bytes_anywhere path =
     thenM (ltfs_maybe_raise_injected_fault IF_READ_ERROR [])
     (getsM (\<lambda>B. map_option fr_content
       (Option.bind (List.find (\<lambda>t. dict_get (tc_files t) path \<noteq> None) (dict_values (lt_tapes B)))
          (\<lambda>t. dict_get (tc_files t) path))))"

definition read_bytes :: "string \<Rightarrow> string \<Rightarrow> (ltfs_backend, bytes option) op" where
  "read_bytes barcode path =
     bindM (liftM (mk_barcode barcode)) (\<lambda>b.
     thenM (ltfs_maybe_raise_injected_fault IF_READ_ERROR b)
     (bindM (ensure_tape barcode) (\<lambda>(key, tape).
      returnM (map_option fr_content (dict_get (tc_files tape) path)))))"

text \<open>\<open>read_file\<close>: the checksum reported and the bytes written to the destination.\<close>

definition ltfs_read_file :: "(bytes \<Rightarrow> string) \<Rightarrow> mount_handle \<Rightarrow> string \<Rightarrow> (ltfs_backend, string \<times> bytes) op" where
  "ltfs_read_file sha h source =
     thenM (ltfs_maybe_raise_injected_fault IF_READ_ERROR (mh_barcode h))
     (thenM (require_active_mount h)
     (bindM (ensure_tape (mh_barcode h)) (\<lambda>(key, tape).
      case dict_get (tc_files tape) source of
        None \<Rightarrow> raiseM FileNotFoundError
      | Some r \<Rightarrow>
          bindM (should_flip_checksum (mh_barcode h)) (\<lambda>flip.
           returnM (if flip then flip_checksum (sha (fr_content r)) else sha (fr_content r), fr_content r)))))"

definition ltfs_stat :: "mount_handle \<Rightarrow> string \<Rightarrow> (ltfs_backend, ltfs_file_stat) op" where
  "ltfs_stat h path =
     thenM (require_active_mount h)
     (bindM (ensure_tape (mh_barcode h)) (\<lambda>(key, tape).
      case dict_get (tc_files tape) path of
        None \<Rightarrow> raiseM FileNotFoundError
      | Some r \<Rightarrow>
          bindM (should_flip_checksum (mh_barcode h)) (\<lambda>flip.
           returnM \<lparr>st_path = path, st_size_bytes = fr_size_bytes r,
             st_checksum_sha256 = (if flip then flip_checksum (fr_checksum_sha256 r) else fr_checksum_sha256 r),
             st_modified_at = fr_modified_at r\<rparr>)))"

definition remaining_capacity :: "string \<Rightarrow> (ltfs_backend, int) op" where
  "remaining_capacity barcode =
     bindM (ensure_tape barcode) (\<lambda>(key, tape). returnM (max 0 (tc_capacity_bytes tape - tc_used_bytes tape)))"

end
