(* ===== verification/Sim_Ltfs_Props.thy ===== *)
theory Sim_Ltfs_Props
  imports Sim_Ltfs
begin

text \<open>
  Correctness of the simulated LTFS backend: the accounting of a volume, exclusive read-write mounts,
  and that a mounted volume stays in its drive are one invariant kept by every operation; formatting
  needs a matching confirmation; what is written is what is read.
\<close>

section \<open>Accounting of a volume\<close>

definition files_size :: "(string, file_record) dict \<Rightarrow> int" where
  "files_size fs = sum_list (map (fr_size_bytes \<circ> snd) fs)"

definition tape_ok :: "string \<Rightarrow> tape_contents \<Rightarrow> bool" where
  "tape_ok k t \<longleftrightarrow> tc_barcode t = k \<and> barcode_pattern k \<and> distinct (dict_keys (tc_files t))
     \<and> tc_used_bytes t = files_size (tc_files t) \<and> tc_used_bytes t \<le> tc_capacity_bytes t
     \<and> 0 \<le> tc_capacity_bytes t"

lemma files_size_set:
  assumes "distinct (dict_keys fs)"
  shows "files_size (dict_set p r fs) =
    files_size fs - (case dict_get fs p of None \<Rightarrow> 0 | Some q \<Rightarrow> fr_size_bytes q) + fr_size_bytes r"
  using assms
proof (induction fs)
  case Nil
  then show ?case by (simp add: files_size_def)
next
  case (Cons a fs)
  obtain k q where a: "a = (k, q)" by (cases a)
  show ?case using Cons by (cases "k = p") (simp_all add: files_size_def a)
qed

lemma tape_ok_new: "barcode_pattern k \<Longrightarrow> 0 \<le> cap \<Longrightarrow> tape_ok k (new_tape k cap)"
  by (simp add: tape_ok_def new_tape_def files_size_def)

lemma tape_ok_store:
  assumes "tape_ok k t" and "projected_used_bytes t p n \<le> tc_capacity_bytes t" and "fr_size_bytes r = n"
  shows "tape_ok k (store_file p r (projected_used_bytes t p n) t)"
  using assms by (simp add: tape_ok_def store_file_def files_size_set distinct_update projected_used_bytes_def)

lemma tape_ok_mount_state [simp]: "tape_ok k (t\<lparr>tc_mount_state := ms\<rparr>) = tape_ok k t"
  by (simp add: tape_ok_def)

section \<open>The invariant\<close>

text \<open>An active mount: live, described by its handle, with its cartridge in its drive and the drive's
  mount state that of its mode.\<close>

definition mount_ok :: "mock_library \<Rightarrow> string \<Rightarrow> active_mount \<Rightarrow> bool" where
  "mount_ok L h m \<longleftrightarrow> am_active m \<and> \<not> am_write_in_progress m \<and> (am_dirty m \<longrightarrow> am_mode m = READ_WRITE)
     \<and> mh_handle_id (am_handle m) = h \<and> mh_barcode (am_handle m) = am_barcode m
     \<and> mh_drive_id (am_handle m) = am_drive_id m \<and> mh_mode (am_handle m) = am_mode m
     \<and> (\<exists>dr. dict_get (lib_drives L) (am_drive_id m) = Some dr \<and> drive_barcode dr = Some (am_barcode m)
           \<and> drive_mount_state dr = target_mount_state (am_mode m))"

definition mounts_ok :: "mock_library \<Rightarrow> (string, active_mount) dict \<Rightarrow> bool" where
  "mounts_ok L ms \<longleftrightarrow> distinct (dict_keys ms) \<and> (\<forall>h m. dict_get ms h = Some m \<longrightarrow> mount_ok L h m)
     \<and> (\<forall>h m h' m'. dict_get ms h = Some m \<longrightarrow> dict_get ms h' = Some m' \<longrightarrow> am_barcode m = am_barcode m'
          \<longrightarrow> am_mode m = READ_WRITE \<longrightarrow> h = h')"

definition tapes_ok :: "(string, tape_contents) dict \<Rightarrow> bool" where
  "tapes_ok ts \<longleftrightarrow> distinct (dict_keys ts) \<and> (\<forall>k t. dict_get ts k = Some t \<longrightarrow> tape_ok k t)"

definition ltfs_inv :: "ltfs_backend \<Rightarrow> bool" where
  "ltfs_inv B \<longleftrightarrow> lib_inv (lt_library B) \<and> 0 \<le> lt_capacity_bytes B \<and> tapes_ok (lt_tapes B)
     \<and> mounts_ok (lt_library B) (lt_active_mounts B)"

lemma mount_ok_cong: "lib_drives L' = lib_drives L \<Longrightarrow> mount_ok L' h m = mount_ok L h m"
  by (simp add: mount_ok_def)

lemma mounts_ok_cong: "lib_drives L' = lib_drives L \<Longrightarrow> mounts_ok L' ms = mounts_ok L ms"
  by (simp add: mounts_ok_def mount_ok_def)

lemma mounts_ok_get: "mounts_ok L ms \<Longrightarrow> dict_get ms h = Some m \<Longrightarrow> mount_ok L h m"
  by (simp add: mounts_ok_def)

lemma mounts_ok_mem: "mounts_ok L ms \<Longrightarrow> m \<in> set (dict_values ms) \<Longrightarrow> \<exists>h. dict_get ms h = Some m"
  using dict_get_iff_mem by (fastforce simp: mounts_ok_def)

lemma mounts_ok_exclusive:
  "mounts_ok L ms \<Longrightarrow> dict_get ms h = Some m \<Longrightarrow> dict_get ms h' = Some m' \<Longrightarrow> am_barcode m = am_barcode m'
     \<Longrightarrow> am_mode m = READ_WRITE \<Longrightarrow> h = h'"
  unfolding mounts_ok_def by blast

subsection \<open>Steps that touch only the injector or create an empty tape\<close>

definition quiet :: "ltfs_backend \<Rightarrow> ltfs_backend \<Rightarrow> bool" where
  "quiet B B' \<longleftrightarrow> media (lt_library B') = media (lt_library B) \<and> lt_active_mounts B' = lt_active_mounts B
     \<and> lt_fault_config B' = lt_fault_config B \<and> lt_capacity_bytes B' = lt_capacity_bytes B
     \<and> (\<forall>k t. dict_get (lt_tapes B) k = Some t \<longrightarrow> dict_get (lt_tapes B') k = Some t)
     \<and> (\<forall>k t. dict_get (lt_tapes B') k = Some t \<longrightarrow>
          dict_get (lt_tapes B) k = Some t \<or> dict_get (lt_tapes B) k = None \<and> t = new_tape k (lt_capacity_bytes B))"

lemma quiet_refl [simp]: "quiet B B"
  by (simp add: quiet_def)

lemma quiet_trans: "quiet B B' \<Longrightarrow> quiet B' B'' \<Longrightarrow> quiet B B''"
  unfolding quiet_def by (intro conjI allI impI; (elim conjE; fastforce))

lemma quiet_put_injector [simp]: "quiet B (put_injector fi B)"
  by (simp add: quiet_def put_injector_def split: injector_ref.splits)

lemma ltfs_inv_put_injector [simp]: "ltfs_inv (put_injector fi B) = ltfs_inv B"
  by (auto simp: ltfs_inv_def put_injector_def mounts_ok_def mount_ok_def split: injector_ref.splits)

lemma quiet_tape: "quiet B B' \<Longrightarrow> dict_get (lt_tapes B) k = Some t \<Longrightarrow> dict_get (lt_tapes B') k = Some t"
  by (simp add: quiet_def)

lemma wp_ltfs_injected:
  assumes "ltfs_inv B"
    and "\<And>B'. quiet B B' \<Longrightarrow> ltfs_inv B' \<Longrightarrow> Q () B'"
    and "\<And>e B'. quiet B B' \<Longrightarrow> ltfs_inv B' \<Longrightarrow> E e B'"
  shows "wp (ltfs_maybe_raise_injected_fault ft target) Q E B"
  unfolding ltfs_maybe_raise_injected_fault_def
  by (rule wp_maybe_raise_injected_fault) (use assms in simp_all)

lemma known_barcode_pattern: "lib_inv L \<Longrightarrow> b \<in> set (get_all_barcodes L) \<Longrightarrow> barcode_pattern b"
proof -
  assume L: "lib_inv L" and "b \<in> set (get_all_barcodes L)"
  then have "dict_get (cartridge_states L) b \<noteq> None" by (simp add: get_all_barcodes_def map_of_eq_None_iff)
  with L show ?thesis using phys_pattern [of "occ L" "dict_get (cartridge_states L)" b] by (auto simp: lib_inv_def)
qed

lemma wp_ensure_tape:
  assumes inv: "ltfs_inv B"
    and ok: "\<And>k t B'. mk_barcode c = Inr k \<Longrightarrow> quiet B B' \<Longrightarrow> ltfs_inv B' \<Longrightarrow> dict_get (lt_tapes B') k = Some t
        \<Longrightarrow> tape_ok k t \<Longrightarrow> Q (k, t) B'"
    and err: "\<And>e B'. quiet B B' \<Longrightarrow> ltfs_inv B' \<Longrightarrow> E e B'"
  shows "wp (ensure_tape c) Q E B"
proof (cases "mk_barcode c")
  case (Inl e)
  then show ?thesis using err [of B] inv by (simp add: ensure_tape_def wp_rules)
next
  case (Inr k)
  have "wp (thenM (ltfs_maybe_raise_injected_fault IF_TAPE_NOT_FOUND k)
     (bindM (getsM (\<lambda>B. dict_get (lt_tapes B) k)) (\<lambda>t.
      case t of
        Some tape \<Rightarrow> returnM (k, tape)
      | None \<Rightarrow>
          bindM (getsM (\<lambda>B. get_all_barcodes (lt_library B))) (\<lambda>known.
          thenM (guardM (k \<in> set known) CartridgeNotFoundError)
          (bindM (getsM (\<lambda>B. new_tape k (lt_capacity_bytes B))) (\<lambda>tape.
          thenM (modifyM (\<lambda>B. B\<lparr>lt_tapes := dict_set k tape (lt_tapes B)\<rparr>))
           (returnM (k, tape)))))))) Q E B"
  proof (subst wp_then, rule wp_ltfs_injected [OF inv])
    fix B1 assume q: "quiet B B1" and i: "ltfs_inv B1"
    show "wp (bindM (getsM (\<lambda>B. dict_get (lt_tapes B) k)) (\<lambda>t.
      case t of
        Some tape \<Rightarrow> returnM (k, tape)
      | None \<Rightarrow>
          bindM (getsM (\<lambda>B. get_all_barcodes (lt_library B))) (\<lambda>known.
          thenM (guardM (k \<in> set known) CartridgeNotFoundError)
          (bindM (getsM (\<lambda>B. new_tape k (lt_capacity_bytes B))) (\<lambda>tape.
          thenM (modifyM (\<lambda>B. B\<lparr>lt_tapes := dict_set k tape (lt_tapes B)\<rparr>))
           (returnM (k, tape))))))) Q E B1"
    proof (cases "dict_get (lt_tapes B1) k")
      case (Some t)
      then have "tape_ok k t" using i by (simp add: ltfs_inv_def tapes_ok_def)
      then show ?thesis using ok [OF Inr q i Some] Some by (simp add: wp_rules)
    next
      case None
      let ?B = "B1\<lparr>lt_tapes := dict_set k (new_tape k (lt_capacity_bytes B1)) (lt_tapes B1)\<rparr>"
      have "quiet B1 ?B" using None by (simp add: quiet_def dict_simps)
      moreover have "tape_ok k (new_tape k (lt_capacity_bytes B1))"
        using Inr i by (intro tape_ok_new) (auto simp: mk_barcode_Inr ltfs_inv_def)
      moreover from this have "ltfs_inv ?B" using i by (simp add: ltfs_inv_def tapes_ok_def distinct_update dict_simps)
      ultimately show ?thesis
        using None ok [OF Inr quiet_trans [OF q]] err [OF q i] by (simp add: wp_rules dict_simps)
    qed
  next
    fix e B' assume "quiet B B'" "ltfs_inv B'"
    then show "E e B'" by (rule err)
  qed
  then show ?thesis by (simp add: ensure_tape_def wp_lift wp_bind Inr)
qed

lemma quiet_drives: "quiet B B' \<Longrightarrow> lib_drives (lt_library B') = lib_drives (lt_library B)"
  by (simp add: quiet_def media_def)

section \<open>Operations keep the invariant\<close>

text \<open>Setting the mount state of one drive: the mounts stay valid when none is on that drive, or when
  those on it want that state.\<close>

lemma mounts_ok_set_drive:
  assumes "mounts_ok L ms" and "dict_get (lib_drives L) d = Some dr"
    and "\<And>h m. dict_get ms h = Some m \<Longrightarrow> am_drive_id m = d \<Longrightarrow> target_mount_state (am_mode m) = st"
  shows "mounts_ok (set_drive d (drive_barcode dr) ds st L) ms"
proof -
  have "mount_ok (set_drive d (drive_barcode dr) ds st L) h m" if m: "dict_get ms h = Some m" for h m
    using mounts_ok_get [OF assms(1) m] assms(2) assms(3) [OF m]
    by (cases "am_drive_id m = d") (simp_all add: mount_ok_def occ_simps)
  with assms(1) show ?thesis unfolding mounts_ok_def by blast
qed

lemma set_drive_cong: "media L' = media L \<Longrightarrow> lib_drives (set_drive d b ds st L') = lib_drives (set_drive d b ds st L)"
  by (auto simp: media_def set_drive_def split: option.splits)

lemma wp_on_library_mount_state:
  assumes "lib_inv (lt_library B)"
    and "\<And>L' dr ds. lib_inv L' \<Longrightarrow> dict_get (lib_drives (lt_library B)) d = Some dr \<Longrightarrow>
        L' = set_drive d (drive_barcode dr) ds st (lt_library B) \<Longrightarrow> occ L' = occ (lt_library B) \<Longrightarrow> Q () (B\<lparr>lt_library := L'\<rparr>)"
    and "\<And>e. E e B"
  shows "wp (on_library (set_drive_mount_state d st)) Q E B"
  unfolding on_library_def wp_zoom
  by (rule wp_mono [OF wp_set_drive_mount_state [OF assms(1)]]) (use assms(2,3) in auto)

lemma set_tape_fields [simp]:
  "lt_library (set_tape k f B) = lt_library B" "lt_active_mounts (set_tape k f B) = lt_active_mounts B"
  "lt_capacity_bytes (set_tape k f B) = lt_capacity_bytes B" "lt_fault_config (set_tape k f B) = lt_fault_config B"
  by (auto simp: set_tape_def split: option.splits)

lemma set_mount_fields [simp]:
  "lt_library (set_mount h g B) = lt_library B" "lt_tapes (set_mount h g B) = lt_tapes B"
  "lt_capacity_bytes (set_mount h g B) = lt_capacity_bytes B" "lt_fault_config (set_mount h g B) = lt_fault_config B"
  by (auto simp: set_mount_def split: option.splits)

lemma get_set_tape: "dict_get (lt_tapes (set_tape k f B)) =
    (dict_get (lt_tapes B))(k := map_option f (dict_get (lt_tapes B) k))"
  by (auto simp: set_tape_def dict_simps fun_eq_iff split: option.splits)

lemma get_set_mount: "dict_get (lt_active_mounts (set_mount h g B)) =
    (dict_get (lt_active_mounts B))(h := map_option g (dict_get (lt_active_mounts B) h))"
  by (auto simp: set_mount_def dict_simps fun_eq_iff split: option.splits)

lemma ltfs_inv_set_tape:
  assumes "ltfs_inv B" and "\<And>t. tape_ok k t \<Longrightarrow> dict_get (lt_tapes B) k = Some t \<Longrightarrow> tape_ok k (f t)"
  shows "ltfs_inv (set_tape k f B)"
proof -
  have "distinct (dict_keys (lt_tapes (set_tape k f B)))"
    using assms(1) by (auto simp: ltfs_inv_def tapes_ok_def set_tape_def distinct_update split: option.splits)
  then show ?thesis using assms by (auto simp: ltfs_inv_def tapes_ok_def get_set_tape split: if_splits)
qed

lemma distinct_set_mount: "distinct (dict_keys (lt_active_mounts B)) \<Longrightarrow> distinct (dict_keys (lt_active_mounts (set_mount h g B)))"
  by (auto simp: set_mount_def distinct_update split: option.splits)

text \<open>A mount record may change its dirty flag.\<close>

lemma ltfs_inv_set_mount:
  assumes "ltfs_inv B" and "\<And>m. dict_get (lt_active_mounts B) h = Some m \<Longrightarrow> mount_ok (lt_library B) h (g m)
      \<and> am_barcode (g m) = am_barcode m \<and> am_mode (g m) = am_mode m"
  shows "ltfs_inv (set_mount h g B)"
proof -
  have m: "mounts_ok (lt_library B) (lt_active_mounts B)" using assms(1) by (simp add: ltfs_inv_def)
  have b: "am_barcode (g m) = am_barcode m" "am_mode (g m) = am_mode m" "mount_ok (lt_library B) h (g m)"
    if "dict_get (lt_active_mounts B) h = Some m" for m using assms(2) that by auto
  have "mounts_ok (lt_library B) (lt_active_mounts (set_mount h g B))"
    unfolding mounts_ok_def get_set_mount
  proof (intro conjI allI impI)
    show "distinct (dict_keys (lt_active_mounts (set_mount h g B)))"
      using m by (simp add: mounts_ok_def distinct_set_mount)
    fix j n assume n: "((dict_get (lt_active_mounts B))(h := map_option g (dict_get (lt_active_mounts B) h))) j = Some n"
    show "mount_ok (lt_library B) j n" using n b(3) mounts_ok_get [OF m] by (cases "j = h") auto
    fix j' n' assume n': "((dict_get (lt_active_mounts B))(h := map_option g (dict_get (lt_active_mounts B) h))) j' = Some n'"
      and eq: "am_barcode n = am_barcode n'" "am_mode n = READ_WRITE"
    obtain o1 where "dict_get (lt_active_mounts B) j = Some o1" "am_barcode n = am_barcode o1" "am_mode n = am_mode o1"
      using n b(1,2) by (cases "j = h") auto
    moreover obtain o2 where "dict_get (lt_active_mounts B) j' = Some o2" "am_barcode n' = am_barcode o2"
      using n' b(1,2) by (cases "j' = h") auto
    ultimately show "j = j'" using mounts_ok_exclusive [OF m] eq by simp
  qed
  then show ?thesis using assms(1) by (simp add: ltfs_inv_def)
qed

subsection \<open>Format\<close>

lemma find_drive_found:
  assumes "lib_inv L" and "find_drive_by_barcode c L = Inr (Some d)" and "mk_barcode c = Inr b"
  shows "\<exists>dr. dict_get (lib_drives L) d = Some dr \<and> drive_barcode dr = Some b"
proof -
  obtain dr where "List.find (\<lambda>(k, dr). drive_barcode dr = Some b) (lib_drives L) = Some (d, dr)"
    using assms(2,3) by (auto simp: find_drive_by_barcode_def drive_of_def)
  then show ?thesis using find_drive_occ(1) [of L b d dr] assms(1) by (auto simp: lib_inv_def)
qed

lemma mounts_ok_filter: "mounts_ok L ms \<Longrightarrow> mounts_ok L (filter P ms)"
proof -
  assume m: "mounts_ok L ms"
  then have d: "distinct (dict_keys ms)" by (simp add: mounts_ok_def)
  have d': "distinct (dict_keys (filter P ms))" using d by (rule distinct_map_filter)
  have "dict_get ms h = Some n" if "dict_get (filter P ms) h = Some n" for h n
    using that by (simp add: dict_get_iff_mem [OF d'] dict_get_iff_mem [OF d])
  with m d' show ?thesis unfolding mounts_ok_def by blast
qed

lemma filter_mount_barcode:
  assumes "mounts_ok L ms" and "dict_get (filter (\<lambda>(_, m). am_barcode m \<noteq> b) ms) h = Some m"
  shows "am_barcode m \<noteq> b"
  using map_of_SomeD [OF assms(2)] by simp

text \<open>After formatting, from a state with the volume at hand.\<close>

definition formatted_tape :: "tape_contents \<Rightarrow> tape_contents" where
  "formatted_tape t = t\<lparr>tc_files := [], tc_used_bytes := 0, tc_formatted := True, tc_mount_state := MS_UNMOUNTED\<rparr>"

definition format_spec_post :: "string \<Rightarrow> ltfs_backend \<Rightarrow> ltfs_backend \<Rightarrow> bool" where
  "format_spec_post k B B' \<longleftrightarrow> (\<exists>t. dict_get (lt_tapes B) k = Some t
     \<and> dict_get (lt_tapes B') = (dict_get (lt_tapes B))(k \<mapsto> formatted_tape t))"

lemma wp_format_tail:
  assumes inv: "ltfs_inv B" and t: "dict_get (lt_tapes B) k = Some t" and k: "mk_barcode c = Inr k"
  shows "wp (format_tape c k t)
     (\<lambda>r B'. ltfs_inv B' \<and> format_spec_post k B B' \<and> r = Op_result True ''formatted'' (Some k) [])
     (\<lambda>e B'. ltfs_inv B' \<and> format_spec_post k B B') B"
proof -
  let ?f = "\<lambda>t. t\<lparr>tc_files := [], tc_used_bytes := 0, tc_formatted := True, tc_mount_state := MS_UNMOUNTED\<rparr>"
  let ?B1 = "set_tape k ?f B"
  let ?ms = "filter (\<lambda>(_, m). am_barcode m \<noteq> tc_barcode t) (lt_active_mounts B)"
  let ?B2 = "?B1\<lparr>lt_active_mounts := ?ms\<rparr>"
  have ok: "tape_ok k t" using inv t by (simp add: ltfs_inv_def tapes_ok_def)
  then have tb: "tc_barcode t = k" by (simp add: tape_ok_def)
  have i1: "ltfs_inv ?B1"
    by (rule ltfs_inv_set_tape [OF inv]) (simp add: tape_ok_def files_size_def)
  then have i2: "ltfs_inv ?B2" using mounts_ok_filter by (simp add: ltfs_inv_def)
  have post: "format_spec_post k B (?B2\<lparr>lt_library := L\<rparr>)" for L
    using t by (simp add: format_spec_post_def get_set_tape formatted_tape_def)
  have post2: "format_spec_post k B ?B2"
    using t by (simp add: format_spec_post_def get_set_tape formatted_tape_def)
  have lib: "lib_inv (lt_library ?B2)" and mo: "mounts_ok (lt_library ?B2) ?ms" using i2 by (simp_all add: ltfs_inv_def)
  have upd: "ltfs_inv (?B2\<lparr>lt_library := L'\<rparr>)"
    if found: "find_drive_by_barcode c (lt_library ?B2) = Inr (Some d)" and L': "lib_inv L'"
      "dict_get (lib_drives (lt_library ?B2)) d = Some dr" "L' = set_drive d (drive_barcode dr) ds MS_UNMOUNTED (lt_library ?B2)" for d L' dr ds
  proof -
    have db: "drive_barcode dr = Some k" using find_drive_found [OF lib found k] L'(2) by simp
    have "mounts_ok L' ?ms" unfolding L'(3)
    proof (rule mounts_ok_set_drive [OF mo L'(2)])
      fix h m assume h: "dict_get ?ms h = Some m" and "am_drive_id m = d"
      then have "drive_barcode dr = Some (am_barcode m)" using mounts_ok_get [OF mo h] L'(2) by (auto simp: mount_ok_def)
      then have "am_barcode m = k" using db by simp
      then show "target_mount_state (am_mode m) = MS_UNMOUNTED" using filter_mount_barcode [OF _ h] tb inv by (auto simp: ltfs_inv_def)
    qed
    then show ?thesis using i2 L'(1) by (simp add: ltfs_inv_def)
  qed
  show ?thesis
  proof (cases "find_drive_by_barcode c (lt_library ?B2)")
    case (Inl e)
    then show ?thesis using i2 post2 by (simp add: format_tape_def wp_rules)
  next
    case (Inr r)
    show ?thesis
    proof (cases r)
      case None
      then show ?thesis using Inr i2 post2 tb by (simp add: format_tape_def wp_rules)
    next
      case (Some d)
      have "wp (on_library (set_drive_mount_state d MS_UNMOUNTED))
         (\<lambda>_ B'. ltfs_inv B' \<and> format_spec_post k B B') (\<lambda>e B'. ltfs_inv B' \<and> format_spec_post k B B') ?B2"
        by (rule wp_on_library_mount_state [OF lib]) (use upd Inr Some post post2 i2 in auto)
      then show ?thesis using Inr Some tb by (simp add: format_tape_def wp_rules)
    qed
  qed
qed

definition confirmed :: "int \<Rightarrow> string \<Rightarrow> format_confirmation option \<Rightarrow> bool" where
  "confirmed now c conf \<longleftrightarrow> (\<exists>cf. conf = Some cf \<and> now < tok_expires_at (fc_safety_token cf) \<and> fc_expected_barcode cf = c)"

lemma wp_ltfs_format:
  assumes "ltfs_inv B"
  shows "wp (ltfs_format now c conf)
     (\<lambda>r B'. ltfs_inv B' \<and> confirmed now c conf \<and> (\<exists>k B1. mk_barcode c = Inr k \<and> quiet B B1 \<and> format_spec_post k B1 B'))
     (\<lambda>e B'. ltfs_inv B' \<and> (quiet B B' \<or> confirmed now c conf
        \<and> (\<exists>k B1. mk_barcode c = Inr k \<and> quiet B B1 \<and> format_spec_post k B1 B'))) B"
proof (cases "confirmed now c conf")
  case False
  then have "conf = None \<or> (\<exists>cf e. conf = Some cf \<and> confirmation_validate now cf c = Inl e)"
    using confirmation_validate_ok [of now _ c] unfolding confirmed_def by (metis not_None_eq old.sum.exhaust old.unit.exhaust)
  then show ?thesis using assms by (auto simp: ltfs_format_def wp_rules)
next
  case True
  then obtain cf where cf: "conf = Some cf" "confirmation_validate now cf c = Inr ()"
    using confirmation_validate_ok by (auto simp: confirmed_def)
  show ?thesis
    unfolding ltfs_format_def cf(1) option.case wp_then [where m = "liftM _"] wp_lift cf(2) sum.case
  proof (subst wp_bind, rule wp_ensure_tape [OF assms])
    fix k t B1
    assume k: "mk_barcode c = Inr k" and q: "quiet B B1" and i: "ltfs_inv B1" and t: "dict_get (lt_tapes B1) k = Some t"
    show "wp (case (k, t) of (key, tape) \<Rightarrow> format_tape c key tape)
     (\<lambda>r B'. ltfs_inv B' \<and> confirmed now c (Some cf) \<and> (\<exists>k B1. mk_barcode c = Inr k \<and> quiet B B1 \<and> format_spec_post k B1 B'))
     (\<lambda>e B'. ltfs_inv B' \<and> (quiet B B' \<or> confirmed now c (Some cf)
        \<and> (\<exists>k B1. mk_barcode c = Inr k \<and> quiet B B1 \<and> format_spec_post k B1 B'))) B1"
      unfolding prod.case
      by (rule wp_mono [OF wp_format_tail [OF i t k]]) (use True cf k q in auto)
  qed simp_all
qed

subsection \<open>Mount\<close>

lemma mounts_ok_add:
  assumes "mounts_ok L ms" and "dict_get ms hid = None" and "mount_ok L hid m"
    and "\<And>h m'. dict_get ms h = Some m' \<Longrightarrow> am_barcode m' = am_barcode m \<Longrightarrow> am_mode m = READ_ONLY \<and> am_mode m' = READ_ONLY"
  shows "mounts_ok L (dict_set hid m ms)"
  unfolding mounts_ok_def dict_get_set
proof (intro conjI allI impI)
  show "distinct (dict_keys (dict_set hid m ms))" using assms(1) by (simp add: mounts_ok_def distinct_update)
  fix h n assume n: "((dict_get ms)(hid \<mapsto> m)) h = Some n"
  show "mount_ok L h n" using n assms(3) mounts_ok_get [OF assms(1)] by (cases "h = hid") auto
  fix h' n' assume n': "((dict_get ms)(hid \<mapsto> m)) h' = Some n'" and eq: "am_barcode n = am_barcode n'" and rw: "am_mode n = READ_WRITE"
  consider "h = hid" "h' = hid" | "h = hid" "h' \<noteq> hid" | "h \<noteq> hid" "h' = hid" | "h \<noteq> hid" "h' \<noteq> hid" by blast
  then show "h = h'"
  proof cases
    case 2
    then show ?thesis using n n' assms(4) [of h' n'] eq rw by simp
  next
    case 3
    then show ?thesis using n n' assms(4) [of h n] eq rw by simp
  next
    case 4
    then show ?thesis using n n' mounts_ok_exclusive [OF assms(1) _ _ eq rw] by simp
  qed simp
qed

lemma target_mount_state_neq [simp]: "target_mount_state mode \<noteq> MS_UNMOUNTED" "target_mount_state READ_ONLY = MS_MOUNTED_RO"
  "target_mount_state READ_WRITE = MS_MOUNTED_RW"
  by (simp_all add: target_mount_state_def)

lemma active_for_mem:
  assumes "mounts_ok L (lt_active_mounts B)"
  shows "m \<in> set (active_for b B) \<longleftrightarrow> (\<exists>h. dict_get (lt_active_mounts B) h = Some m) \<and> am_barcode m = b"
proof -
  have d: "distinct (dict_keys (lt_active_mounts B))" using assms by (simp add: mounts_ok_def)
  have "m \<in> set (dict_values (lt_active_mounts B)) \<longleftrightarrow> (\<exists>h. (h, m) \<in> set (lt_active_mounts B))" by force
  then show ?thesis by (auto simp: active_for_def dict_get_iff_mem [OF d])
qed

lemma mount_drive_unique:
  assumes "lib_inv L" and "mount_ok L h m" and "dict_get (lib_drives L) d = Some dr" and "drive_barcode dr = Some (am_barcode m)"
  shows "am_drive_id m = d"
proof -
  have p: "phys_inv (occ L) (dict_get (cartridge_states L))" using assms(1) by (simp add: lib_inv_def)
  have "occ L (Loc_drive (am_drive_id m)) = Some (am_barcode m)" using assms(2) by (auto simp: mount_ok_def)
  moreover have "occ L (Loc_drive d) = Some (am_barcode m)" using assms(3,4) by simp
  ultimately show ?thesis using phys_unique [OF p] by blast
qed

lemma mount_state_reached:
  assumes "lib_inv L" and "dict_get (lib_drives L) d = Some dr" and "drive_barcode dr \<noteq> None"
    and "validate_mount_transition (drive_mount_state dr) st = Inr ()" and "drive_state dr \<in> {DS_LOADED, DS_BUSY}"
  shows "wp (set_drive_mount_state d st) (\<lambda>_ L'. \<exists>ds. L' = set_drive d (drive_barcode dr) ds st L) (\<lambda>_ _. False) L"
proof -
  have ok: "drive_ok dr" using assms(1,2) by (simp add: lib_inv_def ids_ok_def)
  have "validate_invariants (set_drive d (drive_barcode dr) ds st L) = Inr ()"
    if "ds = (if st = MS_UNMOUNTED then DS_LOADED else DS_BUSY)" for ds
  proof (rule lib_inv_validates)
    have "occ (set_drive d (drive_barcode dr) ds st L) = occ L"
      by (rule ext, rename_tac l, case_tac l) (use assms(2) in \<open>auto simp: set_drive_def dict_simps\<close>)
    then show "lib_inv (set_drive d (drive_barcode dr) ds st L)"
      using assms(1,3) that by (auto simp: lib_inv_def occ_simps drive_ok_def)
  qed
  then show ?thesis using assms(2-5) ok
    by (cases st) (auto simp: set_drive_mount_state_def wp_rules drive_ok_def)
qed

lemma wp_mount_tape:
  assumes inv: "ltfs_inv B" and t: "dict_get (lt_tapes B) c = Some t" and ok: "tape_ok c t"
    and d: "dict_get (lib_drives (lt_library B)) did = Some dr" "drive_barcode dr = Some c"
    and fresh: "dict_get (lt_active_mounts B) hid = None"
  shows "wp (mount_tape hid c c mode did c t)
     (\<lambda>h B'. ltfs_inv B' \<and> (\<exists>m. am_handle m = h \<and> am_mode m = mode \<and> am_barcode m = c
         \<and> lt_active_mounts B' = dict_set hid m (lt_active_mounts B)))
     (\<lambda>e B'. B' = B) B"
proof -
  let ?h = "\<lparr>mh_handle_id = hid, mh_barcode = c, mh_drive_id = did, mh_mode = mode, mh_mount_path = ''mock-mount/'' @ c\<rparr>"
  let ?m = "\<lparr>am_handle = ?h, am_barcode = c, am_drive_id = did, am_mode = mode, am_active = True, am_dirty = False,
    am_write_in_progress = False\<rparr>"
  have lib: "lib_inv (lt_library B)" and mo: "mounts_ok (lt_library B) (lt_active_mounts B)" using inv by (simp_all add: ltfs_inv_def)
  have tb: "tc_barcode t = c" using ok by (simp add: tape_ok_def)
  note mem = active_for_mem [OF mo, of _ c]
  have first: "ltfs_inv (set_tape c (\<lambda>t. t\<lparr>tc_mount_state := st\<rparr>) (B\<lparr>lt_library := L'\<rparr>)
      \<lparr>lt_active_mounts := dict_set hid ?m (lt_active_mounts B)\<rparr>)"
    if none: "active_for c B = []" and L': "lib_inv L'" "L' = set_drive did (drive_barcode dr) ds (target_mount_state mode) (lt_library B)"
    for L' ds st
  proof -
    have no: "am_barcode m \<noteq> c" if "dict_get (lt_active_mounts B) h = Some m" for h m using mem none that by auto
    have "mounts_ok L' (lt_active_mounts B)" unfolding L'(2)
    proof (rule mounts_ok_set_drive [OF mo d(1)])
      fix h m assume m: "dict_get (lt_active_mounts B) h = Some m" and "am_drive_id m = did"
      then have "am_barcode m = c" using mounts_ok_get [OF mo m] d by (simp add: mount_ok_def)
      with no [OF m] show "target_mount_state (am_mode m) = target_mount_state mode" by simp
    qed
    moreover have "mount_ok L' hid ?m" using d by (simp add: mount_ok_def L'(2) occ_simps)
    ultimately have "mounts_ok L' (dict_set hid ?m (lt_active_mounts B))"
      using fresh no by (intro mounts_ok_add) auto
    moreover have "ltfs_inv (B\<lparr>lt_library := L', lt_active_mounts := []\<rparr>)"
      using inv L'(1) by (simp add: ltfs_inv_def mounts_ok_def)
    then have "ltfs_inv (set_tape c (\<lambda>t. t\<lparr>tc_mount_state := st\<rparr>) (B\<lparr>lt_library := L', lt_active_mounts := []\<rparr>))"
      by (rule ltfs_inv_set_tape) simp
    then have "tapes_ok (lt_tapes (set_tape c (\<lambda>t. t\<lparr>tc_mount_state := st\<rparr>) (B\<lparr>lt_library := L'\<rparr>)))"
      by (auto simp: ltfs_inv_def set_tape_def split: option.splits)
    ultimately show ?thesis using L'(1) inv by (simp add: ltfs_inv_def)
  qed
  have second: "ltfs_inv (B\<lparr>lt_active_mounts := dict_set hid ?m (lt_active_mounts B)\<rparr>)"
    if some: "active_for c B \<noteq> []" and ro: "mode \<noteq> READ_WRITE" "\<not> list_ex (\<lambda>m. am_mode m = READ_WRITE) (active_for c B)"
  proof -
    obtain m0 where "m0 \<in> set (active_for c B)" using some by (cases "active_for c B") auto
    then obtain h0 where h0: "dict_get (lt_active_mounts B) h0 = Some m0" "am_barcode m0 = c" using mem by auto
    have mode: "mode = READ_ONLY" using ro(1) by (cases mode) auto
    have all_ro: "am_mode m = READ_ONLY" if "dict_get (lt_active_mounts B) h = Some m" "am_barcode m = c" for h m
      using ro(2) mem that by (cases "am_mode m") (auto simp: list_ex_iff)
    have "am_drive_id m0 = did" using mount_drive_unique [OF lib mounts_ok_get [OF mo h0(1)] d(1)] d(2) h0(2) by simp
    then have "mount_ok (lt_library B) hid ?m"
      using mounts_ok_get [OF mo h0(1)] all_ro [OF h0] h0(2) mode by (auto simp: mount_ok_def)
    then have "mounts_ok (lt_library B) (dict_set hid ?m (lt_active_mounts B))"
      using fresh all_ro mode by (intro mounts_ok_add [OF mo]) auto
    then show ?thesis using inv by (simp add: ltfs_inv_def)
  qed
  show ?thesis
  proof (cases "active_for c B = []")
    case True
    have "wp (on_library (set_drive_mount_state did (target_mount_state mode)))
      (\<lambda>_ B'. \<exists>L' ds. B' = B\<lparr>lt_library := L'\<rparr> \<and> lib_inv L' \<and> L' = set_drive did (drive_barcode dr) ds (target_mount_state mode) (lt_library B))
      (\<lambda>e B'. B' = B) B"
      by (rule wp_on_library_mount_state [OF lib]) (use d in auto)
    then show ?thesis
      using True first tb unfolding mount_tape_def
      by (simp add: wp_rules Let_def) (auto elim!: wp_mono intro!: exI [of _ ?m])
  next
    case False
    then show ?thesis using second tb unfolding mount_tape_def
      by (auto simp: wp_rules Let_def intro!: exI [of _ ?m])
  qed
qed

lemma quiet_mounts: "quiet B B' \<Longrightarrow> lt_active_mounts B' = lt_active_mounts B"
  by (simp add: quiet_def)

lemma wp_ltfs_mount:
  assumes inv: "ltfs_inv B" and c: "barcode_pattern c" and fresh: "dict_get (lt_active_mounts B) hid = None"
  shows "wp (ltfs_mount hid c mode)
     (\<lambda>h B'. ltfs_inv B' \<and> (\<exists>m. am_handle m = h \<and> am_mode m = mode \<and> am_barcode m = c
         \<and> lt_active_mounts B' = dict_set hid m (lt_active_mounts B)))
     (\<lambda>e B'. ltfs_inv B' \<and> lt_active_mounts B' = lt_active_mounts B) B"
    (is "wp _ ?Q ?E B")
proof -
  have k: "mk_barcode c = Inr c" by (rule mk_barcode_pattern [OF c])
  have tail: "wp (bindM (ensure_tape c) (\<lambda>(key, tape). mount_tape hid c c mode did key tape)) ?Q ?E B2"
    if q: "quiet B B2" and i: "ltfs_inv B2" and f: "find_drive_by_barcode c (lt_library B2) = Inr (Some did)" for B2 did
  proof (subst wp_bind, rule wp_ensure_tape [OF i])
    fix k' t B3
    assume k': "mk_barcode c = Inr k'" and q3: "quiet B2 B3" and i3: "ltfs_inv B3"
      and t: "dict_get (lt_tapes B3) k' = Some t" and ok: "tape_ok k' t"
    have m3: "lt_active_mounts B3 = lt_active_mounts B" using quiet_mounts [OF q] quiet_mounts [OF q3] by simp
    have "lib_inv (lt_library B2)" using i by (simp add: ltfs_inv_def)
    from find_drive_found [OF this f k] obtain dr where "dict_get (lib_drives (lt_library B3)) did = Some dr" "drive_barcode dr = Some c"
      by (auto simp: quiet_drives [OF q3])
    from wp_mount_tape [OF i3 _ _ this, where t = t and hid = hid and mode = mode] k k' t ok fresh m3
    show "wp (case (k', t) of (key, tape) \<Rightarrow> mount_tape hid c c mode did key tape) ?Q ?E B3"
      using i3 by (auto elim!: wp_mono)
  qed (use quiet_mounts [OF q] in \<open>auto dest: quiet_mounts\<close>)
  have err: "?E e B'" if "quiet B B'" "ltfs_inv B'" for e B' using that by (auto dest: quiet_mounts)
  have rest: "wp (bindM (getsM lt_fault_config) (\<lambda>cfg.
     thenM (guardM (\<not> should_fail cfg SF_MOUNT_FAILURE) SimulatedMountFailure)
     (bindM (queryM (\<lambda>B. find_drive_by_barcode c (lt_library B))) (\<lambda>found.
      case found of None \<Rightarrow> raiseM CartridgeNotFoundError | Some did \<Rightarrow>
      bindM (ensure_tape c) (\<lambda>(key, tape). mount_tape hid c c mode did key tape))))) ?Q ?E B2"
    if q: "quiet B B2" and i: "ltfs_inv B2" for B2
    using err [OF q i] tail [OF q i]
    unfolding wp_bind [where m = "getsM _"] wp_gets wp_then wp_guard wp_bind [where m = "queryM _"] wp_query
    by (auto simp: wp_raise split: sum.splits option.splits)
  show ?thesis
    unfolding ltfs_mount_def wp_bind [where m = "liftM _"] wp_lift k sum.case
  proof (subst wp_then, rule wp_ltfs_injected [OF inv _ err])
    fix B1 assume q1: "quiet B B1" and i1: "ltfs_inv B1"
    show "wp (thenM (ltfs_maybe_raise_injected_fault IF_DRIVE_UNAVAILABLE c) (bindM (getsM lt_fault_config) (\<lambda>cfg.
     thenM (guardM (\<not> should_fail cfg SF_MOUNT_FAILURE) SimulatedMountFailure)
     (bindM (queryM (\<lambda>B. find_drive_by_barcode c (lt_library B))) (\<lambda>found.
      case found of None \<Rightarrow> raiseM CartridgeNotFoundError | Some did \<Rightarrow>
      bindM (ensure_tape c) (\<lambda>(key, tape). mount_tape hid c c mode did key tape)))))) ?Q ?E B1"
      by (subst wp_then, rule wp_ltfs_injected [OF i1],
          rule rest [OF quiet_trans [OF q1]], assumption+, rule err [OF quiet_trans [OF q1]], assumption+)
  qed
qed

subsection \<open>Unmount\<close>

lemma mounts_ok_pop: "mounts_ok L ms \<Longrightarrow> mounts_ok L (dict_pop h ms)"
  unfolding mounts_ok_def by (auto simp: dict_simps distinct_delete split: if_splits)

lemma wp_unmount_tape:
  assumes inv: "ltfs_inv B" and am: "mount_ok (lt_library B) hid am" and h: "am_handle am = h"
    and ok: "tape_ok (am_barcode am) t"
    and others: "\<And>h' m'. dict_get (lt_active_mounts B) h' = Some m' \<Longrightarrow> am_barcode m' = am_barcode am \<Longrightarrow>
        am_mode am = READ_ONLY \<and> am_mode m' = READ_ONLY"
  shows "wp (unmount_tape h am (am_barcode am) t)
     (\<lambda>r B'. ltfs_inv B' \<and> lt_active_mounts B' = lt_active_mounts B) (\<lambda>_ _. False) B"
proof -
  let ?rem = "active_for (am_barcode am) B"
  let ?st = "unmounted_state am ?rem"
  let ?B1 = "set_tape (am_barcode am) (\<lambda>t. t\<lparr>tc_mount_state := ?st\<rparr>) B"
  have lib: "lib_inv (lt_library B)" and mo: "mounts_ok (lt_library B) (lt_active_mounts B)" using inv by (simp_all add: ltfs_inv_def)
  have tb: "tc_barcode t = am_barcode am" using ok by (simp add: tape_ok_def)
  have i1: "ltfs_inv ?B1" by (rule ltfs_inv_set_tape [OF inv]) simp
  obtain dr where dr: "dict_get (lib_drives (lt_library B)) (am_drive_id am) = Some dr" "drive_barcode dr = Some (am_barcode am)"
    "drive_mount_state dr = target_mount_state (am_mode am)" using am by (auto simp: mount_ok_def)
  have hd: "mh_drive_id h = am_drive_id am" using am h by (auto simp: mount_ok_def)
  note mem = active_for_mem [OF mo, of _ "am_barcode am"]
  have ro: "am_mode am = READ_ONLY \<and> \<not> list_ex (\<lambda>m. am_mode m = READ_WRITE) ?rem" if ne: "?rem \<noteq> []"
  proof -
    obtain m0 where "m0 \<in> set ?rem" using ne by (cases ?rem) auto
    then have "am_mode am = READ_ONLY" using mem others by auto
    moreover have "\<not> list_ex (\<lambda>m. am_mode m = READ_WRITE) ?rem" using mem others by (auto simp: list_ex_iff)
    ultimately show ?thesis by simp
  qed
  have st: "?st = (if ?rem \<noteq> [] then MS_MOUNTED_RO else if am_dirty am then MS_DIRTY else MS_UNMOUNTED)"
    using ro am by (cases "?rem = []") (auto simp: unmounted_state_def mount_ok_def)
  have tr: "validate_mount_transition (drive_mount_state dr) ?st = Inr ()"
    unfolding st using ro dr(3) am by (cases "?rem = []") (auto simp: mount_ok_def)
  have "drive_ok dr" using lib dr(1) by (simp add: lib_inv_def ids_ok_def)
  then have "drive_state dr \<in> {DS_LOADED, DS_BUSY}" using dr(3) by (simp add: drive_ok_def)
  from mount_state_reached [OF lib dr(1) _ tr this] dr(2)
  have "wp (set_drive_mount_state (am_drive_id am) ?st) (\<lambda>_ L'. \<exists>ds. L' = set_drive (am_drive_id am) (drive_barcode dr) ds ?st (lt_library B)) (\<lambda>_ _. False) (lt_library B)"
    by simp
  with wp_set_drive_mount_state [OF lib, of "am_drive_id am" ?st]
  have "wp (set_drive_mount_state (am_drive_id am) ?st)
     (\<lambda>_ L'. lib_inv L' \<and> (\<exists>ds. L' = set_drive (am_drive_id am) (drive_barcode dr) ds ?st (lt_library B))) (\<lambda>_ _. False) (lt_library B)"
    by (auto simp: wp_def split: prod.splits sum.splits)
  moreover have "ltfs_inv (?B1\<lparr>lt_library := L'\<rparr>)"
    if "lib_inv L'" "L' = set_drive (am_drive_id am) (drive_barcode dr) ds ?st (lt_library B)" for L' ds
  proof -
    have "mounts_ok L' (lt_active_mounts B)" unfolding that(2)
    proof (rule mounts_ok_set_drive [OF mo dr(1)])
      fix h' m' assume m': "dict_get (lt_active_mounts B) h' = Some m'" and "am_drive_id m' = am_drive_id am"
      then have "am_barcode m' = am_barcode am" using mounts_ok_get [OF mo m'] dr by (simp add: mount_ok_def)
      moreover from this have "?rem \<noteq> []" using mem m' by (cases ?rem) auto
      ultimately show "target_mount_state (am_mode m') = ?st" using others [OF m'] by (simp add: st)
    qed
    then show ?thesis using i1 that(1) by (simp add: ltfs_inv_def)
  qed
  ultimately show ?thesis
    unfolding unmount_tape_def on_library_def
    by (auto simp: wp_rules tb hd elim!: wp_mono)
qed

lemma mount_ok_pattern:
  assumes "lib_inv L" and "mount_ok L h m"
  shows "barcode_pattern (am_barcode m)"
proof -
  have "occ L (Loc_drive (am_drive_id m)) = Some (am_barcode m)" using assms(2) by (auto simp: mount_ok_def)
  moreover have "phys_inv (occ L) (dict_get (cartridge_states L))" using assms(1) by (simp add: lib_inv_def)
  ultimately show ?thesis using phys_occ_pattern by blast
qed

text \<open>A handle is genuine when it is the one its mount was made for.\<close>

definition genuine :: "mount_handle \<Rightarrow> ltfs_backend \<Rightarrow> bool" where
  "genuine h B \<longleftrightarrow> (\<forall>am. dict_get (lt_active_mounts B) (mh_handle_id h) = Some am \<longrightarrow> am_handle am = h)"

lemma wp_ltfs_unmount:
  assumes inv: "ltfs_inv B" and gen: "genuine h B"
  shows "wp (ltfs_unmount h)
     (\<lambda>r B'. ltfs_inv B' \<and> lt_active_mounts B' = dict_pop (mh_handle_id h) (lt_active_mounts B))
     (\<lambda>e B'. ltfs_inv B') B"
proof (cases "dict_get (lt_active_mounts B) (mh_handle_id h)")
  case None
  then show ?thesis using inv by (simp add: ltfs_unmount_def wp_rules)
next
  case (Some am)
  have mo: "mounts_ok (lt_library B) (lt_active_mounts B)" using inv by (simp add: ltfs_inv_def)
  have am: "mount_ok (lt_library B) (mh_handle_id h) am" by (rule mounts_ok_get [OF mo Some])
  have h: "am_handle am = h" using gen Some by (simp add: genuine_def)
  have act: "am_active am" and bc: "mh_barcode h = am_barcode am" using am h by (auto simp: mount_ok_def)
  let ?B1 = "B\<lparr>lt_active_mounts := dict_pop (mh_handle_id h) (lt_active_mounts B)\<rparr>"
  have i1: "ltfs_inv ?B1" using inv mounts_ok_pop by (simp add: ltfs_inv_def)
  have others: "am_mode am = READ_ONLY \<and> am_mode m' = READ_ONLY"
    if m': "dict_get (lt_active_mounts ?B1) h' = Some m'" "am_barcode m' = am_barcode am" for h' m'
  proof -
    have g: "dict_get (lt_active_mounts B) h' = Some m'" and ne: "h' \<noteq> mh_handle_id h"
      using m'(1) by (simp_all add: dict_simps split: if_splits)
    show ?thesis
      using mounts_ok_exclusive [OF mo Some g m'(2) [symmetric]] mounts_ok_exclusive [OF mo g Some m'(2)] ne
      by (metis mount_mode.exhaust)
  qed
  have "wp (bindM (ensure_tape (mh_barcode h)) (\<lambda>(key, tape). unmount_tape h am key tape))
     (\<lambda>r B'. ltfs_inv B' \<and> lt_active_mounts B' = dict_pop (mh_handle_id h) (lt_active_mounts B)) (\<lambda>e B'. ltfs_inv B') ?B1"
  proof (subst wp_bind, rule wp_ensure_tape [OF i1])
    fix k t B2
    assume k: "mk_barcode (mh_barcode h) = Inr k" and q: "quiet ?B1 B2" and i2: "ltfs_inv B2" and ok: "tape_ok k t"
    have "barcode_pattern (am_barcode am)"
      using inv by (intro mount_ok_pattern [OF _ am]) (simp add: ltfs_inv_def)
    then have kb: "k = am_barcode am" using k bc by (simp add: mk_barcode_pattern)
    have ms: "lt_active_mounts B2 = lt_active_mounts ?B1" by (rule quiet_mounts [OF q])
    have am2: "mount_ok (lt_library B2) (mh_handle_id h) am"
      using am mount_ok_cong [OF quiet_drives [OF q], of "mh_handle_id h" am] by (simp add: mount_ok_def)
    have "wp (unmount_tape h am (am_barcode am) t) (\<lambda>r B'. ltfs_inv B' \<and> lt_active_mounts B' = lt_active_mounts B2) (\<lambda>_ _. False) B2"
      by (rule wp_unmount_tape [OF i2 am2 h ok [unfolded kb]], rule others) (simp_all only: ms)
    then show "wp (case (k, t) of (key, tape) \<Rightarrow> unmount_tape h am key tape)
       (\<lambda>r B'. ltfs_inv B' \<and> lt_active_mounts B' = dict_pop (mh_handle_id h) (lt_active_mounts B)) (\<lambda>e B'. ltfs_inv B') B2"
      unfolding kb prod.case by (rule wp_mono) (simp_all add: ms)
  qed
  then show ?thesis using Some act by (simp add: ltfs_unmount_def wp_rules)
qed

subsection \<open>Writes\<close>

lemma set_mount_comp [simp]: "set_mount h f (set_mount h g B) = set_mount h (f \<circ> g) B"
proof -
  have "dict_set h (f (g m)) (dict_set h (g m) d) = dict_set h (f (g m)) d" for m d
    by (induction d) auto
  then show ?thesis by (auto simp: set_mount_def dict_simps split: option.splits)
qed

lemma set_mount_set_tape [simp]: "set_mount h f (set_tape k g B) = set_tape k g (set_mount h f B)"
  by (auto simp: set_mount_def set_tape_def split: option.splits)

lemma mount_ok_flags:
  "mount_ok L h m \<Longrightarrow> mount_ok L h (m\<lparr>am_write_in_progress := False\<rparr>)"
  "mount_ok L h m \<Longrightarrow> am_mode m = READ_WRITE \<Longrightarrow> mount_ok L h (m\<lparr>am_write_in_progress := False, am_dirty := True\<rparr>)"
  by (auto simp: mount_ok_def)

definition stored :: "string \<Rightarrow> bytes \<Rightarrow> int \<Rightarrow> tape_contents \<Rightarrow> tape_contents \<Rightarrow> bool" where
  "stored path content sz t t' \<longleftrightarrow> (\<exists>r. fr_content r = content \<and> fr_size_bytes r = sz
     \<and> dict_get (tc_files t') = (dict_get (tc_files t))(path \<mapsto> r)
     \<and> tc_used_bytes t' = projected_used_bytes t path sz \<and> tc_capacity_bytes t' = tc_capacity_bytes t)"

lemma wp_write_mounted_locked:
  assumes inv: "ltfs_inv B" and t: "dict_get (lt_tapes B) k = Some t"
    and am: "dict_get (lt_active_mounts B) hid = Some am" "am_mode am = READ_WRITE"
  shows "wp (write_mounted_locked sha now hid k path content sz cso)
     (\<lambda>c B'. ltfs_inv B' \<and> lt_library B' = lt_library B \<and> (\<exists>t'. stored path content sz t t'
         \<and> dict_get (lt_tapes B') = (dict_get (lt_tapes B))(k \<mapsto> t')))
     (\<lambda>e B'. ltfs_inv B' \<and> lt_library B' = lt_library B \<and> lt_tapes B' = lt_tapes B) B"
proof -
  have mo: "mount_ok (lt_library B) hid am" using inv am(1) by (simp add: ltfs_inv_def mounts_ok_def)
  have i: "ltfs_inv (set_mount hid (\<lambda>m. m\<lparr>am_write_in_progress := False\<rparr>) B)"
    "ltfs_inv (set_mount hid (\<lambda>m. m\<lparr>am_write_in_progress := False, am_dirty := True\<rparr>) B)"
    using mo am by (auto intro!: ltfs_inv_set_mount [OF inv] simp: mount_ok_flags)
  have s: "ltfs_inv (set_tape k (\<lambda>t'. (store_file path r (projected_used_bytes t path sz) t')\<lparr>tc_mount_state := MS_MOUNTED_RW\<rparr>)
      (set_mount hid (\<lambda>m. m\<lparr>am_write_in_progress := False\<rparr>) B))"
    if "\<not> projected_used_bytes t path sz > tc_capacity_bytes t" "fr_size_bytes r = sz" for r
    by (rule ltfs_inv_set_tape [OF i(1)]) (use that t in \<open>auto intro: tape_ok_store\<close>)
  have st: "\<exists>t'. stored path content sz t t' \<and> dict_get (lt_tapes (set_tape k (\<lambda>t'. (store_file path r (projected_used_bytes t path sz) t')
        \<lparr>tc_mount_state := MS_MOUNTED_RW\<rparr>) (set_mount hid g B))) = (dict_get (lt_tapes B))(k \<mapsto> t')"
    if "fr_size_bytes r = sz" "fr_content r = content" for r g
    unfolding get_set_tape stored_def
    by (rule exI [of _ "(store_file path r (projected_used_bytes t path sz) t)\<lparr>tc_mount_state := MS_MOUNTED_RW\<rparr>"])
       (use that t in \<open>auto simp: store_file_def dict_simps\<close>)
  show ?thesis
    unfolding write_mounted_locked_def
    using t i by (auto simp: wp_rules Let_def o_def split: option.splits intro!: s st)
qed

lemma genuine_mount:
  assumes "ltfs_inv B" and "genuine h B" and "dict_get (lt_active_mounts B) (mh_handle_id h) = Some am"
  shows "am_handle am = h" "mount_ok (lt_library B) (mh_handle_id h) am" "am_barcode am = mh_barcode h"
    "am_mode am = mh_mode h" "am_drive_id am = mh_drive_id h" "mk_barcode (mh_barcode h) = Inr (mh_barcode h)"
proof -
  show h: "am_handle am = h" using assms(2,3) by (simp add: genuine_def)
  show m: "mount_ok (lt_library B) (mh_handle_id h) am"
    using assms(1,3) mounts_ok_get by (auto simp: ltfs_inv_def)
  show b: "am_barcode am = mh_barcode h" and "am_mode am = mh_mode h" "am_drive_id am = mh_drive_id h"
    using m h by (auto simp: mount_ok_def)
  have "lib_inv (lt_library B)" using assms(1) by (simp add: ltfs_inv_def)
  from mount_ok_pattern [OF this m] show "mk_barcode (mh_barcode h) = Inr (mh_barcode h)"
    unfolding b by (rule mk_barcode_pattern)
qed

lemma genuine_quiet: "quiet B B' \<Longrightarrow> genuine h B' = genuine h B"
  by (simp add: genuine_def quiet_mounts)

lemma wp_require_active_mount:
  assumes "\<And>am. dict_get (lt_active_mounts B) (mh_handle_id h) = Some am \<Longrightarrow> Q am B" and "\<And>e. E e B"
  shows "wp (require_active_mount h) Q E B"
  using assms by (auto simp: require_active_mount_def wp_rules split: option.splits)

text \<open>What a write leaves behind: the file under its path with the content and size written, everything
  else on the volume and on other volumes as it was.\<close>

definition write_post :: "string \<Rightarrow> string \<Rightarrow> bytes \<Rightarrow> int \<Rightarrow> ltfs_backend \<Rightarrow> ltfs_backend \<Rightarrow> bool" where
  "write_post k path content sz B B' \<longleftrightarrow> (\<exists>B1 t t'. quiet B B1 \<and> dict_get (lt_tapes B1) k = Some t
     \<and> stored path content sz t t' \<and> dict_get (lt_tapes B') = (dict_get (lt_tapes B1))(k \<mapsto> t'))"

definition tapes_quiet :: "ltfs_backend \<Rightarrow> ltfs_backend \<Rightarrow> bool" where
  "tapes_quiet B B' \<longleftrightarrow> (\<exists>B1. quiet B B1 \<and> lt_tapes B' = lt_tapes B1)"

lemma quiet_tapes_quiet: "quiet B B' \<Longrightarrow> tapes_quiet B B'"
  by (auto simp: tapes_quiet_def)

lemma mounts_ok_same_state:
  assumes "mounts_ok L ms" and "dict_get (lib_drives L) d = Some dr" and "drive_mount_state dr = st"
  shows "mounts_ok (set_drive d (drive_barcode dr) ds st L) ms"
proof (rule mounts_ok_set_drive [OF assms(1,2)])
  fix h m assume "dict_get ms h = Some m" "am_drive_id m = d"
  then show "target_mount_state (am_mode m) = st" using mounts_ok_get [OF assms(1)] assms(2,3) by (fastforce simp: mount_ok_def)
qed

lemma wp_reassert_state:
  assumes "ltfs_inv B" and "dict_get (lib_drives (lt_library B)) d = Some dr" and "drive_barcode dr \<noteq> None"
    and "drive_mount_state dr = st" and "st \<noteq> MS_UNMOUNTED"
  shows "wp (on_library (set_drive_mount_state d st)) (\<lambda>_ B'. ltfs_inv B' \<and> lt_tapes B' = lt_tapes B) (\<lambda>_ _. False) B"
proof -
  have lib: "lib_inv (lt_library B)" and mo: "mounts_ok (lt_library B) (lt_active_mounts B)" using assms(1) by (simp_all add: ltfs_inv_def)
  have "drive_ok dr" using lib assms(2) by (simp add: lib_inv_def ids_ok_def)
  then have ds: "drive_state dr \<in> {DS_LOADED, DS_BUSY}" using assms(4,5) by (simp add: drive_ok_def)
  have tr: "validate_mount_transition (drive_mount_state dr) st = Inr ()" using assms(4) by (cases st) simp_all
  have "wp (set_drive_mount_state d st) (\<lambda>_ L'. lib_inv L' \<and> (\<exists>ds. L' = set_drive d (drive_barcode dr) ds st (lt_library B))) (\<lambda>_ _. False) (lt_library B)"
    using mount_state_reached [OF lib assms(2,3) tr ds] wp_set_drive_mount_state [OF lib, of d st]
    by (auto simp: wp_def split: prod.splits sum.splits)
  then show ?thesis
    unfolding on_library_def wp_zoom
    by (rule wp_mono) (use assms(1,2,4) mounts_ok_same_state [OF mo] in \<open>auto simp: ltfs_inv_def\<close>)
qed

text \<open>The part of a write that follows the checks on the handle.\<close>

lemma wp_write_tail:
  assumes i: "ltfs_inv B" and gen: "genuine h B" and t: "dict_get (lt_tapes B) (mh_barcode h) = Some t"
    and am: "dict_get (lt_active_mounts B) (mh_handle_id h) = Some am" and rw: "mh_mode h = READ_WRITE"
  shows "wp (bindM (write_mounted_locked sha now (mh_handle_id h) (mh_barcode h) path content sz cso) (\<lambda>checksum.
       thenM (on_library (set_drive_mount_state (mh_drive_id h) MS_MOUNTED_RW))
       (bindM (liftM (mk_barcode (mh_barcode h))) (\<lambda>b.
        returnM \<lparr>inst_id = nid, inst_file_record_id = checksum, inst_barcode = b, inst_tape_path = path,
               inst_state = FI_ARCHIVED, inst_archived_at = Some now\<rparr>))))
     (\<lambda>r B'. ltfs_inv B' \<and> inst_barcode r = mh_barcode h \<and> inst_tape_path r = path
        \<and> (\<exists>t'. stored path content sz t t' \<and> dict_get (lt_tapes B') = (dict_get (lt_tapes B))(mh_barcode h \<mapsto> t')))
     (\<lambda>e B'. ltfs_inv B' \<and> lt_tapes B' = lt_tapes B) B"
proof -
  note gm = genuine_mount [OF i gen am]
  obtain dr where dr: "dict_get (lib_drives (lt_library B)) (mh_drive_id h) = Some dr" "drive_barcode dr \<noteq> None"
    "drive_mount_state dr = MS_MOUNTED_RW" using gm rw by (auto simp: mount_ok_def)
  show ?thesis
    unfolding wp_bind [where m = "write_mounted_locked _ _ _ _ _ _ _ _"]
  proof (rule wp_mono [OF wp_write_mounted_locked [OF i t am]])
    show "am_mode am = READ_WRITE" using gm(4) rw by simp
    fix c B4 assume b4: "ltfs_inv B4 \<and> lt_library B4 = lt_library B \<and> (\<exists>t'. stored path content sz t t'
       \<and> dict_get (lt_tapes B4) = (dict_get (lt_tapes B))(mh_barcode h \<mapsto> t'))"
    then have "wp (on_library (set_drive_mount_state (mh_drive_id h) MS_MOUNTED_RW))
       (\<lambda>_ B'. ltfs_inv B' \<and> lt_tapes B' = lt_tapes B4) (\<lambda>_ _. False) B4"
      using dr by (intro wp_reassert_state) auto
    then show "wp (thenM (on_library (set_drive_mount_state (mh_drive_id h) MS_MOUNTED_RW))
        (bindM (liftM (mk_barcode (mh_barcode h))) (\<lambda>b.
          returnM \<lparr>inst_id = nid, inst_file_record_id = c, inst_barcode = b, inst_tape_path = path,
             inst_state = FI_ARCHIVED, inst_archived_at = Some now\<rparr>)))
     (\<lambda>r B'. ltfs_inv B' \<and> inst_barcode r = mh_barcode h \<and> inst_tape_path r = path
        \<and> (\<exists>t'. stored path content sz t t' \<and> dict_get (lt_tapes B') = (dict_get (lt_tapes B))(mh_barcode h \<mapsto> t')))
     (\<lambda>e B'. ltfs_inv B' \<and> lt_tapes B' = lt_tapes B) B4"
      unfolding wp_then by (rule wp_mono) (use b4 in \<open>simp_all add: wp_rules gm(6)\<close>)
  qed simp
qed

lemma wp_write_mounted_bytes:
  assumes inv: "ltfs_inv B" and gen: "genuine h B"
  shows "wp (write_mounted_bytes sha now nid h path content so cso)
     (\<lambda>r B'. ltfs_inv B' \<and> mh_mode h = READ_WRITE \<and> inst_barcode r = mh_barcode h \<and> inst_tape_path r = path
        \<and> write_post (mh_barcode h) path content (case so of None \<Rightarrow> int (length content) | Some n \<Rightarrow> n) B B')
     (\<lambda>e B'. ltfs_inv B' \<and> tapes_quiet B B') B"
    (is "wp _ ?Q ?E B")
proof -
  let ?sz = "case so of None \<Rightarrow> int (length content) | Some n \<Rightarrow> n"
  have err: "?E e B'" if "quiet B B'" "ltfs_inv B'" for e B' using that by (simp add: quiet_tapes_quiet)
  have mid: "wp (bindM (require_active_mount h) (\<lambda>am. thenM (guardM (mh_mode h = READ_WRITE) PermissionError)
     (bindM (ensure_tape (mh_barcode h)) (\<lambda>(key, tape).
     bindM (write_mounted_locked sha now (mh_handle_id h) key path content ?sz cso) (\<lambda>checksum.
     thenM (on_library (set_drive_mount_state (mh_drive_id h) MS_MOUNTED_RW))
     (bindM (liftM (mk_barcode (mh_barcode h))) (\<lambda>b.
      returnM \<lparr>inst_id = nid, inst_file_record_id = checksum, inst_barcode = b, inst_tape_path = path,
               inst_state = FI_ARCHIVED, inst_archived_at = Some now\<rparr>))))))) ?Q ?E B2" (is "wp (bindM _ (\<lambda>am. thenM _ ?R)) _ _ _")
    if q: "quiet B B2" and i: "ltfs_inv B2" for B2
  proof (subst wp_bind, rule wp_require_active_mount)
    fix am assume "dict_get (lt_active_mounts B2) (mh_handle_id h) = Some am"
    then have am: "dict_get (lt_active_mounts B) (mh_handle_id h) = Some am" by (simp add: quiet_mounts [OF q])
    have "wp ?R ?Q ?E B2" if rw: "mh_mode h = READ_WRITE"
    proof (subst wp_bind, rule wp_ensure_tape [OF i])
      fix k t B3
      assume k: "mk_barcode (mh_barcode h) = Inr k" and q3: "quiet B2 B3" and i3: "ltfs_inv B3"
        and t: "dict_get (lt_tapes B3) k = Some t"
      have q': "quiet B B3" by (rule quiet_trans [OF q q3])
      have kb: "k = mh_barcode h" using k genuine_mount(6) [OF inv gen am] by simp
      have "genuine h B3" "dict_get (lt_active_mounts B3) (mh_handle_id h) = Some am"
        using gen am genuine_quiet [OF q'] quiet_mounts [OF q'] by simp_all
      from wp_write_tail [OF i3 this(1) t [unfolded kb] this(2) rw]
      show "wp (case (k, t) of (key, tape) \<Rightarrow> bindM (write_mounted_locked sha now (mh_handle_id h) key path content ?sz cso) (\<lambda>checksum.
         thenM (on_library (set_drive_mount_state (mh_drive_id h) MS_MOUNTED_RW))
         (bindM (liftM (mk_barcode (mh_barcode h))) (\<lambda>b.
          returnM \<lparr>inst_id = nid, inst_file_record_id = checksum, inst_barcode = b, inst_tape_path = path,
               inst_state = FI_ARCHIVED, inst_archived_at = Some now\<rparr>)))) ?Q ?E B3"
        unfolding kb prod.case
        by (rule wp_mono) (use q' t rw in \<open>auto simp: kb write_post_def tapes_quiet_def\<close>)
    next
      fix e B3 assume "quiet B2 B3" "ltfs_inv B3"
      then show "?E e B3" by (intro err quiet_trans [OF q])
    qed
    then show "wp (thenM (guardM (mh_mode h = READ_WRITE) PermissionError) ?R) ?Q ?E B2"
      using err [OF q i] by (simp add: wp_then wp_guard)
  qed (rule err [OF q i])
  show ?thesis
    unfolding write_mounted_bytes_def
    by (subst wp_then, rule wp_ltfs_injected [OF inv _ err], subst wp_then, erule wp_ltfs_injected,
        rule mid, erule quiet_trans, assumption+, rule err, erule quiet_trans, assumption+)
qed

lemma wp_write_metadata_bytes:
  assumes inv: "ltfs_inv B"
  shows "wp (write_metadata_bytes sha now c path content)
     (\<lambda>_ B'. ltfs_inv B' \<and> lt_active_mounts B' = lt_active_mounts B \<and> (\<exists>k. mk_barcode c = Inr k \<and> write_post k path content (int (length content)) B B'))
     (\<lambda>e B'. ltfs_inv B' \<and> quiet B B') B"
    (is "wp _ ?Q ?E B")
proof (cases "mk_barcode c")
  case (Inl e)
  then show ?thesis using inv by (simp add: write_metadata_bytes_def wp_rules)
next
  case (Inr k)
  have mid: "wp (bindM (ensure_tape c) (\<lambda>(key, tape).
      let projected = projected_used_bytes tape path (int (length content))
      in thenM (guardM (\<not> projected > tc_capacity_bytes tape) TapeFullError)
          (modifyM (set_tape key (store_file path \<lparr>fr_tape_path = path, fr_size_bytes = int (length content),
             fr_checksum_sha256 = sha content, fr_content = content, fr_modified_at = now\<rparr> projected))))) ?Q ?E B2"
    if q: "quiet B B2" and i: "ltfs_inv B2" for B2
  proof (subst wp_bind, rule wp_ensure_tape [OF i])
    fix k' t B3
    assume k': "mk_barcode c = Inr k'" and q3: "quiet B2 B3" and i3: "ltfs_inv B3" and t: "dict_get (lt_tapes B3) k' = Some t"
    let ?r = "\<lparr>fr_tape_path = path, fr_size_bytes = int (length content), fr_checksum_sha256 = sha content,
      fr_content = content, fr_modified_at = now\<rparr>"
    let ?p = "projected_used_bytes t path (int (length content))"
    have q': "quiet B B3" by (rule quiet_trans [OF q q3])
    have "?Q () (set_tape k' (store_file path ?r ?p) B3)" if "\<not> ?p > tc_capacity_bytes t"
    proof -
      have "ltfs_inv (set_tape k' (store_file path ?r ?p) B3)"
        by (rule ltfs_inv_set_tape [OF i3]) (use that t in \<open>auto intro: tape_ok_store\<close>)
      moreover have "stored path content (int (length content)) t (store_file path ?r ?p t)"
        unfolding stored_def by (rule exI [of _ ?r]) (simp add: store_file_def dict_simps)
      ultimately show ?thesis
        using q' t k' quiet_mounts [OF q'] by (auto simp: write_post_def get_set_tape)
    qed
    then show "wp (case (k', t) of (key, tape) \<Rightarrow> let projected = projected_used_bytes tape path (int (length content))
      in thenM (guardM (\<not> projected > tc_capacity_bytes tape) TapeFullError)
          (modifyM (set_tape key (store_file path \<lparr>fr_tape_path = path, fr_size_bytes = int (length content),
             fr_checksum_sha256 = sha content, fr_content = content, fr_modified_at = now\<rparr> projected)))) ?Q ?E B3"
      using q' i3 unfolding prod.case Let_def wp_then wp_guard wp_modify by simp
  qed (auto intro: quiet_trans [OF q])
  show ?thesis
    unfolding write_metadata_bytes_def
    by (subst wp_bind, subst wp_lift, subst Inr, unfold sum.case, subst wp_then, rule wp_ltfs_injected [OF inv], subst wp_then, erule wp_ltfs_injected,
        rule mid, erule quiet_trans, assumption+, blast intro: quiet_trans, blast)
qed

subsection \<open>Reads\<close>

lemma wp_should_flip:
  assumes "ltfs_inv B" and "\<And>b B'. quiet B B' \<Longrightarrow> ltfs_inv B' \<Longrightarrow> Q b B'"
  shows "wp (should_flip_checksum target) Q E B"
  using assms by (auto simp: should_flip_checksum_def wp_def split: option.splits prod.splits)

lemma wp_read_bytes:
  assumes inv: "ltfs_inv B"
  shows "wp (read_bytes c path)
     (\<lambda>r B'. ltfs_inv B' \<and> quiet B B' \<and> (\<exists>k t. mk_barcode c = Inr k \<and> dict_get (lt_tapes B') k = Some t
        \<and> r = map_option fr_content (dict_get (tc_files t) path)))
     (\<lambda>e B'. ltfs_inv B' \<and> quiet B B') B"
proof (cases "mk_barcode c")
  case (Inl e)
  then show ?thesis using inv by (simp add: read_bytes_def wp_rules)
next
  case (Inr k)
  show ?thesis
    unfolding read_bytes_def wp_bind [where m = "liftM _"] wp_lift Inr sum.case
    by (subst wp_then, rule wp_ltfs_injected [OF inv], subst wp_bind, erule wp_ensure_tape)
       (auto simp: Inr wp_return intro: quiet_trans)
qed

lemma wp_read_bytes_anywhere:
  "ltfs_inv B \<Longrightarrow> wp (read_bytes_anywhere path) (\<lambda>_ B'. ltfs_inv B' \<and> quiet B B') (\<lambda>_ B'. ltfs_inv B' \<and> quiet B B') B"
  unfolding read_bytes_anywhere_def by (subst wp_then, rule wp_ltfs_injected) (auto simp: wp_gets)

lemma wp_ltfs_read_file:
  assumes inv: "ltfs_inv B"
  shows "wp (ltfs_read_file sha h path)
     (\<lambda>(c, bs) B'. ltfs_inv B' \<and> quiet B B' \<and> (\<exists>k t r. mk_barcode (mh_barcode h) = Inr k \<and> dict_get (lt_tapes B') k = Some t
        \<and> dict_get (tc_files t) path = Some r \<and> bs = fr_content r \<and> c \<in> {sha bs, flip_checksum (sha bs)}))
     (\<lambda>e B'. ltfs_inv B' \<and> quiet B B') B"
    (is "wp _ ?Q ?E B")
proof -
  have tail: "wp (case dict_get (tc_files t) path of None \<Rightarrow> raiseM FileNotFoundError
      | Some r \<Rightarrow> bindM (should_flip_checksum (mh_barcode h)) (\<lambda>flip.
           returnM (if flip then flip_checksum (sha (fr_content r)) else sha (fr_content r), fr_content r))) ?Q ?E B2"
    if "quiet B B2" "ltfs_inv B2" "mk_barcode (mh_barcode h) = Inr k" "dict_get (lt_tapes B2) k = Some t" for B2 k t
  proof (cases "dict_get (tc_files t) path")
    case None
    then show ?thesis using that by (simp add: wp_raise)
  next
    case (Some r)
    have "?Q (if flip then flip_checksum (sha (fr_content r)) else sha (fr_content r), fr_content r) B3"
      if "quiet B2 B3" "ltfs_inv B3" for flip B3
      using that Some quiet_trans [OF \<open>quiet B B2\<close>] quiet_tape [OF _ \<open>dict_get (lt_tapes B2) k = Some t\<close>]
        \<open>mk_barcode (mh_barcode h) = Inr k\<close> by auto
    then show ?thesis using that(2) Some by (simp add: wp_bind wp_return) (rule wp_should_flip, auto)
  qed
  show ?thesis
    unfolding ltfs_read_file_def
    by (subst wp_then, rule wp_ltfs_injected [OF inv], subst wp_then, rule wp_require_active_mount, subst wp_bind,
        erule wp_ensure_tape, unfold prod.case, rule tail, erule quiet_trans, assumption+)
       (auto intro: quiet_trans)
qed

lemma wp_ltfs_stat:
  assumes inv: "ltfs_inv B"
  shows "wp (ltfs_stat h path) (\<lambda>_ B'. ltfs_inv B' \<and> quiet B B') (\<lambda>_ B'. ltfs_inv B' \<and> quiet B B') B"
proof -
  have tail: "wp (case z of None \<Rightarrow> raiseM FileNotFoundError
      | Some r \<Rightarrow> bindM (should_flip_checksum tgt) (\<lambda>flip. returnM (f flip r))) (\<lambda>_ B'. ltfs_inv B' \<and> quiet B B') (\<lambda>_ B'. ltfs_inv B' \<and> quiet B B') B2"
    if "quiet B B2" "ltfs_inv B2" for B2 z tgt f
    using that by (cases z) (auto simp: wp_raise wp_bind wp_return intro: wp_should_flip quiet_trans)
  show ?thesis
    unfolding ltfs_stat_def
    by (subst wp_then, rule wp_require_active_mount, subst wp_bind, rule wp_ensure_tape [OF inv], unfold prod.case)
       (auto intro!: tail inv)
qed

section \<open>Library moves while volumes are mounted\<close>

text \<open>The library calls a client makes beside the LTFS backend.\<close>

fun move_call :: "lib_call \<Rightarrow> bool" where
  "move_call (Call_add_cartridge _ _) = True"
| "move_call (Call_remove_cartridge _) = True"
| "move_call (Call_load _ _) = True"
| "move_call (Call_unload _ _) = True"
| "move_call (Call_move _ _) = True"
| "move_call (Call_import_cartridge _ _) = True"
| "move_call (Call_export_cartridge_to_ie _ _) = True"
| "move_call _ = False"

definition mounted_drives_kept :: "mock_library \<Rightarrow> mock_library \<Rightarrow> bool" where
  "mounted_drives_kept L L' \<longleftrightarrow> (\<forall>d dr. dict_get (lib_drives L) d = Some dr \<longrightarrow> drive_mount_state dr \<noteq> MS_UNMOUNTED
     \<longrightarrow> dict_get (lib_drives L') d = Some dr)"

lemma mounted_drives_kept_media: "media L' = media R \<Longrightarrow> mounted_drives_kept L R \<Longrightarrow> mounted_drives_kept L L'"
  by (simp add: mounted_drives_kept_def media_def)

lemma mounted_drives_kept_eq [simp]: "lib_drives L' = lib_drives L \<Longrightarrow> mounted_drives_kept L L'"
  by (simp add: mounted_drives_kept_def)

lemma mounted_drives_kept_set_drive:
  assumes "lib_inv L" and "dict_get (lib_drives L) d = Some dr" and "drive_mount_state dr = MS_UNMOUNTED" and "lib_drives L' = lib_drives (set_drive d b ds st L)"
  shows "mounted_drives_kept L L'"
  using assms by (auto simp: mounted_drives_kept_def occ_simps)

lemma drive_without_tape_unmounted: "lib_inv L \<Longrightarrow> dict_get (lib_drives L) d = Some dr \<Longrightarrow> drive_barcode dr = None \<Longrightarrow> drive_mount_state dr = MS_UNMOUNTED"
proof -
  assume "lib_inv L" and "dict_get (lib_drives L) d = Some dr" and n: "drive_barcode dr = None"
  then have "drive_ok dr" by (simp add: lib_inv_def ids_ok_def)
  with n show ?thesis by (auto simp: drive_ok_def)
qed

lemma load_keeps_mounted: "lib_inv L \<Longrightarrow> mounted_drives_kept L (snd (load s d L))"
proof -
  assume L: "lib_inv L"
  have "wp (load s d) (\<lambda>_. mounted_drives_kept L) (\<lambda>_. mounted_drives_kept L) L"
  proof (rule wp_mono [OF load_media [OF L]])
    fix r L'
    assume "\<exists>b x y. dict_get (lib_slots L) s = Some x \<and> slot_barcode x = Some b \<and> dict_get (lib_drives L) d = Some y
     \<and> drive_barcode y = None \<and> drive_state y \<noteq> DS_FAILED
     \<and> r = Op_result True ''loaded'' (Some b) [(''drive'', d)] \<and> media L' = media (load_result s d b L)"
    then obtain b y where y: "dict_get (lib_drives L) d = Some y" "drive_barcode y = None" and m: "media L' = media (load_result s d b L)" by blast
    show "mounted_drives_kept L L'"
      by (rule mounted_drives_kept_set_drive [OF L y(1) drive_without_tape_unmounted [OF L y],
            where b = "Some b" and ds = DS_LOADED and st = MS_UNMOUNTED])
         (simp add: media_eqD(3) [OF m] load_result_def occ_simps set_drive_def split: option.splits)
  qed (simp add: media_def)
  then show ?thesis by (auto simp: wp_def split: prod.splits sum.splits)
qed

lemma unload_keeps_mounted: "lib_inv L \<Longrightarrow> mounted_drives_kept L (snd (unload d s L))"
proof -
  assume L: "lib_inv L"
  have "wp (unload d s) (\<lambda>_. mounted_drives_kept L) (\<lambda>_. mounted_drives_kept L) L"
  proof (rule wp_mono [OF unload_media [OF L]])
    fix r L'
    assume "\<exists>b x y. dict_get (lib_drives L) d = Some x \<and> drive_barcode x = Some b \<and> dict_get (lib_slots L) s = Some y
     \<and> slot_barcode y = None \<and> can_unload_drive (drive_state x) (drive_mount_state x)
     \<and> r = Op_result True ''unloaded'' (Some b) [(''slot'', s)] \<and> media L' = media (unload_result d s b L)"
    then obtain b x where x: "dict_get (lib_drives L) d = Some x" "drive_mount_state x = MS_UNMOUNTED" and m: "media L' = media (unload_result d s b L)"
      by (auto simp: can_unload_drive_def)
    show "mounted_drives_kept L L'"
      by (rule mounted_drives_kept_set_drive [OF L x])
         (simp add: media_eqD(3) [OF m] unload_result_def occ_simps)
  qed (simp add: media_def)
  then show ?thesis by (auto simp: wp_def split: prod.splits sum.splits)
qed

lemma keeps_drives: "keeps (\<lambda>L'. lib_drives L' = D) m \<Longrightarrow> lib_drives L = D \<Longrightarrow> lib_drives (snd (m L)) = D"
  by (simp add: keeps_def)

lemma run_move_call_keeps_mounted:
  assumes "lib_inv L" and "move_call c"
  shows "mounted_drives_kept L (run_call c L)"
proof -
  have bracket: "keeps (\<lambda>L'. lib_drives L' = D) (thenM enter_changer (finallyM body leave_changer))" if "keeps (\<lambda>L'. lib_drives L' = D) body" for D body
    unfolding enter_changer_def leave_changer_def by (intro keeps_intros that) simp_all
  have small: "keeps (\<lambda>L'. lib_drives L' = D) (maybe_fail fs)" "keeps (\<lambda>L'. lib_drives L' = D) sleepM" for D fs
    unfolding maybe_fail_def sleepM_def by (intro keeps_intros)+
  have "keeps (\<lambda>L'. lib_drives L' = D) (add_cartridge s b)" "keeps (\<lambda>L'. lib_drives L' = D) (remove_cartridge s)" for D s b
    unfolding add_cartridge_def remove_cartridge_def by (intro keeps_intros; simp add: occ_simps pop_cartridge_state_def)+
  moreover have "keeps (\<lambda>L'. lib_drives L' = D) (move s t)" "keeps (\<lambda>L'. lib_drives L' = D) (import_cartridge s t)"
    "keeps (\<lambda>L'. lib_drives L' = D) (export_cartridge_to_ie s t)" for D s t
    unfolding move_def import_cartridge_def export_cartridge_to_ie_def move_locked_def import_locked_def export_to_ie_locked_def
    by (intro bracket keeps_intros small; simp add: occ_simps)+
  ultimately have d: "lib_drives (snd (add_cartridge s b L)) = lib_drives L" "lib_drives (snd (remove_cartridge s L)) = lib_drives L"
    "lib_drives (snd (move s t L)) = lib_drives L" "lib_drives (snd (import_cartridge s t L)) = lib_drives L"
    "lib_drives (snd (export_cartridge_to_ie s t L)) = lib_drives L" for s t b
    by (blast intro: keeps_drives)+
  show ?thesis
    using assms by (cases c) (simp_all add: d load_keeps_mounted unload_keeps_mounted)
qed

lemma mounts_ok_kept:
  assumes "mounts_ok L ms" and "mounted_drives_kept L L'"
  shows "mounts_ok L' ms"
proof -
  have "mount_ok L' h m" if "dict_get ms h = Some m" for h m
    using mounts_ok_get [OF assms(1) that] assms(2) target_mount_state_neq(1) [of "am_mode m"]
    unfolding mount_ok_def mounted_drives_kept_def by metis
  with assms(1) show ?thesis unfolding mounts_ok_def by blast
qed

section \<open>The backend as a state machine\<close>

text \<open>The calls of a client: formatting, mounting with a barcode in normal form and a fresh handle id,
  unmounting and writing with a handle the backend gave out, metadata writes, reads, and moves of the
  library.\<close>

inductive ltfs_reachable :: "ltfs_backend \<Rightarrow> ltfs_backend \<Rightarrow> bool" for B0 where
  step_start: "ltfs_reachable B0 B0"
| step_format: "ltfs_reachable B0 B \<Longrightarrow> ltfs_reachable B0 (snd (ltfs_format now c conf B))"
| step_mount: "ltfs_reachable B0 B \<Longrightarrow> barcode_pattern c \<Longrightarrow> dict_get (lt_active_mounts B) hid = None
    \<Longrightarrow> ltfs_reachable B0 (snd (ltfs_mount hid c mode B))"
| step_unmount: "ltfs_reachable B0 B \<Longrightarrow> genuine h B \<Longrightarrow> ltfs_reachable B0 (snd (ltfs_unmount h B))"
| step_write: "ltfs_reachable B0 B \<Longrightarrow> genuine h B \<Longrightarrow> ltfs_reachable B0 (snd (write_mounted_bytes sha now nid h path content so cso B))"
| step_metadata: "ltfs_reachable B0 B \<Longrightarrow> ltfs_reachable B0 (snd (write_metadata_bytes sha now c path content B))"
| step_read: "ltfs_reachable B0 B \<Longrightarrow> ltfs_reachable B0 (snd (read_bytes c path B))"
| step_read_anywhere: "ltfs_reachable B0 B \<Longrightarrow> ltfs_reachable B0 (snd (read_bytes_anywhere path B))"
| step_read_file: "ltfs_reachable B0 B \<Longrightarrow> ltfs_reachable B0 (snd (ltfs_read_file sha h path B))"
| step_stat: "ltfs_reachable B0 B \<Longrightarrow> ltfs_reachable B0 (snd (ltfs_stat h path B))"
| step_library: "ltfs_reachable B0 B \<Longrightarrow> move_call lc \<Longrightarrow> ltfs_reachable B0 (B\<lparr>lt_library := run_call lc (lt_library B)\<rparr>)"

lemma wp_snd: "wp m (\<lambda>_. P) (\<lambda>_. P) B \<Longrightarrow> P (snd (m B))"
  by (auto simp: wp_def split: prod.splits sum.splits)

lemma wp_inv: "wp m Q E B \<Longrightarrow> (\<And>x B'. Q x B' \<Longrightarrow> ltfs_inv B') \<Longrightarrow> (\<And>e B'. E e B' \<Longrightarrow> ltfs_inv B') \<Longrightarrow> ltfs_inv (snd (m B))"
  by (rule wp_snd, erule wp_mono) auto

lemma ltfs_reachable_inv: "ltfs_reachable B0 B \<Longrightarrow> ltfs_inv B0 \<Longrightarrow> ltfs_inv B"
proof (induction rule: ltfs_reachable.induct)
  case (step_library B lc)
  then have "ltfs_inv B" by simp
  then have "lib_inv (lt_library B)" "mounts_ok (lt_library B) (lt_active_mounts B)" by (simp_all add: ltfs_inv_def)
  then show ?case
    using mounts_ok_kept run_move_call_keeps_mounted [OF _ step_library.hyps(2)] run_call_inv \<open>ltfs_inv B\<close>
    by (auto simp: ltfs_inv_def)
qed (auto intro: wp_inv [OF wp_ltfs_format] wp_inv [OF wp_ltfs_mount] wp_inv [OF wp_ltfs_unmount] wp_inv [OF wp_write_mounted_bytes]
    wp_inv [OF wp_write_metadata_bytes] wp_inv [OF wp_read_bytes] wp_inv [OF wp_read_bytes_anywhere] wp_inv [OF wp_ltfs_stat]
    wp_inv [OF wp_ltfs_read_file])

lemma ltfs_inv_mk_ltfs:
  assumes "lib_inv L" and "0 \<le> cap"
  shows "ltfs_inv (mk_ltfs L cap cfg iref)"
proof -
  have d: "distinct (get_all_barcodes L)" using assms(1) by (simp add: get_all_barcodes_def lib_inv_def keys_ok_def)
  have g: "dict_get (map (\<lambda>b. (b, new_tape b cap)) bs) k = (if k \<in> set bs then Some (new_tape k cap) else None)" for bs k
    by (induction bs) auto
  have "tapes_ok (map (\<lambda>b. (b, new_tape b cap)) (get_all_barcodes L))"
    using d known_barcode_pattern [OF assms(1)] assms(2) by (auto simp: tapes_ok_def g o_def tape_ok_new split: if_splits)
  then show ?thesis using assms by (simp add: ltfs_inv_def mk_ltfs_def mounts_ok_def)
qed

section \<open>Properties\<close>

text \<open>A backend with one formatted cartridge in its drive, and with that cartridge mounted.\<close>

definition demo_token :: safety_token where
  "demo_token = generate_token ''tok'' 0 ''format'' ''OB0001L8'' 300"

definition demo_confirmation :: format_confirmation where
  "demo_confirmation = \<lparr>fc_expected_barcode = ''OB0001L8'', fc_safety_token = demo_token, fc_operator_note = ''''\<rparr>"

definition demo_ltfs :: ltfs_backend where
  "demo_ltfs = snd (ltfs_format 0 ''OB0001L8'' (Some demo_confirmation) (mk_ltfs demo_loaded 1000 None No_injector))"

definition demo_mounted :: ltfs_backend where
  "demo_mounted = snd (ltfs_mount ''h1'' ''OB0001L8'' READ_WRITE demo_ltfs)"

definition demo_handle :: mount_handle where
  "demo_handle = \<lparr>mh_handle_id = ''h1'', mh_barcode = ''OB0001L8'', mh_drive_id = 0, mh_mode = READ_WRITE,
     mh_mount_path = ''mock-mount/OB0001L8''\<rparr>"

lemma demo_start_inv: "ltfs_inv (mk_ltfs demo_loaded 1000 None No_injector)"
  by (rule ltfs_inv_mk_ltfs [OF demo_loaded_inv]) simp

lemma demo_pattern: "barcode_pattern ''OB0001L8''"
  by code_simp

lemma demo_ltfs_fresh: "dict_get (lt_active_mounts demo_ltfs) ''h1'' = None"
  by code_simp

lemma demo_ltfs_reachable: "ltfs_reachable (mk_ltfs demo_loaded 1000 None No_injector) demo_ltfs"
  unfolding demo_ltfs_def by (intro ltfs_reachable.intros)

lemma demo_mounted_reachable: "ltfs_reachable (mk_ltfs demo_loaded 1000 None No_injector) demo_mounted"
  unfolding demo_mounted_def by (intro step_mount demo_ltfs_reachable demo_pattern demo_ltfs_fresh)

lemma demo_ltfs_inv: "ltfs_inv demo_ltfs"
  by (rule ltfs_reachable_inv [OF demo_ltfs_reachable demo_start_inv])

lemma demo_mounted_inv: "ltfs_inv demo_mounted"
  by (rule ltfs_reachable_inv [OF demo_mounted_reachable demo_start_inv])

lemma demo_mount_entry: "dict_get (lt_active_mounts demo_mounted) ''h1'' = Some \<lparr>am_handle = demo_handle, am_barcode = ''OB0001L8'',
    am_drive_id = 0, am_mode = READ_WRITE, am_active = True, am_dirty = False, am_write_in_progress = False\<rparr>"
  by code_simp

lemma demo_genuine: "genuine demo_handle demo_mounted"
  using demo_mount_entry by (simp add: genuine_def demo_handle_def)



text \<open>C17. The drive of an active mount cannot be unloaded: the call raises and no element, drive or
  cartridge state of the library changes.\<close>

theorem mounted_tape_stays:
  assumes "ltfs_inv B" and "dict_get (lt_active_mounts B) h = Some m"
  shows "\<exists>e L'. unload (am_drive_id m) s (lt_library B) = (Inl e, L') \<and> media L' = media (lt_library B)"
proof -
  have lib: "lib_inv (lt_library B)" and mo: "mounts_ok (lt_library B) (lt_active_mounts B)" using assms(1) by (simp_all add: ltfs_inv_def)
  obtain dr where dr: "dict_get (lib_drives (lt_library B)) (am_drive_id m) = Some dr"
    "drive_mount_state dr = target_mount_state (am_mode m)"
    using mounts_ok_get [OF mo assms(2)] by (auto simp: mount_ok_def)
  then have "\<not> can_unload_drive (drive_state dr) (drive_mount_state dr)" by (simp add: can_unload_drive_def)
  with unload_media [OF lib, of "am_drive_id m" s] dr show ?thesis
    by (cases "unload (am_drive_id m) s (lt_library B)") (auto simp: wp_def split: sum.splits)
qed

theorem mounted_tape_stays_witness:
  "\<exists>e L'. unload 0 1 (lt_library demo_mounted) = (Inl e, L') \<and> media L' = media (lt_library demo_mounted)"
  using mounted_tape_stays [OF demo_mounted_inv demo_mount_entry, of 1] by simp

text \<open>C31. Formatting destroys data only on the volume named and only with an unexpired confirmation
  naming it: when \<open>format\<close> changes the files of any volume, the confirmation was present, unexpired and
  for exactly the barcode given, and that volume is the one of this barcode.\<close>

theorem format_destroys_only_confirmed:
  assumes "ltfs_inv B" and "ltfs_format now c conf B = (r, B')"
    and "dict_get (lt_tapes B) k = Some t" and "map_option tc_files (dict_get (lt_tapes B') k) \<noteq> Some (tc_files t)"
  shows "mk_barcode c = Inr k \<and> (\<exists>cf. conf = Some cf \<and> fc_expected_barcode cf = c \<and> now < tok_expires_at (fc_safety_token cf))"
proof -
  have post: "confirmed now c conf \<and> mk_barcode c = Inr k"
    if "confirmed now c conf" "mk_barcode c = Inr k'" "quiet B B1" "format_spec_post k' B1 B'" for k' B1
  proof -
    have "k' = k"
    proof (rule ccontr)
      assume "k' \<noteq> k"
      then have "dict_get (lt_tapes B') k = Some t" using that(4) quiet_tape [OF that(3) assms(3)] by (auto simp: format_spec_post_def)
      with assms(4) show False by simp
    qed
    with that show ?thesis by simp
  qed
  have no: "\<not> quiet B B'" using quiet_tape [OF _ assms(3)] assms(4) by force
  have "confirmed now c conf \<and> mk_barcode c = Inr k"
    using wp_ltfs_format [OF assms(1), of now c conf] assms(2) post no
    by (cases r) (auto simp: wp_def)
  then show ?thesis by (auto simp: confirmed_def)
qed

text \<open>What is written to a volume under a path is what a read of that path returns, for any bytes
  and any hash function, whichever faults fire in between without making the calls raise.\<close>

theorem metadata_write_read:
  assumes "ltfs_inv B" and "write_metadata_bytes sha now c path content B = (Inr (), B1)"
    and "read_bytes c path B1 = (Inr r, B2)"
  shows "r = Some content"
proof -
  obtain k where k: "mk_barcode c = Inr k" and i1: "ltfs_inv B1" and w: "write_post k path content (int (length content)) B B1"
    using wp_returns [OF wp_write_metadata_bytes [OF assms(1)] assms(2)] by auto
  from w obtain t' where t': "dict_get (lt_tapes B1) k = Some t'" "map_option fr_content (dict_get (tc_files t') path) = Some content"
    by (auto simp: write_post_def stored_def)
  show ?thesis
    using wp_returns [OF wp_read_bytes [OF i1] assms(3)] k t' by (auto dest: quiet_tape)
qed

text \<open>A file written through a read-write mount is read back through any active mount of the
  tape: the bytes delivered are the bytes written, and the checksum reported is their hash, or that
  hash with its first digit flipped when a checksum fault fires.\<close>

theorem mounted_write_read:
  assumes "ltfs_inv B" and "genuine h B" and "write_mounted_bytes sha now nid h path content so cso B = (Inr i, B1)"
    and "mh_barcode h' = mh_barcode h" and "ltfs_read_file sha h' path B1 = (Inr (c, bs), B2)"
  shows "bs = content \<and> c \<in> {sha content, flip_checksum (sha content)} \<and> inst_barcode i = mh_barcode h"
proof -
  have w: "ltfs_inv B1" "inst_barcode i = mh_barcode h"
    and p: "write_post (mh_barcode h) path content (case so of None \<Rightarrow> int (length content) | Some n \<Rightarrow> n) B B1"
    using wp_returns [OF wp_write_mounted_bytes [OF assms(1,2)] assms(3)] by auto
  obtain t' r where t': "dict_get (lt_tapes B1) (mh_barcode h) = Some t'" "dict_get (tc_files t') path = Some r" "fr_content r = content"
    using p by (auto simp: write_post_def stored_def)
  have ok: "tape_ok (mh_barcode h) t'" using w(1) t'(1) by (simp add: ltfs_inv_def tapes_ok_def)
  then have k: "mk_barcode (mh_barcode h) = Inr (mh_barcode h)" by (simp add: tape_ok_def mk_barcode_pattern)
  from wp_returns [OF wp_ltfs_read_file [OF w(1)] assms(5)] k t' assms(4) w(2)
  show ?thesis by (auto dest: quiet_tape)
qed

theorem format_destroys_only_confirmed_witness:
  "\<exists>cf. Some demo_confirmation = Some cf \<and> fc_expected_barcode cf = ''OB0001L8'' \<and> 0 < tok_expires_at (fc_safety_token cf)"
proof -
  let ?B = "snd (write_metadata_bytes (\<lambda>_. ''sum'') 0 ''OB0001L8'' ''/a'' [1, 2, 3] demo_ltfs)"
  let ?B' = "snd (ltfs_format 0 ''OB0001L8'' (Some demo_confirmation) ?B)"
  have i: "ltfs_inv ?B" by (rule wp_inv [OF wp_write_metadata_bytes [OF demo_ltfs_inv]]) auto
  have b: "map_option (dict_keys \<circ> tc_files) (dict_get (lt_tapes ?B) ''OB0001L8'') = Some [''/a'']" by code_simp
  then obtain t where t: "dict_get (lt_tapes ?B) ''OB0001L8'' = Some t" "tc_files t \<noteq> []" by auto
  have "map_option tc_files (dict_get (lt_tapes ?B') ''OB0001L8'') = Some []" by code_simp
  then have "map_option tc_files (dict_get (lt_tapes ?B') ''OB0001L8'') \<noteq> Some (tc_files t)" using t(2) by auto
  then show ?thesis by (rule conjunct2 [OF format_destroys_only_confirmed [OF i prod.collapse [symmetric] t(1)]])
qed

theorem metadata_write_read_witness:
  "fst (read_bytes ''ob0001l8'' ''/m/a.json'' (snd (write_metadata_bytes (\<lambda>_. ''sum'') 7 ''OB0001l8'' ''/m/a.json'' [1, 2, 3] demo_mounted)))
     = Inr (Some [1, 2, 3])"
proof -
  let ?w = "write_metadata_bytes (\<lambda>_. ''sum'') 7 ''ob0001l8'' ''/m/a.json'' [1, 2, 3] demo_mounted"
  have s: "snd (write_metadata_bytes (\<lambda>_. ''sum'') 7 ''OB0001l8'' ''/m/a.json'' [1, 2, 3] demo_mounted) = snd ?w" by code_simp
  have w: "fst ?w = Inr ()" by code_simp
  have "\<exists>r. fst (read_bytes ''ob0001l8'' ''/m/a.json'' (snd ?w)) = Inr r"
    by (rule exI [of _ "Some [1, 2, 3]"]) code_simp
  then obtain r where r: "fst (read_bytes ''ob0001l8'' ''/m/a.json'' (snd ?w)) = Inr r" ..
  have "r = Some [1, 2, 3]"
    by (rule metadata_write_read [OF demo_mounted_inv]) (use w r in \<open>simp_all add: prod_eq_iff\<close>)
  with r s show ?thesis by simp
qed

theorem mounted_write_read_witness:
  "fst (ltfs_read_file (\<lambda>_. ''sum'') demo_handle ''/d/f'' (snd (write_mounted_bytes (\<lambda>_. ''sum'') 7 ''i1'' demo_handle ''/d/f'' [9, 8] None None demo_mounted)))
     = Inr (''sum'', [9, 8])"
proof -
  let ?w = "write_mounted_bytes (\<lambda>_. ''sum'') 7 ''i1'' demo_handle ''/d/f'' [9, 8] None None demo_mounted"
  let ?r = "ltfs_read_file (\<lambda>_. ''sum'') demo_handle ''/d/f'' (snd ?w)"
  have w: "\<exists>i. fst ?w = Inr i"
    by (rule exI [of _ "\<lparr>inst_id = ''i1'', inst_file_record_id = ''sum'', inst_barcode = ''OB0001L8'', inst_tape_path = ''/d/f'',
      inst_state = FI_ARCHIVED, inst_archived_at = Some 7\<rparr>"]) code_simp
  then obtain i where "fst ?w = Inr i" ..
  then have w': "?w = (Inr i, snd ?w)" by (simp add: prod_eq_iff)
  have r: "fst (map_prod (map_sum id fst) id ?r) = Inr ''sum''" by code_simp
  then obtain bs where "fst ?r = Inr (''sum'', bs)" by (cases ?r; cases "fst ?r") auto
  then have r': "?r = (Inr (''sum'', bs), snd ?r)" by (simp add: prod_eq_iff)
  have "bs = [9, 8]" using mounted_write_read [OF demo_mounted_inv demo_genuine w' refl r'] by simp
  with r' show ?thesis by (metis fst_conv)
qed

text \<open>The exclusivity check of \<open>mount\<close> looks for the barcode as the caller spelled it, while mounts
  are recorded under the normalised barcode: a second read-write mount of a tape that is already
  mounted read-write succeeds when the barcode is given in lower case, and two active read-write
  mounts of one volume exist.\<close>

theorem second_rw_mount_by_lower_case:
  "(case ltfs_mount ''h2'' ''ob0001l8'' READ_WRITE demo_mounted of
      (Inr h, B') \<Rightarrow> map (\<lambda>(h, m). (h, am_barcode m, am_mode m)) (lt_active_mounts B') =
         [(''h1'', ''OB0001L8'', READ_WRITE), (''h2'', ''OB0001L8'', READ_WRITE)]
    | (Inl e, B') \<Rightarrow> False)
   \<and> fst (ltfs_mount ''h2'' ''OB0001L8'' READ_WRITE demo_mounted) = Inl SimulatedMountFailure"
  by code_simp

end
