(* ===== verification/Reconcile.thy ===== *)
theory Reconcile
  imports Catalog "HOL-Library.Multiset"
begin

text \<open>
  \<open>jobs/reconcile.py\<close>: which drives and cartridges await reconciliation, read off the journal, and the
  operator's reconciliation of a drive; then \<open>CatalogLeaseStore\<close> of \<open>jobs/scheduler.py\<close> on the catalog,
  as an instance of the lease-store contract. The library is asked for its inventory only, so its
  snapshot is an argument.
\<close>

section \<open>Reading the journal\<close>

definition PHYSICAL_STATE_UNKNOWN :: string where
  "PHYSICAL_STATE_UNKNOWN = ''physical_state_unknown''"

definition DRIVE_RECONCILED :: string where
  "DRIVE_RECONCILED = ''drive_reconciled''"

record pending_reconciliation =
  pr_drive_id :: int
  pr_barcode :: "string option"
  pr_op :: string
  pr_job_id :: string
  pr_at :: int

text \<open>\<open>int(str(v))\<close> of a string: blanks around, a sign, decimal digits with single underscores between
  them.\<close>

definition digit_value :: "char \<Rightarrow> int option" where
  "digit_value c = (let n = (of_char c :: nat) in if 48 \<le> n \<and> n \<le> 57 then Some (int n - 48) else None)"

fun parse_digits :: "int \<Rightarrow> string \<Rightarrow> int option" where
  "parse_digits acc [] = Some acc"
| "parse_digits acc (c # cs) =
     (if c = CHR ''_'' then
        (case cs of
           [] \<Rightarrow> None
         | d # ds \<Rightarrow> (case digit_value d of None \<Rightarrow> None | Some v \<Rightarrow> parse_digits (acc * 10 + v) ds))
      else (case digit_value c of None \<Rightarrow> None | Some v \<Rightarrow> parse_digits (acc * 10 + v) cs))"

definition parse_unsigned :: "string \<Rightarrow> int option" where
  "parse_unsigned s = (case s of [] \<Rightarrow> None | c # cs \<Rightarrow> (case digit_value c of None \<Rightarrow> None | Some v \<Rightarrow> parse_digits v cs))"

definition parse_int :: "string \<Rightarrow> int option" where
  "parse_int s =
     (case str_strip s of
        [] \<Rightarrow> None
      | c # cs \<Rightarrow>
          if c = CHR ''-'' then map_option uminus (parse_unsigned cs)
          else if c = CHR ''+'' then parse_unsigned cs
          else parse_unsigned (c # cs))"

definition drive_of_detail :: "(string, jval) dict \<Rightarrow> int option" where
  "drive_of_detail detail =
     (case dict_get detail ''drive'' of
        None \<Rightarrow> None
      | Some J_none \<Rightarrow> None
      | Some (J_bool _) \<Rightarrow> None
      | Some (J_int i) \<Rightarrow> Some i
      | Some (J_str s) \<Rightarrow> parse_int s
      | Some (J_strs _) \<Rightarrow> None)"

definition barcode_of_detail :: "(string, jval) dict \<Rightarrow> string option" where
  "barcode_of_detail detail =
     (case dict_get detail ''barcode'' of
        None \<Rightarrow> None
      | Some J_none \<Rightarrow> None
      | Some v \<Rightarrow> Some (jval_str (Some v)))"

definition reconcile_events :: "catalog \<Rightarrow> journal_entry list" where
  "reconcile_events c =
     sort_key je_id (journal_events PHYSICAL_STATE_UNKNOWN None c @ journal_events DRIVE_RECONCILED None c)"

definition pending_step :: "(int, pending_reconciliation) dict \<Rightarrow> journal_entry \<Rightarrow> (int, pending_reconciliation) dict" where
  "pending_step pending e =
     (case drive_of_detail (je_detail e) of
        None \<Rightarrow> pending
      | Some drive \<Rightarrow>
          if je_event e = DRIVE_RECONCILED then dict_pop drive pending
          else dict_set drive
            \<lparr>pr_drive_id = drive, pr_barcode = barcode_of_detail (je_detail e),
             pr_op = (case dict_get (je_detail e) ''op'' of None \<Rightarrow> '''' | Some v \<Rightarrow> jval_str (Some v)),
             pr_job_id = je_job_id e, pr_at = je_at e\<rparr> pending)"

definition drives_pending_reconciliation :: "catalog \<Rightarrow> (int, pending_reconciliation) dict" where
  "drives_pending_reconciliation c = foldl pending_step [] (reconcile_events c)"

definition driveless_step :: "string list \<Rightarrow> journal_entry \<Rightarrow> string list" where
  "driveless_step acc e =
     (case barcode_of_detail (je_detail e) of
        None \<Rightarrow> acc
      | Some b \<Rightarrow>
          if je_event e = DRIVE_RECONCILED then removeAll b acc
          else if drive_of_detail (je_detail e) = None then List.insert b acc
          else acc)"

definition driveless_barcodes :: "catalog \<Rightarrow> string list" where
  "driveless_barcodes c = foldl driveless_step [] (reconcile_events c)"

definition barcodes_pending_reconciliation :: "catalog \<Rightarrow> string list" where
  "barcodes_pending_reconciliation c =
     driveless_barcodes c @ List.map_filter pr_barcode (dict_values (drives_pending_reconciliation c))"

definition ensure_drive_reconciled :: "int \<Rightarrow> string option \<Rightarrow> catalog \<Rightarrow> exc + unit" where
  "ensure_drive_reconciled did b c =
     (if (case b of None \<Rightarrow> False | Some x \<Rightarrow> x \<in> set (barcodes_pending_reconciliation c)) then Inl DriveUnreconciledError
      else case dict_get (drives_pending_reconciliation c) did of None \<Rightarrow> Inr () | Some _ \<Rightarrow> Inl DriveUnreconciledError)"

text \<open>\<open>reconcile_drive\<close>: against the snapshot \<open>inv\<close> the library returns.\<close>

definition jval_of_str :: "string option \<Rightarrow> jval" where
  "jval_of_str s = (case s of None \<Rightarrow> J_none | Some x \<Rightarrow> J_str x)"

definition reconcile_drive :: "int \<Rightarrow> library_inventory \<Rightarrow> int \<Rightarrow> string \<Rightarrow> (catalog, pending_reconciliation) op" where
  "reconcile_drive now snapshot did job =
     (case List.find (\<lambda>d. dv_drive_id d = did) (inv_drives snapshot) of
        None \<Rightarrow> raiseM UnknownDriveError
      | Some drive \<Rightarrow>
          thenM (guardM (dv_mount_state drive = MS_UNMOUNTED) DriveUnreconciledError)
          (bindM (journal now job DRIVE_RECONCILED
                    [(''drive'', J_int did), (''observed_barcode'', jval_of_str (dv_barcode drive))]) (\<lambda>entry.
           returnM \<lparr>pr_drive_id = did, pr_barcode = dv_barcode drive, pr_op = DRIVE_RECONCILED, pr_job_id = job,
                    pr_at = je_at entry\<rparr>)))"

section \<open>The catalog as a lease store\<close>

definition on_leases :: "(drive_lease list \<Rightarrow> 'a \<times> drive_lease list) \<Rightarrow> catalog \<Rightarrow> 'a \<times> catalog" where
  "on_leases f c = (case f (cat_leases c) of (r, ls) \<Rightarrow> (r, c\<lparr>cat_leases := ls\<rparr>))"

definition cat_ops :: "catalog store_ops" where
  "cat_ops = \<lparr>
     so_acquire = (\<lambda>ids now job bs n ttl ex. on_leases (acquire_drive_leases ids now job bs n ttl ex)),
     so_acquire_at = (\<lambda>lid now job d b ttl. on_leases (acquire_drive_lease_at lid now job d b ttl)),
     so_unreconciled_drives = (\<lambda>c. map (\<lambda>(d, item). (d, pr_barcode item)) (drives_pending_reconciliation c)),
     so_unreconciled_barcodes = barcodes_pending_reconciliation,
     so_heartbeat = (\<lambda>now lids ttl c. c\<lparr>cat_leases := heartbeat_leases now lids ttl (cat_leases c)\<rparr>),
     so_set_physical_drive = (\<lambda>lid p c. c\<lparr>cat_leases := set_lease_physical_drive lid p (cat_leases c)\<rparr>),
     so_release = (\<lambda>now lids c. c\<lparr>cat_leases := release_leases now lids (cat_leases c)\<rparr>),
     so_is_live = (\<lambda>now lid tok c. lease_is_live now lid tok (cat_leases c)),
     so_live_leases = (\<lambda>now c. live_leases now (cat_leases c))\<rparr>"

definition cat_lease_inv :: "catalog \<Rightarrow> bool" where
  "cat_lease_inv c \<longleftrightarrow> distinct (map dl_id (cat_leases c))"

lemma acquire_keeps_ids:
  assumes "distinct (map dl_id ls)" and "fresh_ids ids ls" and "acquire_drive_leases ids now job bs n ttl ex ls = (r, ls')"
  shows "distinct (map dl_id ls')"
proof (cases r)
  case None
  with assms(1,3) show ?thesis by (auto simp: acquire_drive_leases_def Let_def split: if_splits)
next
  case (Some rows)
  from acquire_drive_leases_some [OF assms(3) [unfolded Some]]
  have ls': "ls' = ls @ rows" and r: "map dl_id rows = map ids [0..<length bs]" by simp_all
  have "distinct (map dl_id rows)" unfolding r using assms(2) by (auto simp: distinct_map fresh_ids_def intro: inj_on_subset)
  moreover have "dl_id ` set rows \<subseteq> range ids" using arg_cong [OF r, of set] by auto
  moreover have "dl_id ` set ls \<inter> range ids = {}" using assms(2) by (auto simp: fresh_ids_def image_iff) metis
  ultimately show ?thesis using assms(1) ls' by (simp add: distinct_append) blast
qed

interpretation cat: lease_store cat_ops cat_leases cat_lease_inv
proof
  fix s ids now job bs n ttl ex r s'
  assume i: "cat_lease_inv s" and f: "fresh_ids ids (cat_leases s)" and a: "so_acquire cat_ops ids now job bs n ttl ex s = (r, s')"
  then have t: "acquire_drive_leases ids now job bs n ttl ex (cat_leases s) = (r, cat_leases s')"
    by (auto simp: cat_ops_def on_leases_def split: prod.splits)
  with i f show "acquire_drive_leases ids now job bs n ttl ex (cat_leases s) = (r, cat_leases s') \<and> cat_lease_inv s'"
    by (simp add: cat_lease_inv_def acquire_keeps_ids [OF _ f t])
next
  fix s lid now job d b ttl q s'
  assume "cat_lease_inv s" "lid \<notin> dl_id ` set (cat_leases s)" "so_acquire_at cat_ops lid now job d b ttl s = (q, s')"
  then show "acquire_drive_lease_at lid now job d b ttl (cat_leases s) = (q, cat_leases s') \<and> cat_lease_inv s'"
    by (auto simp: cat_ops_def on_leases_def cat_lease_inv_def acquire_drive_lease_at_def Let_def new_lease_def split: prod.splits if_splits)
next
  fix s now lids ttl assume "cat_lease_inv s"
  then show "cat_leases (so_heartbeat cat_ops now lids ttl s) = heartbeat_leases now lids ttl (cat_leases s) \<and> cat_lease_inv (so_heartbeat cat_ops now lids ttl s)"
    by (auto simp: cat_ops_def cat_lease_inv_def heartbeat_leases_def o_def if_distrib cong: if_cong)
next
  fix s lid p assume "cat_lease_inv s"
  then show "cat_leases (so_set_physical_drive cat_ops lid p s) = set_lease_physical_drive lid p (cat_leases s) \<and> cat_lease_inv (so_set_physical_drive cat_ops lid p s)"
    by (auto simp: cat_ops_def cat_lease_inv_def set_lease_physical_drive_def o_def if_distrib cong: if_cong)
next
  fix s now lids assume "cat_lease_inv s"
  then show "cat_leases (so_release cat_ops now lids s) = release_leases now lids (cat_leases s) \<and> cat_lease_inv (so_release cat_ops now lids s)"
    by (auto simp: cat_ops_def cat_lease_inv_def release_leases_def o_def if_distrib cong: if_cong)
qed (auto simp: cat_ops_def live_leases_def cat_lease_inv_def intro!: sort_key_id_if_sorted sorted_filter)

section \<open>What the journal says of a drive\<close>

text \<open>Journal ids are positions: the invariant of an append-only table.\<close>

definition journal_ok :: "catalog \<Rightarrow> bool" where
  "journal_ok c \<longleftrightarrow> sorted_wrt (\<lambda>e e'. je_id e < je_id e') (cat_journal c)"

text \<open>The events in the order in which they were written.\<close>

lemma set_sort_entries [simp]: "set (sort_entries es) = set es"
  by (simp add: sort_entries_def)

lemma mset_sort_entries [simp]: "mset (sort_entries es) = mset es"
  by (simp add: sort_entries_def)

lemma distinct_sort_entries: "distinct (map je_id (sort_entries es)) \<longleftrightarrow> distinct (map je_id es)"
  by (rule mset_eq_imp_distinct_iff) (simp add: mset_map)

lemma journal_ok_ids: "journal_ok c \<Longrightarrow> sorted (map je_id (cat_journal c)) \<and> distinct (map je_id (cat_journal c))"
  using strict_sorted_iff [of "map je_id (cat_journal c)"] by (simp add: journal_ok_def sorted_wrt_map)

lemma distinct_ids_filter: "distinct (map je_id es) \<Longrightarrow> distinct (map je_id (filter P es))"
  by (induction es) auto

definition is_reconcile_event :: "journal_entry \<Rightarrow> bool" where
  "is_reconcile_event e \<longleftrightarrow> je_event e = PHYSICAL_STATE_UNKNOWN \<or> je_event e = DRIVE_RECONCILED"

lemma reconcile_events_distinct:
  assumes "distinct (map je_id (cat_journal c))"
  shows "distinct (map je_id (reconcile_events c))"
proof -
  let ?A = "journal_events PHYSICAL_STATE_UNKNOWN None c" and ?B = "journal_events DRIVE_RECONCILED None c"
  have d: "distinct (map je_id ?A)" "distinct (map je_id ?B)"
    using assms by (simp_all add: journal_events_def distinct_sort_entries distinct_ids_filter)
  have "PHYSICAL_STATE_UNKNOWN \<noteq> DRIVE_RECONCILED" by (simp add: PHYSICAL_STATE_UNKNOWN_def DRIVE_RECONCILED_def)
  then have ne: "a \<noteq> b" if "a \<in> set ?A" "b \<in> set ?B" for a b
    using that by (auto simp: journal_events_def)
  have sub: "set ?A \<subseteq> set (cat_journal c)" "set ?B \<subseteq> set (cat_journal c)" by (auto simp: journal_events_def)
  have inj: "inj_on je_id (set (cat_journal c))" using assms by (simp add: distinct_map)
  have "je_id a \<noteq> je_id b" if "a \<in> set ?A" "b \<in> set ?B" for a b
    using inj_onD [OF inj, of a b] ne that sub by blast
  then have "je_id ` set ?A \<inter> je_id ` set ?B = {}" by blast
  with d have "distinct (map je_id (?A @ ?B))" by simp
  moreover have "mset (map je_id (reconcile_events c)) = mset (map je_id (?A @ ?B))" by (simp add: reconcile_events_def mset_map)
  ultimately show ?thesis using mset_eq_imp_distinct_iff by blast
qed

lemma reconcile_events_filter:
  assumes "journal_ok c"
  shows "reconcile_events c = filter is_reconcile_event (cat_journal c)"
proof (rule map_sorted_distinct_set_unique [where f = je_id])
  note ids = journal_ok_ids [OF assms]
  have st: "set (reconcile_events c) = set (filter is_reconcile_event (cat_journal c))"
    by (auto simp: reconcile_events_def journal_events_def is_reconcile_event_def)
  then show "set (reconcile_events c) = set (filter is_reconcile_event (cat_journal c))" .
  show "inj_on je_id (set (reconcile_events c) \<union> set (filter is_reconcile_event (cat_journal c)))"
    unfolding st using ids by (auto simp: distinct_map intro: inj_on_subset)
  show "sorted (map je_id (reconcile_events c))" by (simp add: reconcile_events_def)
  show "sorted (map je_id (filter is_reconcile_event (cat_journal c)))" using ids by (intro sorted_filter) simp
  show "distinct (map je_id (filter is_reconcile_event (cat_journal c)))" using ids by (intro distinct_ids_filter) simp
  show "distinct (map je_id (reconcile_events c))" using ids by (intro reconcile_events_distinct) simp
qed

text \<open>The events that concern one drive, oldest first.\<close>

definition drive_events :: "int \<Rightarrow> catalog \<Rightarrow> journal_entry list" where
  "drive_events d c = filter (\<lambda>e. is_reconcile_event e \<and> drive_of_detail (je_detail e) = Some d) (cat_journal c)"

lemma pending_fold_get:
  "dict_get (foldl pending_step p es) d =
     (let ds = filter (\<lambda>e. drive_of_detail (je_detail e) = Some d) es
      in if ds = [] then dict_get p d
         else if je_event (last ds) = DRIVE_RECONCILED then None
         else dict_get (pending_step [] (last ds)) d)"
  by (induction es rule: rev_induct) (auto simp: pending_step_def Let_def dict_simps split: option.splits)

lemma pending_fold_distinct: "distinct (dict_keys p) \<Longrightarrow> distinct (dict_keys (foldl pending_step p es))"
  by (induction es arbitrary: p) (auto simp: pending_step_def distinct_update distinct_delete split: option.splits)

lemma fold_max_ge: "m \<le> fold max xs (m :: int)"
proof (induction xs arbitrary: m)
  case (Cons x xs)
  have "m \<le> max x m" by simp
  also have "\<dots> \<le> fold max xs (max x m)" by (rule Cons.IH)
  finally show ?case by simp
qed simp

lemma fold_max_mem: "x \<in> set xs \<Longrightarrow> x \<le> fold max xs (m :: int)"
proof (induction xs arbitrary: m)
  case (Cons y xs)
  have "y \<le> fold max xs (max y m)" using fold_max_ge [of "max y m" xs] by simp
  with Cons show ?case by auto
qed simp

lemma next_journal_id_gt: "e \<in> set (cat_journal c) \<Longrightarrow> je_id e < next_journal_id c"
  using fold_max_mem [of "je_id e" "map je_id (cat_journal c)" 0] by (simp add: next_journal_id_def)

lemma journal_ok_add: "journal_ok c \<Longrightarrow> journal_ok (snd (add_entry job now event detail c))"
  using next_journal_id_gt [of _ c] by (auto simp: journal_ok_def add_entry_def Let_def sorted_wrt_append)

lemma reconcile_events_add:
  assumes "journal_ok c"
  shows "reconcile_events (snd (add_entry job now event detail c)) =
    reconcile_events c @ filter is_reconcile_event [fst (add_entry job now event detail c)]"
  unfolding reconcile_events_filter [OF assms] reconcile_events_filter [OF journal_ok_add [OF assms]]
  by (simp add: add_entry_def Let_def)

text \<open>C20. A drive awaits reconciliation exactly when the last journaled event naming it is a failed unmount or
  unload: whatever the wall clocks of the writers said, only the order of the entries counts.\<close>

theorem drive_pending_iff_last_event:
  assumes "journal_ok c"
  shows "dict_get (drives_pending_reconciliation c) d \<noteq> None \<longleftrightarrow>
    drive_events d c \<noteq> [] \<and> je_event (last (drive_events d c)) = PHYSICAL_STATE_UNKNOWN"
proof -
  have ds: "filter (\<lambda>e. drive_of_detail (je_detail e) = Some d) (reconcile_events c) = drive_events d c"
    by (simp add: reconcile_events_filter [OF assms] drive_events_def conj_commute)
  have l: "je_event (last (drive_events d c)) \<in> {PHYSICAL_STATE_UNKNOWN, DRIVE_RECONCILED} \<and>
      drive_of_detail (je_detail (last (drive_events d c))) = Some d" if "drive_events d c \<noteq> []"
    using last_in_set [OF that] by (auto simp: drive_events_def is_reconcile_event_def)
  have "PHYSICAL_STATE_UNKNOWN \<noteq> DRIVE_RECONCILED" by (simp add: PHYSICAL_STATE_UNKNOWN_def DRIVE_RECONCILED_def)
  with l show ?thesis
    by (auto simp: drives_pending_reconciliation_def pending_fold_get ds Let_def pending_step_def)
qed

definition demo_unknown :: catalog where
  "demo_unknown = snd (journal 5 ''j1'' PHYSICAL_STATE_UNKNOWN
     [(''drive'', J_int 2), (''barcode'', J_str ''VTA001L8''), (''op'', J_str ''unload'')] empty_catalog)"

lemma demo_unknown_ok: "journal_ok demo_unknown"
  by code_simp

theorem drive_pending_iff_last_event_witness:
  "dict_get (drives_pending_reconciliation demo_unknown) 2 \<noteq> None \<longleftrightarrow>
    drive_events 2 demo_unknown \<noteq> [] \<and> je_event (last (drive_events 2 demo_unknown)) = PHYSICAL_STATE_UNKNOWN"
  by (rule drive_pending_iff_last_event [OF demo_unknown_ok])

text \<open>C21. Reconciling a drive clears that drive and no other. It is refused, with nothing journaled, when the
  library has no such drive and while the drive still reports a mounted volume.\<close>

theorem reconcile_drive_clears_only_it:
  assumes "journal_ok c"
  shows "wp (reconcile_drive now snapshot d job)
    (\<lambda>r c'. journal_ok c' \<and> dict_get (drives_pending_reconciliation c') d = None
       \<and> (\<forall>d'. d' \<noteq> d \<longrightarrow> dict_get (drives_pending_reconciliation c') d' = dict_get (drives_pending_reconciliation c) d')
       \<and> (\<exists>v \<in> set (inv_drives snapshot). dv_drive_id v = d \<and> dv_mount_state v = MS_UNMOUNTED \<and> pr_barcode r = dv_barcode v))
    (\<lambda>e c'. c' = c \<and> (e = UnknownDriveError \<longrightarrow> d \<notin> dv_drive_id ` set (inv_drives snapshot))
       \<and> (e \<noteq> UnknownDriveError \<longrightarrow> e = DriveUnreconciledError \<and>
            (\<exists>v \<in> set (inv_drives snapshot). dv_drive_id v = d \<and> dv_mount_state v \<noteq> MS_UNMOUNTED))) c"
proof (cases "List.find (\<lambda>v. dv_drive_id v = d) (inv_drives snapshot)")
  case None
  then show ?thesis using find_NoneD [OF None] by (auto simp: reconcile_drive_def wp_rules)
next
  case (Some v)
  then have v: "v \<in> set (inv_drives snapshot)" "dv_drive_id v = d" using find_SomeD by fastforce+
  let ?detail = "[(''drive'', J_int d), (''observed_barcode'', jval_of_str (dv_barcode v))]"
  let ?c = "snd (add_entry job now DRIVE_RECONCILED ?detail c)" and ?e = "fst (add_entry job now DRIVE_RECONCILED ?detail c)"
  have e: "is_reconcile_event ?e" "je_event ?e = DRIVE_RECONCILED" "drive_of_detail (je_detail ?e) = Some d"
    by (simp_all add: add_entry_def Let_def is_reconcile_event_def drive_of_detail_def)
  have p: "drives_pending_reconciliation ?c = dict_pop d (drives_pending_reconciliation c)"
    using e by (simp add: drives_pending_reconciliation_def reconcile_events_add [OF assms] pending_step_def)
  show ?thesis
    using v p journal_ok_add [OF assms, of job now DRIVE_RECONCILED ?detail]
    by (auto simp: reconcile_drive_def Some wp_rules wp_def [of "journal _ _ _ _"] journal_def dict_simps split: prod.splits)
qed

definition demo_snapshot :: library_inventory where
  "demo_snapshot = \<lparr>inv_library_id = ''lib'', inv_slots = [],
     inv_drives = [\<lparr>dv_drive_id = 2, dv_barcode = Some ''VTA001L8'', dv_drive_state = DS_LOADED, dv_mount_state = MS_UNMOUNTED\<rparr>],
     inv_changer_state = CH_IDLE\<rparr>"

theorem reconcile_drive_clears_only_it_witness:
  "dict_get (drives_pending_reconciliation (snd (reconcile_drive 9 demo_snapshot 2 ''recovery'' demo_unknown))) 2 = None"
proof -
  obtain r c' where r: "reconcile_drive 9 demo_snapshot 2 ''recovery'' demo_unknown = (Inr r, c')"
    by (cases "reconcile_drive 9 demo_snapshot 2 ''recovery'' demo_unknown")
       (simp add: reconcile_drive_def demo_snapshot_def thenM_def bindM_def guardM_def returnM_def journal_def add_entry_def Let_def)
  from wp_returns [OF reconcile_drive_clears_only_it [OF demo_unknown_ok] r] r show ?thesis by simp
qed

text \<open>Finding: an operator's reconciliation of a drive never clears a cartridge whose failed unload was
  journaled without a drive: the entry written names \<open>observed_barcode\<close>, the reader looks for
  \<open>barcode\<close>.\<close>

theorem driveless_barcode_never_cleared:
  assumes "journal_ok c" and "b \<in> set (driveless_barcodes c)"
  shows "b \<in> set (barcodes_pending_reconciliation (snd (reconcile_drive now snapshot d job c)))"
proof (cases "List.find (\<lambda>v. dv_drive_id v = d) (inv_drives snapshot)")
  case None
  then show ?thesis using assms(2) by (simp add: reconcile_drive_def raiseM_def barcodes_pending_reconciliation_def)
next
  case (Some v)
  let ?detail = "[(''drive'', J_int d), (''observed_barcode'', jval_of_str (dv_barcode v))]"
  let ?c = "snd (add_entry job now DRIVE_RECONCILED ?detail c)" and ?e = "fst (add_entry job now DRIVE_RECONCILED ?detail c)"
  have "barcode_of_detail (je_detail ?e) = None" by (simp add: add_entry_def Let_def barcode_of_detail_def)
  then have "driveless_barcodes ?c = driveless_barcodes c"
    by (simp add: driveless_barcodes_def reconcile_events_add [OF assms(1)] driveless_step_def)
  then have *: "b \<in> set (barcodes_pending_reconciliation ?c)"
    using assms(2) by (simp add: barcodes_pending_reconciliation_def)
  have "snd (reconcile_drive now snapshot d job c) \<in> {c, ?c}"
    by (auto simp: reconcile_drive_def Some thenM_def bindM_def guardM_def returnM_def raiseM_def journal_def split: prod.splits)
  with * assms(2) show ?thesis by (auto simp: barcodes_pending_reconciliation_def)
qed

definition demo_driveless :: catalog where
  "demo_driveless = snd (journal 5 ''j1'' PHYSICAL_STATE_UNKNOWN
     [(''drive'', J_none), (''barcode'', J_str ''VTA001L8''), (''op'', J_str ''unload'')] empty_catalog)"

lemma demo_driveless_ok: "journal_ok demo_driveless" "''VTA001L8'' \<in> set (driveless_barcodes demo_driveless)"
  by code_simp+

theorem driveless_barcode_never_cleared_witness:
  "''VTA001L8'' \<in> set (barcodes_pending_reconciliation (snd (reconcile_drive 9 demo_snapshot 2 ''recovery'' demo_driveless)))"
  by (rule driveless_barcode_never_cleared [OF demo_driveless_ok])

end
