(* ===== verification/Lease_Props.thy ===== *)
theory Lease_Props
  imports Reconcile
begin

text \<open>
  What the two lease stores promise: the properties of the lease-store contract, stated for the catalog
  (the store every process shares) and for the process-local store, and the equivalence of the two on
  every sequence of calls.
\<close>

section \<open>Sequences of calls\<close>

datatype store_call =
  SC_acquire "nat \<Rightarrow> string" int string "string list" int int "int list"
| SC_acquire_at string int string int string int
| SC_heartbeat int "string list" int
| SC_set_physical_drive string int
| SC_release int "string list"
| SC_is_live int string int
| SC_live_leases int

datatype store_answer = SA_leases "drive_lease list option" | SA_lease "drive_lease option" | SA_done | SA_bool bool | SA_list "drive_lease list"

definition answer_fst :: "('a \<Rightarrow> store_answer) \<Rightarrow> 'a \<times> 's \<Rightarrow> store_answer \<times> 's" where
  "answer_fst f = map_prod f id"

primrec store_call_run :: "'s store_ops \<Rightarrow> store_call \<Rightarrow> 's \<Rightarrow> store_answer \<times> 's" where
  "store_call_run ops (SC_acquire ids now job bs n ttl ex) s = answer_fst SA_leases (so_acquire ops ids now job bs n ttl ex s)"
| "store_call_run ops (SC_acquire_at lid now job d b ttl) s = answer_fst SA_lease (so_acquire_at ops lid now job d b ttl s)"
| "store_call_run ops (SC_heartbeat now lids ttl) s = (SA_done, so_heartbeat ops now lids ttl s)"
| "store_call_run ops (SC_set_physical_drive lid p) s = (SA_done, so_set_physical_drive ops lid p s)"
| "store_call_run ops (SC_release now lids) s = (SA_done, so_release ops now lids s)"
| "store_call_run ops (SC_is_live now lid tok) s = (SA_bool (so_is_live ops now lid tok s), s)"
| "store_call_run ops (SC_live_leases now) s = (SA_list (so_live_leases ops now s), s)"

primrec store_answers :: "'s store_ops \<Rightarrow> store_call list \<Rightarrow> 's \<Rightarrow> store_answer list" where
  "store_answers ops [] s = []"
| "store_answers ops (k # ks) s = (case store_call_run ops k s of (a, s') \<Rightarrow> a # store_answers ops ks s')"

text \<open>The bare table as a store: the reference the two stores are compared with.\<close>

definition table_ops :: "drive_lease list store_ops" where
  "table_ops = \<lparr>so_acquire = acquire_drive_leases, so_acquire_at = acquire_drive_lease_at, so_unreconciled_drives = (\<lambda>_. []),
     so_unreconciled_barcodes = (\<lambda>_. []), so_heartbeat = heartbeat_leases, so_set_physical_drive = set_lease_physical_drive,
     so_release = release_leases, so_is_live = lease_is_live, so_live_leases = (\<lambda>now. filter (\<lambda>l. lease_live l now))\<rparr>"

text \<open>The identifiers a call draws are new.\<close>

primrec call_fresh :: "store_call \<Rightarrow> drive_lease list \<Rightarrow> bool" where
  "call_fresh (SC_acquire ids now job bs n ttl ex) ls = fresh_ids ids ls"
| "call_fresh (SC_acquire_at lid now job d b ttl) ls = (lid \<notin> dl_id ` set ls)"
| "call_fresh (SC_heartbeat now lids ttl) ls = True"
| "call_fresh (SC_set_physical_drive lid p) ls = True"
| "call_fresh (SC_release now lids) ls = True"
| "call_fresh (SC_is_live now lid tok) ls = True"
| "call_fresh (SC_live_leases now) ls = True"

primrec calls_fresh :: "store_call list \<Rightarrow> drive_lease list \<Rightarrow> bool" where
  "calls_fresh [] ls = True"
| "calls_fresh (k # ks) ls = (call_fresh k ls \<and> calls_fresh ks (snd (store_call_run table_ops k ls)))"

lemma sorted_tokens_append:
  assumes "sorted (map dl_fencing_token ls)" and "map dl_fencing_token rows = [max_token ls + 1..max_token ls + int k]"
  shows "sorted (map dl_fencing_token (ls @ rows))"
proof -
  have "\<forall>r \<in> set rows. max_token ls < dl_fencing_token r"
  proof
    fix r assume "r \<in> set rows"
    then have "dl_fencing_token r \<in> set (map dl_fencing_token rows)" by simp
    then show "max_token ls < dl_fencing_token r" unfolding assms(2) by simp
  qed
  moreover have "sorted (map dl_fencing_token rows)" unfolding assms(2) by simp
  ultimately show ?thesis using assms(1) max_token_ge [of _ ls] by (force simp: sorted_append)
qed

lemma sorted_tokens_run:
  assumes "sorted (map dl_fencing_token ls)"
  shows "sorted (map dl_fencing_token (snd (store_call_run table_ops k ls)))"
proof (cases k)
  case (SC_acquire ids now job bs n ttl ex)
  obtain r ls' where r: "acquire_drive_leases ids now job bs n ttl ex ls = (r, ls')" by fastforce
  show ?thesis
  proof (cases r)
    case None
    with r assms SC_acquire show ?thesis
      by (auto simp: table_ops_def answer_fst_def acquire_drive_leases_def Let_def split: if_splits)
  next
    case (Some rows)
    with r have p: "ls' = ls @ rows" "map dl_fencing_token rows = [max_token ls + 1..max_token ls + int (length bs)]"
      using acquire_drive_leases_some [of ids now job bs n ttl ex ls rows ls'] by simp_all
    with sorted_tokens_append [OF assms p(2)] r SC_acquire show ?thesis by (simp add: table_ops_def answer_fst_def)
  qed
next
  case (SC_acquire_at lid now job d b ttl)
  then show ?thesis
    using sorted_tokens_append [OF assms, of "[new_lease lid d job b (max_token ls + 1) now ttl]" 1] assms
    by (simp add: table_ops_def answer_fst_def acquire_drive_lease_at_def Let_def new_lease_def)
qed (use assms in \<open>simp_all add: table_ops_def heartbeat_leases_def set_lease_physical_drive_def release_leases_def o_def if_distrib cong: if_cong\<close>)

context lease_store
begin

lemma call_run_table:
  assumes "inv s" and "call_fresh k (leases s)" and "sorted (map dl_fencing_token (leases s))"
  shows "store_call_run table_ops k (leases s) = map_prod id leases (store_call_run ops k s) \<and> inv (snd (store_call_run ops k s))"
proof (cases k)
  case (SC_acquire ids now job bs n ttl ex)
  obtain r s' where r: "so_acquire ops ids now job bs n ttl ex s = (r, s')" by fastforce
  from acquire [OF assms(1) _ r] assms(2) r SC_acquire show ?thesis by (simp add: table_ops_def answer_fst_def)
next
  case (SC_acquire_at lid now job d b ttl)
  obtain q s' where q: "so_acquire_at ops lid now job d b ttl s = (q, s')" by fastforce
  from acquire_at [OF assms(1) _ q] assms(2) q SC_acquire_at show ?thesis by (simp add: table_ops_def answer_fst_def)
qed (use assms(1,3) in \<open>simp_all add: table_ops_def heartbeat set_physical release is_live live_order\<close>)

lemma answers_table:
  assumes "inv s" and "calls_fresh ks (leases s)" and "sorted (map dl_fencing_token (leases s))"
  shows "store_answers ops ks s = store_answers table_ops ks (leases s)"
  using assms
proof (induction ks arbitrary: s)
  case (Cons k ks)
  obtain a s' where k: "store_call_run ops k s = (a, s')" by fastforce
  note c = call_run_table [OF Cons.prems(1), of k]
  have t: "store_call_run table_ops k (leases s) = (a, leases s')" "inv s'" using c Cons.prems k by auto
  have "store_answers ops ks s' = store_answers table_ops ks (leases s')"
    using Cons.prems t sorted_tokens_run [OF Cons.prems(3), of k] by (intro Cons.IH) simp_all
  with t k show ?case by simp
qed simp

end

text \<open>C16. The process-local store and the catalog store give the same answers to every sequence of calls,
  as long as the identifiers they draw are new.\<close>

theorem lease_stores_equivalent:
  assumes "calls_fresh ks []"
  shows "store_answers mem_ops ks mem_init = store_answers cat_ops ks empty_catalog"
proof -
  have "store_answers mem_ops ks mem_init = store_answers table_ops ks []"
    using mem.answers_table [of mem_init ks] assms mem_init_inv by simp
  moreover have "store_answers cat_ops ks empty_catalog = store_answers table_ops ks []"
    using cat.answers_table [of empty_catalog ks] assms by (simp add: cat_lease_inv_def empty_catalog_def)
  ultimately show ?thesis by simp
qed

definition demo_ids :: "nat \<Rightarrow> string" where
  "demo_ids k = replicate (Suc k) CHR ''a''"

lemma demo_ids_fresh: "fresh_ids demo_ids []"
  unfolding fresh_ids_def by (auto simp: demo_ids_def inj_def dest: arg_cong [where f = length])

definition demo_calls :: "store_call list" where
  "demo_calls = [SC_acquire demo_ids 10 ''j1'' [''VTA001L8''] 2 60 [], SC_acquire_at ''x'' 20 ''j2'' 0 ''VTA002L8'' 60,
     SC_release 30 [''a''], SC_acquire_at ''y'' 30 ''j2'' 0 ''VTA002L8'' 60, SC_live_leases 40]"

lemma demo_calls_fresh: "calls_fresh demo_calls []"
proof -
  have "snd (store_call_run table_ops (SC_acquire demo_ids 10 ''j1'' [''VTA001L8''] 2 60 []) []) =
      [new_lease ''a'' 0 ''j1'' ''VTA001L8'' 1 10 60]"
    by (simp add: table_ops_def answer_fst_def acquire_drive_leases_def free_drives_def Let_def demo_ids_def max_token_def upto_rec1)
  then show ?thesis
    unfolding demo_calls_def
    by (simp add: demo_ids_fresh)
       (simp add: table_ops_def answer_fst_def acquire_drive_lease_at_def new_lease_def lease_live_def release_leases_def Let_def)
qed

theorem lease_stores_equivalent_witness:
  "store_answers mem_ops demo_calls mem_init = store_answers cat_ops demo_calls empty_catalog"
  by (rule lease_stores_equivalent [OF demo_calls_fresh])
section \<open>Exclusion, fencing, atomicity\<close>

text \<open>C11. However many processes share the catalog and however their calls interleave, two live leases never name
  the same drive.\<close>

theorem catalog_leases_exclusive:
  assumes "store_history cat_ops cat_leases t0 empty_catalog t c"
    and "l \<in> set (live_leases t (cat_leases c))" and "l' \<in> set (live_leases t (cat_leases c))"
    and "dl_drive_id l = dl_drive_id l'"
  shows "l = l'"
proof (rule cat.live_exclusive [OF assms(1)])
  show "cat_lease_inv empty_catalog" "cat_leases empty_catalog = []" by (simp_all add: cat_lease_inv_def empty_catalog_def)
qed (use assms in \<open>simp_all add: cat_ops_def\<close>)

definition demo_leased :: catalog where
  "demo_leased = snd (so_acquire cat_ops demo_ids 10 ''j1'' [''VTA001L8''] 2 60 [] empty_catalog)"

definition demo_lease :: drive_lease where
  "demo_lease = new_lease ''a'' 0 ''j1'' ''VTA001L8'' 1 10 60"

lemma demo_leased_eq: "cat_leases demo_leased = [demo_lease]"
  by (simp add: demo_leased_def demo_lease_def cat_ops_def on_leases_def acquire_drive_leases_def free_drives_def Let_def
      demo_ids_def max_token_def upto_rec1 empty_catalog_def)

lemma demo_leased_history: "store_history cat_ops cat_leases 10 empty_catalog 10 demo_leased"
  unfolding demo_leased_def
  by (rule hist_acquire [OF hist_start]) (simp add: empty_catalog_def demo_ids_fresh)

theorem catalog_leases_exclusive_witness:
  "demo_lease \<in> set (live_leases 10 (cat_leases demo_leased)) \<and> demo_lease = demo_lease"
proof -
  have m: "demo_lease \<in> set (live_leases 10 (cat_leases demo_leased))"
    by (simp add: demo_leased_eq live_leases_def lease_live_def demo_lease_def new_lease_def)
  from m catalog_leases_exclusive [OF demo_leased_history m m refl] show ?thesis by simp
qed

text \<open>C18. Fencing: once a lease has expired or was released, no later history of the catalog makes its token pass
  the liveness check again; a late heartbeat in particular does not revive it.\<close>

theorem dead_lease_never_revived:
  assumes "store_history cat_ops cat_leases t0 c0 t c" and "cat_lease_inv c0" and "l \<in> set (cat_leases c0)"
    and "\<not> lease_live l t0"
  shows "\<not> lease_is_live t (dl_id l) tok (cat_leases c)"
proof -
  have "dl_id l' = dl_id l \<Longrightarrow> \<not> lease_live l' t0" if "l' \<in> set (cat_leases c0)" for l'
    using that assms(2-4) by (auto simp: cat_lease_inv_def distinct_map dest: inj_onD)
  then have "dead_at t (dl_id l) (cat_leases c)"
    using cat.history_dead [OF assms(1,2), of "dl_id l"] assms(3) by blast
  then show ?thesis
    by (auto simp: lease_is_live_def dead_at_def dest: find_SomeD split: option.splits)
qed

theorem dead_lease_never_revived_witness:
  "\<not> lease_is_live 80 ''a'' 1 (cat_leases (so_heartbeat cat_ops 80 [''a''] 60 demo_leased))"
proof -
  have h: "store_history cat_ops cat_leases 80 demo_leased 80 (so_heartbeat cat_ops 80 [''a''] 60 demo_leased)"
    by (rule hist_heartbeat [OF hist_start])
  have "\<not> lease_is_live 80 (dl_id demo_lease) 1 (cat_leases (so_heartbeat cat_ops 80 [''a''] 60 demo_leased))"
    by (rule dead_lease_never_revived [OF h])
       (simp_all add: demo_leased_eq cat_lease_inv_def lease_live_def demo_lease_def new_lease_def)
  then show ?thesis by (simp add: demo_lease_def new_lease_def)
qed

text \<open>Acquisition is all or nothing: either one drive per cartridge, in the order asked for, every drive in range,
  not excluded and without a live lease before, and every token above all earlier ones; or nothing, the table
  unchanged, and then fewer drives are free than were asked for.\<close>

theorem acquire_drive_leases_all_or_nothing:
  "case acquire_drive_leases ids now job bs n ttl ex ls of
     (None, ls') \<Rightarrow> ls' = ls \<and> length (free_drives now n ex ls) < length bs
   | (Some rows, ls') \<Rightarrow> ls' = ls @ rows \<and> map dl_barcode rows = bs \<and> distinct (map dl_drive_id rows)
       \<and> list_all (\<lambda>r. 0 \<le> dl_drive_id r \<and> dl_drive_id r < n \<and> dl_drive_id r \<notin> set ex \<and> dl_job_id r = job
            \<and> list_all (\<lambda>l. \<not> (dl_drive_id l = dl_drive_id r \<and> lease_live l now)) ls
            \<and> list_all (\<lambda>l. dl_fencing_token l < dl_fencing_token r) ls) rows"
proof -
  obtain r ls' where r: "acquire_drive_leases ids now job bs n ttl ex ls = (r, ls')" by fastforce
  show ?thesis
  proof (cases r)
    case None
    with r show ?thesis by (auto simp: acquire_drive_leases_def Let_def split: if_splits)
  next
    case (Some rows)
    note p = acquire_drive_leases_some [OF r [unfolded Some]]
    have "list_all (\<lambda>r. 0 \<le> dl_drive_id r \<and> dl_drive_id r < n \<and> dl_drive_id r \<notin> set ex \<and> dl_job_id r = job
            \<and> list_all (\<lambda>l. \<not> (dl_drive_id l = dl_drive_id r \<and> lease_live l now)) ls
            \<and> list_all (\<lambda>l. dl_fencing_token l < dl_fencing_token r) ls) rows"
      using p max_token_ge [of _ ls] by (fastforce simp: list_all_iff free_drives_iff)
    with p r Some show ?thesis by simp
  qed
qed

end
