(* ===== verification/Drive_Scheduler.thy ===== *)
theory Drive_Scheduler
  imports Lease_Props
begin

text \<open>
  \<open>DriveScheduler\<close> of \<open>jobs/scheduler.py\<close>, over any lease store. Handles are mutable objects shared
  between the scheduler and its callers: they live in a heap (a list, a reference being an index), so
  releasing a handle is seen through every reference to it. \<open>acquire_drives\<close> waits in a loop; between two
  attempts the other threads and processes act, so an attempt sees what \<open>env k\<close> says of its clock readings,
  of the identifiers it draws and of what the others did while it waited. The loop is run with fuel, one
  unit per attempt, and enough fuel is shown to exist as soon as the clock passes the deadline.
\<close>

section \<open>Handles and the scheduler\<close>

record drive_handle =
  dh_drive_id :: int
  dh_barcode :: string
  dh_physical_drive_id :: "int option"
  dh_lease_id :: string
  dh_fencing_token :: int
  dh_released :: bool
  dh_hold_unjournaled :: bool

type_synonym handle_ref = nat

definition physical :: "drive_handle \<Rightarrow> int" where
  "physical h = (case dh_physical_drive_id h of Some p \<Rightarrow> p | None \<Rightarrow> dh_drive_id h)"

record 's scheduler =
  sch_num_drives :: int
  sch_store :: 's
  sch_job_id :: string
  sch_ttl :: int
  sch_handles :: "drive_handle list"
  sch_held :: "handle_ref list"
  sch_stop_heartbeat :: bool
  sch_heartbeat_alive :: bool

definition DEFAULT_LEASE_TTL :: int where
  "DEFAULT_LEASE_TTL = 15 * 60 * 1000000"

definition new_scheduler :: "int \<Rightarrow> 's \<Rightarrow> string \<Rightarrow> int \<Rightarrow> 's scheduler" where
  "new_scheduler n st job ttl =
     \<lparr>sch_num_drives = n, sch_store = st, sch_job_id = job, sch_ttl = ttl, sch_handles = [], sch_held = [],
      sch_stop_heartbeat = False, sch_heartbeat_alive = False\<rparr>"

definition handle :: "'s scheduler \<Rightarrow> handle_ref \<Rightarrow> drive_handle" where
  "handle s r = sch_handles s ! r"

definition available_count :: "'s store_ops \<Rightarrow> int \<Rightarrow> 's scheduler \<Rightarrow> nat" where
  "available_count ops now s =
     (let held = map dl_drive_id (so_live_leases ops now (sch_store s))
      in length (filter (\<lambda>d. d \<notin> set held) [0..sch_num_drives s - 1]))"

section \<open>Acquisition\<close>

record 's wait_round =
  wr_now :: int
  wr_ids :: "nat \<Rightarrow> string"
  wr_monotonic :: int
  wr_others :: "'s scheduler \<Rightarrow> 's scheduler"

text \<open>While the caller waits, the others change the store and the handles; the attributes set once by the constructor
  stay.\<close>

definition let_others :: "'s wait_round \<Rightarrow> 's scheduler \<Rightarrow> 's scheduler" where
  "let_others r s = (wr_others r s)\<lparr>sch_num_drives := sch_num_drives s, sch_job_id := sch_job_id s, sch_ttl := sch_ttl s\<rparr>"

text \<open>One pass through the body of the \<open>while True\<close> loop: an outcome, or a wait.\<close>

definition excluded_drives :: "'s store_ops \<Rightarrow> 's scheduler \<Rightarrow> int list" where
  "excluded_drives ops s =
     filter (\<lambda>d. 0 \<le> d \<and> d < sch_num_drives s) (dict_keys (so_unreconciled_drives ops (sch_store s)))"

fun acquire_loop ::
  "'s store_ops \<Rightarrow> (nat \<Rightarrow> 's wait_round) \<Rightarrow> string list \<Rightarrow> int \<Rightarrow> nat \<Rightarrow> nat \<Rightarrow> 's scheduler
     \<Rightarrow> ((exc + drive_lease list) \<times> 's scheduler) option" where
  "acquire_loop ops env barcodes deadline k 0 s = None"
| "acquire_loop ops env barcodes deadline k (Suc fuel) s =
     (let pending = filter (\<lambda>b. b \<in> set (so_unreconciled_barcodes ops (sch_store s))) barcodes;
          excluded = excluded_drives ops s;
          r = env k
      in if pending \<noteq> [] then Some (Inl DriveUnreconciledError, s)
         else if sch_num_drives s - int (length excluded) < int (length barcodes) then Some (Inl DriveUnreconciledError, s)
         else case so_acquire ops (wr_ids r) (wr_now r) (sch_job_id s) barcodes (sch_num_drives s) (sch_ttl s) excluded (sch_store s) of
           (Some leases, st) \<Rightarrow> Some (Inr leases, s\<lparr>sch_store := st\<rparr>)
         | (None, st) \<Rightarrow>
             if deadline - wr_monotonic r \<le> 0 then Some (Inl DriveBusyError, s\<lparr>sch_store := st\<rparr>)
             else acquire_loop ops env barcodes deadline (Suc k) fuel (let_others r (s\<lparr>sch_store := st\<rparr>)))"

definition ensure_heartbeat_thread :: "'s scheduler \<Rightarrow> 's scheduler" where
  "ensure_heartbeat_thread s =
     (if sch_heartbeat_alive s then s else s\<lparr>sch_stop_heartbeat := False, sch_heartbeat_alive := True\<rparr>)"

definition handle_of_lease :: "drive_lease \<Rightarrow> drive_handle" where
  "handle_of_lease l =
     \<lparr>dh_drive_id = dl_drive_id l, dh_barcode = dl_barcode l, dh_physical_drive_id = None, dh_lease_id = dl_id l,
      dh_fencing_token = dl_fencing_token l, dh_released = False, dh_hold_unjournaled = False\<rparr>"

text \<open>The handles for granted leases, registered as held.\<close>

definition register_handles :: "drive_lease list \<Rightarrow> 's scheduler \<Rightarrow> handle_ref list \<times> 's scheduler" where
  "register_handles leases s =
     (let refs = [length (sch_handles s)..<length (sch_handles s) + length leases]
      in (refs, ensure_heartbeat_thread
            (s\<lparr>sch_handles := sch_handles s @ map handle_of_lease leases, sch_held := sch_held s @ refs\<rparr>)))"

definition acquire_drives ::
  "'s store_ops \<Rightarrow> (nat \<Rightarrow> 's wait_round) \<Rightarrow> nat \<Rightarrow> string list \<Rightarrow> int \<Rightarrow> int \<Rightarrow> 's scheduler
     \<Rightarrow> ((exc + handle_ref list) \<times> 's scheduler) option" where
  "acquire_drives ops env fuel barcodes start timeout s =
     (if sch_num_drives s < int (length barcodes) then Some (Inl DriveBusyError, s)
      else if \<not> distinct barcodes then Some (Inl (ValueError ''Duplicate barcodes in acquire_drives request''), s)
      else case acquire_loop ops env barcodes (start + timeout) 0 fuel s of
        None \<Rightarrow> None
      | Some (Inl e, s1) \<Rightarrow> Some (Inl e, s1)
      | Some (Inr leases, s1) \<Rightarrow> (case register_handles leases s1 of (refs, s2) \<Rightarrow> Some (Inr refs, s2)))"

section \<open>Keeping and releasing\<close>

definition heartbeat :: "'s store_ops \<Rightarrow> int \<Rightarrow> handle_ref list \<Rightarrow> 's scheduler \<Rightarrow> 's scheduler" where
  "heartbeat ops now refs s =
     s\<lparr>sch_store := so_heartbeat ops now (map (\<lambda>r. dh_lease_id (handle s r)) refs) (sch_ttl s) (sch_store s)\<rparr>"

text \<open>One turn of \<open>_heartbeat_loop\<close>, after its wait: the thread ends when it finds the stop flag set or nothing held.\<close>

definition heartbeat_turn :: "'s store_ops \<Rightarrow> int \<Rightarrow> 's scheduler \<Rightarrow> 's scheduler" where
  "heartbeat_turn ops now s =
     (if sch_stop_heartbeat s then s\<lparr>sch_heartbeat_alive := False\<rparr>
      else let refs = filter (\<lambda>r. \<not> dh_released (handle s r)) (sch_held s)
           in if refs = [] then s\<lparr>sch_heartbeat_alive := False\<rparr> else heartbeat ops now refs s)"

definition mark_released :: "handle_ref list \<Rightarrow> 's scheduler \<Rightarrow> 's scheduler" where
  "mark_released refs s =
     s\<lparr>sch_handles := map (\<lambda>(r, h). if r \<in> set refs then h\<lparr>dh_released := True\<rparr> else h)
        (zip [0..<length (sch_handles s)] (sch_handles s))\<rparr>"

definition kept_handles :: "handle_ref list \<Rightarrow> 's scheduler \<Rightarrow> handle_ref list" where
  "kept_handles refs s = filter (\<lambda>r. dh_hold_unjournaled (handle s r) \<and> \<not> dh_released (handle s r)) refs"

definition release_drives :: "'s store_ops \<Rightarrow> int \<Rightarrow> handle_ref list \<Rightarrow> ('s scheduler, unit) op" where
  "release_drives ops now refs =
     bindM (getsM (\<lambda>s. filter (\<lambda>r. \<not> dh_released (handle s r) \<and> \<not> dh_hold_unjournaled (handle s r)) refs)) (\<lambda>pending.
     thenM (modifyM (\<lambda>s. s\<lparr>sch_store := so_release ops now (map (\<lambda>r. dh_lease_id (handle s r)) pending) (sch_store s)\<rparr>))
     (thenM (modifyM (mark_released pending))
     (thenM (modifyM (\<lambda>s. s\<lparr>sch_held := filter (\<lambda>r. \<not> dh_released (handle s r)) (sch_held s)\<rparr>))
     (thenM (modifyM (\<lambda>s. if sch_held s = [] then s\<lparr>sch_stop_heartbeat := True\<rparr> else s))
     (bindM (getsM (kept_handles refs)) (\<lambda>kept.
      guardM (kept = []) JournalWriteError))))))"

definition verify :: "'s store_ops \<Rightarrow> int \<Rightarrow> handle_ref \<Rightarrow> ('s scheduler, unit) op" where
  "verify ops now r =
     bindM (getsM (\<lambda>s. (handle s r, sch_store s))) (\<lambda>(h, st).
      if dh_released h \<or> \<not> so_is_live ops now (dh_lease_id h) (dh_fencing_token h) st then raiseM StaleLeaseError
      else returnM ())"

definition record_physical_drives :: "'s store_ops \<Rightarrow> handle_ref list \<Rightarrow> 's scheduler \<Rightarrow> 's scheduler" where
  "record_physical_drives ops refs s =
     s\<lparr>sch_store := fold (\<lambda>r st. case dh_physical_drive_id (handle s r) of
          None \<Rightarrow> st
        | Some p \<Rightarrow> so_set_physical_drive ops (dh_lease_id (handle s r)) p st) refs (sch_store s)\<rparr>"

definition status :: "'s store_ops \<Rightarrow> int \<Rightarrow> 's scheduler \<Rightarrow> (int, string option) dict" where
  "status ops now s =
     foldl (\<lambda>d l. if dict_get d (dl_drive_id l) \<noteq> None then dict_set (dl_drive_id l) (Some (dl_barcode l)) d else d)
       (map (\<lambda>i. (i, None)) [0..sch_num_drives s - 1]) (so_live_leases ops now (sch_store s))"

section \<open>The loop\<close>

lemma acquire_loop_returns:
  assumes "k \<le> j" and "j < k + fuel" and "deadline \<le> wr_monotonic (env j)"
  shows "\<exists>r. acquire_loop ops env bs deadline k fuel s = Some r"
  using assms(1,2)
proof (induction fuel arbitrary: k s)
  case (Suc fuel)
  show ?case
  proof (cases "j = k")
    case True
    with assms(3) show ?thesis by (auto simp: Let_def split: prod.splits option.splits)
  next
    case False
    then have "\<exists>r. acquire_loop ops env bs deadline (Suc k) fuel s' = Some r" for s'
      using Suc.prems by (intro Suc.IH) auto
    then show ?thesis by (auto simp: Let_def split: prod.splits option.splits)
  qed
qed simp

text \<open>A granted request was granted by one call of the store, on a state that passed both reconciliation checks.\<close>

lemma acquire_loop_granted:
  assumes "acquire_loop ops env bs deadline k fuel s = Some (Inr leases, s')"
  obtains j s1 st where "k \<le> j" and "j < k + fuel" and "s' = s1\<lparr>sch_store := st\<rparr>"
    and "sch_num_drives s1 = sch_num_drives s" and "sch_job_id s1 = sch_job_id s" and "sch_ttl s1 = sch_ttl s"
    and "set bs \<inter> set (so_unreconciled_barcodes ops (sch_store s1)) = {}"
    and "so_acquire ops (wr_ids (env j)) (wr_now (env j)) (sch_job_id s) bs (sch_num_drives s) (sch_ttl s)
      (excluded_drives ops s1) (sch_store s1) = (Some leases, st)"
  using assms
proof (induction fuel arbitrary: k s thesis)
  case (Suc fuel)
  let ?call = "so_acquire ops (wr_ids (env k)) (wr_now (env k)) (sch_job_id s) bs (sch_num_drives s) (sch_ttl s) (excluded_drives ops s) (sch_store s)"
  obtain r st where call: "?call = (r, st)" by fastforce
  have np: "filter (\<lambda>b. b \<in> set (so_unreconciled_barcodes ops (sch_store s))) bs = []"
    using Suc.prems(2) by (auto simp: Let_def split: if_splits)
  show ?case
  proof (cases r)
    case None
    then have "acquire_loop ops env bs deadline (Suc k) fuel (let_others (env k) (s\<lparr>sch_store := st\<rparr>)) = Some (Inr leases, s')"
      using Suc.prems(2) call by (auto simp: Let_def split: if_splits)
    then show ?thesis
      by (rule Suc.IH [rotated]) (rule Suc.prems(1), auto simp: let_others_def)
  next
    case (Some ls)
    then have "ls = leases" "s' = s\<lparr>sch_store := st\<rparr>" using Suc.prems(2) call by (auto simp: Let_def split: if_splits)
    with Some call np show ?thesis by (intro Suc.prems(1) [where j = k and ?s1.0 = s and st = st]) (auto simp: filter_empty_conv)
  qed
qed simp

text \<open>C15. Waiting for drives ends: once the monotonic clock is read past the deadline after some attempt, the call has
  returned or raised by then, whatever the other threads and processes did in between.\<close>

theorem acquire_drives_terminates:
  assumes "start + timeout \<le> wr_monotonic (env j)"
  shows "\<exists>r s'. acquire_drives ops env (Suc j) bs start timeout s = Some (r, s')"
proof -
  obtain r s' where "acquire_loop ops env bs (start + timeout) 0 (Suc j) s = Some (r, s')"
    using acquire_loop_returns [of 0 j "Suc j" "start + timeout" env] assms by force
  then show ?thesis
    by (cases r) (auto simp: acquire_drives_def register_handles_def Let_def simp del: acquire_loop.simps)
qed

definition demo_env :: "nat \<Rightarrow> catalog wait_round" where
  "demo_env k = \<lparr>wr_now = 10 + int k, wr_ids = demo_ids, wr_monotonic = int k, wr_others = id\<rparr>"

theorem acquire_drives_terminates_witness:
  "\<exists>r s'. acquire_drives cat_ops demo_env 6 [''VTA001L8''] 0 5 (new_scheduler 1 demo_leased ''j2'' 60) = Some (r, s')"
proof -
  have "(0 :: int) + 5 \<le> wr_monotonic (demo_env 5)" by (simp add: demo_env_def)
  from acquire_drives_terminates [where env = demo_env and j = 5, OF this, of cat_ops "[''VTA001L8'']" "new_scheduler 1 demo_leased ''j2'' 60"]
  show ?thesis by (simp add: numeral_eq_Suc del: acquire_loop.simps)
qed

lemma register_handles_new:
  assumes "register_handles leases s = (refs, s')"
  shows "map (handle s') refs = map handle_of_lease leases" and "set refs \<subseteq> set (sch_held s')"
    and "sch_store s' = sch_store s"
proof -
  have r: "refs = [length (sch_handles s)..<length (sch_handles s) + length leases]"
    and h: "sch_handles s' = sch_handles s @ map handle_of_lease leases"
    using assms by (auto simp: register_handles_def ensure_heartbeat_thread_def Let_def)
  show "map (handle s') refs = map handle_of_lease leases"
    by (rule nth_equalityI) (simp_all add: r h handle_def nth_append)
  show "set refs \<subseteq> set (sch_held s')" "sch_store s' = sch_store s"
    using assms by (auto simp: register_handles_def ensure_heartbeat_thread_def Let_def)
qed


lemma empty_catalog_settled:
  "barcodes_pending_reconciliation empty_catalog = []" "drives_pending_reconciliation empty_catalog = []"
  by code_simp+

lemma demo_acquired:
  "\<exists>refs s'. acquire_drives cat_ops demo_env 1 [''VTA002L8''] 0 5 (new_scheduler 2 empty_catalog ''j2'' 60) = Some (Inr refs, s')"
proof -
  have "so_acquire cat_ops (wr_ids (demo_env 0)) (wr_now (demo_env 0)) ''j2'' [''VTA002L8''] 2 60 [] empty_catalog =
      (Some [new_lease ''a'' 0 ''j2'' ''VTA002L8'' 1 10 60],
       empty_catalog\<lparr>cat_leases := [new_lease ''a'' 0 ''j2'' ''VTA002L8'' 1 10 60]\<rparr>)"
    by (simp add: cat_ops_def on_leases_def acquire_drive_leases_def free_drives_def Let_def demo_ids_def demo_env_def max_token_def
        upto_rec1 empty_catalog_def)
  moreover have "so_unreconciled_barcodes cat_ops empty_catalog = []" "so_unreconciled_drives cat_ops empty_catalog = []"
    by (simp_all add: cat_ops_def empty_catalog_settled)
  ultimately show ?thesis
    by (simp add: acquire_drives_def new_scheduler_def excluded_drives_def Let_def register_handles_def)
qed


section \<open>Release and verification\<close>

lemma handle_mark_released:
  "r < length (sch_handles s) \<Longrightarrow>
     handle (mark_released refs s) r = (if r \<in> set refs then (handle s r)\<lparr>dh_released := True\<rparr> else handle s r)"
  by (simp add: handle_def mark_released_def)

lemma mark_released_fields [simp]:
  "sch_store (mark_released refs s) = sch_store s" "sch_held (mark_released refs s) = sch_held s"
  "sch_heartbeat_alive (mark_released refs s) = sch_heartbeat_alive s"
  "length (sch_handles (mark_released refs s)) = length (sch_handles s)"
  by (simp_all add: mark_released_def)

lemma handle_updates [simp]:
  "handle (s\<lparr>sch_store := st\<rparr>) = handle s" "handle (s\<lparr>sch_held := hs\<rparr>) = handle s" "handle (s\<lparr>sch_stop_heartbeat := b\<rparr>) = handle s"
  by (simp_all add: handle_def fun_eq_iff)

text \<open>The outcome of a release: what becomes of each handle, and when it raises.\<close>

lemma release_drives_run:
  assumes "list_all (\<lambda>r. r < length (sch_handles s)) refs"
  obtains s1 where "release_drives ops now refs s = (if kept_handles refs s = [] then Inr () else Inl JournalWriteError, s1)"
    and "\<And>r. r \<in> set refs \<Longrightarrow> handle s1 r =
      (if dh_released (handle s r) \<or> dh_hold_unjournaled (handle s r) then handle s r else (handle s r)\<lparr>dh_released := True\<rparr>)"
    and "sch_held s1 = filter (\<lambda>r. \<not> dh_released (handle s1 r)) (sch_held s)"
    and "sch_held s1 = [] \<Longrightarrow> sch_stop_heartbeat s1"
    and "sch_heartbeat_alive s1 = sch_heartbeat_alive s"
proof -
  define pending where "pending = filter (\<lambda>r. \<not> dh_released (handle s r) \<and> \<not> dh_hold_unjournaled (handle s r)) refs"
  define s0 where "s0 = s\<lparr>sch_store := so_release ops now (map (\<lambda>r. dh_lease_id (handle s r)) pending) (sch_store s)\<rparr>"
  define m where "m = mark_released pending s0"
  define f where "f = m\<lparr>sch_held := filter (\<lambda>r. \<not> dh_released (handle m r)) (sch_held m)\<rparr>"
  define s1 where "s1 = (if sch_held f = [] then f\<lparr>sch_stop_heartbeat := True\<rparr> else f)"
  have hm: "handle s1 = handle m" by (simp add: s1_def f_def)
  have h: "handle s1 r = (if dh_released (handle s r) \<or> dh_hold_unjournaled (handle s r) then handle s r
      else (handle s r)\<lparr>dh_released := True\<rparr>)" if "r \<in> set refs" for r
  proof -
    have "r < length (sch_handles s0)" using that assms by (simp add: s0_def list_all_iff)
    from handle_mark_released [OF this, of pending] that show ?thesis by (auto simp: hm m_def s0_def pending_def)
  qed
  have k: "kept_handles refs s1 = kept_handles refs s"
    unfolding kept_handles_def by (rule filter_cong [OF refl]) (simp add: h)
  have "release_drives ops now refs s = (if kept_handles refs s1 = [] then Inr () else Inl JournalWriteError, s1)"
    unfolding release_drives_def thenM_def bindM_def getsM_def modifyM_def guardM_def returnM_def raiseM_def
    by (simp add: pending_def [symmetric] s0_def [symmetric] m_def [symmetric] f_def [symmetric])
       (simp add: s1_def f_def m_def s0_def)
  then have run: "release_drives ops now refs s = (if kept_handles refs s = [] then Inr () else Inl JournalWriteError, s1)"
    unfolding k .
  have "sch_held s1 = filter (\<lambda>r. \<not> dh_released (handle s1 r)) (sch_held s)"
    unfolding hm by (simp add: s1_def f_def m_def s0_def)
  moreover have "sch_held s1 = [] \<Longrightarrow> sch_stop_heartbeat s1" by (simp add: s1_def split: if_splits)
  moreover have "sch_heartbeat_alive s1 = sch_heartbeat_alive s" by (simp add: s1_def f_def m_def s0_def)
  ultimately show thesis using that [OF run] h by blast
qed


definition demo_handle :: "bool \<Rightarrow> drive_handle" where
  "demo_handle hold = (handle_of_lease demo_lease)\<lparr>dh_hold_unjournaled := hold\<rparr>"

definition demo_sched :: "bool \<Rightarrow> catalog scheduler" where
  "demo_sched hold = (new_scheduler 2 demo_leased ''j1'' 60)
     \<lparr>sch_handles := [demo_handle hold], sch_held := [0], sch_heartbeat_alive := True\<rparr>"


text \<open>Finding: a scheduler that releases all its drives and acquires again before its heartbeat thread has woken up
  loses its heartbeat. The thread is still alive, so no new one is started and the stop flag stays set; on waking the
  thread ends, with the new drives held and their leases not renewed.\<close>

theorem heartbeat_lost_on_quick_reacquire:
  assumes "list_all (\<lambda>r. r < length (sch_handles s) \<and> \<not> dh_hold_unjournaled (handle s r)) (sch_held s)"
    and "sch_heartbeat_alive s" and "leases \<noteq> []"
  shows "case register_handles leases (snd (release_drives ops now (sch_held s) s)) of (refs, s2) \<Rightarrow>
    refs \<noteq> [] \<and> set refs \<subseteq> set (sch_held (heartbeat_turn ops now' s2))
      \<and> \<not> sch_heartbeat_alive (heartbeat_turn ops now' s2)
      \<and> sch_store (heartbeat_turn ops now' s2) = sch_store s2"
proof -
  have a: "list_all (\<lambda>r. r < length (sch_handles s)) (sch_held s)" using assms(1) by (simp add: list_all_iff)
  obtain s1 where run: "release_drives ops now (sch_held s) s =
      (if kept_handles (sch_held s) s = [] then Inr () else Inl JournalWriteError, s1)"
    and h: "\<And>r. r \<in> set (sch_held s) \<Longrightarrow> handle s1 r =
      (if dh_released (handle s r) \<or> dh_hold_unjournaled (handle s r) then handle s r else (handle s r)\<lparr>dh_released := True\<rparr>)"
    and held: "sch_held s1 = filter (\<lambda>r. \<not> dh_released (handle s1 r)) (sch_held s)"
    and stop: "sch_held s1 = [] \<Longrightarrow> sch_stop_heartbeat s1" and alive: "sch_heartbeat_alive s1 = sch_heartbeat_alive s"
    by (rule release_drives_run [OF a, of ops now]) blast
  have "sch_held s1 = []" unfolding held filter_empty_conv
    using assms(1) h by (auto simp: list_all_iff)
  with stop alive assms(2,3) run show ?thesis
    by (auto simp: register_handles_def ensure_heartbeat_thread_def heartbeat_turn_def Let_def)
qed

theorem heartbeat_lost_on_quick_reacquire_witness:
  "case register_handles [demo_lease] (snd (release_drives cat_ops 20 [0] (demo_sched False))) of (refs, s2) \<Rightarrow>
    refs \<noteq> [] \<and> set refs \<subseteq> set (sch_held (heartbeat_turn cat_ops 25 s2)) \<and> \<not> sch_heartbeat_alive (heartbeat_turn cat_ops 25 s2)
      \<and> sch_store (heartbeat_turn cat_ops 25 s2) = sch_store s2"
proof -
  have h: "sch_held (demo_sched False) = [0]" by (simp add: demo_sched_def new_scheduler_def)
  have "list_all (\<lambda>r. r < length (sch_handles (demo_sched False)) \<and> \<not> dh_hold_unjournaled (handle (demo_sched False) r)) (sch_held (demo_sched False))"
    "sch_heartbeat_alive (demo_sched False)" "[demo_lease] \<noteq> []"
    by (simp_all add: demo_sched_def new_scheduler_def handle_def demo_handle_def handle_of_lease_def)
  from heartbeat_lost_on_quick_reacquire [OF this, of cat_ops 25 20] show ?thesis unfolding h .
qed

end
