(* ===== verification/Job_Queue.thy ===== *)
theory Job_Queue
  imports Drive_Scheduler
begin

text \<open>
  \<open>jobs/queue.py\<close> and \<open>jobs/recovery.py\<close> on the shared catalog: the job queue with its claims on drives
  and on the changer, which are leases of the catalog, and the recovery pass a process runs when it starts.
  A claim reads the table, then takes a lease, then reads again: other processes may act in between, so
  the operations take what happened in each gap as an argument, with the clock readings. The function a
  job runs is an operation on the catalog, with the heartbeats of its thread and whatever the other
  processes do meanwhile.
\<close>

section \<open>Jobs\<close>

datatype job_type = JT_ARCHIVE | JT_RESTORE | JT_FORMAT | JT_VERIFY | JT_INVENTORY | JT_IMPORT | JT_EXPORT

definition JOB_TYPES :: "(string \<times> job_type) list" where
  "JOB_TYPES = [(''archive'', JT_ARCHIVE), (''restore'', JT_RESTORE), (''format'', JT_FORMAT), (''verify'', JT_VERIFY),
     (''inventory'', JT_INVENTORY), (''import'', JT_IMPORT), (''export'', JT_EXPORT)]"

definition JOB_STATES :: "(string \<times> job_state) list" where
  "JOB_STATES = [(''pending'', JS_PENDING), (''running'', JS_RUNNING), (''completed'', JS_COMPLETED), (''failed'', JS_FAILED),
     (''failed_recoverable'', JS_FAILED_RECOVERABLE), (''cancelled'', JS_CANCELLED)]"

definition enum_of_value :: "(string \<times> 'a) list \<Rightarrow> string \<Rightarrow> exc + 'a" where
  "enum_of_value table v = (case map_of table v of Some x \<Rightarrow> Inr x | None \<Rightarrow> Inl (ValueError v))"

fun job_type_value :: "job_type \<Rightarrow> string" where
  "job_type_value JT_ARCHIVE = ''archive''"
| "job_type_value JT_RESTORE = ''restore''"
| "job_type_value JT_FORMAT = ''format''"
| "job_type_value JT_VERIFY = ''verify''"
| "job_type_value JT_INVENTORY = ''inventory''"
| "job_type_value JT_IMPORT = ''import''"
| "job_type_value JT_EXPORT = ''export''"

fun job_state_value :: "job_state \<Rightarrow> string" where
  "job_state_value JS_PENDING = ''pending''"
| "job_state_value JS_RUNNING = ''running''"
| "job_state_value JS_COMPLETED = ''completed''"
| "job_state_value JS_FAILED = ''failed''"
| "job_state_value JS_FAILED_RECOVERABLE = ''failed_recoverable''"
| "job_state_value JS_CANCELLED = ''cancelled''"

record job =
  job_id :: string
  job_job_type :: job_type
  job_job_state :: job_state
  job_created_at :: int
  job_updated_at :: int
  job_error :: "string option"
  job_metadata :: string

definition job_from_row :: "job_row \<Rightarrow> exc + job" where
  "job_from_row row =
     bindR (enum_of_value JOB_TYPES (jb_job_type row)) (\<lambda>ty.
     bindR (enum_of_value JOB_STATES (jb_state row)) (\<lambda>st.
      Inr \<lparr>job_id = jb_id row, job_job_type = ty, job_job_state = st, job_created_at = jb_created_at row,
           job_updated_at = jb_updated_at row, job_error = jb_error row,
           job_metadata = (if jb_metadata_json row = '''' then ''{}'' else jb_metadata_json row)\<rparr>))"

definition create_job :: "string \<Rightarrow> int \<Rightarrow> job_type \<Rightarrow> string \<Rightarrow> (catalog, job) op" where
  "create_job jid now ty metadata =
     bindM (create_job_row jid now (job_type_value ty) metadata) (\<lambda>row. liftM (job_from_row row))"

definition get_job :: "string \<Rightarrow> (catalog, job) op" where
  "get_job jid =
     bindM (getsM (get_job_row jid)) (\<lambda>row.
      case row of None \<Rightarrow> raiseM JobNotFoundError | Some r \<Rightarrow> liftM (job_from_row r))"

definition update_job :: "int \<Rightarrow> string \<Rightarrow> job_state option \<Rightarrow> string option \<Rightarrow> (catalog, job) op" where
  "update_job now jid state err =
     bindM (get_job jid) (\<lambda>j.
     thenM (update_job_state now jid (job_state_value (case state of None \<Rightarrow> job_job_state j | Some st \<Rightarrow> st)) err)
      (get_job jid))"

section \<open>Claims\<close>

definition CHANGER_DRIVE_ID :: int where
  "CHANGER_DRIVE_ID = -1"

definition owner :: "int \<Rightarrow> int \<Rightarrow> catalog \<Rightarrow> string option" where
  "owner now slot c =
     map_option dl_job_id (List.find (\<lambda>l. dl_drive_id l = slot) (so_live_leases cat_ops now c))"

text \<open>What a claim meets: the clock at its three accesses and what the others do in the two gaps.\<close>

record claim_env =
  ce_now1 :: int
  ce_gap1 :: "catalog \<Rightarrow> catalog"
  ce_now2 :: int
  ce_lease_id :: string
  ce_gap2 :: "catalog \<Rightarrow> catalog"
  ce_now3 :: int

definition claim_slot :: "claim_env \<Rightarrow> int \<Rightarrow> int \<Rightarrow> string \<Rightarrow> string \<Rightarrow> exc \<Rightarrow> (catalog, unit) op" where
  "claim_slot env ttl slot jid kind busy =
     bindM (getsM (owner (ce_now1 env) slot)) (\<lambda>own.
      if own = Some jid then returnM ()
      else if own = None then
        thenM (modifyM (ce_gap1 env))
        (bindM (\<lambda>c. case so_acquire_at cat_ops (ce_lease_id env) (ce_now2 env) jid slot (kind @ '':'' @ int_str slot) ttl c of
                  (l, c') \<Rightarrow> (Inr l, c')) (\<lambda>lease.
         if lease \<noteq> None then returnM ()
         else thenM (modifyM (ce_gap2 env))
           (bindM (getsM (owner (ce_now3 env) slot)) (\<lambda>own2.
             if own2 = Some jid then returnM () else raiseM busy))))
      else raiseM busy)"

definition release_slot :: "int \<Rightarrow> int \<Rightarrow> string \<Rightarrow> catalog \<Rightarrow> catalog" where
  "release_slot now slot jid c =
     (let mine = map dl_id (filter (\<lambda>l. dl_drive_id l = slot \<and> dl_job_id l = jid) (so_live_leases cat_ops now c))
      in if mine \<noteq> [] then so_release cat_ops now mine c else c)"

definition claim_drive :: "claim_env \<Rightarrow> int \<Rightarrow> int \<Rightarrow> string \<Rightarrow> (catalog, unit) op" where
  "claim_drive env ttl d jid =
     thenM (guardM (0 \<le> d) (ValueError ''drive id out of range''))
     (thenM (queryM (ensure_drive_reconciled d None))
      (claim_slot env ttl d jid ''QUEUE-CLAIM'' DriveOccupiedError))"

definition release_drive :: "int \<Rightarrow> int \<Rightarrow> string \<Rightarrow> catalog \<Rightarrow> catalog" where
  "release_drive now d jid = release_slot now d jid"

definition claim_changer :: "claim_env \<Rightarrow> int \<Rightarrow> string \<Rightarrow> (catalog, unit) op" where
  "claim_changer env ttl jid = claim_slot env ttl CHANGER_DRIVE_ID jid ''CHANGER'' ChangerBusyError"

definition release_changer :: "int \<Rightarrow> string \<Rightarrow> catalog \<Rightarrow> catalog" where
  "release_changer now jid = release_slot now CHANGER_DRIVE_ID jid"

definition queue_heartbeat :: "int \<Rightarrow> int \<Rightarrow> string \<Rightarrow> catalog \<Rightarrow> catalog" where
  "queue_heartbeat now ttl jid c =
     (let mine = map dl_id (filter (\<lambda>l. dl_job_id l = jid) (so_live_leases cat_ops now c))
      in if mine \<noteq> [] then so_heartbeat cat_ops now mine ttl c else c)"

text \<open>\<open>safe_job_error\<close>: the message of a typed error, only the class name of any other. Messages and class names are
  what the language gives an exception, so they are arguments.\<close>

definition safe_job_error :: "(exc \<Rightarrow> string) \<Rightarrow> (exc \<Rightarrow> string) \<Rightarrow> exc \<Rightarrow> string" where
  "safe_job_error message class_name e =
     (if is_openblade_error e then message e
      else ''Job failed ('' @ class_name e @ ''); see server logs for detail'')"

definition run_job ::
  "(exc \<Rightarrow> string) \<Rightarrow> (exc \<Rightarrow> string) \<Rightarrow> int \<Rightarrow> int \<Rightarrow> job \<Rightarrow> (catalog, 'r) op \<Rightarrow> (catalog, job \<times> 'r) op" where
  "run_job message class_name t0 t1 j func =
     thenM (update_job t0 (job_id j) (Some JS_RUNNING) None)
     (bindM
       (catchM func (\<lambda>e.
          thenM (update_job t1 (job_id j) (Some JS_FAILED) (Some (safe_job_error message class_name e))) (raiseM e)))
       (\<lambda>result. bindM (update_job t1 (job_id j) (Some JS_COMPLETED) None) (\<lambda>completed. returnM (completed, result))))"

section \<open>Recovery\<close>

record drive_mismatch =
  dm_lease_id :: string
  dm_job_id :: string
  dm_drive_id :: int
  dm_expected_barcode :: string
  dm_observed_barcode :: "string option"

record recovery_report =
  rp_interrupted_job_ids :: "string list"
  rp_released_lease_ids :: "string list"
  rp_mismatches :: "drive_mismatch list"
  rp_staged_instances :: "(string, staged_instance list) dict"
  rp_stale_pending_job_ids :: "string list"
  rp_pending_reconciliation :: "pending_reconciliation list"
  rp_held_failed_lease_ids :: "string list"

definition str_startswith :: "string \<Rightarrow> string \<Rightarrow> bool" where
  "str_startswith s p \<longleftrightarrow> take (length p) s = p"

definition is_queue_claim :: "drive_lease \<Rightarrow> bool" where
  "is_queue_claim l \<longleftrightarrow> dl_drive_id l < 0 \<or> str_startswith (dl_barcode l) ''QUEUE-CLAIM:'' \<or> str_startswith (dl_barcode l) ''CHANGER:''"

definition NON_TERMINAL_JOB_STATES :: "string list" where
  "NON_TERMINAL_JOB_STATES = [''pending'', ''running'']"

definition FAILED_JOB_STATES :: "string list" where
  "FAILED_JOB_STATES = [''failed'', ''failed_recoverable'']"

definition INTERRUPTED_ERROR :: string where
  "INTERRUPTED_ERROR = ''interrupted: drive lease expired without a heartbeat; physical state unknown - reconcile before retry''"

text \<open>The loop over the expired leases: an owner still marked running is failed and journaled, once.\<close>

fun interrupt_expired :: "int \<Rightarrow> drive_lease list \<Rightarrow> string list \<Rightarrow> (catalog, string list) op" where
  "interrupt_expired now [] interrupted = returnM interrupted"
| "interrupt_expired now (l # ls) interrupted =
     bindM (getsM (get_job_row (dl_job_id l))) (\<lambda>found.
      case found of
        None \<Rightarrow> interrupt_expired now ls interrupted
      | Some own \<Rightarrow>
          if jb_state own = ''running'' \<and> jb_id own \<notin> set interrupted then
            thenM (update_job_state now (jb_id own) ''failed_recoverable'' (Some INTERRUPTED_ERROR))
            (thenM (journal now (jb_id own) ''recovered''
                [(''lease_id'', J_str (dl_id l)), (''error'', J_str INTERRUPTED_ERROR)])
             (interrupt_expired now ls (interrupted @ [jb_id own])))
          else interrupt_expired now ls interrupted)"

definition held_by_failed :: "catalog \<Rightarrow> drive_lease \<Rightarrow> bool" where
  "held_by_failed c l \<longleftrightarrow>
     (case get_job_row (dl_job_id l) c of None \<Rightarrow> False | Some own \<Rightarrow> jb_state own \<in> set FAILED_JOB_STATES)"

definition orphaned_live :: "catalog \<Rightarrow> drive_lease \<Rightarrow> bool" where
  "orphaned_live c l \<longleftrightarrow> \<not> held_by_failed c l \<and>
     (case get_job_row (dl_job_id l) c of None \<Rightarrow> True | Some own \<Rightarrow> jb_state own \<notin> set NON_TERMINAL_JOB_STATES)"

definition lease_physical :: "drive_lease \<Rightarrow> int" where
  "lease_physical l = (case dl_physical_drive_id l of Some p \<Rightarrow> p | None \<Rightarrow> dl_drive_id l)"

definition find_mismatches :: "library_inventory \<Rightarrow> drive_lease list \<Rightarrow> drive_mismatch list" where
  "find_mismatches snapshot orphaned =
     (let observed = dict_of (map (\<lambda>d. (dv_drive_id d, dv_barcode d)) (inv_drives snapshot))
      in List.map_filter (\<lambda>l.
           let seen = (case dict_get observed (lease_physical l) of None \<Rightarrow> None | Some b \<Rightarrow> b)
           in if is_queue_claim l \<or> seen = Some (dl_barcode l) then None
              else Some \<lparr>dm_lease_id = dl_id l, dm_job_id = dl_job_id l, dm_drive_id = lease_physical l,
                         dm_expected_barcode = dl_barcode l, dm_observed_barcode = seen\<rparr>) orphaned)"

definition recover_after_restart :: "int \<Rightarrow> library_inventory \<Rightarrow> (catalog, recovery_report) op" where
  "recover_after_restart now snapshot =
     bindM (getsM (\<lambda>c. expired_leases now (cat_leases c))) (\<lambda>expired.
     bindM (interrupt_expired now expired []) (\<lambda>interrupted.
     bindM (getsM (\<lambda>c. live_leases now (cat_leases c))) (\<lambda>live.
     bindM (getsM (\<lambda>c. (filter (held_by_failed c) live, expired @ filter (orphaned_live c) live))) (\<lambda>(held, orphaned).
     thenM (modifyM (\<lambda>c. c\<lparr>cat_leases := release_leases now (map dl_id orphaned) (cat_leases c)\<rparr>))
     (getsM (\<lambda>c.
        \<lparr>rp_interrupted_job_ids = interrupted,
         rp_released_lease_ids = map dl_id orphaned,
         rp_mismatches = find_mismatches snapshot orphaned,
         rp_staged_instances = dict_of (map (\<lambda>j. (jb_id j, list_staged_instances (jb_id j) c)) (list_jobs (Some ''failed_recoverable'') c)),
         rp_stale_pending_job_ids = map jb_id (filter (\<lambda>j. jb_id j \<notin> dl_job_id ` set live \<and> jb_created_at j < now - DEFAULT_LEASE_TTL)
            (list_jobs (Some ''pending'') c)),
         rp_pending_reconciliation = dict_values (drives_pending_reconciliation c),
         rp_held_failed_lease_ids = map dl_id held\<rparr>))))))"

section \<open>What the queue promises\<close>

lemma owner_some: "owner now slot c = Some jid \<Longrightarrow> \<exists>l \<in> set (cat_leases c). dl_drive_id l = slot \<and> dl_job_id l = jid \<and> lease_live l now"
  by (auto simp: owner_def cat_ops_def live_leases_def dest!: find_SomeD)

lemma acquire_at_some:
  assumes "so_acquire_at cat_ops lid now jid slot b ttl c = (Some l, c')" and "0 < ttl"
  shows "l \<in> set (cat_leases c') \<and> dl_drive_id l = slot \<and> dl_job_id l = jid \<and> lease_live l now"
  using assms
  by (auto simp: cat_ops_def on_leases_def acquire_drive_lease_at_def Let_def new_lease_def lease_live_def split: prod.splits if_splits)


definition demo_claim_env :: claim_env where
  "demo_claim_env = \<lparr>ce_now1 = 10, ce_gap1 = id, ce_now2 = 10, ce_lease_id = ''x'', ce_gap2 = id, ce_now3 = 10\<rparr>"


text \<open>A job the queue can read: present, with a type and a state of the enumerations.\<close>

definition job_known :: "string \<Rightarrow> catalog \<Rightarrow> bool" where
  "job_known jid c = (case get_job_row jid c of None \<Rightarrow> False
     | Some r \<Rightarrow> jb_job_type r \<in> fst ` set JOB_TYPES \<and> jb_state r \<in> fst ` set JOB_STATES)"

lemma find_map_same: "(\<And>x. p (f x) = p x) \<Longrightarrow> List.find p (map f xs) = map_option f (List.find p xs)"
  by (induction xs) auto

lemma get_job_row_updated:
  "get_job_row jid (c\<lparr>cat_jobs := map (\<lambda>j. if jb_id j = jid' then j\<lparr>jb_state := st, jb_error := err, jb_updated_at := now\<rparr> else j) (cat_jobs c)\<rparr>) =
     map_option (\<lambda>j. if jid = jid' then j\<lparr>jb_state := st, jb_error := err, jb_updated_at := now\<rparr> else j) (get_job_row jid c)"
proof (cases "get_job_row jid c")
  case None
  then show ?thesis by (simp add: get_job_row_def find_map_same)
next
  case (Some r)
  then have "jb_id r = jid" using find_SomeD by (fastforce simp: get_job_row_def)
  with Some show ?thesis by (simp add: get_job_row_def find_map_same)
qed

lemma job_state_value_known: "job_state_value st \<in> fst ` set JOB_STATES" "map_of JOB_STATES (job_state_value st) = Some st"
  by (cases st; simp add: JOB_STATES_def)+

lemma enum_known: "v \<in> fst ` set table \<Longrightarrow> \<exists>x. map_of table v = Some x"
  by (metis map_of_eq_None_iff not_None_eq)

lemma wp_get_job:
  assumes "job_known jid c" and "\<And>r j. get_job_row jid c = Some r \<Longrightarrow> job_from_row r = Inr j \<Longrightarrow> Q j c"
  shows "wp (get_job jid) Q E c"
proof -
  obtain r where r: "get_job_row jid c = Some r" "jb_job_type r \<in> fst ` set JOB_TYPES" "jb_state r \<in> fst ` set JOB_STATES"
    using assms(1) by (auto simp: job_known_def split: option.splits)
  then obtain j where "job_from_row r = Inr j"
    using enum_known [OF r(2)] enum_known [OF r(3)] by (auto simp: job_from_row_def enum_of_value_def bindR_def)
  with assms(2) r show ?thesis by (auto simp: get_job_def wp_rules)
qed

lemma job_from_row_state: "job_from_row r = Inr j \<Longrightarrow> map_of JOB_STATES (jb_state r) = Some (job_job_state j)"
  by (auto simp: job_from_row_def enum_of_value_def bindR_def split: option.splits)

lemma wp_update_job:
  assumes "job_known jid c"
    and "\<And>c' r j. job_known jid c' \<Longrightarrow> get_job_row jid c' = Some r \<Longrightarrow> jb_state r = job_state_value st \<Longrightarrow> jb_error r = err \<Longrightarrow>
      job_job_state j = st \<Longrightarrow> Q j c'"
  shows "wp (update_job now jid (Some st) err) Q E c"
proof -
  let ?c = "c\<lparr>cat_jobs := map (\<lambda>j. if jb_id j = jid then j\<lparr>jb_state := job_state_value st, jb_error := err, jb_updated_at := now\<rparr> else j) (cat_jobs c)\<rparr>"
  obtain r where r: "get_job_row jid c = Some r" "jb_job_type r \<in> fst ` set JOB_TYPES"
    using assms(1) by (auto simp: job_known_def split: option.splits)
  have g: "get_job_row jid ?c = Some (r\<lparr>jb_state := job_state_value st, jb_error := err, jb_updated_at := now\<rparr>)"
    unfolding get_job_row_updated by (simp add: r)
  have k: "job_known jid ?c" unfolding job_known_def g using r(2) job_state_value_known by simp
  have u: "wp (update_job_state now jid (job_state_value st) err) P E c \<longleftrightarrow> P () ?c" for P
    by (simp add: update_job_state_def wp_rules r)
  have "wp (get_job jid) Q E ?c"
  proof (rule wp_get_job [OF k])
    fix r' j assume "get_job_row jid ?c = Some r'" "job_from_row r' = Inr j"
    with g have r': "r' = r\<lparr>jb_state := job_state_value st, jb_error := err, jb_updated_at := now\<rparr>" by simp
    with job_from_row_state [OF \<open>job_from_row r' = Inr j\<close>] have "job_job_state j = st" by (simp add: job_state_value_known)
    then show "Q j ?c" using assms(2) [OF k g] by simp
  qed
  then show ?thesis
    unfolding update_job_def wp_bind
    by (intro wp_get_job [OF assms(1)]) (simp add: wp_then u)
qed

text \<open>C28. Running a job: the row ends completed, without an error, exactly when the function returned, and failed with the
  curated text of the exception when it raised, and that exception is the one the caller sees.\<close>

theorem run_job_outcome:
  assumes "keeps (job_known (job_id j)) func" and "job_known (job_id j) c"
  shows "wp (run_job message class_name t0 t1 j func)
    (\<lambda>(j', _) c'. job_job_state j' = JS_COMPLETED \<and> map_option jb_state (get_job_row (job_id j) c') = Some ''completed''
       \<and> map_option jb_error (get_job_row (job_id j) c') = Some None)
    (\<lambda>e c'. map_option jb_state (get_job_row (job_id j) c') = Some ''failed''
       \<and> map_option jb_error (get_job_row (job_id j) c') = Some (Some (safe_job_error message class_name e))) c"
proof -
  have f: "wp func (\<lambda>_. job_known (job_id j)) (\<lambda>_. job_known (job_id j)) c1" if "job_known (job_id j) c1" for c1
    using assms(1) that by (simp add: keeps_iff_wp)
  show ?thesis
    unfolding run_job_def wp_then wp_bind wp_catch
    by (rule wp_update_job [OF assms(2)], rule wp_mono [OF f], assumption)
       (rule wp_update_job, assumption, simp add: wp_rules)+
qed

definition demo_job :: job where
  "demo_job = \<lparr>job_id = ''j1'', job_job_type = JT_ARCHIVE, job_job_state = JS_PENDING, job_created_at = 1, job_updated_at = 1,
     job_error = None, job_metadata = ''{}''\<rparr>"

definition demo_jobs :: catalog where
  "demo_jobs = snd (create_job ''j1'' 1 JT_ARCHIVE ''{}'' empty_catalog)"

theorem run_job_outcome_witness:
  "map_option jb_state (get_job_row ''j1'' (snd (run_job (\<lambda>_. ''m'') (\<lambda>_. ''c'') 2 3 demo_job (raiseM TapeFullError :: (catalog, unit) op) demo_jobs))) = Some ''failed''"
proof -
  let ?f = "raiseM TapeFullError :: (catalog, unit) op"
  have k: "keeps (job_known (job_id demo_job)) ?f" by (simp add: keeps_def raiseM_def)
  have j: "job_known (job_id demo_job) demo_jobs" by code_simp
  have r: "fst (run_job (\<lambda>_. ''m'') (\<lambda>_. ''c'') 2 3 demo_job ?f demo_jobs) = Inl TapeFullError" by code_simp
  obtain c' where c': "run_job (\<lambda>_. ''m'') (\<lambda>_. ''c'') 2 3 demo_job ?f demo_jobs = (Inl TapeFullError, c')"
    using r by (cases "run_job (\<lambda>_. ''m'') (\<lambda>_. ''c'') 2 3 demo_job ?f demo_jobs") simp
  from wp_raises [OF run_job_outcome [OF k j] c'] c' show ?thesis by (simp add: demo_job_def)
qed

section \<open>What recovery does\<close>

text \<open>Failing a set of jobs at once, and the jobs that own an expired, unreleased lease.\<close>

definition fail_jobs :: "int \<Rightarrow> string set \<Rightarrow> job_row list \<Rightarrow> job_row list" where
  "fail_jobs now ids = map (\<lambda>j. if jb_id j \<in> ids
     then j\<lparr>jb_state := ''failed_recoverable'', jb_error := Some INTERRUPTED_ERROR, jb_updated_at := now\<rparr> else j)"

definition running_owner :: "job_row list \<Rightarrow> drive_lease list \<Rightarrow> string \<Rightarrow> bool" where
  "running_owner jobs ls jid \<longleftrightarrow>
     (\<exists>l \<in> set ls. dl_job_id l = jid) \<and> (\<exists>r. List.find (\<lambda>j. jb_id j = jid) jobs = Some r \<and> jb_state r = ''running'')"

lemma find_fail_jobs:
  "List.find (\<lambda>j. jb_id j = jid) (fail_jobs now ids jobs) =
     map_option (\<lambda>j. if jid \<in> ids then j\<lparr>jb_state := ''failed_recoverable'', jb_error := Some INTERRUPTED_ERROR, jb_updated_at := now\<rparr> else j)
       (List.find (\<lambda>j. jb_id j = jid) jobs)"
  by (induction jobs) (auto simp: fail_jobs_def)

lemma fail_jobs_one:
  "map (\<lambda>j. if jb_id j = jid then j\<lparr>jb_state := ''failed_recoverable'', jb_error := Some INTERRUPTED_ERROR, jb_updated_at := now\<rparr> else j)
     (fail_jobs now ids jobs) = fail_jobs now (insert jid ids) jobs"
  by (auto simp: fail_jobs_def)

lemma interrupt_expired_spec:
  assumes "cat_jobs c = fail_jobs now (set acc) jobs"
  shows "wp (interrupt_expired now ls acc)
    (\<lambda>ids c'. cat_jobs c' = fail_jobs now (set ids) jobs \<and> set ids = set acc \<union> {jid. running_owner jobs ls jid}
       \<and> cat_leases c' = cat_leases c \<and> cat_instances c' = cat_instances c) (\<lambda>_ _. False) c"
  using assms
proof (induction ls arbitrary: acc c)
  case Nil
  then show ?case by (simp add: wp_rules running_owner_def)
next
  case (Cons l ls)
  have g: "get_job_row (dl_job_id l) c = map_option (\<lambda>j. if dl_job_id l \<in> set acc
      then j\<lparr>jb_state := ''failed_recoverable'', jb_error := Some INTERRUPTED_ERROR, jb_updated_at := now\<rparr> else j)
      (List.find (\<lambda>j. jb_id j = dl_job_id l) jobs)"
    unfolding get_job_row_def Cons.prems by (rule find_fail_jobs)
  show ?case
  proof (cases "\<exists>r. List.find (\<lambda>j. jb_id j = dl_job_id l) jobs = Some r \<and> jb_state r = ''running'' \<and> dl_job_id l \<notin> set acc")
    case False
    have "set acc \<union> {jid. running_owner jobs (l # ls) jid} = set acc \<union> {jid. running_owner jobs ls jid}"
      using False by (auto simp: running_owner_def)
    with Cons.IH [OF Cons.prems] False g show ?thesis by (auto simp: wp_rules split: option.splits)
  next
    case True
    then obtain r where r: "List.find (\<lambda>j. jb_id j = dl_job_id l) jobs = Some r" "jb_state r = ''running''" "dl_job_id l \<notin> set acc" by blast
    then have id: "jb_id r = dl_job_id l" using find_SomeD by fastforce
    have row: "get_job_row (dl_job_id l) c = Some r" using g r by simp
    let ?u = "c\<lparr>cat_jobs := fail_jobs now (insert (dl_job_id l) (set acc)) jobs\<rparr>"
    let ?c = "snd (add_entry (dl_job_id l) now ''recovered'' [(''lease_id'', J_str (dl_id l)), (''error'', J_str INTERRUPTED_ERROR)] ?u)"
    have u: "wp (update_job_state now (dl_job_id l) ''failed_recoverable'' (Some INTERRUPTED_ERROR)) P E c \<longleftrightarrow> P () ?u" for P E
      by (simp add: update_job_state_def wp_rules row Cons.prems fail_jobs_one)
    have jn: "wp (journal now (dl_job_id l) ''recovered'' [(''lease_id'', J_str (dl_id l)), (''error'', J_str INTERRUPTED_ERROR)]) (\<lambda>_. P) E ?u \<longleftrightarrow> P ?c" for P E
      by (simp add: wp_def journal_def split: prod.splits)
    have c: "cat_jobs ?c = fail_jobs now (set (acc @ [dl_job_id l])) jobs" "cat_leases ?c = cat_leases c" "cat_instances ?c = cat_instances c"
      by (simp_all add: add_entry_def Let_def)
    have "set acc \<union> {jid. running_owner jobs (l # ls) jid} = set (acc @ [dl_job_id l]) \<union> {jid. running_owner jobs ls jid}"
      using r by (auto simp: running_owner_def)
    with Cons.IH [OF c(1)] c(2,3) r row show ?thesis
      by (simp add: wp_rules id u jn)
  qed
qed

lemma release_leases_mem:
  "l \<in> set ls \<Longrightarrow> dl_id l \<notin> set ids \<Longrightarrow> l \<in> set (release_leases now ids ls)"
  "l \<in> set (release_leases now ids ls) \<Longrightarrow> dl_released_at l = None \<Longrightarrow> l \<in> set ls \<and> dl_id l \<notin> set ids"
  by (force simp: release_leases_def split: if_splits)+

lemma set_expired_leases [simp]: "set (expired_leases now ls) = {l \<in> set ls. dl_released_at l = None \<and> dl_expires_at l \<le> now}"
  by (auto simp: expired_leases_def)

lemma set_live_leases [simp]: "set (live_leases now ls) = {l \<in> set ls. lease_live l now}"
  by (auto simp: live_leases_def)

text \<open>C29. Recovery never raises. It fails exactly the running jobs that own an expired lease, releases every expired lease,
  leaves every live lease of a pending, running or failed job as it was, and touches no file instance: it never acts
  on the mere fact that a job is marked running.\<close>

theorem recovery_touches_only_the_dead:
  assumes "cat_lease_inv c"
  shows "wp (recover_after_restart now snapshot)
    (\<lambda>report c'. expired_leases now (cat_leases c') = []
       \<and> cat_jobs c' = fail_jobs now {jid. running_owner (cat_jobs c) (expired_leases now (cat_leases c)) jid} (cat_jobs c)
       \<and> cat_instances c' = cat_instances c
       \<and> list_all (\<lambda>l. lease_live l now \<longrightarrow>
            (case get_job_row (dl_job_id l) c' of None \<Rightarrow> True
             | Some r \<Rightarrow> jb_state r \<in> set (NON_TERMINAL_JOB_STATES @ FAILED_JOB_STATES) \<longrightarrow> l \<in> set (cat_leases c'))) (cat_leases c))
    (\<lambda>_ _. False) c"
proof -
  let ?jobs = "cat_jobs c" and ?exp = "expired_leases now (cat_leases c)"
  have start: "cat_jobs c = fail_jobs now (set []) ?jobs" by (simp add: fail_jobs_def)
  have fin: "expired_leases now (release_leases now (map dl_id (?exp @ xs)) (cat_leases c)) = []" for xs
  proof -
    have "set (expired_leases now (release_leases now (map dl_id (?exp @ xs)) (cat_leases c))) = {}"
      by (auto dest!: release_leases_mem(2))
    then show ?thesis by (simp only: set_empty)
  qed
  have inj: "l = l'" if "l \<in> set (cat_leases c)" "l' \<in> set (cat_leases c)" "dl_id l = dl_id l'" for l l'
    using that assms by (auto simp: cat_lease_inv_def distinct_map dest: inj_onD)
  have keep: "l \<in> set (release_leases now (map dl_id (?exp @ filter (orphaned_live c1) (live_leases now (cat_leases c)))) (cat_leases c))"
    if "l \<in> set (cat_leases c)" "lease_live l now" "get_job_row (dl_job_id l) c1 = Some r"
      "jb_state r \<in> set (NON_TERMINAL_JOB_STATES @ FAILED_JOB_STATES)" for l c1 r
  proof (rule release_leases_mem(1) [OF that(1)], rule notI)
    assume "dl_id l \<in> set (map dl_id (?exp @ filter (orphaned_live c1) (live_leases now (cat_leases c))))"
    then obtain l' where l': "l' \<in> set (cat_leases c)" "dl_id l = dl_id l'"
      "dl_released_at l' = None \<and> dl_expires_at l' \<le> now \<or> orphaned_live c1 l'" by auto
    from inj [OF that(1) l'(1,2)] l'(3) that(2-4) show False
      by (auto simp: lease_live_def orphaned_live_def held_by_failed_def)
  qed
  show ?thesis
    unfolding recover_after_restart_def wp_bind wp_gets
    by (rule wp_mono [OF interrupt_expired_spec [OF start]])
       (auto simp: wp_rules fin list_all_iff get_job_row_def [of _ "_\<lparr>cat_leases := _\<rparr>"] get_job_row_def [symmetric]
         simp del: map_append intro: keep split: option.splits)
qed

definition demo_crashed :: catalog where
  "demo_crashed = (snd (create_job ''j1'' 1 JT_ARCHIVE ''{}'' empty_catalog))
     \<lparr>cat_leases := [demo_lease], cat_jobs := [\<lparr>jb_id = ''j1'', jb_job_type = ''archive'', jb_state = ''running'',
        jb_metadata_json = ''{}'', jb_error = None, jb_created_at = 1, jb_updated_at = 2\<rparr>]\<rparr>"

theorem recovery_touches_only_the_dead_witness:
  "map_option jb_state (get_job_row ''j1'' (snd (recover_after_restart 100 demo_snapshot demo_crashed))) = Some ''failed_recoverable''"
proof -
  have i: "cat_lease_inv demo_crashed" by (simp add: cat_lease_inv_def demo_crashed_def)
  obtain rep c' where r: "recover_after_restart 100 demo_snapshot demo_crashed = (Inr rep, c')"
    using recovery_touches_only_the_dead [OF i, of 100 demo_snapshot]
    by (cases "recover_after_restart 100 demo_snapshot demo_crashed"; cases "fst (recover_after_restart 100 demo_snapshot demo_crashed)")
       (auto simp: wp_def)
  have e: "expired_leases 100 (cat_leases demo_crashed) = [demo_lease]"
    by (simp add: expired_leases_def demo_crashed_def demo_lease_def new_lease_def)
  have "cat_jobs c' = fail_jobs 100 {jid. running_owner (cat_jobs demo_crashed) [demo_lease] jid} (cat_jobs demo_crashed)"
    using wp_returns [OF recovery_touches_only_the_dead [OF i] r] by (simp add: e)
  moreover have "running_owner (cat_jobs demo_crashed) [demo_lease] ''j1''"
    by (simp add: running_owner_def demo_crashed_def demo_lease_def new_lease_def)
  ultimately show ?thesis using r by (simp add: get_job_row_def find_fail_jobs) (simp add: demo_crashed_def)
qed

end
