(* ===== verification/Tape_Orchestrator.thy ===== *)
theory Tape_Orchestrator
  imports Job_Queue Sim_Ltfs
begin

text \<open>
  \<open>nas/tape_orchestrator.py\<close>, the single choke point for tape operations, with the export guard of
  \<open>catalog/export_policy.py\<close>, over the catalog and the simulated LTFS backend with its library. Without a
  catalog a transient table keeps the log and nothing else is known of the media. Per-drive and
  per-barcode locks order concurrent requests and have no effect on one request, which is what
  \<open>execute\<close> models. Clock readings, fresh identifiers and the hash come with \<open>op_env\<close>.
\<close>

section \<open>Requests and state\<close>

datatype extra = X_val jval | X_confirmation format_confirmation

record tape_op_request =
  tq_op_type :: tape_op_type
  tq_barcode :: string
  tq_drive_id :: "int option"
  tq_slot_id :: "int option"
  tq_tape_path :: "string option"
  tq_content :: "bytes option"
  tq_size_bytes :: "int option"
  tq_checksum :: "string option"
  tq_requested_by :: string
  tq_job_id :: "string option"
  tq_priority :: int
  tq_extras :: "(string, extra) dict"

record orchestrator =
  or_has_catalog :: bool
  or_catalog :: catalog
  or_transient :: "tape_op_row list"
  or_ltfs :: ltfs_backend

record op_env =
  oe_now :: int
  oe_op_id :: string
  oe_handle_id :: string
  oe_instance_id :: string
  oe_sha :: "bytes \<Rightarrow> string"
  oe_message :: "exc \<Rightarrow> string"

abbreviation or_library :: "orchestrator \<Rightarrow> mock_library" where
  "or_library s \<equiv> lt_library (or_ltfs s)"

definition on_ltfs :: "(ltfs_backend, 'a) op \<Rightarrow> (orchestrator, 'a) op" where
  "on_ltfs m = zoomM or_ltfs (\<lambda>b s. s\<lparr>or_ltfs := b\<rparr>) m"

definition on_lib :: "(mock_library, 'a) op \<Rightarrow> (orchestrator, 'a) op" where
  "on_lib m = on_ltfs (on_library m)"

definition ask_lib :: "(mock_library \<Rightarrow> exc + 'a) \<Rightarrow> (orchestrator, 'a) op" where
  "ask_lib f = queryM (\<lambda>s. f (or_library s))"

definition on_catalog :: "(catalog \<Rightarrow> catalog) \<Rightarrow> (orchestrator, unit) op" where
  "on_catalog f = modifyM (\<lambda>s. s\<lparr>or_catalog := f (or_catalog s)\<rparr>)"

definition tape_ops :: "orchestrator \<Rightarrow> tape_op_row list" where
  "tape_ops s = (if or_has_catalog s then cat_tape_ops (or_catalog s) else or_transient s)"

definition set_tape_ops :: "tape_op_row list \<Rightarrow> orchestrator \<Rightarrow> orchestrator" where
  "set_tape_ops ops s =
     (if or_has_catalog s then s\<lparr>or_catalog := or_catalog s\<lparr>cat_tape_ops := ops\<rparr>\<rparr> else s\<lparr>or_transient := ops\<rparr>)"

section \<open>Helpers\<close>

text \<open>\<open>int(value)\<close>: a value of another type is a \<open>TypeError\<close>.\<close>

fun int_of_extra :: "extra \<Rightarrow> exc + int" where
  "int_of_extra (X_val (J_int i)) = Inr i"
| "int_of_extra (X_val (J_bool b)) = Inr (if b then 1 else 0)"
| "int_of_extra (X_val (J_str s)) = (case parse_int s of Some i \<Rightarrow> Inr i | None \<Rightarrow> Inl (ValueError ''invalid literal for int()''))"
| "int_of_extra _ = Inl TypeError"

definition required_int :: "(string, extra) dict \<Rightarrow> string \<Rightarrow> exc + int" where
  "required_int extras key =
     (case dict_get extras key of
        None \<Rightarrow> Inl (ValueError ''is required'')
      | Some v \<Rightarrow>
          if v = X_val J_none then Inl (ValueError ''is required'')
          else (case int_of_extra v of Inr i \<Rightarrow> Inr i | Inl _ \<Rightarrow> Inl (ValueError ''must be an element number'')))"

definition extra_of_slot :: "int option \<Rightarrow> extra" where
  "extra_of_slot sl = (case sl of None \<Rightarrow> X_val J_none | Some i \<Rightarrow> X_val (J_int i))"

definition extras_get :: "(string, extra) dict \<Rightarrow> string \<Rightarrow> string \<Rightarrow> int option \<Rightarrow> extra" where
  "extras_get extras k1 k2 sl =
     (case dict_get extras k1 of Some v \<Rightarrow> v | None \<Rightarrow> (case dict_get extras k2 of Some v \<Rightarrow> v | None \<Rightarrow> extra_of_slot sl))"

definition source_slot :: "tape_op_request \<Rightarrow> mock_library \<Rightarrow> exc + int" where
  "source_slot rq L =
     (let v = extras_get (tq_extras rq) ''source_slot_id'' ''source_slot'' (tq_slot_id rq)
      in if v = X_val J_none then
           bindR (find_slot_by_barcode (tq_barcode rq) L) (\<lambda>found.
            case found of None \<Rightarrow> Inl (ValueError ''is not present in a slot'') | Some k \<Rightarrow> Inr k)
         else int_of_extra v)"

definition storage_slot_ids :: "mock_library \<Rightarrow> int list" where
  "storage_slot_ids L = map sv_slot_id (inv_slots (inventory L))"

definition dest_slot :: "tape_op_request \<Rightarrow> mock_library \<Rightarrow> exc + int" where
  "dest_slot rq L =
     (let v = extras_get (tq_extras rq) ''dest_slot_id'' ''dest_slot'' (tq_slot_id rq)
      in if v = X_val J_none then Inl (ValueError ''destination slot is required for move operations'')
         else bindR (int_of_extra v) (\<lambda>d.
           if d \<in> set (storage_slot_ids L) then Inr d
           else Inl (ValueError ''is not a data storage slot in this library'')))"

definition find_empty_slot :: "mock_library \<Rightarrow> exc + int" where
  "find_empty_slot L =
     (case List.find (\<lambda>v. sv_barcode v = None) (inv_slots (inventory L)) of
        Some v \<Rightarrow> Inr (sv_slot_id v)
      | None \<Rightarrow> Inl (ValueError ''No empty slot is available for unload/eject''))"

text \<open>\<open>_operation_result\<close>: the details of the result, then defaults that do not replace them.\<close>

definition result_details :: "op_result \<Rightarrow> (string, jval) dict" where
  "result_details r = (case r of Op_result ok msg b ds \<Rightarrow>
     (case b of None \<Rightarrow> [] | Some x \<Rightarrow> [(''barcode'', J_str x)]) @ map (\<lambda>(k, i). (k, J_int i)) ds)"

definition operation_result :: "op_result \<Rightarrow> (string, jval) dict \<Rightarrow> (string, jval) dict" where
  "operation_result r fallback = (case r of Op_result ok msg b ds \<Rightarrow>
     foldl (\<lambda>d (k, v). dict_setdefault k v d) (dict_of (result_details r))
       ([(''success'', J_bool ok), (''message'', J_str msg)] @ fallback))"

fun safe_op_message :: "tape_op_type \<Rightarrow> string" where
  "safe_op_message TO_LOAD = ''Tape load operation failed''"
| "safe_op_message TO_UNLOAD = ''Tape unload operation failed''"
| "safe_op_message TO_FORMAT = ''Tape format operation failed''"
| "safe_op_message TO_WRITE = ''Tape write operation failed''"
| "safe_op_message TO_READ = ''Tape read operation failed''"
| "safe_op_message TO_MOVE = ''Tape move operation failed''"
| "safe_op_message TO_VERIFY = ''Tape verify operation failed''"
| "safe_op_message TO_EJECT = ''Tape eject operation failed''"
| "safe_op_message TO_IMPORT = ''Tape import operation failed''"
| "safe_op_message TO_EXPORT = ''Tape export operation failed''"

definition safe_error_message :: "(exc \<Rightarrow> string) \<Rightarrow> tape_op_type \<Rightarrow> exc \<Rightarrow> string" where
  "safe_error_message message ty e =
     (if e = OperationNotConfirmedError then ''Format operations require explicit confirmation''
      else if e = ChecksumMismatchError then ''Checksum verification failed''
      else if e = ExportRefusedError \<or> e = MailslotUnsupportedError \<or> e = ImportExportSlotError then message e
      else safe_op_message ty)"

section \<open>Validation\<close>

definition validate_request :: "tape_op_request \<Rightarrow> mock_library \<Rightarrow> exc + unit" where
  "validate_request rq L =
     (if str_strip (tq_barcode rq) = [] then Inl (ValueError ''barcode must be non-empty'')
      else if tq_op_type rq \<in> {TO_READ, TO_WRITE, TO_VERIFY} \<and> (tq_tape_path rq = None \<or> tq_tape_path rq = Some []) then
        Inl (ValueError ''tape_path is required for read, write, and verify operations'')
      else if tq_op_type rq = TO_WRITE \<and> tq_content rq = None then Inl (ValueError ''content is required for write operations'')
      else if tq_op_type rq = TO_MOVE then
        bindR (source_slot rq L) (\<lambda>src. bindR (dest_slot rq L) (\<lambda>dst.
          if src = dst then Inl (ValueError ''source slot and destination slot must differ'') else Inr ()))
      else if tq_op_type rq = TO_FORMAT \<and> dict_get (tq_extras rq) ''confirmed_format'' \<noteq> Some (X_val (J_bool True)) then
        Inl OperationNotConfirmedError
      else Inr ())"

section \<open>The export guard\<close>

record export_assessment =
  ea_barcode :: string
  ea_volume_group :: "string option"
  ea_archived_files :: nat
  ea_pending_files :: nat
  ea_bytes :: int
  ea_sample_paths :: "string list"
  ea_siblings_with_data :: "string list"

definition ARCHIVED_INSTANCE_STATES :: "file_instance_state list" where
  "ARCHIVED_INSTANCE_STATES = [FI_ARCHIVED, FI_VERIFIED]"

definition SAMPLE_LIMIT :: nat where
  "SAMPLE_LIMIT = 5"

definition carries_data :: "export_assessment \<Rightarrow> bool" where
  "carries_data a \<longleftrightarrow> ea_archived_files a > 0 \<or> ea_pending_files a > 0"

definition assess_export :: "string \<Rightarrow> catalog \<Rightarrow> export_assessment" where
  "assess_export b c =
     (let instances = list_instances_for_barcode b c;
          archived = filter (\<lambda>i. ir_state i \<in> set ARCHIVED_INSTANCE_STATES) instances;
          records = List.map_filter (\<lambda>i. get_file_record_by_id (ir_file_record_id i) c) archived;
          group = Option.bind (get_cartridge b c) cr_volume_group_id
      in \<lparr>ea_barcode = b,
          ea_volume_group = (case group of None \<Rightarrow> None
             | Some g \<Rightarrow> map_option gr_name (List.find (\<lambda>x. gr_id x = g) (list_volume_groups c))),
          ea_archived_files = length archived,
          ea_pending_files = length (filter (\<lambda>i. ir_state i = FI_PENDING) instances),
          ea_bytes = sum_list (map rr_size_bytes records),
          ea_sample_paths = take SAMPLE_LIMIT (map rr_path records),
          ea_siblings_with_data = (case group of None \<Rightarrow> []
             | Some g \<Rightarrow> sort (map cr_barcode (filter (\<lambda>r. cr_volume_group_id r = Some g \<and> cr_barcode r \<noteq> b
                  \<and> list_ex (\<lambda>i. ir_state i \<in> set ARCHIVED_INSTANCE_STATES) (list_instances_for_barcode (cr_barcode r) c))
                (list_cartridges c))))\<rparr>)"

definition guard_export :: "tape_op_request \<Rightarrow> (orchestrator, unit) op" where
  "guard_export rq =
     (if (case dict_get (tq_extras rq) ''confirmBarcode'' of
            Some (X_val J_none) \<Rightarrow> False
          | Some (X_val v) \<Rightarrow> jval_str (Some v) = tq_barcode rq
          | _ \<Rightarrow> False) then returnM ()
      else bindM (getsM or_has_catalog) (\<lambda>has.
        if \<not> has then raiseM ExportRefusedError
        else bindM (getsM (\<lambda>s. assess_export (tq_barcode rq) (or_catalog s))) (\<lambda>a.
          guardM (\<not> carries_data a) ExportRefusedError)))"

definition record_cartridge_state :: "string \<Rightarrow> string \<Rightarrow> (orchestrator, unit) op" where
  "record_cartridge_state b st =
     bindM (getsM or_has_catalog) (\<lambda>has.
      if has then on_catalog (\<lambda>c. catalog_set_cartridge_state b st (catalog_add_cartridge b None c)) else returnM ())"

section \<open>Operations\<close>

definition load_op :: "tape_op_request \<Rightarrow> (orchestrator, (string, jval) dict) op" where
  "load_op rq =
     bindM (case tq_slot_id rq of Some k \<Rightarrow> returnM (Some k) | None \<Rightarrow> ask_lib (find_slot_by_barcode (tq_barcode rq))) (\<lambda>sl.
      case sl of
        None \<Rightarrow> raiseM (ValueError ''is not present in a slot'')
      | Some sid \<Rightarrow>
          let did = (case tq_drive_id rq of Some d \<Rightarrow> d | None \<Rightarrow> 0)
          in bindM (on_lib (load sid did)) (\<lambda>r.
              returnM (operation_result r [(''barcode'', J_str (tq_barcode rq)), (''drive_id'', J_int did), (''slot_id'', J_int sid)])))"

text \<open>A live lease of another job on the physical drive; the transient log has no leases to ask for.\<close>

definition refuse_if_leased :: "int \<Rightarrow> int \<Rightarrow> string option \<Rightarrow> (orchestrator, unit) op" where
  "refuse_if_leased now did job =
     bindM (getsM or_has_catalog) (\<lambda>has.
      if \<not> has then raiseM AttributeError
      else bindM (getsM (\<lambda>s. live_leases now (cat_leases (or_catalog s)))) (\<lambda>ls.
        guardM (\<not> list_ex (\<lambda>l. lease_physical l = did \<and> Some (dl_job_id l) \<noteq> job) ls) DriveLeasedError))"

definition unload_op :: "op_env \<Rightarrow> tape_op_request \<Rightarrow> (orchestrator, (string, jval) dict) op" where
  "unload_op env rq =
     bindM (case tq_drive_id rq of Some d \<Rightarrow> returnM (Some d) | None \<Rightarrow> ask_lib (find_drive_by_barcode (tq_barcode rq))) (\<lambda>found.
      case found of
        None \<Rightarrow> raiseM (ValueError ''is not loaded in a drive'')
      | Some did \<Rightarrow>
          bindM (case tq_slot_id rq of Some k \<Rightarrow> returnM k | None \<Rightarrow> ask_lib find_empty_slot) (\<lambda>sid.
          thenM (refuse_if_leased (oe_now env) did (tq_job_id rq))
          (bindM (on_lib (unload did sid)) (\<lambda>r.
            returnM (operation_result r [(''barcode'', J_str (tq_barcode rq)), (''drive_id'', J_int did), (''slot_id'', J_int sid)])))))"

definition ensure_loaded :: "string \<Rightarrow> int option \<Rightarrow> (orchestrator, int \<times> int option) op" where
  "ensure_loaded b drive =
     bindM (ask_lib (find_drive_by_barcode b)) (\<lambda>loaded.
      case loaded of
        Some d \<Rightarrow> returnM (d, None)
      | None \<Rightarrow>
          bindM (ask_lib (find_slot_by_barcode b)) (\<lambda>found.
           case found of
             None \<Rightarrow> raiseM (ValueError ''is not present in simulator inventory'')
           | Some sid \<Rightarrow>
               let target = (case drive of Some d \<Rightarrow> d | None \<Rightarrow> 0)
               in thenM (on_lib (load sid target)) (returnM (target, Some sid))))"

text \<open>The \<open>finally\<close> of a write or a format: put back what was taken out of its slot.\<close>

definition put_back :: "int \<Rightarrow> int option \<Rightarrow> (orchestrator, unit) op" where
  "put_back did loaded = (case loaded of None \<Rightarrow> returnM () | Some sid \<Rightarrow> thenM (on_lib (unload did sid)) (returnM ()))"

definition format_op :: "op_env \<Rightarrow> tape_op_request \<Rightarrow> (orchestrator, (string, jval) dict) op" where
  "format_op env rq =
     (case dict_get (tq_extras rq) ''format_confirmation'' of
        Some (X_confirmation c) \<Rightarrow>
          thenM (liftM (confirmation_validate (oe_now env) c (tq_barcode rq)))
          (bindM (ensure_loaded (tq_barcode rq) (tq_drive_id rq)) (\<lambda>(did, loaded).
           bindM (finallyM (on_ltfs (ltfs_format (oe_now env) (tq_barcode rq) (Some c))) (put_back did loaded)) (\<lambda>r.
            returnM (operation_result r [(''barcode'', J_str (tq_barcode rq)), (''formatted'', J_bool True), (''drive_id'', J_int did)]))))
      | _ \<Rightarrow> raiseM OperationNotConfirmedError)"

definition path_or_root :: "tape_op_request \<Rightarrow> string" where
  "path_or_root rq = (case tq_tape_path rq of None \<Rightarrow> ''/'' | Some p \<Rightarrow> if p = [] then ''/'' else p)"

definition write_op :: "op_env \<Rightarrow> tape_op_request \<Rightarrow> (orchestrator, (string, jval) dict) op" where
  "write_op env rq =
     bindM (ensure_loaded (tq_barcode rq) (tq_drive_id rq)) (\<lambda>(did, loaded).
     bindM (on_ltfs (ltfs_mount (oe_handle_id env) (tq_barcode rq) READ_WRITE)) (\<lambda>h.
      finallyM
        (thenM (on_ltfs (write_mounted_bytes (oe_sha env) (oe_now env) (oe_instance_id env) h (path_or_root rq)
                  (case tq_content rq of None \<Rightarrow> [] | Some x \<Rightarrow> x) (tq_size_bytes rq) (tq_checksum rq)))
         (bindM (on_ltfs (ltfs_stat h (path_or_root rq))) (\<lambda>st.
          returnM [(''drive_id'', J_int did), (''slot_id'', jval_of_int loaded), (''tape_path'', jval_of_str (tq_tape_path rq)),
                   (''bytes_written'', J_int (st_size_bytes st)), (''checksum'', J_str (st_checksum_sha256 st))])))
        (thenM (on_ltfs (ltfs_unmount h)) (put_back did loaded))))"

definition read_for :: "tape_op_request \<Rightarrow> (orchestrator, bytes) op" where
  "read_for rq =
     bindM (on_ltfs (read_bytes (tq_barcode rq) (case tq_tape_path rq of None \<Rightarrow> [] | Some p \<Rightarrow> p))) (\<lambda>data.
      case data of None \<Rightarrow> raiseM OSFileNotFoundError | Some d \<Rightarrow> returnM d)"

definition read_op :: "op_env \<Rightarrow> tape_op_request \<Rightarrow> (orchestrator, (string, jval) dict) op" where
  "read_op env rq =
     bindM (read_for rq) (\<lambda>d. returnM [(''bytes_read'', J_int (int (length d))), (''checksum'', J_str (oe_sha env d))])"

definition verify_op :: "op_env \<Rightarrow> tape_op_request \<Rightarrow> (orchestrator, (string, jval) dict) op" where
  "verify_op env rq =
     bindM (read_for rq) (\<lambda>d.
      if (case tq_checksum rq of None \<Rightarrow> False | Some x \<Rightarrow> x \<noteq> [] \<and> oe_sha env d \<noteq> x) then raiseM ChecksumMismatchError
      else returnM [(''bytes_read'', J_int (int (length d))), (''checksum'', J_str (oe_sha env d)), (''verified'', J_bool True)])"

definition move_op :: "tape_op_request \<Rightarrow> (orchestrator, (string, jval) dict) op" where
  "move_op rq =
     bindM (ask_lib (source_slot rq)) (\<lambda>src.
     bindM (ask_lib (dest_slot rq)) (\<lambda>dst.
     bindM (on_lib (move src dst)) (\<lambda>r.
      returnM (operation_result r [(''barcode'', J_str (tq_barcode rq)), (''source_slot'', J_int src), (''destination_slot'', J_int dst)]))))"

text \<open>The simulated library has no \<open>eject\<close> of its own.\<close>

definition eject_op :: "op_env \<Rightarrow> tape_op_request \<Rightarrow> (orchestrator, (string, jval) dict) op" where
  "eject_op env rq = unload_op env rq"

definition require_ie_element :: "int \<Rightarrow> mock_library \<Rightarrow> exc + slot_view" where
  "require_ie_element k L =
     (case dict_get (dict_of (map (\<lambda>v. (sv_slot_id v, v)) (import_export_slots L))) k of
        None \<Rightarrow> Inl ImportExportSlotError
      | Some v \<Rightarrow> Inr v)"

definition require_storage_slot :: "int \<Rightarrow> mock_library \<Rightarrow> exc + slot_view" where
  "require_storage_slot k L =
     (case dict_get (dict_of (map (\<lambda>v. (sv_slot_id v, v)) (inv_slots (inventory L)))) k of
        None \<Rightarrow> Inl ImportExportSlotError
      | Some v \<Rightarrow> Inr v)"

definition import_op :: "tape_op_request \<Rightarrow> (orchestrator, (string, jval) dict) op" where
  "import_op rq =
     bindM (liftM (required_int (tq_extras rq) ''ie_slot'')) (\<lambda>ie.
     bindM (ask_lib (require_ie_element ie)) (\<lambda>source.
     thenM (guardM (sv_barcode source \<noteq> None) ImportExportSlotError)
     (thenM (guardM (sv_barcode source = Some (tq_barcode rq)) ImportExportSlotError)
      (case tq_slot_id rq of
         None \<Rightarrow> raiseM ImportExportSlotError
       | Some target_slot \<Rightarrow>
           bindM (ask_lib (require_storage_slot target_slot)) (\<lambda>target.
           thenM (guardM (sv_barcode target = None) ImportExportSlotError)
           (bindM (on_lib (import_cartridge ie target_slot)) (\<lambda>r.
            thenM (record_cartridge_state (tq_barcode rq) ''in_slot'')
             (returnM (operation_result r [(''barcode'', J_str (tq_barcode rq)), (''ie_slot'', J_int ie), (''target_slot'', J_int target_slot)])))))))))"

definition export_op :: "tape_op_request \<Rightarrow> (orchestrator, (string, jval) dict) op" where
  "export_op rq =
     bindM (ask_lib (find_slot_by_barcode (tq_barcode rq))) (\<lambda>found.
      case found of
        None \<Rightarrow> raiseM ImportExportSlotError
      | Some src \<Rightarrow>
          thenM (guardM (tq_slot_id rq = None \<or> tq_slot_id rq = Some src) ImportExportSlotError)
          (thenM (guard_export rq)
          (bindM (liftM (required_int (tq_extras rq) ''ie_slot'')) (\<lambda>ie.
           bindM (ask_lib (require_ie_element ie)) (\<lambda>target.
           thenM (guardM (sv_barcode target = None) ImportExportSlotError)
           (bindM (on_lib (export_cartridge_to_ie src ie)) (\<lambda>r.
            thenM (record_cartridge_state (tq_barcode rq) ''exported'')
             (returnM (operation_result r [(''barcode'', J_str (tq_barcode rq)), (''source_slot'', J_int src), (''ie_slot'', J_int ie)])))))))))"

section \<open>Execution\<close>

fun dispatch :: "op_env \<Rightarrow> tape_op_request \<Rightarrow> tape_op_type \<Rightarrow> (orchestrator, (string, jval) dict) op" where
  "dispatch env rq TO_LOAD = load_op rq"
| "dispatch env rq TO_UNLOAD = unload_op env rq"
| "dispatch env rq TO_FORMAT = format_op env rq"
| "dispatch env rq TO_WRITE = write_op env rq"
| "dispatch env rq TO_READ = read_op env rq"
| "dispatch env rq TO_MOVE = move_op rq"
| "dispatch env rq TO_VERIFY = verify_op env rq"
| "dispatch env rq TO_EJECT = eject_op env rq"
| "dispatch env rq TO_IMPORT = import_op rq"
| "dispatch env rq TO_EXPORT = export_op rq"

text \<open>\<open>_resolve_drive_for_write\<close> names the lock a write or a format takes; it can refuse a malformed barcode.\<close>

definition resolve_drive_for_write :: "tape_op_request \<Rightarrow> mock_library \<Rightarrow> exc + int" where
  "resolve_drive_for_write rq L =
     (case tq_drive_id rq of
        Some d \<Rightarrow> Inr d
      | None \<Rightarrow> bindR (find_drive_by_barcode (tq_barcode rq) L) (\<lambda>found. Inr (case found of Some d \<Rightarrow> d | None \<Rightarrow> 0)))"

definition execute_locked :: "op_env \<Rightarrow> tape_op_request \<Rightarrow> (orchestrator, (string, jval) dict) op" where
  "execute_locked env rq =
     (if tq_op_type rq \<in> {TO_WRITE, TO_FORMAT}
      then thenM (ask_lib (resolve_drive_for_write rq)) (dispatch env rq (tq_op_type rq))
      else dispatch env rq (tq_op_type rq))"

definition queued_row :: "op_env \<Rightarrow> tape_op_request \<Rightarrow> tape_op_row" where
  "queued_row env rq =
     \<lparr>tp_op_id = oe_op_id env, tp_op_type = tq_op_type rq, tp_barcode = tq_barcode rq, tp_drive_id = tq_drive_id rq,
      tp_slot_id = tq_slot_id rq, tp_tape_path = tq_tape_path rq, tp_size_bytes = tq_size_bytes rq, tp_checksum = tq_checksum rq,
      tp_requested_by = tq_requested_by rq, tp_job_id = tq_job_id rq, tp_priority = tq_priority rq, tp_status = TS_QUEUED,
      tp_result = [], tp_error = None, tp_created_at = oe_now env, tp_started_at = None, tp_completed_at = None\<rparr>"

definition update_op :: "string \<Rightarrow> (tape_op_row \<Rightarrow> tape_op_row) \<Rightarrow> (orchestrator, tape_op_row option) op" where
  "update_op oid f s = (case update_tape_op oid f (tape_ops s) of (r, ops) \<Rightarrow> (Inr r, set_tape_ops ops s))"

text \<open>The closing update, whose result is asserted not to be missing.\<close>

definition close_op :: "string \<Rightarrow> (tape_op_row \<Rightarrow> tape_op_row) \<Rightarrow> (orchestrator, tape_op_row) op" where
  "close_op oid f = bindM (update_op oid f) (\<lambda>r. case r of None \<Rightarrow> raiseM AssertionError | Some row \<Rightarrow> returnM row)"

definition execute :: "op_env \<Rightarrow> tape_op_request \<Rightarrow> (orchestrator, tape_op_row) op" where
  "execute env rq =
     thenM (ask_lib (validate_request rq))
     (thenM (modifyM (\<lambda>s. set_tape_ops (put_tape_op (queued_row env rq) (tape_ops s)) s))
     (thenM (update_op (oe_op_id env) (\<lambda>r. r\<lparr>tp_status := TS_RUNNING, tp_started_at := Some (oe_now env)\<rparr>))
      (catchM
        (bindM (execute_locked env rq) (\<lambda>result.
          close_op (oe_op_id env) (\<lambda>r. r\<lparr>tp_status := TS_COMPLETED, tp_result := result, tp_error := None,
             tp_completed_at := Some (oe_now env)\<rparr>)))
        (\<lambda>e. bindM (close_op (oe_op_id env) (\<lambda>r. r\<lparr>tp_status := TS_FAILED,
                tp_error := Some (safe_error_message (oe_message env) (tq_op_type rq) e), tp_completed_at := Some (oe_now env)\<rparr>)) (\<lambda>row.
             if e = OperationNotConfirmedError \<or> e = ExportRefusedError then raiseM e else returnM row)))))"

definition execute_tape_request :: "op_env \<Rightarrow> bool \<Rightarrow> tape_op_request \<Rightarrow> (orchestrator, tape_op_row) op" where
  "execute_tape_request env raise_on_failed rq =
     bindM (execute env rq) (\<lambda>row.
      if raise_on_failed \<and> tp_status row = TS_FAILED then raiseM TapeOperationFailedError else returnM row)"

section \<open>The log\<close>

lemma tape_ops_updates [simp]:
  "tape_ops (s\<lparr>or_ltfs := b\<rparr>) = tape_ops s" "tape_ops (set_tape_ops ops s) = ops"
  "or_has_catalog (set_tape_ops ops s) = or_has_catalog s" "or_ltfs (set_tape_ops ops s) = or_ltfs s"
  "set_tape_ops ops' (set_tape_ops ops s) = set_tape_ops ops' s"
  by (simp_all add: tape_ops_def set_tape_ops_def)

definition log_is :: "bool \<Rightarrow> tape_op_row list \<Rightarrow> orchestrator \<Rightarrow> bool" where
  "log_is h T s \<longleftrightarrow> or_has_catalog s = h \<and> tape_ops s = T"

lemma keeps_log_on_ltfs [keeps_intros]: "keeps (log_is h T) (on_ltfs m)"
  by (auto simp: keeps_def on_ltfs_def zoomM_def log_is_def split: prod.splits)

lemma keeps_log_on_lib [keeps_intros]: "keeps (log_is h T) (on_lib m)"
  unfolding on_lib_def by (rule keeps_log_on_ltfs)

lemma keeps_log_ask [keeps_intros]: "keeps I (ask_lib f)"
  unfolding ask_lib_def by (intro keeps_intros)

lemma keeps_log_record [keeps_intros]: "keeps (log_is h T) (record_cartridge_state b st)"
  by (auto simp: keeps_def record_cartridge_state_def bindM_def getsM_def on_catalog_def modifyM_def returnM_def log_is_def tape_ops_def
      catalog_set_cartridge_state_def catalog_add_cartridge_def update_cartridge_def split: option.splits)

lemma keeps_log_dispatch: "keeps (log_is h T) (dispatch env rq ty)"
proof (cases ty)
qed (auto simp: load_op_def unload_op_def format_op_def write_op_def read_op_def move_op_def verify_op_def eject_op_def import_op_def
      export_op_def ensure_loaded_def put_back_def read_for_def guard_export_def refuse_if_leased_def Let_def
      intro!: keeps_intros split: option.splits prod.splits extra.splits)

text \<open>The state in which a request starts to run, and the row that closes it.\<close>

definition started :: "op_env \<Rightarrow> tape_op_request \<Rightarrow> orchestrator \<Rightarrow> orchestrator" where
  "started env rq s = set_tape_ops (put_tape_op ((queued_row env rq)\<lparr>tp_status := TS_RUNNING, tp_started_at := Some (oe_now env)\<rparr>)
     (put_tape_op (queued_row env rq) (tape_ops s))) s"

definition closing_row :: "op_env \<Rightarrow> tape_op_request \<Rightarrow> exc + (string, jval) dict \<Rightarrow> tape_op_row" where
  "closing_row env rq res =
     (let r = (queued_row env rq)\<lparr>tp_started_at := Some (oe_now env), tp_completed_at := Some (oe_now env)\<rparr>
      in case res of
           Inr d \<Rightarrow> r\<lparr>tp_status := TS_COMPLETED, tp_result := d\<rparr>
         | Inl e \<Rightarrow> r\<lparr>tp_status := TS_FAILED, tp_error := Some (safe_error_message (oe_message env) (tq_op_type rq) e)\<rparr>)"

lemma started_fields [simp]: "or_ltfs (started env rq s) = or_ltfs s" "or_has_catalog (started env rq s) = or_has_catalog s"
  by (simp_all add: started_def)

lemma started_catalog:
  "cat_instances (or_catalog (started env rq s)) = cat_instances (or_catalog s)"
  "cat_leases (or_catalog (started env rq s)) = cat_leases (or_catalog s)"
  by (simp_all add: started_def set_tape_ops_def)

lemma close_op_run:
  assumes "find_tape_op oid (tape_ops s) = Some r" and "tp_op_id (f r) = oid"
  shows "close_op oid f s = (Inr (f r), set_tape_ops (put_tape_op (f r) (tape_ops s)) s)"
proof -
  have "(f r)\<lparr>tp_op_id := oid\<rparr> = f r" using assms(2) by simp
  then show ?thesis
    using assms(1) by (simp add: close_op_def bindM_def update_op_def update_tape_op_def Let_def returnM_def)
qed

text \<open>A request is refused by validation before anything is logged, or runs and is closed by what it did.\<close>

lemma execute_run:
  assumes "validate_request rq (or_library s) = Inr ()" and "execute_locked env rq (started env rq s) = (res, s2)"
  shows "execute env rq s =
    (case res of
       Inr d \<Rightarrow> Inr (closing_row env rq res)
     | Inl e \<Rightarrow> if e = OperationNotConfirmedError \<or> e = ExportRefusedError then Inl e else Inr (closing_row env rq res),
     set_tape_ops (put_tape_op (closing_row env rq res) (tape_ops s2)) s2)"
proof -
  let ?run = "(queued_row env rq)\<lparr>tp_status := TS_RUNNING, tp_started_at := Some (oe_now env)\<rparr>"
  have q: "find_tape_op (oe_op_id env) (put_tape_op (queued_row env rq) T) = Some (queued_row env rq)" for T
    using find_put_tape_op [of "queued_row env rq"] by (simp add: queued_row_def)
  have u: "update_op (oe_op_id env) (\<lambda>r. r\<lparr>tp_status := TS_RUNNING, tp_started_at := Some (oe_now env)\<rparr>)
      (set_tape_ops (put_tape_op (queued_row env rq) (tape_ops s)) s) = (Inr (Some ?run), started env rq s)"
    by (simp add: update_op_def update_tape_op_def q Let_def started_def) (simp add: queued_row_def)
  have "keeps (log_is (or_has_catalog s) (tape_ops (started env rq s))) (execute_locked env rq)"
    unfolding execute_locked_def by (intro keeps_intros keeps_log_dispatch)
  then have t: "tape_ops s2 = tape_ops (started env rq s)"
    using assms(2) keepsD [of _ "execute_locked env rq" "started env rq s"] by (fastforce simp: log_is_def)
  have f: "find_tape_op (oe_op_id env) (tape_ops s2) = Some ?run"
    using find_put_tape_op [of ?run] by (simp add: t started_def) (simp add: queued_row_def)
  show ?thesis
    using assms u close_op_run [OF f]
    by (cases res) (simp_all add: execute_def thenM_def bindM_def ask_lib_def queryM_def modifyM_def catchM_def returnM_def raiseM_def
        closing_row_def Let_def queued_row_def)
qed

lemma execute_refused:
  "validate_request rq (or_library s) = Inl e \<Longrightarrow> execute env rq s = (Inl e, s)"
  by (simp add: execute_def thenM_def bindM_def ask_lib_def queryM_def)

lemma execute_logged:
  "wp (execute env rq)
     (\<lambda>row s'. find_tape_op (oe_op_id env) (tape_ops s') = Some row \<and> (tp_status row = TS_COMPLETED \<or> tp_status row = TS_FAILED))
     (\<lambda>e s'. if validate_request rq (or_library s) = Inr ()
        then (e = OperationNotConfirmedError \<or> e = ExportRefusedError)
          \<and> map_option tp_status (find_tape_op (oe_op_id env) (tape_ops s')) = Some TS_FAILED
        else validate_request rq (or_library s) = Inl e \<and> s' = s) s"
proof (cases "validate_request rq (or_library s)")
  case (Inl e)
  then show ?thesis by (simp add: wp_def execute_refused)
next
  case (Inr u)
  obtain res s2 where r: "execute_locked env rq (started env rq s) = (res, s2)" by fastforce
  have id: "tp_op_id (closing_row env rq res) = oe_op_id env" by (simp add: closing_row_def queued_row_def Let_def split: sum.splits)
  have "find_tape_op (oe_op_id env) (put_tape_op (closing_row env rq res) (tape_ops s2)) = Some (closing_row env rq res)"
    using find_put_tape_op [of "closing_row env rq res"] by (simp add: id)
  then show ?thesis
    using execute_run [OF _ r] Inr by (auto simp: wp_def closing_row_def Let_def split: sum.splits)
qed

text \<open>C22. Every tape operation that passes validation is on record: when \<open>execute\<close> is over, whatever happened, the log holds
  its row as completed or failed, never as still running, and a returned record is that row. A refused request leaves
  no trace. The only exceptions that reach the caller are refusals.\<close>

theorem execute_always_logged:
  "wp (execute env rq)
     (\<lambda>row s'. find_tape_op (oe_op_id env) (tape_ops s') = Some row \<and> (tp_status row = TS_COMPLETED \<or> tp_status row = TS_FAILED))
     (\<lambda>e s'. if validate_request rq (or_library s) = Inr ()
        then (e = OperationNotConfirmedError \<or> e = ExportRefusedError)
          \<and> map_option tp_status (find_tape_op (oe_op_id env) (tape_ops s')) = Some TS_FAILED
        else validate_request rq (or_library s) = Inl e \<and> s' = s) s"
  by (rule execute_logged)

section \<open>What the guards guarantee\<close>

lemma execute_completed:
  assumes "execute env rq s = (Inr row, s')" and "tp_status row = TS_COMPLETED"
  obtains d s2 where "validate_request rq (or_library s) = Inr ()" and "execute_locked env rq (started env rq s) = (Inr d, s2)"
    and "s' = set_tape_ops (put_tape_op (closing_row env rq (Inr d)) (tape_ops s2)) s2"
proof (cases "validate_request rq (or_library s)")
  case (Inl e)
  with assms(1) show thesis by (simp add: execute_refused)
next
  case (Inr u)
  obtain res s2 where r: "execute_locked env rq (started env rq s) = (res, s2)" by fastforce
  from execute_run [OF _ r] Inr assms r that show thesis
    by (cases res) (auto simp: closing_row_def Let_def split: if_splits)
qed

definition export_confirmed :: "tape_op_request \<Rightarrow> bool" where
  "export_confirmed rq \<longleftrightarrow> (\<exists>v. v \<noteq> J_none \<and> dict_get (tq_extras rq) ''confirmBarcode'' = Some (X_val v) \<and> jval_str (Some v) = tq_barcode rq)"

lemma wp_guard_export:
  assumes "export_confirmed rq \<or> (or_has_catalog s \<and> \<not> carries_data (assess_export (tq_barcode rq) (or_catalog s))) \<Longrightarrow> Q () s"
    and "E ExportRefusedError s"
  shows "wp (guard_export rq) Q E s"
  using assms by (auto simp: guard_export_def export_confirmed_def wp_rules split: option.splits extra.splits jval.splits)

lemma carries_data_iff:
  "carries_data (assess_export b c) \<longleftrightarrow>
     list_ex (\<lambda>i. ir_state i = FI_ARCHIVED \<or> ir_state i = FI_VERIFIED \<or> ir_state i = FI_PENDING) (list_instances_for_barcode b c)"
  by (auto simp: carries_data_def assess_export_def Let_def list_ex_iff ARCHIVED_INSTANCE_STATES_def filter_empty_conv)

lemma find_append_none: "List.find p xs = None \<Longrightarrow> List.find p (xs @ ys) = List.find p ys"
  by (induction xs) (auto split: if_splits)

lemma wp_ask_lib [wp_rules]: "wp (ask_lib f) Q E = (\<lambda>s. case f (or_library s) of Inr x \<Rightarrow> Q x s | Inl e \<Rightarrow> E e s)"
  by (simp add: ask_lib_def wp_query)

lemma wp_on_lib_frame:
  "(\<And>r b. Q r (s\<lparr>or_ltfs := b\<rparr>)) \<Longrightarrow> (\<And>e b. E e (s\<lparr>or_ltfs := b\<rparr>)) \<Longrightarrow> wp (on_lib m) Q E s"
  by (auto simp: wp_def on_lib_def on_ltfs_def zoomM_def split: prod.splits sum.splits)

lemma get_cartridge_recorded:
  "map_option cr_state (get_cartridge b (catalog_set_cartridge_state b st (catalog_add_cartridge b None c))) = Some st"
proof -
  have g: "get_cartridge b (update_cartridge b f c') = map_option f (get_cartridge b c')"
    if "\<And>r. cr_barcode (f r) = cr_barcode r" for f c'
  proof -
    have "List.find (\<lambda>r. cr_barcode r = b) (map (\<lambda>r. if cr_barcode r = b then f r else r) xs) =
        map_option f (List.find (\<lambda>r. cr_barcode r = b) xs)" for xs
      using that by (induction xs) auto
    then show ?thesis by (simp add: get_cartridge_def update_cartridge_def)
  qed
  have "\<exists>r. get_cartridge b (catalog_add_cartridge b None c) = Some r"
  proof (cases "get_cartridge b c")
    case None
    then have "List.find (\<lambda>r. cr_barcode r = b) (cat_cartridges c @ [x]) = Some x" if "cr_barcode x = b" for x
      using that find_append_none [of "\<lambda>r. cr_barcode r = b" "cat_cartridges c"] by (simp add: get_cartridge_def)
    with None show ?thesis by (simp add: catalog_add_cartridge_def get_cartridge_def)
  qed (simp add: catalog_add_cartridge_def)
  then show ?thesis by (auto simp: catalog_set_cartridge_state_def g)
qed

lemma export_outcome:
  assumes "execute env rq s = (Inr row, s')" and "tp_status row = TS_COMPLETED" and "tq_op_type rq = TO_EXPORT"
  shows "(export_confirmed rq \<or> (or_has_catalog s \<and>
      list_all (\<lambda>i. ir_state i \<notin> {FI_ARCHIVED, FI_VERIFIED, FI_PENDING}) (list_instances_for_barcode (tq_barcode rq) (or_catalog s))))
    \<and> (or_has_catalog s \<longrightarrow> map_option cr_state (get_cartridge (tq_barcode rq) (or_catalog s')) = Some ''exported'')"
proof -
  obtain d s2 where run: "execute_locked env rq (started env rq s) = (Inr d, s2)"
    and s': "s' = set_tape_ops (put_tape_op (closing_row env rq (Inr d)) (tape_ops s2)) s2"
    by (rule execute_completed [OF assms(1,2)])
  let ?s = "started env rq s"
  let ?ok = "export_confirmed rq \<or> (or_has_catalog s \<and> \<not> carries_data (assess_export (tq_barcode rq) (or_catalog ?s)))"
  define Q where "Q = (\<lambda>t :: orchestrator. ?ok \<and> (or_has_catalog s \<longrightarrow> map_option cr_state (get_cartridge (tq_barcode rq) (or_catalog t)) = Some ''exported''))"
  have rec: "wp (thenM (record_cartridge_state (tq_barcode rq) ''exported'') (returnM r)) (\<lambda>_. Q) (\<lambda>_ _. True) (?s\<lparr>or_ltfs := b\<rparr>)" if ?ok for r b
    using that get_cartridge_recorded [of "tq_barcode rq" "''exported''" "or_catalog ?s"]
    by (simp add: record_cartridge_state_def on_catalog_def wp_rules Q_def)
  have mv: "wp (on_lib (export_cartridge_to_ie src ie)) (\<lambda>r. wp (thenM (record_cartridge_state (tq_barcode rq) ''exported'') (returnM (f r))) (\<lambda>_. Q) (\<lambda>_ _. True))
      (\<lambda>_ _. True) ?s" if ?ok for src ie f
    by (rule wp_on_lib_frame) (use rec [OF that] in simp_all)
  have "wp (export_op rq) (\<lambda>_. Q) (\<lambda>_ _. True) ?s"
    unfolding export_op_def wp_bind wp_ask_lib
    by (auto simp: wp_rules intro!: wp_guard_export mv [unfolded wp_then wp_return] split: sum.splits option.splits)
  then have "?ok \<and> (or_has_catalog s \<longrightarrow> map_option cr_state (get_cartridge (tq_barcode rq) (or_catalog s2)) = Some ''exported'')"
    using run assms(3) by (simp add: execute_locked_def wp_def Q_def)
  then show ?thesis
    by (auto simp: carries_data_iff list_instances_for_barcode_def started_catalog list_ex_iff list_all_iff s' set_tape_ops_def
        get_cartridge_def)
qed

text \<open>C23. No cartridge with catalogued data leaves unannounced: an export is completed only when the request repeats the
  barcode as its confirmation, or the catalog is there and knows no archived, verified or pending instance under that
  barcode. A completed export is recorded in the catalog as exported.\<close>

theorem export_guarded:
  assumes "execute env rq s = (Inr row, s')" and "tp_status row = TS_COMPLETED" and "tq_op_type rq = TO_EXPORT"
  shows "(export_confirmed rq \<or> (or_has_catalog s \<and>
      list_all (\<lambda>i. ir_state i \<notin> {FI_ARCHIVED, FI_VERIFIED, FI_PENDING}) (list_instances_for_barcode (tq_barcode rq) (or_catalog s))))
    \<and> (or_has_catalog s \<longrightarrow> map_option cr_state (get_cartridge (tq_barcode rq) (or_catalog s')) = Some ''exported'')"
  by (rule export_outcome [OF assms])

definition demo_instance :: instance_row where
  "demo_instance = \<lparr>ir_id = ''i1'', ir_file_record_id = ''f1'', ir_barcode = ''VTA001L8'', ir_tape_path = ''/a'', ir_state = FI_ARCHIVED,
     ir_archived_at = Some 3, ir_checksum_verified = True, ir_created_at = 2\<rparr>"

definition demo_shelf :: mock_library where
  "demo_shelf = snd (add_cartridge 2 ''VTA002L8'' (snd (add_cartridge 1 ''VTA001L8'' (mk_library None ''lib'' 2 1 None None None 1))))"

text \<open>Two cartridges on the shelf, the first with an archived file, the second empty, and one mailslot element.\<close>

definition demo_orch :: orchestrator where
  "demo_orch = \<lparr>or_has_catalog = True, or_catalog = empty_catalog\<lparr>cat_instances := [demo_instance]\<rparr>, or_transient = [],
     or_ltfs = mk_ltfs demo_shelf 1000 None No_injector\<rparr>"

definition demo_env_op :: op_env where
  "demo_env_op = \<lparr>oe_now = 10, oe_op_id = ''op1'', oe_handle_id = ''h1'', oe_instance_id = ''n1'', oe_sha = (\<lambda>_. ''h''), oe_message = (\<lambda>_. ''m'')\<rparr>"

definition demo_request :: "tape_op_type \<Rightarrow> string \<Rightarrow> (string, extra) dict \<Rightarrow> tape_op_request" where
  "demo_request ty b xs = \<lparr>tq_op_type = ty, tq_barcode = b, tq_drive_id = None, tq_slot_id = None, tq_tape_path = None, tq_content = None,
     tq_size_bytes = None, tq_checksum = None, tq_requested_by = ''me'', tq_job_id = None, tq_priority = 5, tq_extras = xs\<rparr>"

definition demo_outcome :: "tape_op_request \<Rightarrow> orchestrator \<Rightarrow> exc + tape_op_status" where
  "demo_outcome rq s = map_sum id tp_status (fst (execute demo_env_op rq s))"

lemma demo_export_runs: "demo_outcome (demo_request TO_EXPORT ''VTA002L8'' [(''ie_slot'', X_val (J_int 3))]) demo_orch = Inr TS_COMPLETED"
  by code_simp

lemma demo_outcome_completed:
  assumes "demo_outcome rq s = Inr TS_COMPLETED"
  obtains row s' where "execute demo_env_op rq s = (Inr row, s')" and "tp_status row = TS_COMPLETED"
  using assms by (cases "execute demo_env_op rq s"; cases "fst (execute demo_env_op rq s)") (auto simp: demo_outcome_def)

theorem export_guarded_witness:
  "\<exists>row s'. execute demo_env_op (demo_request TO_EXPORT ''VTA002L8'' [(''ie_slot'', X_val (J_int 3))]) demo_orch = (Inr row, s')
     \<and> map_option cr_state (get_cartridge ''VTA002L8'' (or_catalog s')) = Some ''exported''"
proof -
  let ?rq = "demo_request TO_EXPORT ''VTA002L8'' [(''ie_slot'', X_val (J_int 3))]"
  obtain row s' where r: "execute demo_env_op ?rq demo_orch = (Inr row, s')" "tp_status row = TS_COMPLETED"
    by (rule demo_outcome_completed [OF demo_export_runs])
  have ty: "tq_op_type ?rq = TO_EXPORT" "tq_barcode ?rq = ''VTA002L8''" "or_has_catalog demo_orch"
    by (simp_all add: demo_request_def demo_orch_def)
  from export_guarded [OF r ty(1)] ty(2,3) r(1) show ?thesis by auto
qed

text \<open>Finding: the guard looks the barcode up in the catalog as it was typed, while the library finds the cartridge by the
  normalised barcode. An export that names a full cartridge in lower case, with no confirmation at all, is completed:
  the cartridge with the archived file is in the mailslot, and the catalog still shows it in the library.\<close>

theorem export_guard_bypassed_by_lower_case:
  "demo_outcome (demo_request TO_EXPORT ''VTA001L8'' [(''ie_slot'', X_val (J_int 3))]) demo_orch = Inl ExportRefusedError
   \<and> demo_outcome (demo_request TO_EXPORT ''vta001l8'' [(''ie_slot'', X_val (J_int 3))]) demo_orch = Inr TS_COMPLETED
   \<and> map sv_barcode (import_export_slots (or_library (snd
        (execute demo_env_op (demo_request TO_EXPORT ''vta001l8'' [(''ie_slot'', X_val (J_int 3))]) demo_orch)))) = [Some ''VTA001L8'']
   \<and> get_cartridge ''VTA001L8'' (or_catalog (snd
        (execute demo_env_op (demo_request TO_EXPORT ''vta001l8'' [(''ie_slot'', X_val (J_int 3))]) demo_orch))) = None"
proof (intro conjI)
  show "demo_outcome (demo_request TO_EXPORT ''VTA001L8'' [(''ie_slot'', X_val (J_int 3))]) demo_orch = Inl ExportRefusedError" by code_simp
  show "demo_outcome (demo_request TO_EXPORT ''vta001l8'' [(''ie_slot'', X_val (J_int 3))]) demo_orch = Inr TS_COMPLETED" by code_simp
  show "map sv_barcode (import_export_slots (or_library (snd
        (execute demo_env_op (demo_request TO_EXPORT ''vta001l8'' [(''ie_slot'', X_val (J_int 3))]) demo_orch)))) = [Some ''VTA001L8'']" by code_simp
  show "get_cartridge ''VTA001L8'' (or_catalog (snd
        (execute demo_env_op (demo_request TO_EXPORT ''vta001l8'' [(''ie_slot'', X_val (J_int 3))]) demo_orch))) = None" by code_simp
qed

definition demo_jammed :: orchestrator where
  "demo_jammed = demo_orch\<lparr>or_ltfs := mk_ltfs (demo_shelf
     \<lparr>lib_fault_config := with_fault SF_MOVE_FAILURE, lib_slots := [(1, \<lparr>slot_id = 1, slot_barcode = Some ''VTA001L8''\<rparr>), (2, \<lparr>slot_id = 2, slot_barcode = None\<rparr>)],
      cartridge_states := [(''VTA001L8'', CS_IN_SLOT)]\<rparr>) 1000 None No_injector\<rparr>"

definition demo_move :: tape_op_request where
  "demo_move = demo_request TO_MOVE ''VTA001L8'' [(''source_slot'', X_val (J_int 1)), (''dest_slot'', X_val (J_int 2))]"

text \<open>Finding: a move the library reports as failed (an injected move failure, which it returns instead of raising) is logged
  as completed, with \<open>success\<close> false only inside the result, and nothing moved.\<close>

theorem failed_move_logged_completed:
  "demo_outcome demo_move demo_jammed = Inr TS_COMPLETED
   \<and> map_sum id (\<lambda>row. dict_get (tp_result row) ''success'') (fst (execute demo_env_op demo_move demo_jammed)) = Inr (Some (J_bool False))
   \<and> lib_slots (or_library (snd (execute demo_env_op demo_move demo_jammed))) = lib_slots (or_library demo_jammed)"
proof (intro conjI)
  show "demo_outcome demo_move demo_jammed = Inr TS_COMPLETED" by code_simp
  show "map_sum id (\<lambda>row. dict_get (tp_result row) ''success'') (fst (execute demo_env_op demo_move demo_jammed)) = Inr (Some (J_bool False))" by code_simp
  show "lib_slots (or_library (snd (execute demo_env_op demo_move demo_jammed))) = lib_slots (or_library demo_jammed)" by code_simp
qed

section \<open>Refusals leave the media alone\<close>

lemma execute_media_unchanged:
  assumes "validate_request rq (or_library s) = Inr () \<Longrightarrow> or_ltfs (snd (execute_locked env rq (started env rq s))) = or_ltfs s"
  shows "or_ltfs (snd (execute env rq s)) = or_ltfs s"
proof (cases "validate_request rq (or_library s)")
  case (Inl e)
  then show ?thesis by (simp add: execute_refused)
next
  case (Inr u)
  obtain res s2 where r: "execute_locked env rq (started env rq s) = (res, s2)" by fastforce
  with assms Inr show ?thesis by (simp add: execute_run [OF _ r])
qed

definition format_authorised :: "op_env \<Rightarrow> tape_op_request \<Rightarrow> bool" where
  "format_authorised env rq \<longleftrightarrow> (case dict_get (tq_extras rq) ''format_confirmation'' of
     Some (X_confirmation c) \<Rightarrow> confirmation_validate (oe_now env) c (tq_barcode rq) = Inr () | _ \<Rightarrow> False)"

text \<open>C24. No format without authority: unless the request carries a confirmation whose token is valid now and names this very
  barcode, a format request changes neither a tape nor the library, whatever else its extras say.\<close>

theorem format_needs_confirmation:
  assumes "tq_op_type rq = TO_FORMAT" and "\<not> format_authorised env rq"
  shows "or_ltfs (snd (execute env rq s)) = or_ltfs s"
proof (rule execute_media_unchanged)
  have "\<exists>e. format_op env rq t = (Inl e, t)" for t
    using assms(2) by (auto simp: format_op_def format_authorised_def thenM_def bindM_def liftM_def raiseM_def split: option.splits extra.splits sum.splits)
  then show "or_ltfs (snd (execute_locked env rq (started env rq s))) = or_ltfs s"
    using assms(1) by (auto simp: execute_locked_def thenM_def bindM_def ask_lib_def queryM_def split: sum.splits) (metis snd_conv started_fields(1))
qed

theorem format_needs_confirmation_witness:
  "or_ltfs (snd (execute demo_env_op (demo_request TO_FORMAT ''VTA001L8'' [(''confirmed_format'', X_val (J_bool True))]) demo_orch)) = or_ltfs demo_orch"
  by (rule format_needs_confirmation) (simp_all add: demo_request_def format_authorised_def)



text \<open>A move request reaches the robot only with a storage slot of the library as its destination: one that names any other
  element, the mailslot included, is refused before anything is logged or moved.\<close>

theorem move_only_to_storage:
  assumes "tq_op_type rq = TO_MOVE" and "dict_get (tq_extras rq) ''dest_slot_id'' = Some (X_val (J_int d))"
    and "d \<notin> set (storage_slot_ids (or_library s))"
  shows "\<exists>e. execute env rq s = (Inl e, s)"
proof -
  have d: "\<exists>e. dest_slot rq (or_library s) = Inl e"
    using assms(2,3) by (simp add: dest_slot_def extras_get_def Let_def bindR_def)
  have "\<exists>e. validate_request rq (or_library s) = Inl e"
    using assms(1) d by (cases "source_slot rq (or_library s)") (auto simp: validate_request_def bindR_def)
  then show ?thesis using execute_refused by blast
qed

theorem move_only_to_storage_witness:
  "\<exists>e. execute demo_env_op (demo_request TO_MOVE ''VTA001L8'' [(''dest_slot_id'', X_val (J_int 3))]) demo_orch = (Inl e, demo_orch)"
proof (rule move_only_to_storage [where d = 3])
  show "3 \<notin> set (storage_slot_ids (or_library demo_orch))" by code_simp
qed (simp_all add: demo_request_def)

end
