(* ===== verification/Tape_Files.thy ===== *)
theory Tape_Files
  imports Sim_Ltfs_Props Tape_Orchestrator
begin

text \<open>
  The files on the tapes as a view of the state. No operation of the LTFS backend, the library or the
  orchestrator but a write and a format changes any file of any tape, and a write that returns has put the
  bytes under its path on the mounted tape.
\<close>

section \<open>Files on tapes\<close>

definition files_of :: "ltfs_backend \<Rightarrow> string \<Rightarrow> (string, file_record) dict" where
  "files_of B k = (case dict_get (lt_tapes B) k of None \<Rightarrow> [] | Some t \<Rightarrow> tc_files t)"

definition on_tape :: "(string \<Rightarrow> (string, file_record) dict) \<Rightarrow> string \<Rightarrow> string \<Rightarrow> bytes \<Rightarrow> bool" where
  "on_tape F k path content \<longleftrightarrow> (\<exists>r. dict_get (F k) path = Some r \<and> fr_content r = content)"

lemma files_of_updates [simp]:
  "files_of (B\<lparr>lt_library := L\<rparr>) = files_of B" "files_of (B\<lparr>lt_active_mounts := ms\<rparr>) = files_of B"
  "files_of (put_injector fi B) = files_of B" "files_of (set_mount h f B) = files_of B"
  by (auto simp: files_of_def fun_eq_iff put_injector_def set_mount_def split: injector_ref.splits option.splits)

lemma files_of_set_tape:
  "files_of (set_tape k f B) =
     (case dict_get (lt_tapes B) k of None \<Rightarrow> files_of B | Some t \<Rightarrow> (files_of B)(k := tc_files (f t)))"
  by (auto simp: files_of_def set_tape_def fun_eq_iff dict_simps split: option.splits)

lemma files_of_set_tape_same: "(\<And>t. tc_files (f t) = tc_files t) \<Longrightarrow> files_of (set_tape k f B) = files_of B"
  by (auto simp: files_of_set_tape files_of_def fun_eq_iff split: option.splits)

lemma kf_injected [kf_intros]: "keepsv files_of (ltfs_maybe_raise_injected_fault f b)"
  by (auto simp: keepsv_def ltfs_maybe_raise_injected_fault_def maybe_raise_injected_fault_def op_defs
      split: option.splits prod.splits bool.splits)

lemma kf_on_library [kf_intros]: "keepsv files_of (on_library m)"
  by (auto simp: keepsv_def on_library_def zoomM_def split: prod.splits)

lemma kf_ensure_tape [kf_intros]: "keepsv files_of (ensure_tape b)"
proof -
  have new: "files_of (B\<lparr>lt_tapes := dict_set k (new_tape k cap) (lt_tapes B)\<rparr>) = files_of B" if "dict_get (lt_tapes B) k = None" for B k cap
    using that by (auto simp: files_of_def fun_eq_iff dict_simps new_tape_def)
  show ?thesis
    unfolding ensure_tape_def
    by (rule kf_bind [OF kf_basic(5)], rule kf_then [OF kf_injected]) (auto simp: keepsv_def op_defs new split: option.splits)
qed

lemma kf_mount [kf_intros]: "keepsv files_of (ltfs_mount hid b mode)"
  unfolding ltfs_mount_def mount_tape_def Let_def by (intro kf_intros) (simp_all add: files_of_set_tape_same)

lemma kf_unmount [kf_intros]: "keepsv files_of (ltfs_unmount h)"
  unfolding ltfs_unmount_def unmount_tape_def by (intro kf_intros) (simp_all add: files_of_set_tape_same)

lemma kf_require_active [kf_intros]: "keepsv files_of (require_active_mount h)"
  unfolding require_active_mount_def by (intro kf_intros)

lemma kf_flip [kf_intros]: "keepsv files_of (should_flip_checksum b)"
  by (auto simp: keepsv_def should_flip_checksum_def split: option.splits prod.splits)

lemma kf_stat [kf_intros]: "keepsv files_of (ltfs_stat h path)"
  unfolding ltfs_stat_def by (intro kf_intros)

section \<open>The write\<close>

lemma wp_ensure_tape_files:
  assumes "mk_barcode b = Inr k"
  shows "wp (ensure_tape b) (\<lambda>x B'. fst x = k \<and> tc_files (snd x) = files_of B k \<and> files_of B' = files_of B) (\<lambda>_ _. True) B"
proof -
  have "wp (ensure_tape b) (\<lambda>x B'. fst x = k \<and> tc_files (snd x) = files_of B' k) (\<lambda>_ _. True) B"
    using assms by (simp add: ensure_tape_def wp_rules)
      (auto simp: wp_def ltfs_maybe_raise_injected_fault_def maybe_raise_injected_fault_def op_defs files_of_def dict_simps
          split: option.splits prod.splits bool.splits)
  moreover have "wp (ensure_tape b) (\<lambda>_ B'. files_of B' = files_of B) (\<lambda>_ _. True) B"
    by (rule wp_kf [OF kf_ensure_tape])
  ultimately show ?thesis by (rule wp_both) auto
qed

lemma wp_read_file:
  assumes "mk_barcode (mh_barcode m) = Inr k"
  shows "wp (ltfs_read_file sha m p) (\<lambda>x B'. files_of B' = files_of B \<and> (\<exists>r. dict_get (files_of B k) p = Some r \<and> snd x = fr_content r))
     (\<lambda>_ _. True) B"
proof -
  have tail: "wp (case dict_get (files_of B k) p of
        None \<Rightarrow> raiseM FileNotFoundError
      | Some r \<Rightarrow> bindM (should_flip_checksum (mh_barcode m)) (\<lambda>flip.
           returnM (if flip then flip_checksum (sha (fr_content r)) else sha (fr_content r), fr_content r)))
     (\<lambda>x B'. files_of B' = files_of B \<and> (\<exists>r. dict_get (files_of B k) p = Some r \<and> snd x = fr_content r)) (\<lambda>_ _. True) B2"
    if "files_of B2 = files_of B" for B2
    using that by (auto simp: wp_rules split: option.splits intro!: wp_kf [OF kf_flip])
  show ?thesis
    unfolding ltfs_read_file_def wp_then wp_bind
    by (rule wp_kf [OF kf_injected], rule wp_kf [OF kf_require_active], rule wp_mono [OF wp_ensure_tape_files [OF assms]])
      (auto intro!: tail)
qed

definition writes :: "string \<Rightarrow> string \<Rightarrow> bytes \<Rightarrow> ltfs_backend \<Rightarrow> ltfs_backend \<Rightarrow> bool" where
  "writes k path content B B' \<longleftrightarrow>
     (\<exists>r. fr_content r = content \<and> files_of B' = (files_of B)(k := dict_set path r (files_of B k)))"

lemma wp_write_locked:
  "wp (write_mounted_locked sha now hid key path content n ck) (\<lambda>_. writes key path content B) (\<lambda>_ _. True) B"
proof -
  have final: "writes key path content B (set_tape key (\<lambda>t. (store_file path r used t)\<lparr>tc_mount_state := ms\<rparr>) (set_mount hid f B))"
    if "dict_get (lt_tapes B) key = Some t" and "fr_content r = content" for f r used ms t
  proof -
    have "files_of (set_tape key (\<lambda>t. (store_file path r used t)\<lparr>tc_mount_state := ms\<rparr>) (set_mount hid f B))
        = (files_of B)(key := dict_set path r (files_of B key))"
      using that(1) by (simp add: files_of_set_tape store_file_def files_of_def [of B key] set_mount_fields)
    with that(2) show ?thesis unfolding writes_def by blast
  qed
  show ?thesis
    unfolding write_mounted_locked_def Let_def
    by (auto simp: wp_rules final split: option.splits)
qed

lemma wp_write_file:
  assumes "mk_barcode (mh_barcode m) = Inr k"
  shows "wp (ltfs_write_file sha now nid m content path) (\<lambda>_. writes k path content B) (\<lambda>_ _. True) B"
proof -
  have rest: "wp (bindM (write_mounted_locked sha now hid k path content n ck) (\<lambda>checksum.
        thenM (on_library (set_drive_mount_state (mh_drive_id m) MS_MOUNTED_RW))
          (bindM (liftM (mk_barcode (mh_barcode m))) (\<lambda>b. returnM (f b checksum)))))
      (\<lambda>_. writes k path content B) (\<lambda>_ _. True) B2" if "files_of B2 = files_of B" for hid n ck f B2
    unfolding wp_bind wp_then
    by (rule wp_mono [OF wp_write_locked])
      (auto simp: wp_rules writes_def assms that intro!: wp_kf [OF kf_on_library])
  show ?thesis
    unfolding ltfs_write_file_def write_mounted_bytes_def wp_then wp_bind wp_guard
    by (rule wp_kf [OF kf_injected], rule wp_kf [OF kf_injected], rule wp_kf [OF kf_require_active])
      (auto intro!: wp_mono [OF wp_ensure_tape_files [OF assms]] rest)
qed

lemma on_tape_write:
  assumes "writes k path content B B'"
  shows "on_tape (files_of B') k path content"
    and "(j, p) \<noteq> (k, path) \<Longrightarrow> on_tape (files_of B) j p c \<Longrightarrow> on_tape (files_of B') j p c"
  using assms by (auto simp: writes_def on_tape_def dict_simps)

lemma mk_barcode_idem: "mk_barcode b = Inr k \<Longrightarrow> mk_barcode k = Inr k"
  by (auto simp: mk_barcode_def Let_def str_upper_pattern split: if_splits)

lemma wp_mount_barcode: "wp (ltfs_mount hid b mode) (\<lambda>m _. mk_barcode b = Inr (mh_barcode m)) (\<lambda>_ _. True) B"
proof -
  have tape: "wp (mount_tape hid k b mode did key t) (\<lambda>m _. mh_barcode m = k) (\<lambda>_ _. True) B'" for k did key t B'
    unfolding mount_tape_def Let_def by (auto simp: wp_rules intro: wp_mono [OF wp_true])
  show ?thesis
    unfolding ltfs_mount_def wp_then wp_bind wp_lift wp_gets wp_guard wp_query
    by (auto split: sum.splits option.splits simp: wp_raise wp_bind
        intro!: wp_mono [OF wp_true] wp_mono [OF tape])
qed

section \<open>The orchestrator\<close>

abbreviation orch_files :: "orchestrator \<Rightarrow> string \<Rightarrow> (string, file_record) dict" where
  "orch_files r \<equiv> files_of (or_ltfs r)"

lemma kf_on_ltfs [kf_intros]: "keepsv files_of m \<Longrightarrow> keepsv orch_files (on_ltfs m)"
  by (auto simp: keepsv_def on_ltfs_def zoomM_def split: prod.splits) (metis snd_conv)

lemma kf_on_lib [kf_intros]: "keepsv orch_files (on_lib m)"
  unfolding on_lib_def by (intro kf_intros)

lemma kf_ask_lib [kf_intros]: "keepsv g (ask_lib f)"
  unfolding ask_lib_def by (intro kf_intros)

lemma kf_on_catalog [kf_intros]: "keepsv orch_files (on_catalog f)"
  unfolding on_catalog_def by (intro kf_intros) simp

lemma kf_update_op [kf_intros]: "keepsv orch_files (update_op oid f)"
  by (simp add: keepsv_def update_op_def split: prod.splits)

lemma kf_execute [kf_intros]:
  assumes "tq_op_type rq \<in> {TO_LOAD, TO_UNLOAD}"
  shows "keepsv orch_files (execute_tape_request e raise_on_failed rq)"
proof -
  have "keepsv orch_files (dispatch e rq (tq_op_type rq))"
    using assms by (auto simp: load_op_def unload_op_def refuse_if_leased_def Let_def intro!: kf_intros)
  then show ?thesis
    unfolding execute_tape_request_def execute_def execute_locked_def close_op_def
    by (intro kf_intros) simp_all
qed

end
