(* ===== verification/Job_Services.thy ===== *)
theory Job_Services
  imports Tape_Orchestrator
begin

text \<open>
  The services that drive the orchestrator for an operator: formatting (\<open>jobs/format.py\<close>), the mailslot
  (\<open>nas/mailslot.py\<close>), verification (\<open>jobs/verify.py\<close>) and the inventory sync (\<open>jobs/inventory.py\<close>).
\<close>

section \<open>Formatting\<close>

record format_service =
  fs_real_backend :: bool
  fs_scratch_barcodes :: "string list"

record dry_run_plan =
  drp_operation :: string
  drp_target :: string
  drp_affected_barcodes :: "string list"
  drp_warnings :: "string list"
  drp_is_destructive :: bool
  drp_estimated_duration_seconds :: int

definition normalize_barcode :: "string \<Rightarrow> string" where
  "normalize_barcode b = str_upper (str_strip b)"

definition require_scratch_media :: "format_service \<Rightarrow> string \<Rightarrow> (orchestrator, unit) op" where
  "require_scratch_media svc b =
     guardM (\<not> (fs_real_backend svc \<and> \<not> is_scratch_barcode b (fs_scratch_barcodes svc))) FormatRequiresConfirmationError"

definition known_barcodes :: "library_inventory \<Rightarrow> string list" where
  "known_barcodes snapshot = List.map_filter sv_barcode (inv_slots snapshot) @ List.map_filter dv_barcode (inv_drives snapshot)"

definition TOKEN_TTL_SECONDS :: int where
  "TOKEN_TTL_SECONDS = 300"

definition dry_run :: "string \<Rightarrow> int \<Rightarrow> format_service \<Rightarrow> string \<Rightarrow> (orchestrator, dry_run_plan \<times> safety_token) op" where
  "dry_run rnd now svc raw =
     (let barcode = normalize_barcode raw
      in thenM (require_scratch_media svc barcode)
         (bindM (getsM (\<lambda>s. known_barcodes (inventory (or_library s)))) (\<lambda>known.
          thenM (guardM (barcode \<in> set known) BarcodeMismatchError)
          (let token = generate_token rnd now ''format'' barcode TOKEN_TTL_SECONDS
           in thenM (on_catalog (save_safety_token token))
              (returnM (\<lparr>drp_operation = ''format'', drp_target = barcode, drp_affected_barcodes = [barcode],
                 drp_warnings = [''Destructive operation'', ''Inventory barcode must match confirmation''],
                 drp_is_destructive = True, drp_estimated_duration_seconds = 120\<rparr>, token))))))"

definition run_format_job :: "op_env \<Rightarrow> string \<Rightarrow> format_confirmation \<Rightarrow> (orchestrator, bool \<times> (string, jval) dict) op" where
  "run_format_job env barcode c =
     thenM (liftM (confirmation_validate (oe_now env) c barcode))
     (bindM (execute_tape_request env True
         \<lparr>tq_op_type = TO_FORMAT, tq_barcode = barcode, tq_drive_id = None, tq_slot_id = None, tq_tape_path = None, tq_content = None,
          tq_size_bytes = None, tq_checksum = None, tq_requested_by = ''format-service'', tq_job_id = None, tq_priority = 5,
          tq_extras = [(''confirmed_format'', X_val (J_bool True)), (''format_confirmation'', X_confirmation c)]\<rparr>) (\<lambda>row.
      returnM (case dict_get (tp_result row) ''success'' of Some (J_bool False) \<Rightarrow> False | _ \<Rightarrow> True, tp_result row)))"

definition confirm :: "op_env \<Rightarrow> format_service \<Rightarrow> string \<Rightarrow> string \<Rightarrow> (orchestrator, bool \<times> (string, jval) dict) op" where
  "confirm env svc raw token_value =
     (let barcode = normalize_barcode raw
      in thenM (require_scratch_media svc barcode)
         (bindM (getsM (\<lambda>s. get_safety_token token_value (or_catalog s))) (\<lambda>found.
          case found of
            None \<Rightarrow> raiseM FormatRequiresConfirmationError
          | Some token \<Rightarrow>
              thenM (guardM (tok_operation token = ''format'' \<and> tok_target_barcode token = barcode) FormatRequiresConfirmationError)
              (bindM (\<lambda>s. case delete_safety_token token_value (or_catalog s) of (ok, c) \<Rightarrow> (Inr ok, s\<lparr>or_catalog := c\<rparr>)) (\<lambda>deleted.
               thenM (guardM deleted FormatRequiresConfirmationError)
               (bindM (run_format_job env barcode \<lparr>fc_expected_barcode = barcode, fc_safety_token = token, fc_operator_note = ''''\<rparr>) (\<lambda>result.
                thenM (on_catalog (\<lambda>c. update_cartridge barcode (\<lambda>r. r\<lparr>cr_formatted := True, cr_used_bytes := 0\<rparr>)
                   (catalog_add_cartridge barcode None c)))
                 (returnM result))))))))"

section \<open>The mailslot\<close>

record mailslot_move =
  mm_op_id :: string
  mm_barcode :: string
  mm_source_slot :: int
  mm_destination_slot :: int
  mm_slot_was_chosen :: bool
  mm_assessment :: "export_assessment option"

definition require_ie_slot :: "int \<Rightarrow> bool \<Rightarrow> mock_library \<Rightarrow> exc + slot_view" where
  "require_ie_slot k must_be_occupied L =
     (case List.find (\<lambda>v. sv_slot_id v = k) (import_export_slots L) of
        None \<Rightarrow> Inl ImportExportSlotError
      | Some v \<Rightarrow> if must_be_occupied \<noteq> sv_occupied v then Inl ImportExportSlotError else Inr v)"

definition first_empty_ie_slot :: "mock_library \<Rightarrow> exc + int" where
  "first_empty_ie_slot L =
     (case List.find (\<lambda>v. \<not> sv_occupied v) (import_export_slots L) of
        None \<Rightarrow> Inl ImportExportSlotError
      | Some v \<Rightarrow> Inr (sv_slot_id v))"

definition first_empty_storage_slot :: "mock_library \<Rightarrow> exc + int" where
  "first_empty_storage_slot L =
     (case List.find (\<lambda>v. sv_barcode v = None) (inv_slots (inventory L)) of
        None \<Rightarrow> Inl ImportExportSlotError
      | Some v \<Rightarrow> Inr (sv_slot_id v))"

definition raise_if_failed :: "tape_op_row \<Rightarrow> (orchestrator, unit) op" where
  "raise_if_failed row = guardM (tp_status row \<noteq> TS_FAILED) TapeOperationFailedError"

definition mailslot_request :: "tape_op_type \<Rightarrow> string \<Rightarrow> int \<Rightarrow> (string, extra) dict \<Rightarrow> tape_op_request" where
  "mailslot_request ty b sid xs =
     \<lparr>tq_op_type = ty, tq_barcode = b, tq_drive_id = None, tq_slot_id = Some sid, tq_tape_path = None, tq_content = None,
      tq_size_bytes = None, tq_checksum = None, tq_requested_by = ''mailslot'', tq_job_id = None, tq_priority = 5, tq_extras = xs\<rparr>"

definition mailslot_import :: "op_env \<Rightarrow> int \<Rightarrow> int option \<Rightarrow> (orchestrator, mailslot_move) op" where
  "mailslot_import env ie to_slot =
     bindM (ask_lib (require_ie_slot ie True)) (\<lambda>source.
     let barcode = (case sv_barcode source of Some b \<Rightarrow> b | None \<Rightarrow> ''None'')
     in bindM (case to_slot of Some k \<Rightarrow> returnM k | None \<Rightarrow> ask_lib first_empty_storage_slot) (\<lambda>target.
        bindM (execute env (mailslot_request TO_IMPORT barcode target [(''ie_slot'', X_val (J_int ie))])) (\<lambda>row.
        thenM (raise_if_failed row)
         (returnM \<lparr>mm_op_id = tp_op_id row, mm_barcode = barcode, mm_source_slot = ie, mm_destination_slot = target,
            mm_slot_was_chosen = (to_slot = None), mm_assessment = None\<rparr>))))"

definition mailslot_export :: "op_env \<Rightarrow> string \<Rightarrow> int option \<Rightarrow> string option \<Rightarrow> (orchestrator, mailslot_move) op" where
  "mailslot_export env barcode ie_slot confirm_barcode =
     bindM (getsM (\<lambda>s. assess_export barcode (or_catalog s))) (\<lambda>assessment.
     bindM (getsM (\<lambda>s. List.find (\<lambda>v. sv_barcode v = Some barcode) (inv_slots (inventory (or_library s))))) (\<lambda>found.
      case found of
        None \<Rightarrow> raiseM CartridgeNotFoundError
      | Some source \<Rightarrow>
          bindM (case ie_slot of
                   None \<Rightarrow> ask_lib first_empty_ie_slot
                 | Some k \<Rightarrow> bindM (ask_lib (require_ie_slot k False)) (\<lambda>v. returnM (sv_slot_id v))) (\<lambda>target.
          bindM (execute env (mailslot_request TO_EXPORT barcode (sv_slot_id source)
                  [(''ie_slot'', X_val (J_int target)), (''confirmBarcode'', X_val (jval_of_str confirm_barcode))])) (\<lambda>row.
          thenM (raise_if_failed row)
           (returnM \<lparr>mm_op_id = tp_op_id row, mm_barcode = barcode, mm_source_slot = sv_slot_id source, mm_destination_slot = target,
              mm_slot_was_chosen = (ie_slot = None), mm_assessment = Some assessment\<rparr>)))))"

section \<open>Verification\<close>

definition UNCOMMITTED_STATES :: "file_instance_state list" where
  "UNCOMMITTED_STATES = [FI_STAGING, FI_VERIFYING]"

definition verify_request :: "tape_op_type \<Rightarrow> string \<Rightarrow> int \<Rightarrow> tape_op_request" where
  "verify_request ty b sid =
     \<lparr>tq_op_type = ty, tq_barcode = b, tq_drive_id = Some 0, tq_slot_id = Some sid, tq_tape_path = None, tq_content = None,
      tq_size_bytes = None, tq_checksum = None, tq_requested_by = ''verify-job'', tq_job_id = None, tq_priority = 5, tq_extras = []\<rparr>"

definition load_if_needed :: "op_env \<Rightarrow> string \<Rightarrow> (orchestrator, int \<times> int option) op" where
  "load_if_needed env b =
     bindM (ask_lib (find_drive_by_barcode b)) (\<lambda>loaded.
      case loaded of
        Some d \<Rightarrow> returnM (d, None)
      | None \<Rightarrow>
          bindM (ask_lib (find_slot_by_barcode b)) (\<lambda>found.
           case found of
             None \<Rightarrow> raiseM OSFileNotFoundError
           | Some sid \<Rightarrow> thenM (execute_tape_request env True (verify_request TO_LOAD b sid)) (returnM (0, Some sid))))"

text \<open>The loop over the instances: how many were checked.\<close>

fun verify_instances :: "mount_handle \<Rightarrow> instance_row list \<Rightarrow> nat \<Rightarrow> (orchestrator, nat) op" where
  "verify_instances h [] checked = returnM checked"
| "verify_instances h (i # is) checked =
     (if ir_state i \<in> set UNCOMMITTED_STATES then verify_instances h is checked
      else bindM (getsM (\<lambda>s. get_file_record_by_id (ir_file_record_id i) (or_catalog s))) (\<lambda>found.
        case found of
          None \<Rightarrow> verify_instances h is checked
        | Some rec \<Rightarrow>
            bindM (on_ltfs (ltfs_stat h (ir_tape_path i))) (\<lambda>st.
            thenM (guardM (st_checksum_sha256 st = rr_checksum_sha256 rec) (ValueError ''Checksum mismatch''))
             (verify_instances h is (Suc checked)))))"

definition run_verify_job :: "op_env \<Rightarrow> op_env \<Rightarrow> string \<Rightarrow> (orchestrator, nat) op" where
  "run_verify_job env env' b =
     bindM (load_if_needed env b) (\<lambda>(_, loaded).
      finallyM
        (bindM (on_ltfs (ltfs_mount (oe_handle_id env) b READ_ONLY)) (\<lambda>h.
          finallyM
            (bindM (getsM (\<lambda>s. list_instances_for_barcode b (or_catalog s))) (\<lambda>is. verify_instances h is 0))
            (thenM (on_ltfs (ltfs_unmount h)) (returnM ()))))
        (case loaded of None \<Rightarrow> returnM ()
         | Some sid \<Rightarrow> thenM (execute_tape_request env' False (verify_request TO_UNLOAD b sid)) (returnM ())))"

section \<open>Inventory\<close>

definition sync_cartridge :: "string \<Rightarrow> string \<Rightarrow> catalog \<Rightarrow> catalog" where
  "sync_cartridge b st c = update_cartridge b (\<lambda>r. r\<lparr>cr_state := st\<rparr>) (catalog_add_cartridge b None c)"

definition run_inventory_job :: "mock_library \<Rightarrow> catalog \<Rightarrow> (nat \<times> string list) \<times> catalog" where
  "run_inventory_job L c =
     (let in_slots = List.map_filter sv_barcode (inv_slots (inventory L));
          in_drives = List.map_filter dv_barcode (inv_drives (inventory L));
          c1 = fold (\<lambda>b. sync_cartridge b ''in_slot'') in_slots c;
          c2 = fold (\<lambda>b. sync_cartridge b ''in_drive'') in_drives c1;
          c3 = fold (\<lambda>(b, st). sync_cartridge b (cartridge_state_value st)) (cartridge_states L) c2
      in ((length in_slots + length in_drives, sort (remdups (in_slots @ in_drives @ dict_keys (cartridge_states L)))), c3))"

section \<open>What the services guarantee\<close>

lemma str_strip_upper: "str_strip (str_upper s) = str_upper (str_strip s)"
proof -
  have "is_space_char (to_upper_char c) = is_space_char c" for c
    by (auto simp: is_space_char_def to_upper_char_def Let_def)
  then have "is_space_char \<circ> to_upper_char = is_space_char" by (simp add: fun_eq_iff)
  then show ?thesis by (simp add: str_strip_def str_upper_def dropWhile_map rev_map)
qed

lemma str_strip_idem: "str_strip (str_strip s) = str_strip s"
proof -
  define t where "t = dropWhile is_space_char s"
  define r where "r = rev (dropWhile is_space_char (rev t))"
  have "t = r @ rev (takeWhile is_space_char (rev t))"
    by (metis r_def rev_append rev_rev_ident takeWhile_dropWhile_id)
  then have "r = [] \<or> \<not> is_space_char (hd r)"
    by (metis t_def append_is_Nil_conv hd_append2 hd_dropWhile)
  then have "dropWhile is_space_char r = r" by (cases r) auto
  then have "str_strip r = r" by (simp add: str_strip_def r_def)
  moreover have "str_strip s = r" by (simp add: str_strip_def r_def t_def)
  ultimately show ?thesis by simp
qed

text \<open>On real hardware nothing outside the scratch allowlist is ever formatted: for any other barcode both the dry run and the
  confirmation are refused at once, and neither the catalog nor the media change.\<close>

theorem real_media_gate:
  assumes "fs_real_backend svc" and "normalize_barcode raw \<notin> set (fs_scratch_barcodes svc)"
  shows "dry_run rnd now svc raw s = (Inl FormatRequiresConfirmationError, s)
    \<and> confirm env svc raw token_value s = (Inl FormatRequiresConfirmationError, s)"
proof -
  have "str_upper (str_strip (str_upper (str_strip raw))) = str_upper (str_strip raw)" by (simp add: str_strip_upper str_strip_idem)
  with assms have "\<not> is_scratch_barcode (normalize_barcode raw) (fs_scratch_barcodes svc)"
    by (simp add: is_scratch_barcode_def normalize_barcode_def)
  with assms(1) show ?thesis
    by (simp add: dry_run_def confirm_def require_scratch_media_def Let_def thenM_def bindM_def guardM_def raiseM_def)
qed

definition token_gone :: "string \<Rightarrow> orchestrator \<Rightarrow> bool" where
  "token_gone v s \<longleftrightarrow> get_safety_token v (or_catalog s) = None"

lemma keeps_token_on_ltfs [keeps_intros]: "keeps (token_gone v) (on_ltfs m)"
  by (auto simp: keeps_def on_ltfs_def zoomM_def token_gone_def split: prod.splits)

lemma keeps_token_on_lib [keeps_intros]: "keeps (token_gone v) (on_lib m)"
  unfolding on_lib_def by (rule keeps_token_on_ltfs)

lemma token_gone_cartridges:
  "get_safety_token v (update_cartridge b f c) = get_safety_token v c"
  "get_safety_token v (catalog_add_cartridge b g c) = get_safety_token v c"
  by (simp_all add: get_safety_token_def update_cartridge_def catalog_add_cartridge_def split: option.splits)

lemma keeps_token_record [keeps_intros]: "keeps (token_gone v) (record_cartridge_state b st)"
  unfolding record_cartridge_state_def on_catalog_def
  by (intro keeps_intros) (simp add: token_gone_def catalog_set_cartridge_state_def token_gone_cartridges)

lemma keeps_token_dispatch [keeps_intros]: "keeps (token_gone v) (dispatch env rq ty)"
proof (cases ty)
qed (auto simp: load_op_def unload_op_def format_op_def write_op_def read_op_def move_op_def verify_op_def eject_op_def import_op_def
      export_op_def ensure_loaded_def put_back_def read_for_def guard_export_def refuse_if_leased_def Let_def
      intro!: keeps_intros split: option.splits prod.splits extra.splits)

lemma token_gone_log [simp]: "token_gone v (set_tape_ops ops s) = token_gone v s"
  by (simp add: token_gone_def set_tape_ops_def get_safety_token_def)

lemma keeps_token_update_op [keeps_intros]: "keeps (token_gone v) (update_op oid f)"
  by (simp add: keeps_def update_op_def split: prod.splits)

lemma keeps_token_execute [keeps_intros]: "keeps (token_gone v) (execute_tape_request env b rq)"
  unfolding execute_tape_request_def execute_def execute_locked_def close_op_def
  by (intro keeps_intros; simp)

lemma keeps_token_format [keeps_intros]: "keeps (token_gone v) (run_format_job env b c)"
  unfolding run_format_job_def by (intro keeps_intros)

lemma token_gone_deleted: "get_safety_token v (snd (delete_safety_token v c)) = None"
  by (auto simp: get_safety_token_def delete_safety_token_def find_None_iff)

text \<open>C26. A safety token works once: a confirmation that passes its checks spends the token, whether the format then succeeds or
  fails, and no later confirmation with it, for any barcode, gets anywhere.\<close>

theorem format_token_single_use:
  assumes "get_safety_token v (or_catalog s) = Some token" and "tok_operation token = ''format''"
    and "tok_target_barcode token = normalize_barcode raw" and "\<not> fs_real_backend svc" and "confirm env svc raw v s = (r, s')"
  shows "confirm env' svc raw' v s' = (Inl FormatRequiresConfirmationError, s')"
proof -
  let ?b = "normalize_barcode raw"
  let ?s1 = "s\<lparr>or_catalog := snd (delete_safety_token v (or_catalog s))\<rparr>"
  define rest where "rest = (\<lambda>deleted. thenM (guardM deleted FormatRequiresConfirmationError)
     (bindM (run_format_job env ?b \<lparr>fc_expected_barcode = ?b, fc_safety_token = token, fc_operator_note = ''''\<rparr>) (\<lambda>result.
       thenM (on_catalog (\<lambda>c. update_cartridge ?b (\<lambda>r. r\<lparr>cr_formatted := True, cr_used_bytes := 0\<rparr>) (catalog_add_cartridge ?b None c)))
        (returnM result))))"
  have "confirm env svc raw v s = rest (fst (delete_safety_token v (or_catalog s))) ?s1"
    using assms(1-4)
    by (simp add: confirm_def require_scratch_media_def rest_def Let_def thenM_def bindM_def guardM_def getsM_def returnM_def split: prod.splits)
  moreover have "keeps (token_gone v) (rest d)" for d
    unfolding rest_def on_catalog_def by (intro keeps_intros) (simp add: token_gone_def token_gone_cartridges)
  moreover have "token_gone v ?s1" by (simp add: token_gone_def token_gone_deleted)
  ultimately have "token_gone v s'" using assms(5) keepsD by metis
  then show ?thesis
    using assms(4) by (simp add: confirm_def require_scratch_media_def Let_def thenM_def bindM_def guardM_def getsM_def returnM_def raiseM_def token_gone_def)
qed

theorem real_media_gate_witness:
  "confirm demo_env_op \<lparr>fs_real_backend = True, fs_scratch_barcodes = [''SCR001L8'']\<rparr> '' vta001l8'' ''t'' demo_orch = (Inl FormatRequiresConfirmationError, demo_orch)"
proof -
  have "normalize_barcode '' vta001l8'' \<notin> set (fs_scratch_barcodes \<lparr>fs_real_backend = True, fs_scratch_barcodes = [''SCR001L8'']\<rparr>)" by code_simp
  from real_media_gate [OF _ this] show ?thesis by simp
qed

definition demo_token :: safety_token where
  "demo_token = \<lparr>tok_token = ''t1'', tok_operation = ''format'', tok_target_barcode = ''VTA002L8'', tok_expires_at = 300\<rparr>"

definition demo_sim_service :: format_service where
  "demo_sim_service = \<lparr>fs_real_backend = False, fs_scratch_barcodes = []\<rparr>"

definition demo_ready :: orchestrator where
  "demo_ready = demo_orch\<lparr>or_catalog := save_safety_token demo_token (or_catalog demo_orch)\<rparr>"

theorem format_token_single_use_witness:
  "\<exists>r s'. confirm demo_env_op demo_sim_service ''VTA002L8'' ''t1'' demo_ready = (r, s')
     \<and> confirm demo_env_op demo_sim_service ''VTA002L8'' ''t1'' s' = (Inl FormatRequiresConfirmationError, s')"
proof -
  obtain r s' where c: "confirm demo_env_op demo_sim_service ''VTA002L8'' ''t1'' demo_ready = (r, s')" by fastforce
  have t: "get_safety_token ''t1'' (or_catalog demo_ready) = Some demo_token" by code_simp
  have b: "tok_target_barcode demo_token = normalize_barcode ''VTA002L8''" by code_simp
  have "confirm demo_env_op demo_sim_service ''VTA002L8'' ''t1'' s' = (Inl FormatRequiresConfirmationError, s')"
    by (rule format_token_single_use [OF t _ b _ c]) (simp_all add: demo_token_def demo_sim_service_def)
  with c show ?thesis by blast
qed

text \<open>Through the mailslot service a cartridge with catalogued data leaves only when the operator repeats its barcode: an
  export that returns was confirmed, or found no archived, verified or pending instance on the cartridge.\<close>

theorem mailslot_export_guarded:
  assumes "mailslot_export env barcode ie confirm_barcode s = (Inr res, s')" and "or_has_catalog s"
  shows "confirm_barcode = Some barcode
    \<or> list_all (\<lambda>i. ir_state i \<notin> {FI_ARCHIVED, FI_VERIFIED, FI_PENDING}) (list_instances_for_barcode barcode (or_catalog s))"
proof -
  obtain sid target row s1 where row: "execute env (mailslot_request TO_EXPORT barcode sid
      [(''ie_slot'', X_val (J_int target)), (''confirmBarcode'', X_val (jval_of_str confirm_barcode))]) s = (Inr row, s1)"
    and ok: "tp_status row \<noteq> TS_FAILED"
    using assms(1)
    by (auto simp: mailslot_export_def bindM_def thenM_def getsM_def raiseM_def returnM_def ask_lib_def queryM_def raise_if_failed_def guardM_def
        split: option.splits sum.splits prod.splits if_splits)
  let ?rq = "mailslot_request TO_EXPORT barcode sid
      [(''ie_slot'', X_val (J_int target)), (''confirmBarcode'', X_val (jval_of_str confirm_barcode))]"
  have "tp_status row = TS_COMPLETED"
    using wp_returns [OF execute_logged row] ok by simp
  then have "export_confirmed ?rq \<or> list_all (\<lambda>i. ir_state i \<notin> {FI_ARCHIVED, FI_VERIFIED, FI_PENDING}) (list_instances_for_barcode barcode (or_catalog s))"
    using export_outcome [OF row] by (auto simp: mailslot_request_def)
  moreover have "export_confirmed ?rq \<longleftrightarrow> confirm_barcode = Some barcode"
    by (cases confirm_barcode) (auto simp: export_confirmed_def mailslot_request_def jval_of_str_def)
  ultimately show ?thesis by simp
qed

theorem mailslot_export_guarded_witness:
  "\<exists>res s'. mailslot_export demo_env_op ''VTA002L8'' None None demo_orch = (Inr res, s')
     \<and> list_all (\<lambda>i. ir_state i \<notin> {FI_ARCHIVED, FI_VERIFIED, FI_PENDING}) (list_instances_for_barcode ''VTA002L8'' (or_catalog demo_orch))"
proof -
  have "map_sum id mm_destination_slot (fst (mailslot_export demo_env_op ''VTA002L8'' None None demo_orch)) = Inr 3" by code_simp
  then obtain res s' where r: "mailslot_export demo_env_op ''VTA002L8'' None None demo_orch = (Inr res, s')"
    by (cases "mailslot_export demo_env_op ''VTA002L8'' None None demo_orch"; cases "fst (mailslot_export demo_env_op ''VTA002L8'' None None demo_orch)") auto
  have "or_has_catalog demo_orch" by (simp add: demo_orch_def)
  from mailslot_export_guarded [OF r this] r show ?thesis by auto
qed

section \<open>The inventory sync\<close>

lemma get_cartridge_sync:
  "map_option cr_state (get_cartridge b (sync_cartridge b' st c)) = (if b = b' then Some st else map_option cr_state (get_cartridge b c))"
proof (cases "b = b'")
  case True
  with get_cartridge_recorded [of b st c] show ?thesis by (simp add: sync_cartridge_def catalog_set_cartridge_state_def)
next
  case False
  have u: "get_cartridge b (update_cartridge b' f c') = get_cartridge b c'" if "\<And>r. cr_barcode (f r) = cr_barcode r" for f c'
  proof -
    have "List.find (\<lambda>r. cr_barcode r = b) (map (\<lambda>r. if cr_barcode r = b' then f r else r) xs) = List.find (\<lambda>r. cr_barcode r = b) xs" for xs
      using that False by (induction xs) auto
    then show ?thesis by (simp add: get_cartridge_def update_cartridge_def)
  qed
  have a: "List.find (\<lambda>r. cr_barcode r = b) (xs @ [x]) = List.find (\<lambda>r. cr_barcode r = b) xs" if "cr_barcode x \<noteq> b" for xs and x :: cartridge_row
    using that by (induction xs) auto
  have "get_cartridge b (catalog_add_cartridge b' None c) = get_cartridge b c"
    using False by (simp add: catalog_add_cartridge_def get_cartridge_def a split: option.splits)
  then show ?thesis using False u by (simp add: sync_cartridge_def)
qed

lemma fold_sync_states:
  assumes "distinct (dict_keys d)"
  shows "map_option cr_state (get_cartridge b (fold (\<lambda>(b, st). sync_cartridge b (cartridge_state_value st)) d c)) =
    (case dict_get d b of Some st \<Rightarrow> Some (cartridge_state_value st) | None \<Rightarrow> map_option cr_state (get_cartridge b c))"
  using assms
proof (induction d arbitrary: c)
  case (Cons p d)
  obtain k st where p: "p = (k, st)" by (cases p)
  then have "dict_get d k = None" using Cons.prems by (auto simp: map_of_eq_None_iff)
  with Cons p show ?case by (auto simp: get_cartridge_sync split: option.splits)
qed simp

text \<open>After an inventory sync the catalog agrees with the library on every cartridge the library keeps a state for, exported and
  missing ones included.\<close>

theorem inventory_sync_states:
  assumes "distinct (dict_keys (cartridge_states L))" and "dict_get (cartridge_states L) b = Some st"
  shows "map_option cr_state (get_cartridge b (snd (run_inventory_job L c))) = Some (cartridge_state_value st)"
  using fold_sync_states [OF assms(1)] assms(2) by (simp add: run_inventory_job_def Let_def)

theorem inventory_sync_states_witness:
  "map_option cr_state (get_cartridge ''VTA002L8'' (snd (run_inventory_job demo_shelf empty_catalog))) = Some ''in_slot''"
proof -
  have "distinct (dict_keys (cartridge_states demo_shelf))" "dict_get (cartridge_states demo_shelf) ''VTA002L8'' = Some CS_IN_SLOT" by code_simp+
  from inventory_sync_states [OF this] show ?thesis by simp
qed

end
