(* ===== verification/Shard_Engine.thy ===== *)
theory Shard_Engine
  imports Sim_Ltfs
begin

text \<open>
  \<open>jobs/shard.py\<close>: planning, splitting a file into block-striped shards and putting it together again. A
  file is its bytes, an open handle the bytes not read yet. The hash is a parameter: a digest depends on
  the concatenation of what it was fed, so a hash object is the bytes fed so far. Reassembly reads the
  handles round after round until one of them is exhausted; the loop is a partial function.
\<close>

section \<open>Reading\<close>

text \<open>\<open>handle.read(n)\<close>: everything when \<open>n\<close> is negative, else at most \<open>n\<close> bytes.\<close>

definition py_read :: "int \<Rightarrow> bytes \<Rightarrow> bytes" where
  "py_read n h = (if n < 0 then h else take (nat n) h)"

definition py_rest :: "int \<Rightarrow> bytes \<Rightarrow> bytes" where
  "py_rest n h = (if n < 0 then [] else drop (nat n) h)"

lemma py_read_rest: "py_read n h @ py_rest n h = h"
  by (simp add: py_read_def py_rest_def)

lemma py_rest_shorter: "py_read n h \<noteq> [] \<Longrightarrow> length (py_rest n h) < length h"
  using arg_cong [OF py_read_rest, of length n h] by (cases "py_read n h") auto

section \<open>Planning\<close>

datatype shard_mode = SM_NONE | SM_STRIPE | SM_BLOCK_STRIPE

record shard_spec =
  sh_index :: int
  sh_total :: int
  sh_barcode :: string
  sh_tape_path :: string
  sh_block_start :: int
  sh_block_end :: int
  sh_group_id :: string

record shard_plan =
  sp_source_path :: string
  sp_file_size :: int
  sp_checksum :: string
  sp_mode :: shard_mode
  sp_shards :: "shard_spec list"
  sp_group_id :: string

definition DEFAULT_BLOCK_SIZE :: int where
  "DEFAULT_BLOCK_SIZE = 128 * 1024 * 1024"

text \<open>The chunks \<open>iter(lambda: handle.read(n), b"")\<close> yields.\<close>

function read_chunks :: "int \<Rightarrow> bytes \<Rightarrow> bytes list" where
  "read_chunks n h = (let chunk = py_read n h in if chunk = [] then [] else chunk # read_chunks n (py_rest n h))"
  by pat_completeness auto
termination by (relation "measure (\<lambda>(n, h). length h)") (auto simp: py_rest_shorter)

declare read_chunks.simps [simp del]

definition compute_checksum :: "(bytes \<Rightarrow> string) \<Rightarrow> bytes \<Rightarrow> string" where
  "compute_checksum sha content = sha (concat (read_chunks (1024 * 1024) content))"

definition plan_stripe :: "(bytes \<Rightarrow> string) \<Rightarrow> string \<Rightarrow> string \<Rightarrow> string \<Rightarrow> bytes \<Rightarrow> string list \<Rightarrow> string \<Rightarrow> exc + shard_plan" where
  "plan_stripe sha group_id path name content lane_barcodes base =
     (if length lane_barcodes \<noteq> 1 then Inl AssertionError
      else let fsize = int (length content)
           in Inr \<lparr>sp_source_path = path, sp_file_size = fsize, sp_checksum = compute_checksum sha content, sp_mode = SM_STRIPE,
                sp_shards = [\<lparr>sh_index = 0, sh_total = 1, sh_barcode = hd lane_barcodes, sh_tape_path = base @ ''/'' @ name,
                   sh_block_start = 0, sh_block_end = fsize, sh_group_id = group_id\<rparr>],
                sp_group_id = group_id\<rparr>)"

text \<open>The loop over the blocks that adds up the lane sizes.\<close>

fun add_lane_sizes :: "nat \<Rightarrow> int \<Rightarrow> int \<Rightarrow> nat list \<Rightarrow> int list \<Rightarrow> int list" where
  "add_lane_sizes lanes bs fsize [] sizes = sizes"
| "add_lane_sizes lanes bs fsize (k # ks) sizes =
     (let lane = k mod lanes; start = int k * bs; stop = min (start + bs) fsize
      in add_lane_sizes lanes bs fsize ks (sizes[lane := sizes ! lane + (stop - start)]))"

definition num_blocks :: "int \<Rightarrow> int \<Rightarrow> nat" where
  "num_blocks bs fsize = nat (max 1 ((fsize + bs - 1) div bs))"

definition lane_sizes :: "nat \<Rightarrow> int \<Rightarrow> int \<Rightarrow> int list" where
  "lane_sizes lanes bs fsize = add_lane_sizes lanes bs fsize [0..<num_blocks bs fsize] (replicate lanes 0)"

text \<open>\<open>f"{n:04d}"\<close>\<close>

definition fmt04 :: "nat \<Rightarrow> string" where
  "fmt04 n = (let s = nat_digits n in replicate (4 - length s) CHR ''0'' @ s)"

definition plan_block_stripe ::
  "(bytes \<Rightarrow> string) \<Rightarrow> string \<Rightarrow> string \<Rightarrow> string \<Rightarrow> bytes \<Rightarrow> string list \<Rightarrow> string \<Rightarrow> int \<Rightarrow> exc + shard_plan" where
  "plan_block_stripe sha group_id path name content lane_barcodes base bs =
     (let lanes = length lane_barcodes; fsize = int (length content)
      in if lanes < 2 then Inl AssertionError
         else if bs = 0 then Inl ZeroDivisionError
         else Inr \<lparr>sp_source_path = path, sp_file_size = fsize, sp_checksum = compute_checksum sha content, sp_mode = SM_BLOCK_STRIPE,
                sp_shards = map (\<lambda>i. \<lparr>sh_index = int i, sh_total = int lanes, sh_barcode = lane_barcodes ! i,
                     sh_tape_path = base @ ''/'' @ group_id @ ''/'' @ name @ ''.shard'' @ fmt04 i,
                     sh_block_start = 0, sh_block_end = lane_sizes lanes bs fsize ! i, sh_group_id = group_id\<rparr>) [0..<lanes],
                sp_group_id = group_id\<rparr>)"

section \<open>Splitting and reassembling\<close>

text \<open>The loop of \<open>write_shard_to_tempfile\<close>, from block \<open>k\<close> on; a modulus of zero raises.\<close>

function write_shard_loop :: "nat \<Rightarrow> nat \<Rightarrow> int \<Rightarrow> nat \<Rightarrow> bytes \<Rightarrow> bytes \<Rightarrow> exc + bytes" where
  "write_shard_loop idx shards bs k h dest =
     (let chunk = py_read bs h
      in if chunk = [] then Inr dest
         else if shards = 0 then Inl ZeroDivisionError
         else write_shard_loop idx shards bs (Suc k) (py_rest bs h) (if k mod shards = idx then dest @ chunk else dest))"
  by pat_completeness auto
termination by (relation "measure (\<lambda>(idx, shards, bs, k, h, dest). length h)") (auto simp: py_rest_shorter)

declare write_shard_loop.simps [simp del]

definition write_shard_to_tempfile :: "bytes \<Rightarrow> nat \<Rightarrow> nat \<Rightarrow> int \<Rightarrow> exc + bytes" where
  "write_shard_to_tempfile content idx shards bs = write_shard_loop idx shards bs 0 content []"

text \<open>One pass of the inner \<open>for\<close> loop: the handles after it, the bytes written, and whether a handle was exhausted.\<close>

fun read_round :: "int \<Rightarrow> bytes list \<Rightarrow> bytes \<Rightarrow> bytes list \<times> bytes \<times> bool" where
  "read_round bs [] dest = ([], dest, False)"
| "read_round bs (h # hs) dest =
     (let chunk = py_read bs h
      in if chunk = [] then (h # hs, dest, True)
         else case read_round bs hs (dest @ chunk) of (hs', dest', finished) \<Rightarrow> (py_rest bs h # hs', dest', finished))"

partial_function (option) reassemble_loop :: "int \<Rightarrow> bytes list \<Rightarrow> bytes \<Rightarrow> bytes option" where
  "reassemble_loop bs hs dest =
     (case read_round bs hs dest of
        (hs', dest', finished) \<Rightarrow> if finished then Some dest' else reassemble_loop bs hs' dest')"

definition reassemble_block_stripe :: "(bytes \<Rightarrow> string) \<Rightarrow> bytes list \<Rightarrow> int \<Rightarrow> (bytes \<times> string) option" where
  "reassemble_block_stripe sha shard_files bs = map_option (\<lambda>d. (d, sha d)) (reassemble_loop bs shard_files [])"

section \<open>Chunks and stripes\<close>

text \<open>Every chunk but the last is a full block.\<close>

fun chunked :: "nat \<Rightarrow> bytes list \<Rightarrow> bool" where
  "chunked n [] = True"
| "chunked n [c] = (c \<noteq> [] \<and> length c \<le> n)"
| "chunked n (c # cs) = (c \<noteq> [] \<and> length c = n \<and> chunked n cs)"

definition stripe :: "nat \<Rightarrow> nat \<Rightarrow> bytes list \<Rightarrow> bytes list" where
  "stripe n i cs = map snd (filter (\<lambda>(k, c). k mod n = i) (enumerate 0 cs))"

lemma concat_read_chunks: "n \<noteq> 0 \<Longrightarrow> concat (read_chunks n h) = h"
proof (induction n h rule: read_chunks.induct)
  case (1 n h)
  show ?case
  proof (cases "py_read n h = []")
    case True
    with "1.prems" have "h = []" by (auto simp: py_read_def split: if_splits)
    then show ?thesis by (simp add: read_chunks.simps py_read_def)
  next
    case False
    with "1.IH" [OF refl False "1.prems"] show ?thesis by (simp add: read_chunks.simps [of n h] Let_def py_read_rest)
  qed
qed

lemma chunked_read_chunks: "0 < n \<Longrightarrow> chunked (nat n) (read_chunks n h)"
proof (induction n h rule: read_chunks.induct)
  case (1 n h)
  show ?case
  proof (cases "py_read n h = []")
    case True
    then show ?thesis by (simp add: read_chunks.simps)
  next
    case False
    have c: "chunked (nat n) (read_chunks n (py_rest n h))" using "1.IH" [OF refl False "1.prems"] .
    have r: "read_chunks n h = py_read n h # read_chunks n (py_rest n h)" using False by (simp add: read_chunks.simps [of n h])
    show ?thesis
    proof (cases "read_chunks n (py_rest n h)")
      case Nil
      with r False "1.prems" show ?thesis by (simp add: py_read_def)
    next
      case (Cons c' cs)
      then have "py_rest n h \<noteq> []" by (auto simp: read_chunks.simps [of n "[]"] py_read_def Let_def split: if_splits)
      then have "length (py_read n h) = nat n" using "1.prems" by (simp add: py_read_def py_rest_def)
      with r c Cons False show ?thesis by simp
    qed
  qed
qed

lemma write_shard_loop_stripe:
  "0 < shards \<Longrightarrow> write_shard_loop idx shards bs k h dest =
    Inr (dest @ concat (map snd (filter (\<lambda>(j, c). j mod shards = idx) (enumerate k (read_chunks bs h)))))"
proof (induction idx shards bs k h dest rule: write_shard_loop.induct)
  case (1 idx shards bs k h dest)
  show ?case
  proof (cases "py_read bs h = []")
    case True
    then show ?thesis by (simp add: write_shard_loop.simps read_chunks.simps)
  next
    case False
    have "read_chunks bs h = py_read bs h # read_chunks bs (py_rest bs h)" using False by (simp add: read_chunks.simps [of bs h])
    with "1.IH" [OF refl False _ "1.prems"] "1.prems" False show ?thesis
      by (simp add: write_shard_loop.simps [of idx shards bs k h dest] Let_def)
  qed
qed

lemma write_shard_stripe:
  "0 < shards \<Longrightarrow> write_shard_to_tempfile content idx shards bs = Inr (concat (stripe shards idx (read_chunks bs content)))"
  by (simp add: write_shard_to_tempfile_def write_shard_loop_stripe stripe_def)

lemma filter_enumerate_shift:
  "map snd (filter (\<lambda>(k, c). P k) (enumerate m xs)) = map snd (filter (\<lambda>(k, c). P (m + k)) (enumerate 0 xs))"
proof (induction xs arbitrary: m P)
  case (Cons x xs)
  have "map snd (filter (\<lambda>(k, c). P k) (enumerate (Suc m) xs)) = map snd (filter (\<lambda>(k, c). P (Suc m + k)) (enumerate 0 xs))"
    by (rule Cons.IH)
  moreover have "map snd (filter (\<lambda>(k, c). P (m + k)) (enumerate (Suc 0) xs)) = map snd (filter (\<lambda>(k, c). P (m + (Suc 0 + k))) (enumerate 0 xs))"
    by (rule Cons.IH)
  ultimately show ?case by simp
qed simp

lemma filter_enumerate_eq:
  "m \<le> i \<Longrightarrow> map snd (filter (\<lambda>(k, c). k = i) (enumerate m xs)) = (if i - m < length xs then [xs ! (i - m)] else [])"
proof (induction xs arbitrary: m)
  case (Cons x xs)
  show ?case
  proof (cases "m = i")
    case True
    have "filter (\<lambda>(k, c). k = i) (enumerate (Suc i) xs) = []" by (auto simp: filter_empty_conv in_set_enumerate_eq)
    with True show ?thesis by simp
  next
    case False
    with Cons have "Suc m \<le> i" by simp
    from Cons.IH [OF this] False Cons.prems show ?thesis by (auto simp: nth_Cons' Suc_diff_Suc)
  qed
qed simp

lemma stripe_split:
  assumes "i < n"
  shows "stripe n i cs = (if i < length cs then [cs ! i] else []) @ stripe n i (drop n cs)"
proof -
  have e: "enumerate 0 cs = enumerate 0 (take n cs) @ enumerate (length (take n cs)) (drop n cs)"
    using enumerate_append_eq [of 0 "take n cs" "drop n cs"] by simp
  have f: "filter (\<lambda>(k, c). k mod n = i) (enumerate 0 (take n cs)) = filter (\<lambda>(k, c). k = i) (enumerate 0 (take n cs))"
    using assms by (intro filter_cong [OF refl]) (auto simp: in_set_enumerate_eq)
  have "map snd (filter (\<lambda>(k, c). k mod n = i) (enumerate (length (take n cs)) (drop n cs))) = stripe n i (drop n cs)"
  proof (cases "n \<le> length cs")
    case True
    then have "length (take n cs) = n" by simp
    then show ?thesis
      unfolding stripe_def using filter_enumerate_shift [of "\<lambda>k. k mod n = i" n "drop n cs"] by simp
  qed (simp add: stripe_def)
  with f filter_enumerate_eq [of 0 i "take n cs"] assms show ?thesis
    unfolding stripe_def [of n i cs] e by simp
qed

lemma chunked_nth:
  "chunked n cs \<Longrightarrow> i < length cs \<Longrightarrow> cs ! i \<noteq> [] \<and> length (cs ! i) \<le> n \<and> (Suc i < length cs \<longrightarrow> length (cs ! i) = n)"
proof (induction n cs arbitrary: i rule: chunked.induct)
  case (3 n c c' cs)
  then show ?case by (cases i) auto
qed auto

lemma chunked_drop: "chunked n cs \<Longrightarrow> chunked n (drop m cs)"
proof (induction n cs arbitrary: m rule: chunked.induct)
  case (3 n c c' cs)
  then show ?case by (cases m) auto
next
  case (2 n c)
  then show ?case by (cases m) auto
qed simp

lemma read_round_blocks:
  assumes "length ps = length rs" and "0 < n"
    and "\<forall>(c, r) \<in> set (zip ps rs). c \<noteq> [] \<and> length c \<le> n \<and> (length c = n \<or> r = [])"
  shows "read_round (int n) (map2 (@) ps rs @ hs) dest =
    (case read_round (int n) hs (dest @ concat ps) of (hs', dest', finished) \<Rightarrow> (rs @ hs', dest', finished))"
  using assms(1,3)
proof (induction ps rs arbitrary: dest rule: list_induct2)
  case Nil
  then show ?case by (simp split: prod.splits)
next
  case (Cons c ps r rs)
  have "py_read (int n) (c @ r) = c" "py_rest (int n) (c @ r) = r" using Cons.prems assms(2) by (auto simp: py_read_def py_rest_def)
  with Cons show ?case by (auto split: prod.splits)
qed

lemma reassemble_stripes:
  assumes "0 < n" and "0 < m"
  shows "chunked n cs \<Longrightarrow>
    reassemble_loop (int n) (map (\<lambda>i. concat (stripe m i cs)) [0..<m]) dest = Some (dest @ concat cs)"
proof (induction cs arbitrary: dest rule: length_induct)
  case (1 cs)
  show ?case
  proof (cases "m \<le> length cs")
    case True
    let ?ps = "take m cs" and ?rs = "map (\<lambda>i. concat (stripe m i (drop m cs))) [0..<m]"
    have hs: "map (\<lambda>i. concat (stripe m i cs)) [0..<m] = map2 (@) ?ps ?rs @ []"
      using True by (intro nth_equalityI) (simp_all add: stripe_split [of _ m cs])
    have "(\<forall>(c, r) \<in> set (zip ?ps ?rs). c \<noteq> [] \<and> length c \<le> n \<and> (length c = n \<or> r = []))"
    proof (clarsimp simp: in_set_zip)
      fix i assume i: "i < length cs" "i < m"
      have "drop m cs = []" if "\<not> Suc i < length cs" using that i by simp
      then have "concat (stripe m i (drop m cs)) = []" if "\<not> Suc i < length cs" using that by (simp add: stripe_def)
      then show "cs ! i \<noteq> [] \<and> length (cs ! i) \<le> n \<and> (length (cs ! i) = n \<or> (\<forall>x \<in> set (stripe m i (drop m cs)). x = []))"
        using chunked_nth [OF "1.prems" i(1)] by auto
    qed
    then have rr: "read_round (int n) (map (\<lambda>i. concat (stripe m i cs)) [0..<m]) dest = (?rs, dest @ concat ?ps, False)"
      unfolding hs using True assms(1) by (subst read_round_blocks) simp_all
    have "reassemble_loop (int n) ?rs (dest @ concat ?ps) = Some ((dest @ concat ?ps) @ concat (drop m cs))"
      using "1.IH" chunked_drop [OF "1.prems"] True assms(2) by simp
    moreover have "concat ?ps @ concat (drop m cs) = concat cs" by (metis append_take_drop_id concat_append)
    ultimately show ?thesis by (subst reassemble_loop.simps) (simp add: rr)
  next
    case False
    let ?hs = "replicate (m - length cs) ([] :: bytes)"
    have d: "drop m cs = []" using False by simp
    have hs: "map (\<lambda>i. concat (stripe m i cs)) [0..<m] = map2 (@) cs (replicate (length cs) []) @ ?hs"
    proof (rule nth_equalityI)
      fix i assume "i < length (map (\<lambda>i. concat (stripe m i cs)) [0..<m])"
      then have i: "i < m" by simp
      have "stripe m i [] = []" by (simp add: stripe_def)
      then have "stripe m i cs = (if i < length cs then [cs ! i] else [])" using stripe_split [OF i, of cs] d by simp
      with i False show "map (\<lambda>i. concat (stripe m i cs)) [0..<m] ! i = (map2 (@) cs (replicate (length cs) []) @ ?hs) ! i"
        by (auto simp: nth_append)
    qed (use False in simp)
    have "\<forall>(c, r) \<in> set (zip cs (replicate (length cs) [])). c \<noteq> [] \<and> length c \<le> n \<and> (length c = n \<or> r = [])"
      using chunked_nth [OF "1.prems"] by (auto simp: in_set_zip)
    moreover obtain k where "m - length cs = Suc k" using False by (metis Suc_diff_Suc leI not_less)
    ultimately have "snd (read_round (int n) (map (\<lambda>i. concat (stripe m i cs)) [0..<m]) dest) = (dest @ concat cs, True)"
      unfolding hs using assms(1) by (subst read_round_blocks) (simp_all add: py_read_def)
    then show ?thesis by (subst reassemble_loop.simps) (auto split: prod.splits)
  qed
qed

lemma compute_checksum_eq [code]: "compute_checksum sha content = sha content"
  by (simp add: compute_checksum_def concat_read_chunks)

lemma mapR_write_shard:
  assumes "0 < shards"
  shows "mapR (\<lambda>i. write_shard_to_tempfile content i shards bs) is = Inr (map (\<lambda>i. concat (stripe shards i (read_chunks bs content))) is)"
  using assms by (induction "is") (simp_all add: write_shard_stripe)

lemma reassemble_concat_stripes:
  assumes "0 < bs" and "0 < lanes"
  shows "reassemble_block_stripe sha (map (\<lambda>i. concat (stripe lanes i (read_chunks bs content))) [0..<lanes]) bs
     = Some (content, compute_checksum sha content)"
proof -
  have "reassemble_loop (int (nat bs)) (map (\<lambda>i. concat (stripe lanes i (read_chunks bs content))) [0..<lanes]) []
      = Some ([] @ concat (read_chunks bs content))"
    using assms chunked_read_chunks [OF assms(1)] by (intro reassemble_stripes) simp_all
  then show ?thesis
    using assms(1) by (simp add: reassemble_block_stripe_def compute_checksum_def concat_read_chunks)
qed

text \<open>C30. Splitting a file into block-striped shards and reassembling them gives the file back, and its checksum, for every
  positive block size, number of lanes and content; the reassembly loop ends.\<close>

theorem shard_reassemble_roundtrip:
  assumes "0 < bs" and "0 < lanes"
    and "mapR (\<lambda>i. write_shard_to_tempfile content i lanes bs) [0..<lanes] = Inr shards"
  shows "reassemble_block_stripe sha shards bs = Some (content, compute_checksum sha content)"
  using assms(3) reassemble_concat_stripes [OF assms(1,2), of sha content] by (simp add: mapR_write_shard [OF assms(2)])

theorem shard_reassemble_roundtrip_witness:
  "reassemble_block_stripe (\<lambda>_. ''h'') [[1, 2, 5], [3, 4]] 2 = Some ([1, 2, 3, 4, 5], ''h'')"
proof -
  have "mapR (\<lambda>i. write_shard_to_tempfile [1, 2, 3, 4, 5] i 2 2) [0..<2] = Inr [[1, 2, 5], [3, 4]]" by code_simp
  from shard_reassemble_roundtrip [OF _ _ this, of "\<lambda>_. ''h''"] show ?thesis by (simp add: compute_checksum_def)
qed

section \<open>Planned sizes\<close>

text \<open>The number of chunks of a file of \<open>s\<close> bytes, and the length of each.\<close>

definition chunk_count :: "nat \<Rightarrow> nat \<Rightarrow> nat" where
  "chunk_count n s = (s + n - 1) div n"

definition chunk_length :: "nat \<Rightarrow> nat \<Rightarrow> nat \<Rightarrow> nat" where
  "chunk_length n s k = min n (s - k * n)"

lemma chunk_count_step: "0 < n \<Longrightarrow> 0 < s \<Longrightarrow> chunk_count n s = Suc (chunk_count n (s - n))"
proof (cases "n \<le> s")
  case True
  assume "0 < n"
  have "s + n - 1 = (s - n + n - 1) + n" using True \<open>0 < n\<close> by simp
  then show ?thesis using \<open>0 < n\<close> unfolding chunk_count_def by (metis Suc_eq_plus1 div_add_self2 gr_implies_not0)
next
  case False
  assume "0 < n" "0 < s"
  then have "(s + n - 1) div n = 1" using False by (auto intro!: div_nat_eqI)
  then show ?thesis using False \<open>0 < n\<close> by (simp add: chunk_count_def)
qed

lemma map_length_read_chunks:
  "0 < n \<Longrightarrow> map length (read_chunks n h) = map (chunk_length (nat n) (length h)) [0..<chunk_count (nat n) (length h)]"
proof (induction n h rule: read_chunks.induct)
  case (1 n h)
  show ?case
  proof (cases "py_read n h = []")
    case True
    with "1.prems" have "h = []" by (auto simp: py_read_def)
    with "1.prems" show ?thesis by (simp add: read_chunks.simps py_read_def chunk_count_def)
  next
    case False
    have r: "read_chunks n h = py_read n h # read_chunks n (py_rest n h)" using False by (simp add: read_chunks.simps [of n h])
    have l: "length (py_rest n h) = length h - nat n" "length (py_read n h) = min (nat n) (length h)"
      using "1.prems" by (simp_all add: py_rest_def py_read_def)
    have "0 < length h" using False "1.prems" by (auto simp: py_read_def)
    then have c: "chunk_count (nat n) (length h) = Suc (chunk_count (nat n) (length h - nat n))"
      using "1.prems" by (intro chunk_count_step) simp_all
    have s: "chunk_length (nat n) (length h) (Suc k) = chunk_length (nat n) (length h - nat n) k" for k
      by (simp add: chunk_length_def)
    show ?thesis
      unfolding r c using "1.IH" [OF refl False "1.prems"] l
      by (simp add: upt_conv_Cons map_Suc_upt [symmetric] s o_def del: upt_Suc) (simp add: chunk_length_def)
  qed
qed

lemma add_lane_sizes_nth:
  "0 < lanes \<Longrightarrow> length sizes = lanes \<Longrightarrow> i < lanes \<Longrightarrow>
     add_lane_sizes lanes bs fsize ks sizes ! i =
       sizes ! i + (\<Sum>k \<leftarrow> filter (\<lambda>k. k mod lanes = i) ks. min (int k * bs + bs) fsize - int k * bs)"
  by (induction ks arbitrary: sizes) (auto simp: Let_def nth_list_update)

lemma length_stripe:
  assumes "map length cs = map f [0..<N]"
  shows "length (concat (stripe n i cs)) = (\<Sum>k \<leftarrow> filter (\<lambda>k. k mod n = i) [0..<N]. f k)"
proof -
  have N: "length cs = N" using arg_cong [OF assms, of length] by simp
  have f: "length (cs ! k) = f k" if "k < N" for k
    using arg_cong [OF assms, of "\<lambda>xs. xs ! k"] that N by simp
  have e: "enumerate 0 cs = map (\<lambda>k. (k, cs ! k)) [0..<N]"
    using N by (intro nth_equalityI) (simp_all add: nth_enumerate_eq)
  have "length (concat (stripe n i cs)) = (\<Sum>k \<leftarrow> filter (\<lambda>k. k mod n = i) [0..<N]. length (cs ! k))"
    by (simp add: stripe_def e filter_map length_concat o_def)
  also have "\<dots> = (\<Sum>k \<leftarrow> filter (\<lambda>k. k mod n = i) [0..<N]. f k)"
    by (rule arg_cong [where f = sum_list], rule map_cong [OF refl]) (simp add: f)
  finally show ?thesis .
qed

lemma int_sum_list: "int (sum_list (map f xs)) = (\<Sum>x \<leftarrow> xs. int (f x))"
  by (induction xs) simp_all

lemma chunk_start: "0 < n \<Longrightarrow> k < chunk_count n s \<Longrightarrow> k * n < s"
  using less_eq_div_iff_mult_less_eq [of n "Suc k" "s + n - 1"] by (simp add: chunk_count_def Suc_le_eq)

lemma num_blocks_chunks: "0 < bs \<Longrightarrow> num_blocks bs (int s) = max 1 (chunk_count (nat bs) s)"
proof -
  assume bs: "0 < bs"
  have "int (s + nat bs - 1) = int s + bs - 1" using bs by linarith
  then have "(int s + bs - 1) div bs = int (chunk_count (nat bs) s)" using bs by (simp add: chunk_count_def zdiv_int)
  then show ?thesis by (auto simp: num_blocks_def max_def)
qed

lemma block_bytes:
  assumes "0 < bs" and "k < num_blocks bs (int s)"
  shows "min (int k * bs + bs) (int s) - int k * bs = int (chunk_length (nat bs) s k)"
proof -
  have "k * nat bs \<le> s"
    using assms chunk_start [of "nat bs" k s] num_blocks_chunks [OF assms(1), of s] by (cases "k = 0") (auto simp: less_max_iff_disj)
  then have "int k * bs \<le> int s" using assms(1) by (metis int_nat_eq less_imp_le of_nat_le_iff of_nat_mult)
  moreover have "int (s - k * nat bs) = int s - int k * bs"
    using \<open>k * nat bs \<le> s\<close> assms(1) by (simp add: of_nat_diff)
  moreover have "int (nat bs) = bs" using assms(1) by simp
  ultimately show ?thesis unfolding chunk_length_def min_def by (auto simp del: of_nat_diff)
qed

text \<open>C38. The plan is exact: for every lane, the size planned is the number of bytes the splitter writes to it.\<close>

theorem planned_lane_size_exact:
  assumes "0 < bs" and "i < lanes"
  shows "map_sum id (\<lambda>shard. int (length shard)) (write_shard_to_tempfile content i lanes bs) =
    Inr (lane_sizes lanes bs (int (length content)) ! i)"
proof -
  let ?s = "length content"
  let ?N = "chunk_count (nat bs) ?s" and ?B = "num_blocks bs (int ?s)" and ?f = "chunk_length (nat bs) ?s"
  have "lane_sizes lanes bs (int ?s) ! i = (\<Sum>k \<leftarrow> filter (\<lambda>k. k mod lanes = i) [0..<?B]. min (int k * bs + bs) (int ?s) - int k * bs)"
    using assms(2) by (simp add: lane_sizes_def add_lane_sizes_nth)
  also have "\<dots> = (\<Sum>k \<leftarrow> filter (\<lambda>k. k mod lanes = i) [0..<?B]. int (?f k))"
    by (rule arg_cong [where f = sum_list], rule map_cong [OF refl]) (simp add: block_bytes assms(1))
  also have "\<dots> = (\<Sum>k \<leftarrow> filter (\<lambda>k. k mod lanes = i) [0..<?N]. int (?f k))"
  proof (cases "?N = 0")
    case True
    then have "?s = 0" using assms(1) chunk_count_step [of "nat bs" ?s] by (cases "?s") auto
    then show ?thesis using True num_blocks_chunks [OF assms(1), of ?s] by (simp add: chunk_length_def)
  next
    case False
    then show ?thesis using num_blocks_chunks [OF assms(1), of ?s] by (simp add: max_def)
  qed
  also have "\<dots> = int (length (concat (stripe lanes i (read_chunks bs content))))"
    unfolding length_stripe [OF map_length_read_chunks [OF assms(1)]] by (simp add: int_sum_list)
  finally show ?thesis using assms(2) by (simp add: write_shard_stripe)
qed

theorem planned_lane_size_exact_witness:
  "map_sum id (\<lambda>shard. int (length shard)) (write_shard_to_tempfile [1, 2, 3, 4, 5] 0 2 2) = Inr (lane_sizes 2 2 5 ! 0)"
  using planned_lane_size_exact [of 2 0 2 "[1, 2, 3, 4, 5]"] by simp

text \<open>Reassembling no shards at all never returns: with no handle to exhaust, the outer loop goes on for ever.\<close>

theorem reassemble_no_shards_diverges: "reassemble_block_stripe sha [] bs = None"
proof -
  have "hs \<noteq> []" if "reassemble_loop bs hs dest = Some y" for hs dest y
    by (rule reassemble_loop.raw_induct [OF _ that]) (fastforce split: prod.splits if_splits)
  then show ?thesis by (cases "reassemble_loop bs [] []") (auto simp: reassemble_block_stripe_def)
qed

end
