(* ===== verification/Protection.thy ===== *)
theory Protection
  imports Reconcile
begin

text \<open>
  \<open>domain/protection.py\<close>, \<open>domain/wire.py\<close> and \<open>domain/scalar_coordinate.py\<close>: the value objects that
  cross the wire as JSON. A decoded JSON document is a value of type \<open>json\<close> (fractions, which none of this
  code expects, are left out); a dataclass with a \<open>__post_init__\<close> is a record with a constructor that may
  raise, and \<open>from_dict\<close> goes through the constructors as the code does.
\<close>

unbundle bit_operations_syntax

section \<open>JSON values\<close>

datatype json = JNull | JBool bool | JInt int | JStr string | JList "json list" | JObj "(string \<times> json) list"

text \<open>\<open>coerce_int\<close> of \<open>wire.py\<close>, which is \<open>int(v)\<close> on decoded JSON.\<close>

fun coerce_int :: "json \<Rightarrow> exc + int" where
  "coerce_int (JInt i) = Inr i"
| "coerce_int (JBool b) = Inr (if b then 1 else 0)"
| "coerce_int (JStr s) = (case parse_int s of Some i \<Rightarrow> Inr i | None \<Rightarrow> Inl (ValueError ''invalid literal for int()''))"
| "coerce_int _ = Inl TypeError"

text \<open>\<open>bool(v)\<close>, and \<open>d.get(k, dflt)\<close>.\<close>

fun json_truthy :: "json \<Rightarrow> bool" where
  "json_truthy JNull = False"
| "json_truthy (JBool b) = b"
| "json_truthy (JInt i) = (i \<noteq> 0)"
| "json_truthy (JStr s) = (s \<noteq> [])"
| "json_truthy (JList vs) = (vs \<noteq> [])"
| "json_truthy (JObj d) = (d \<noteq> [])"

definition get_or :: "(string \<times> json) list \<Rightarrow> string \<Rightarrow> json \<Rightarrow> json" where
  "get_or d k dflt = (case dict_get d k of Some v \<Rightarrow> v | None \<Rightarrow> dflt)"

text \<open>\<open>data.get(k) or \{\}\<close>, read as a dictionary by the calls of \<open>get\<close> that follow.\<close>

definition sub_dict :: "(string \<times> json) list \<Rightarrow> string \<Rightarrow> exc + (string \<times> json) list" where
  "sub_dict d k =
     (case get_or d k JNull of JObj e \<Rightarrow> Inr e | v \<Rightarrow> if json_truthy v then Inl AttributeError else Inr [])"

text \<open>An enumeration called on a value: the member with that value, or \<open>ValueError\<close>.\<close>

definition enum_of :: "(string \<times> 'a) list \<Rightarrow> json \<Rightarrow> exc + 'a" where
  "enum_of members v =
     (case v of
        JStr s \<Rightarrow> (case dict_get members s of Some m \<Rightarrow> Inr m | None \<Rightarrow> Inl (ValueError ''is not a valid member''))
      | _ \<Rightarrow> Inl (ValueError ''is not a valid member''))"

section \<open>Protection policies\<close>

datatype placement = PL_SINGLE_TAPE | PL_STRIPED
datatype striping_mode = SM_NONE | SM_STRIPE | SM_BLOCK_STRIPE
datatype protection_kind = PK_NONE | PK_REPLICATION | PK_ERASURE_CODE
datatype failure_domain = FD_DRIVE | FD_TAPE | FD_LIBRARY
datatype durability_class = DC_UNPROTECTED | DC_PERFORMANCE_ONLY | DC_PROTECTED

fun placement_value :: "placement \<Rightarrow> string" where
  "placement_value PL_SINGLE_TAPE = ''single_tape''"
| "placement_value PL_STRIPED = ''striped''"

fun striping_mode_value :: "striping_mode \<Rightarrow> string" where
  "striping_mode_value SM_NONE = ''none''"
| "striping_mode_value SM_STRIPE = ''stripe''"
| "striping_mode_value SM_BLOCK_STRIPE = ''block_stripe''"

fun protection_kind_value :: "protection_kind \<Rightarrow> string" where
  "protection_kind_value PK_NONE = ''none''"
| "protection_kind_value PK_REPLICATION = ''replication''"
| "protection_kind_value PK_ERASURE_CODE = ''erasure_code''"

fun failure_domain_value :: "failure_domain \<Rightarrow> string" where
  "failure_domain_value FD_DRIVE = ''drive''"
| "failure_domain_value FD_TAPE = ''tape''"
| "failure_domain_value FD_LIBRARY = ''library''"

fun durability_class_value :: "durability_class \<Rightarrow> string" where
  "durability_class_value DC_UNPROTECTED = ''unprotected''"
| "durability_class_value DC_PERFORMANCE_ONLY = ''performance-only''"
| "durability_class_value DC_PROTECTED = ''protected''"

record striping =
  st_mode :: striping_mode
  st_block_size :: "int option"

record protection =
  pt_kind :: protection_kind
  pt_copies :: int
  pt_k :: int
  pt_m :: int

record restore_quorum =
  rq_tapes_required :: int
  rq_tapes_total :: int

record protection_policy =
  pp_placement :: placement
  pp_striping :: striping
  pp_protection :: protection
  pp_failure_domain :: failure_domain
  pp_quorum :: "restore_quorum option"

text \<open>The constructors: \<open>__init__\<close> and \<open>__post_init__\<close>.\<close>

definition mk_striping :: "striping_mode \<Rightarrow> int option \<Rightarrow> exc + striping" where
  "mk_striping mode bs =
     (if mode = SM_BLOCK_STRIPE
      then (case bs of
              None \<Rightarrow> Inl InvalidProtectionPolicyError
            | Some n \<Rightarrow> if n \<le> 0 then Inl InvalidProtectionPolicyError else Inr \<lparr>st_mode = mode, st_block_size = bs\<rparr>)
      else if bs \<noteq> None then Inl InvalidProtectionPolicyError
      else Inr \<lparr>st_mode = mode, st_block_size = bs\<rparr>)"

definition mk_protection :: "protection_kind \<Rightarrow> int \<Rightarrow> int \<Rightarrow> int \<Rightarrow> exc + protection" where
  "mk_protection kind copies k m =
     (if copies < 1 then Inl InvalidProtectionPolicyError
      else if kind = PK_ERASURE_CODE \<and> (k < 1 \<or> m < 1) then Inl InvalidProtectionPolicyError
      else Inr \<lparr>pt_kind = kind, pt_copies = copies, pt_k = k, pt_m = m\<rparr>)"

definition protection_none :: "exc + protection" where
  "protection_none = mk_protection PK_NONE 1 0 0"

definition protection_replication :: "int \<Rightarrow> exc + protection" where
  "protection_replication copies = mk_protection PK_REPLICATION copies 0 0"

definition protection_erasure_code :: "int \<Rightarrow> int \<Rightarrow> exc + protection" where
  "protection_erasure_code k m = mk_protection PK_ERASURE_CODE 1 k m"

definition protection_supported :: "protection \<Rightarrow> bool" where
  "protection_supported p \<longleftrightarrow> pt_kind p \<noteq> PK_ERASURE_CODE"

definition protection_redundant :: "protection \<Rightarrow> bool" where
  "protection_redundant p \<longleftrightarrow> (if pt_kind p = PK_REPLICATION then 2 \<le> pt_copies p else pt_kind p = PK_ERASURE_CODE)"

definition mk_quorum :: "int \<Rightarrow> int \<Rightarrow> exc + restore_quorum" where
  "mk_quorum r n =
     (if r < 1 \<or> n < 1 then Inl InvalidProtectionPolicyError
      else if r > n then Inl InvalidProtectionPolicyError
      else Inr \<lparr>rq_tapes_required = r, rq_tapes_total = n\<rparr>)"

definition mk_policy ::
  "placement \<Rightarrow> striping \<Rightarrow> protection \<Rightarrow> failure_domain \<Rightarrow> restore_quorum option \<Rightarrow> exc + protection_policy" where
  "mk_policy pl st pt fd q =
     (if (st_mode st \<noteq> SM_NONE) \<noteq> (pl = PL_STRIPED) then Inl InvalidProtectionPolicyError
      else Inr \<lparr>pp_placement = pl, pp_striping = st, pp_protection = pt, pp_failure_domain = fd, pp_quorum = q\<rparr>)"

definition is_protected :: "protection_policy \<Rightarrow> bool" where
  "is_protected p = protection_redundant (pp_protection p)"

definition policy_durability_class :: "protection_policy \<Rightarrow> durability_class" where
  "policy_durability_class p =
     (if is_protected p then DC_PROTECTED
      else if st_mode (pp_striping p) \<noteq> SM_NONE then DC_PERFORMANCE_ONLY
      else DC_UNPROTECTED)"

definition require_plannable :: "protection_policy \<Rightarrow> exc + unit" where
  "require_plannable p = (if protection_supported (pp_protection p) then Inr () else Inl UnsupportedProtectionError)"

subsection \<open>Dictionaries\<close>

definition json_of_int_opt :: "int option \<Rightarrow> json" where
  "json_of_int_opt v = (case v of None \<Rightarrow> JNull | Some i \<Rightarrow> JInt i)"

definition policy_to_dict :: "protection_policy \<Rightarrow> (string \<times> json) list" where
  "policy_to_dict p =
     [(''placement'', JStr (placement_value (pp_placement p))),
      (''striping'', JObj [(''mode'', JStr (striping_mode_value (st_mode (pp_striping p)))),
                           (''block_size'', json_of_int_opt (st_block_size (pp_striping p)))]),
      (''protection'', JObj [(''kind'', JStr (protection_kind_value (pt_kind (pp_protection p)))),
                             (''copies'', JInt (pt_copies (pp_protection p))),
                             (''k'', JInt (pt_k (pp_protection p))),
                             (''m'', JInt (pt_m (pp_protection p)))]),
      (''failure_domain'', JStr (failure_domain_value (pp_failure_domain p))),
      (''quorum'', case pp_quorum p of
                     None \<Rightarrow> JNull
                   | Some q \<Rightarrow> JObj [(''tapes_required'', JInt (rq_tapes_required q)),
                                    (''tapes_total'', JInt (rq_tapes_total q))]),
      (''durability_class'', JStr (durability_class_value (policy_durability_class p)))]"

text \<open>\<open>Striping(mode=..., block_size=v)\<close> on a decoded value \<open>v\<close>: the comparison \<open>v <= 0\<close> raises
  \<open>TypeError\<close> on a string, list or object.\<close>

definition striping_of_json :: "striping_mode \<Rightarrow> json \<Rightarrow> exc + striping" where
  "striping_of_json mode v =
     (case v of
        JNull \<Rightarrow> mk_striping mode None
      | JInt i \<Rightarrow> mk_striping mode (Some i)
      | JBool b \<Rightarrow> mk_striping mode (Some (if b then 1 else 0))
      | _ \<Rightarrow> if mode = SM_BLOCK_STRIPE then Inl TypeError else Inl InvalidProtectionPolicyError)"

text \<open>\<open>RestoreQuorum(int(quorum["tapes_required"]), int(quorum["tapes_total"]))\<close>.\<close>

definition quorum_of_json :: "json \<Rightarrow> exc + restore_quorum option" where
  "quorum_of_json v =
     (case v of
        JNull \<Rightarrow> Inr None
      | JObj q \<Rightarrow>
          bindR (bindR (dict_index q ''tapes_required'') coerce_int) (\<lambda>r.
          bindR (bindR (dict_index q ''tapes_total'') coerce_int) (\<lambda>t.
          bindR (mk_quorum r t) (\<lambda>rq. Inr (Some rq))))
      | _ \<Rightarrow> Inl TypeError)"

definition PLACEMENTS :: "(string \<times> placement) list" where
  "PLACEMENTS = map (\<lambda>m. (placement_value m, m)) [PL_SINGLE_TAPE, PL_STRIPED]"

definition STRIPING_MODES :: "(string \<times> striping_mode) list" where
  "STRIPING_MODES = map (\<lambda>m. (striping_mode_value m, m)) [SM_NONE, SM_STRIPE, SM_BLOCK_STRIPE]"

definition PROTECTION_KINDS :: "(string \<times> protection_kind) list" where
  "PROTECTION_KINDS = map (\<lambda>m. (protection_kind_value m, m)) [PK_NONE, PK_REPLICATION, PK_ERASURE_CODE]"

definition FAILURE_DOMAINS :: "(string \<times> failure_domain) list" where
  "FAILURE_DOMAINS = map (\<lambda>m. (failure_domain_value m, m)) [FD_DRIVE, FD_TAPE, FD_LIBRARY]"

definition policy_from_dict :: "(string \<times> json) list \<Rightarrow> exc + protection_policy" where
  "policy_from_dict data =
     bindR (enum_of PLACEMENTS (get_or data ''placement'' (JStr ''single_tape''))) (\<lambda>pl.
     bindR (sub_dict data ''striping'') (\<lambda>sd.
     bindR (enum_of STRIPING_MODES (get_or sd ''mode'' (JStr ''none''))) (\<lambda>mode.
     bindR (striping_of_json mode (get_or sd ''block_size'' JNull)) (\<lambda>st.
     bindR (sub_dict data ''protection'') (\<lambda>pd.
     bindR (enum_of PROTECTION_KINDS (get_or pd ''kind'' (JStr ''none''))) (\<lambda>kind.
     bindR (coerce_int (get_or pd ''copies'' (JInt 1))) (\<lambda>copies.
     bindR (coerce_int (get_or pd ''k'' (JInt 0))) (\<lambda>k.
     bindR (coerce_int (get_or pd ''m'' (JInt 0))) (\<lambda>m.
     bindR (mk_protection kind copies k m) (\<lambda>pt.
     bindR (enum_of FAILURE_DOMAINS (get_or data ''failure_domain'' (JStr ''tape''))) (\<lambda>fd.
     bindR (quorum_of_json (get_or data ''quorum'' JNull)) (\<lambda>q.
      mk_policy pl st pt fd q))))))))))))"

text \<open>\<open>protection_from_pool\<close>: the pool's explicit policy, or its \<open>replication_factor\<close> (absent: \<open>None\<close>).\<close>

definition protection_from_pool :: "protection_policy option \<Rightarrow> int option \<Rightarrow> exc + protection_policy" where
  "protection_from_pool explicit factor =
     (case explicit of
        Some p \<Rightarrow> Inr p
      | None \<Rightarrow>
          (let n = (case factor of None \<Rightarrow> 1 | Some f \<Rightarrow> if f = 0 then 1 else f);
               copies = max 1 n
           in bindR (if 2 \<le> copies then protection_replication copies else protection_none) (\<lambda>pt.
              bindR (mk_striping SM_NONE None) (\<lambda>st. mk_policy PL_SINGLE_TAPE st pt FD_TAPE None))))"

subsection \<open>What every constructed policy satisfies\<close>

definition striping_ok :: "striping \<Rightarrow> bool" where
  "striping_ok s \<longleftrightarrow> (if st_mode s = SM_BLOCK_STRIPE then (\<exists>n > 0. st_block_size s = Some n) else st_block_size s = None)"

definition protection_ok :: "protection \<Rightarrow> bool" where
  "protection_ok p \<longleftrightarrow> 1 \<le> pt_copies p \<and> (pt_kind p = PK_ERASURE_CODE \<longrightarrow> 1 \<le> pt_k p \<and> 1 \<le> pt_m p)"

definition quorum_ok :: "restore_quorum \<Rightarrow> bool" where
  "quorum_ok q \<longleftrightarrow> 1 \<le> rq_tapes_required q \<and> rq_tapes_required q \<le> rq_tapes_total q"

definition policy_ok :: "protection_policy \<Rightarrow> bool" where
  "policy_ok p \<longleftrightarrow> striping_ok (pp_striping p) \<and> protection_ok (pp_protection p)
     \<and> (st_mode (pp_striping p) \<noteq> SM_NONE \<longleftrightarrow> pp_placement p = PL_STRIPED)
     \<and> (case pp_quorum p of None \<Rightarrow> True | Some q \<Rightarrow> quorum_ok q)"

lemma mk_striping_iff: "mk_striping mode bs = Inr s \<longleftrightarrow> s = \<lparr>st_mode = mode, st_block_size = bs\<rparr> \<and> striping_ok s"
  by (auto simp: mk_striping_def striping_ok_def split: option.splits)

lemma mk_protection_iff:
  "mk_protection kind copies k m = Inr p \<longleftrightarrow> p = \<lparr>pt_kind = kind, pt_copies = copies, pt_k = k, pt_m = m\<rparr> \<and> protection_ok p"
  by (auto simp: mk_protection_def protection_ok_def)

lemma mk_quorum_iff:
  "mk_quorum r t = Inr q \<longleftrightarrow> q = \<lparr>rq_tapes_required = r, rq_tapes_total = t\<rparr> \<and> quorum_ok q"
  by (auto simp: mk_quorum_def quorum_ok_def)

lemma mk_policy_iff:
  "mk_policy pl st pt fd q = Inr p \<longleftrightarrow>
     p = \<lparr>pp_placement = pl, pp_striping = st, pp_protection = pt, pp_failure_domain = fd, pp_quorum = q\<rparr>
     \<and> (st_mode st \<noteq> SM_NONE \<longleftrightarrow> pl = PL_STRIPED)"
  by (auto simp: mk_policy_def)

lemmas mk_iffs = mk_striping_iff mk_protection_iff mk_quorum_iff mk_policy_iff

lemma striping_of_json_ok: "striping_of_json mode v = Inr st \<Longrightarrow> striping_ok st"
  by (auto simp: striping_of_json_def mk_striping_iff split: json.splits if_splits)

lemma quorum_of_json_ok: "quorum_of_json v = Inr (Some q) \<Longrightarrow> quorum_ok q"
  by (auto simp: quorum_of_json_def bindR_Inr_iff mk_quorum_iff split: json.splits)

lemma enum_of_placement: "enum_of PLACEMENTS (JStr (placement_value m)) = Inr m"
  by (cases m) (simp_all add: enum_of_def PLACEMENTS_def)

lemma enum_of_striping: "enum_of STRIPING_MODES (JStr (striping_mode_value m)) = Inr m"
  by (cases m) (simp_all add: enum_of_def STRIPING_MODES_def)

lemma enum_of_kind: "enum_of PROTECTION_KINDS (JStr (protection_kind_value m)) = Inr m"
  by (cases m) (simp_all add: enum_of_def PROTECTION_KINDS_def)

lemma enum_of_domain: "enum_of FAILURE_DOMAINS (JStr (failure_domain_value m)) = Inr m"
  by (cases m) (simp_all add: enum_of_def FAILURE_DOMAINS_def)

lemmas enum_of_values = enum_of_placement enum_of_striping enum_of_kind enum_of_domain



text \<open>A constructed policy survives its JSON form: \<open>from_dict\<close> of \<open>to_dict\<close> is the policy.\<close>

theorem policy_dict_roundtrip: "policy_ok p \<Longrightarrow> policy_from_dict (policy_to_dict p) = Inr p"
proof -
  assume ok: "policy_ok p"
  let ?s = "pp_striping p" and ?t = "pp_protection p"
  have st: "striping_of_json (st_mode ?s) (json_of_int_opt (st_block_size ?s)) = Inr ?s"
    using ok by (cases "st_block_size ?s") (auto simp: striping_of_json_def json_of_int_opt_def mk_striping_iff policy_ok_def)
  have pt: "mk_protection (pt_kind ?t) (pt_copies ?t) (pt_k ?t) (pt_m ?t) = Inr ?t"
    using ok by (simp add: mk_protection_iff policy_ok_def)
  have q: "quorum_of_json (case pp_quorum p of None \<Rightarrow> JNull
      | Some q \<Rightarrow> JObj [(''tapes_required'', JInt (rq_tapes_required q)), (''tapes_total'', JInt (rq_tapes_total q))])
      = Inr (pp_quorum p)"
  proof (cases "pp_quorum p")
    case (Some q)
    with ok have "mk_quorum (rq_tapes_required q) (rq_tapes_total q) = Inr q"
      by (simp add: mk_quorum_iff policy_ok_def)
    with Some show ?thesis by (simp add: quorum_of_json_def dict_index_def)
  qed (simp add: quorum_of_json_def)
  have "mk_policy (pp_placement p) ?s ?t (pp_failure_domain p) (pp_quorum p) = Inr p"
    using ok by (simp add: mk_policy_iff policy_ok_def)
  then show ?thesis
    by (simp add: policy_from_dict_def policy_to_dict_def get_or_def sub_dict_def enum_of_values st pt q)
qed

theorem policy_dict_roundtrip_witness:
  "policy_from_dict (policy_to_dict \<lparr>pp_placement = PL_SINGLE_TAPE,
      pp_striping = \<lparr>st_mode = SM_NONE, st_block_size = None\<rparr>,
      pp_protection = \<lparr>pt_kind = PK_ERASURE_CODE, pt_copies = 1, pt_k = 4, pt_m = 2\<rparr>,
      pp_failure_domain = FD_DRIVE, pp_quorum = None\<rparr>)
   = Inr \<lparr>pp_placement = PL_SINGLE_TAPE,
      pp_striping = \<lparr>st_mode = SM_NONE, st_block_size = None\<rparr>,
      pp_protection = \<lparr>pt_kind = PK_ERASURE_CODE, pt_copies = 1, pt_k = 4, pt_m = 2\<rparr>,
      pp_failure_domain = FD_DRIVE, pp_quorum = None\<rparr>"
  by (rule policy_dict_roundtrip) (simp add: policy_ok_def striping_ok_def protection_ok_def)

text \<open>Striping never makes a policy protected, and a pool without an explicit policy is protected exactly
  when it keeps at least two copies.\<close>

lemma durability_ignores_striping:
  "policy_durability_class p = DC_PROTECTED \<longleftrightarrow> protection_redundant (pp_protection p)"
  by (simp add: policy_durability_class_def is_protected_def)

lemma pool_protection:
  "\<exists>p. protection_from_pool None factor = Inr p \<and> policy_ok p \<and> require_plannable p = Inr ()
     \<and> (is_protected p \<longleftrightarrow> (case factor of None \<Rightarrow> False | Some f \<Rightarrow> 2 \<le> f))"
  by (auto simp: protection_from_pool_def protection_replication_def protection_none_def mk_protection_def
      mk_striping_def mk_policy_def policy_ok_def striping_ok_def protection_ok_def require_plannable_def
      protection_supported_def is_protected_def protection_redundant_def Let_def max_def split: option.splits)

section \<open>Coordinates and move classes of the Scalar i3\<close>

record scalar_coordinate =
  sc_frame :: int
  sc_rack :: int
  sc_section :: int
  sc_column :: int
  sc_row :: int
  sc_element_type :: int

definition coordinate_to_dict :: "scalar_coordinate \<Rightarrow> (string \<times> json) list" where
  "coordinate_to_dict c =
     [(''frame'', JInt (sc_frame c)), (''rack'', JInt (sc_rack c)), (''section'', JInt (sc_section c)),
      (''column'', JInt (sc_column c)), (''row'', JInt (sc_row c)), (''type'', JInt (sc_element_type c))]"

definition coordinate_from_dict :: "(string \<times> json) list \<Rightarrow> exc + scalar_coordinate" where
  "coordinate_from_dict data =
     (case bindR (bindR (dict_index data ''frame'') coerce_int) (\<lambda>fr.
           bindR (bindR (dict_index data ''rack'') coerce_int) (\<lambda>ra.
           bindR (bindR (dict_index data ''section'') coerce_int) (\<lambda>se.
           bindR (bindR (dict_index data ''column'') coerce_int) (\<lambda>co.
           bindR (bindR (dict_index data ''row'') coerce_int) (\<lambda>ro.
           bindR (coerce_int (get_or data ''type'' (get_or data ''element_type'' (JInt 0)))) (\<lambda>ty.
            Inr \<lparr>sc_frame = fr, sc_rack = ra, sc_section = se, sc_column = co, sc_row = ro, sc_element_type = ty\<rparr>)))))) of
        Inl _ \<Rightarrow> Inl (ValueError ''invalid ScalarCoordinate dict'')
      | Inr c \<Rightarrow> Inr c)"

text \<open>A coordinate survives its dictionary form.\<close>

lemma coordinate_roundtrip: "coordinate_from_dict (coordinate_to_dict c) = Inr c"
  by (simp add: coordinate_from_dict_def coordinate_to_dict_def dict_index_def get_or_def)

text \<open>\<open>MoveClass\<close> is an \<open>IntFlag\<close>: an integer.\<close>

type_synonym move_class = int

definition MC_NORMAL :: move_class where "MC_NORMAL = 0"
definition MC_IMPORT :: move_class where "MC_IMPORT = 2"
definition MC_EXPORT :: move_class where "MC_EXPORT = 4"
definition MC_UNLOAD :: move_class where "MC_UNLOAD = 8"
definition MC_NO_EJECT :: move_class where "MC_NO_EJECT = 16"
definition MC_CLOSEST_SLOT :: move_class where "MC_CLOSEST_SLOT = 32"

definition DEPRECATED_UNLOAD_WIRE :: int where "DEPRECATED_UNLOAD_WIRE = 3"

definition is_unload :: "move_class \<Rightarrow> bool" where
  "is_unload mc \<longleftrightarrow> mc AND MC_UNLOAD \<noteq> 0"

definition is_supported_on_i3 :: "move_class \<Rightarrow> bool" where
  "is_supported_on_i3 mc \<longleftrightarrow> \<not> (mc AND (MC_IMPORT OR MC_EXPORT) \<noteq> 0)"

definition from_wire :: "int \<Rightarrow> move_class" where
  "from_wire v =
     (if v = DEPRECATED_UNLOAD_WIRE then MC_UNLOAD
      else foldl (\<lambda>result flag. if v AND flag \<noteq> 0 then result OR flag else result) MC_NORMAL
             [MC_IMPORT, MC_EXPORT, MC_UNLOAD, MC_NO_EJECT, MC_CLOSEST_SLOT])"

definition to_wire :: "move_class \<Rightarrow> int" where
  "to_wire mc = mc"

lemmas mc_defs = MC_NORMAL_def MC_IMPORT_def MC_EXPORT_def MC_UNLOAD_def MC_NO_EJECT_def MC_CLOSEST_SLOT_def
  DEPRECATED_UNLOAD_WIRE_def

text \<open>Adding a flag bit that is set is the same as joining the masked value.\<close>

lemma add_flag:
  fixes v r :: int
  shows "(if v AND 2 ^ n \<noteq> 0 then r OR 2 ^ n else r) = r OR (v AND 2 ^ n)"
proof (rule bit_eqI)
  fix k
  show "bit (if v AND 2 ^ n \<noteq> 0 then r OR 2 ^ n else r) k = bit (r OR (v AND 2 ^ n)) k"
    by (cases "k = n") (auto simp: and_exp_eq_0_iff_not_bit bit_or_iff bit_and_iff bit_exp_iff)
qed

lemma add_flags:
  fixes v r :: int
  shows "foldl (\<lambda>result flag. if v AND flag \<noteq> 0 then result OR flag else result) r (map ((^) 2) ns)
    = foldl (\<lambda>result flag. result OR (v AND flag)) r (map ((^) 2) ns)"
  by (induction ns arbitrary: r) (simp_all only: list.map foldl.simps add_flag)

lemma from_wire_mask:
  assumes "v \<noteq> 3"
  shows "from_wire v = v AND 62"
proof -
  have "from_wire v = foldl (\<lambda>result flag. if v AND flag \<noteq> 0 then result OR flag else result) 0 (map ((^) 2) [1, 2, 3, 4, 5])"
    using assms by (simp add: from_wire_def mc_defs)
  also have "\<dots> = v AND (2 OR (4 OR (8 OR (16 OR 32))))"
    by (simp only: add_flags) (simp add: bit.conj_disj_distrib or.assoc del: or_numerals)
  finally show ?thesis by simp
qed

lemma is_unload_mask: "is_unload (v AND 62) \<longleftrightarrow> is_unload v"
  by (simp add: is_unload_def mc_defs and.assoc)

text \<open>On the wire the move class is the bit field of the manual: reading keeps exactly the documented
  bits and takes the deprecated \<open>3\<close> for unload, a value of documented bits survives writing and reading, and
  a move is no unload exactly when it is not the deprecated value and lacks the unload bit.\<close>

theorem move_class_wire:
  "from_wire v = (if v = 3 then 8 else v AND 62)
   \<and> from_wire (to_wire (w AND 62)) = w AND 62
   \<and> (\<not> is_unload (from_wire v) \<longleftrightarrow> v \<noteq> 3 \<and> v AND 8 = 0)"
proof -
  have "w AND 62 \<noteq> 3"
  proof
    assume "w AND 62 = 3"
    then have "bit (w AND 62) 0 = bit (3::int) 0" by simp
    then show False by (simp only: bit_and_iff) simp
  qed
  moreover have "is_unload (v AND 62) \<longleftrightarrow> v AND 8 \<noteq> 0" by (simp only: is_unload_mask) (simp add: is_unload_def mc_defs)
  moreover have "from_wire 3 = 8" by (simp add: from_wire_def mc_defs)
  moreover have "is_unload 8" by (simp add: is_unload_def mc_defs)
  ultimately show ?thesis by (simp add: from_wire_mask to_wire_def and.assoc)
qed

end
