(* ===== verification/Fuse_Cache.thy ===== *)
theory Fuse_Cache
  imports Shard_Engine Protection
begin

text \<open>
  \<open>fuse/cache.py\<close>: the checksum-addressed cache of hydrated files, with its integrity records, its
  reference counts and its byte budget with eviction in order of use. The directory of the cache is three
  parts of the state: the data files and the integrity records, both keyed by the checksum (which is the
  file's name; a checksum is a hexadecimal digest, so no data file has the name of a record), and
  \<open>index.json\<close>. A JSON file is \<open>Some v\<close> for its decoded content and \<open>None\<close> when it cannot be decoded.
  Errors of the operating system are not modelled. The hash, the seed of the sampled block and the clock
  are arguments.
\<close>

section \<open>State\<close>

record cached_file =
  cf_bytes :: bytes
  cf_mtime_ns :: int

record hydration_cache =
  hc_max_bytes :: "int option"
  hc_lru :: "(string, int) dict"
  hc_refs :: "(string, int) dict"
  hc_files :: "(string, cached_file) dict"
  hc_meta :: "(string, json option) dict"
  hc_index :: "json option option"

definition SAMPLE_BYTES :: int where
  "SAMPLE_BYTES = 64 * 1024"

definition PREAD_CAP :: nat where
  "PREAD_CAP = 2 ^ 30"

text \<open>\<open>seed\<close> stands for the first eight bytes of the digest of the checksum, as a number.\<close>

definition sample_offset :: "(string \<Rightarrow> int) \<Rightarrow> string \<Rightarrow> int \<Rightarrow> int" where
  "sample_offset seed checksum sz =
     (if sz \<le> SAMPLE_BYTES then 0 else seed checksum mod max 1 (sz - SAMPLE_BYTES))"

definition cache_key :: "string \<Rightarrow> exc + string" where
  "cache_key checksum =
     (if checksum \<in> {'''', ''.'', ''..''} \<or> CHR ''/'' \<in> set checksum \<or> CHR 0x5C \<in> set checksum \<or> CHR 0x00 \<in> set checksum
      then Inl CacheError else Inr checksum)"

definition refs_of :: "string \<Rightarrow> hydration_cache \<Rightarrow> int" where
  "refs_of checksum c = (case dict_get (hc_refs c) checksum of None \<Rightarrow> 0 | Some n \<Rightarrow> n)"

abbreviation open_count :: "string \<Rightarrow> hydration_cache \<Rightarrow> int" where
  "open_count \<equiv> refs_of"

definition used_bytes :: "hydration_cache \<Rightarrow> int" where
  "used_bytes c = sum_list (dict_values (hc_lru c))"

definition move_to_end :: "'k \<Rightarrow> ('k, 'v) dict \<Rightarrow> ('k, 'v) dict" where
  "move_to_end k d = (case dict_get d k of None \<Rightarrow> d | Some v \<Rightarrow> dict_pop k d @ [(k, v)])"

section \<open>Index\<close>

definition index_json :: "(string, int) dict \<Rightarrow> json" where
  "index_json lru = JList (map (\<lambda>(c, n). JList [JStr c, JInt n]) lru)"

definition persist_index :: "(hydration_cache, unit) op" where
  "persist_index = modifyM (\<lambda>c. c\<lparr>hc_index := Some (Some (index_json (hc_lru c)))\<rparr>)"

text \<open>What a decoded value yields when iterated.\<close>

fun json_iter :: "json \<Rightarrow> json list option" where
  "json_iter (JList vs) = Some vs"
| "json_iter (JObj d) = Some (map (JStr \<circ> fst) d)"
| "json_iter (JStr s) = Some (map (\<lambda>ch. JStr [ch]) s)"
| "json_iter _ = None"

text \<open>The loop over the pairs of the index; any exception makes the caller start from an empty index.\<close>

fun load_pairs :: "(string, cached_file) dict \<Rightarrow> json list \<Rightarrow> (string, int) dict \<Rightarrow> exc + (string, int) dict" where
  "load_pairs files [] lru = Inr lru"
| "load_pairs files (v # vs) lru =
     (case json_iter v of
        None \<Rightarrow> Inl TypeError
      | Some [JStr checksum, sz] \<Rightarrow>
          bindR (cache_key checksum) (\<lambda>key.
            if dict_get files key \<noteq> None
            then bindR (coerce_int sz) (\<lambda>n. load_pairs files vs (dict_set checksum n lru))
            else load_pairs files vs lru)
      | Some [_, _] \<Rightarrow> load_pairs files vs lru
      | Some _ \<Rightarrow> Inl (ValueError ''values to unpack''))"

definition meta_name :: "string \<Rightarrow> bool" where
  "meta_name s \<longleftrightarrow> drop (length s - length ''.meta.json'') s = ''.meta.json'' \<and> length ''.meta.json'' \<le> length s"

text \<open>The scan of \<open>??/*\<close> in order: data files the index misses are appended.\<close>

fun scan_files :: "(string, cached_file) dict \<Rightarrow> string list \<Rightarrow> (string, int) dict \<Rightarrow> (string, int) dict" where
  "scan_files files [] lru = lru"
| "scan_files files (name # names) lru =
     scan_files files names
       (if take 1 name = ''.'' \<or> meta_name name then lru
        else if dict_get lru name \<noteq> None then lru
        else (case dict_get files name of None \<Rightarrow> lru | Some f \<Rightarrow> dict_set name (int (length (cf_bytes f))) lru))"

definition load_index :: "hydration_cache \<Rightarrow> hydration_cache" where
  "load_index c =
     (let indexed = (case hc_index c of
                       None \<Rightarrow> hc_lru c
                     | Some None \<Rightarrow> []
                     | Some (Some raw) \<Rightarrow>
                         (case json_iter raw of
                            None \<Rightarrow> []
                          | Some vs \<Rightarrow> (case load_pairs (hc_files c) vs (hc_lru c) of Inl _ \<Rightarrow> [] | Inr l \<Rightarrow> l)))
      in c\<lparr>hc_lru := scan_files (hc_files c) (sort (filter (\<lambda>k. 2 \<le> length k) (dict_keys (hc_files c)))) indexed\<rparr>)"

section \<open>Eviction and tracking\<close>

definition evict :: "string \<Rightarrow> (hydration_cache, unit) op" where
  "evict checksum =
     bindM (getsM (refs_of checksum)) (\<lambda>n.
     thenM (guardM (\<not> 0 < n) CacheEntryInUseError)
     (thenM (modifyM (\<lambda>c. c\<lparr>hc_lru := dict_pop checksum (hc_lru c)\<rparr>))
     (bindM (liftM (cache_key checksum)) (\<lambda>key.
      thenM (modifyM (\<lambda>c. c\<lparr>hc_files := dict_pop key (hc_files c)\<rparr>))
      (thenM (modifyM (\<lambda>c. c\<lparr>hc_meta := dict_pop key (hc_meta c)\<rparr>))
       persist_index)))))"

fun enforce_loop :: "int \<Rightarrow> string list \<Rightarrow> (hydration_cache, unit) op" where
  "enforce_loop limit [] = returnM ()"
| "enforce_loop limit (k # ks) =
     bindM (getsM used_bytes) (\<lambda>used.
       if used \<le> limit then returnM ()
       else bindM (getsM (refs_of k)) (\<lambda>n.
         if 0 < n then enforce_loop limit ks else thenM (evict k) (enforce_loop limit ks)))"

definition enforce_budget :: "(hydration_cache, unit) op" where
  "enforce_budget =
     bindM (getsM hc_max_bytes) (\<lambda>m.
      case m of None \<Rightarrow> returnM ()
      | Some limit \<Rightarrow> bindM (getsM (\<lambda>c. butlast (dict_keys (hc_lru c)))) (\<lambda>ks. enforce_loop limit ks))"

definition cache_acquire :: "string \<Rightarrow> (hydration_cache, unit) op" where
  "cache_acquire checksum =
     thenM (modifyM (\<lambda>c. c\<lparr>hc_refs := dict_set checksum (refs_of checksum c + 1) (hc_refs c)\<rparr>))
      (modifyM (\<lambda>c. if dict_get (hc_lru c) checksum \<noteq> None then c\<lparr>hc_lru := move_to_end checksum (hc_lru c)\<rparr> else c))"

definition cache_release :: "string \<Rightarrow> (hydration_cache, unit) op" where
  "cache_release checksum =
     bindM (getsM (\<lambda>c. refs_of checksum c - 1)) (\<lambda>count.
     thenM (modifyM (\<lambda>c. if count \<le> 0 then c\<lparr>hc_refs := dict_pop checksum (hc_refs c)\<rparr>
                         else c\<lparr>hc_refs := dict_set checksum count (hc_refs c)\<rparr>))
      enforce_budget)"

definition track :: "string \<Rightarrow> int \<Rightarrow> (hydration_cache, unit) op" where
  "track checksum sz =
     thenM (modifyM (\<lambda>c. c\<lparr>hc_lru := move_to_end checksum (dict_set checksum sz (hc_lru c))\<rparr>))
     (thenM enforce_budget persist_index)"

definition empty_cache :: "int option \<Rightarrow> (string, cached_file) dict \<Rightarrow> (string, json option) dict \<Rightarrow> json option option \<Rightarrow> hydration_cache" where
  "empty_cache limit files meta idx =
     \<lparr>hc_max_bytes = limit, hc_lru = [], hc_refs = [], hc_files = files, hc_meta = meta, hc_index = idx\<rparr>"

text \<open>\<open>HydrationCache(cache_dir, max_bytes)\<close> on the directory's content.\<close>

definition init_cache :: "int option \<Rightarrow> (string, cached_file) dict \<Rightarrow> (string, json option) dict \<Rightarrow> json option option \<Rightarrow> (exc + unit) \<times> hydration_cache" where
  "init_cache limit files meta idx = enforce_budget (load_index (empty_cache limit files meta idx))"

section \<open>Integrity records\<close>

definition sample_digest :: "(bytes \<Rightarrow> string) \<Rightarrow> bytes \<Rightarrow> int \<Rightarrow> int \<Rightarrow> string" where
  "sample_digest sha content offset len = sha (py_read len (drop (nat offset) content))"

definition meta_record :: "(bytes \<Rightarrow> string) \<Rightarrow> (string \<Rightarrow> int) \<Rightarrow> string \<Rightarrow> cached_file \<Rightarrow> json" where
  "meta_record sha seed checksum f =
     (let sz = int (length (cf_bytes f));
          offset = sample_offset seed checksum sz;
          len = min SAMPLE_BYTES sz
      in JObj [(''size'', JInt sz), (''mtime_ns'', JInt (cf_mtime_ns f)),
               (''sample'', JObj [(''offset'', JInt offset), (''len'', JInt len),
                                  (''sha256'', JStr (sample_digest sha (cf_bytes f) offset len))])])"

definition write_meta :: "(bytes \<Rightarrow> string) \<Rightarrow> (string \<Rightarrow> int) \<Rightarrow> string \<Rightarrow> (hydration_cache, unit) op" where
  "write_meta sha seed checksum =
     bindM (liftM (cache_key checksum)) (\<lambda>key.
     bindM (getsM (\<lambda>c. dict_get (hc_files c) key)) (\<lambda>found.
      case found of
        None \<Rightarrow> raiseM OSFileNotFoundError
      | Some f \<Rightarrow> modifyM (\<lambda>c. c\<lparr>hc_meta := dict_set key (Some (meta_record sha seed checksum f)) (hc_meta c)\<rparr>)))"

text \<open>\<open>n == v\<close> for a number and a decoded value.\<close>

fun int_eq_json :: "int \<Rightarrow> json \<Rightarrow> bool" where
  "int_eq_json n (JInt i) \<longleftrightarrow> n = i"
| "int_eq_json n (JBool b) \<longleftrightarrow> n = (if b then 1 else 0)"
| "int_eq_json n _ \<longleftrightarrow> False"

definition index_json_obj :: "json \<Rightarrow> string \<Rightarrow> exc + json" where
  "index_json_obj v k = (case v of JObj d \<Rightarrow> dict_index d k | _ \<Rightarrow> Inl TypeError)"

text \<open>The body of the \<open>try\<close> in \<open>_entry_matches\<close>; the exceptions it may raise all mean \<open>False\<close>.\<close>

definition record_matches :: "(bytes \<Rightarrow> string) \<Rightarrow> (string \<Rightarrow> int) \<Rightarrow> string \<Rightarrow> json \<Rightarrow> cached_file \<Rightarrow> exc + bool" where
  "record_matches sha seed checksum rec f =
     (let sz = int (length (cf_bytes f)) in
      bindR (index_json_obj rec ''sample'') (\<lambda>sample.
      bindR (index_json_obj rec ''size'') (\<lambda>rsize.
      if \<not> int_eq_json sz rsize then Inr False else
      bindR (index_json_obj rec ''mtime_ns'') (\<lambda>rmtime.
      if \<not> int_eq_json (cf_mtime_ns f) rmtime then Inr False else
      bindR (bindR (index_json_obj sample ''offset'') coerce_int) (\<lambda>offset.
      bindR (bindR (index_json_obj sample ''len'') coerce_int) (\<lambda>len.
      if (offset, len) \<noteq> (sample_offset seed checksum sz, min SAMPLE_BYTES sz) then Inr False else
      bindR (index_json_obj sample ''sha256'') (\<lambda>digest.
       Inr (JStr (sample_digest sha (cf_bytes f) offset len) = digest))))))))"

definition entry_matches :: "(bytes \<Rightarrow> string) \<Rightarrow> (string \<Rightarrow> int) \<Rightarrow> string \<Rightarrow> hydration_cache \<Rightarrow> exc + bool" where
  "entry_matches sha seed checksum c =
     bindR (cache_key checksum) (\<lambda>key.
      case (dict_get (hc_meta c) key, dict_get (hc_files c) key) of
        (Some (Some rec), Some f) \<Rightarrow> (case record_matches sha seed checksum rec f of Inl _ \<Rightarrow> Inr False | Inr b \<Rightarrow> Inr b)
      | _ \<Rightarrow> Inr False)"

definition verify_entry :: "(bytes \<Rightarrow> string) \<Rightarrow> (string \<Rightarrow> int) \<Rightarrow> string \<Rightarrow> (hydration_cache, bool) op" where
  "verify_entry sha seed checksum =
     bindM (queryM (entry_matches sha seed checksum)) (\<lambda>ok.
      if ok then returnM True
      else thenM (modifyM (\<lambda>c. c\<lparr>hc_lru := dict_pop checksum (hc_lru c)\<rparr>))
       (bindM (liftM (cache_key checksum)) (\<lambda>key.
        thenM (modifyM (\<lambda>c. c\<lparr>hc_files := dict_pop key (hc_files c), hc_meta := dict_pop key (hc_meta c)\<rparr>))
        (thenM persist_index (raiseM CacheIntegrityError)))))"

section \<open>Storing and reading\<close>

definition store_verified ::
  "(bytes \<Rightarrow> string) \<Rightarrow> (string \<Rightarrow> int) \<Rightarrow> int \<Rightarrow> string \<Rightarrow> bytes \<Rightarrow> (hydration_cache, string) op" where
  "store_verified sha seed now checksum staged =
     bindM (liftM (cache_key checksum)) (\<lambda>final.
     (let copied = concat (read_chunks (2 ^ 20) staged) in
      thenM (guardM (sha copied = checksum) CacheChecksumError)
      (thenM (modifyM (\<lambda>c. c\<lparr>hc_files := dict_set final \<lparr>cf_bytes = copied, cf_mtime_ns = now\<rparr> (hc_files c)\<rparr>))
      (thenM (write_meta sha seed checksum)
      (thenM (track checksum (int (length copied)))
       (returnM final))))))"

definition cache_store ::
  "(bytes \<Rightarrow> string) \<Rightarrow> (string \<Rightarrow> int) \<Rightarrow> int \<Rightarrow> string \<Rightarrow> bytes \<Rightarrow> (hydration_cache, string) op" where
  "cache_store sha seed now checksum content =
     bindM (liftM (cache_key checksum)) (\<lambda>path.
     thenM (modifyM (\<lambda>c. c\<lparr>hc_files := dict_set path \<lparr>cf_bytes = content, cf_mtime_ns = now\<rparr> (hc_files c)\<rparr>))
     (thenM (write_meta sha seed checksum)
     (thenM (track checksum (int (length content)))
      (returnM path))))"

definition is_cached :: "string \<Rightarrow> hydration_cache \<Rightarrow> exc + bool" where
  "is_cached checksum c = bindR (cache_key checksum) (\<lambda>key. Inr (dict_get (hc_files c) key \<noteq> None))"

definition retrieve :: "(bytes \<Rightarrow> string) \<Rightarrow> string \<Rightarrow> (hydration_cache, bytes) op" where
  "retrieve sha checksum =
     bindM (liftM (cache_key checksum)) (\<lambda>key.
     bindM (getsM (\<lambda>c. dict_get (hc_files c) key)) (\<lambda>found.
      case found of
        None \<Rightarrow> raiseM OSFileNotFoundError
      | Some f \<Rightarrow>
          if sha (cf_bytes f) \<noteq> checksum
          then thenM (modifyM (\<lambda>c. c\<lparr>hc_files := dict_pop key (hc_files c)\<rparr>)) (raiseM CacheChecksumError)
          else returnM (cf_bytes f)))"

text \<open>\<open>os.pread\<close> may return fewer bytes than asked, but at least one before the end of the file: \<open>short k\<close>
  bounds what the \<open>k\<close>-th call returns.\<close>

definition pread :: "(nat \<Rightarrow> nat) \<Rightarrow> nat \<Rightarrow> bytes \<Rightarrow> nat \<Rightarrow> nat \<Rightarrow> bytes" where
  "pread short k content n pos = take (min n (max 1 (short k))) (drop pos content)"

function pread_loop :: "(nat \<Rightarrow> nat) \<Rightarrow> nat \<Rightarrow> bytes \<Rightarrow> nat \<Rightarrow> nat \<Rightarrow> bytes list" where
  "pread_loop short k content remaining pos =
     (if remaining = 0 then []
      else let chunk = pread short k content (min remaining PREAD_CAP) pos
           in if chunk = [] then []
              else chunk # pread_loop short (Suc k) content (remaining - length chunk) (pos + length chunk))"
  by pat_completeness auto
termination
  by (relation "measure (\<lambda>(short, k, content, remaining, pos). remaining)")
    (auto simp: length_greater_0_conv [symmetric] simp del: length_greater_0_conv)

declare pread_loop.simps [simp del]

definition read_range :: "(nat \<Rightarrow> nat) \<Rightarrow> string \<Rightarrow> int \<Rightarrow> int \<Rightarrow> hydration_cache \<Rightarrow> exc + bytes" where
  "read_range short checksum offset len c =
     (if offset < 0 \<or> len < 0 then Inl CacheError
      else bindR (cache_key checksum) (\<lambda>key.
        case dict_get (hc_files c) key of
          None \<Rightarrow> Inl OSFileNotFoundError
        | Some f \<Rightarrow> Inr (concat (pread_loop short 0 (cf_bytes f) (nat len) (nat offset)))))"

section \<open>Range reads\<close>

lemma concat_pread_loop: "concat (pread_loop short k content n pos) = take n (drop pos content)"
proof (induction short k content n pos rule: pread_loop.induct)
  case (1 short k content n pos)
  let ?chunk = "pread short k content (min n PREAD_CAP) pos"
  have chunk: "?chunk = take (min (min n PREAD_CAP) (max 1 (short k))) (drop pos content)"
    by (simp add: pread_def)
  show ?case
  proof (cases "n = 0 \<or> ?chunk = []")
    case True
    then have "n = 0 \<or> drop pos content = []" unfolding chunk by (auto simp: PREAD_CAP_def)
    with True show ?thesis by (auto simp: pread_loop.simps [of short k content n pos])
  next
    case False
    then have "concat (pread_loop short k content n pos)
        = ?chunk @ take (n - length ?chunk) (drop (pos + length ?chunk) content)"
      using "1.IH" by (simp add: pread_loop.simps [of short k content n pos] Let_def)
    also have "\<dots> = take n (drop pos content)"
    proof -
      let ?m = "length ?chunk"
      have m: "?m \<le> n" by (simp add: chunk)
      have "take (length (take i xs)) xs = take i xs" for i and xs :: bytes by (cases "i \<le> length xs") simp_all
      then have eq: "?chunk = take ?m (drop pos content)" unfolding chunk by metis
      have "take n (drop pos content) = take ?m (drop pos content) @ take (n - ?m) (drop ?m (drop pos content))"
        using m by (metis le_add_diff_inverse take_add)
      then show ?thesis using eq by (simp add: add.commute)
    qed
    finally show ?thesis .
  qed
qed

text \<open>A range read of a cached file returns exactly the bytes of the range, cut at the end of the file,
  however the operating system splits the reads.\<close>

theorem read_range_exact:
  assumes "dict_get (hc_files c) checksum = Some f" and "cache_key checksum = Inr checksum"
    and "0 \<le> offset" and "0 \<le> len"
  shows "read_range short checksum offset len c = Inr (take (nat len) (drop (nat offset) (cf_bytes f)))"
  using assms by (simp add: read_range_def concat_pread_loop)

theorem read_range_exact_witness:
  "read_range (\<lambda>k. 2) ''ab'' 1 3 (empty_cache None [(''ab'', \<lparr>cf_bytes = [1, 2, 3, 4, 5], cf_mtime_ns = 0\<rparr>)] [] None)
   = Inr [2, 3, 4]"
  using read_range_exact [of "empty_cache None [(''ab'', \<lparr>cf_bytes = [1, 2, 3, 4, 5], cf_mtime_ns = 0\<rparr>)] [] None"
      "''ab''" "\<lparr>cf_bytes = [1, 2, 3, 4, 5], cf_mtime_ns = 0\<rparr>" 1 3 "\<lambda>k. 2"]
  by (simp add: empty_cache_def cache_key_def)

section \<open>Eviction\<close>

lemma cache_key_Inr: "cache_key checksum = Inr key \<Longrightarrow> key = checksum"
  by (simp add: cache_key_def split: if_splits)

lemma evict_run:
  "refs_of k c \<le> 0 \<Longrightarrow> cache_key k = Inr k \<Longrightarrow>
   evict k c = (Inr (), c\<lparr>hc_lru := dict_pop k (hc_lru c), hc_files := dict_pop k (hc_files c),
      hc_meta := dict_pop k (hc_meta c), hc_index := Some (Some (index_json (dict_pop k (hc_lru c))))\<rparr>)"
  by (simp add: evict_def op_defs persist_index_def)

lemma dict_keys_pop: "dict_keys (dict_pop k d) = filter (\<lambda>x. x \<noteq> k) (dict_keys d)"
  by (induction d) auto

lemma filter_neq_id: "k \<notin> set xs \<Longrightarrow> filter (\<lambda>x. x \<noteq> k) xs = xs"
  by (induction xs) auto

text \<open>What an operation leaves alone of the entry \<open>k\<close>: its file, its record and its open handles.\<close>

definition spares :: "string \<Rightarrow> hydration_cache \<Rightarrow> hydration_cache \<Rightarrow> bool" where
  "spares k c c' \<longleftrightarrow> dict_get (hc_files c') k = dict_get (hc_files c) k
     \<and> dict_get (hc_meta c') k = dict_get (hc_meta c) k \<and> refs_of k c' = refs_of k c"

lemma spares_refl: "spares k c c" and spares_trans: "spares k c c1 \<Longrightarrow> spares k c1 c2 \<Longrightarrow> spares k c c2"
  by (simp_all add: spares_def)

lemma evict_spares: "0 < refs_of k c \<or> j \<noteq> k \<Longrightarrow> spares k c (snd (evict j c))"
  by (auto simp: evict_def op_defs persist_index_def spares_def refs_of_def dict_simps
      dest: cache_key_Inr split: sum.splits)

lemma enforce_loop_spares: "0 < refs_of k c \<or> k \<notin> set ks \<Longrightarrow> spares k c (snd (enforce_loop limit ks c))"
proof (induction ks arbitrary: c)
  case Nil
  then show ?case by (simp add: op_defs spares_refl)
next
  case (Cons j ks)
  have ev: "spares k c (snd (evict j c))" by (rule evict_spares) (use Cons.prems in auto)
  then have "0 < refs_of k (snd (evict j c)) \<or> k \<notin> set ks" using Cons.prems by (auto simp: spares_def)
  then have "spares k c (snd (enforce_loop limit ks (snd (evict j c))))"
    using ev Cons.IH spares_trans by blast
  with Cons ev show ?case
    by (auto simp: op_defs spares_refl split: prod.splits sum.splits)
qed

lemma enforce_budget_spares:
  "0 < refs_of k c \<or> k \<notin> set (butlast (dict_keys (hc_lru c))) \<Longrightarrow> spares k c (snd (enforce_budget c))"
  by (auto simp: enforce_budget_def op_defs spares_refl enforce_loop_spares split: option.splits)

lemma enforce_loop_returns: "(\<And>k. k \<in> set ks \<Longrightarrow> cache_key k = Inr k) \<Longrightarrow> fst (enforce_loop limit ks c) = Inr ()"
proof (induction ks arbitrary: c)
  case (Cons k ks)
  then have "fst (enforce_loop limit ks d) = Inr ()" for d by simp
  moreover have "fst (evict k c) = Inr ()" if "\<not> 0 < refs_of k c" using that Cons.prems [of k] by (simp add: evict_run)
  ultimately show ?case by (auto simp: op_defs split: prod.splits sum.splits)
qed (simp add: op_defs)

lemma enforce_budget_returns:
  "(\<And>k. k \<in> set (dict_keys (hc_lru c)) \<Longrightarrow> cache_key k = Inr k) \<Longrightarrow> fst (enforce_budget c) = Inr ()"
  by (auto simp: enforce_budget_def op_defs intro!: enforce_loop_returns dest: in_set_butlastD split: option.splits)

section \<open>The budget\<close>

text \<open>Within the budget, or everything but the newest entry is open.\<close>

definition within_budget :: "hydration_cache \<Rightarrow> bool" where
  "within_budget c \<longleftrightarrow>
     (case hc_max_bytes c of
        None \<Rightarrow> True
      | Some limit \<Rightarrow> used_bytes c \<le> limit \<or> list_all (\<lambda>k. 0 < refs_of k c) (butlast (dict_keys (hc_lru c))))"

text \<open>The loop has dealt with the keys before \<open>ks\<close>: those still there are open.\<close>

lemma enforce_loop_budget:
  assumes "enforce_loop limit ks c = (Inr (), c')" and "distinct (dict_keys (hc_lru c))"
    and "dict_keys (hc_lru c) = done_keys @ ks @ [newest]" and "list_all (\<lambda>k. 0 < refs_of k c) done_keys"
    and "hc_max_bytes c = Some limit"
  shows "within_budget c'"
  using assms
proof (induction ks arbitrary: c done_keys)
  case Nil
  then show ?case by (auto simp: op_defs within_budget_def)
next
  case (Cons k ks)
  show ?case
  proof (cases "used_bytes c \<le> limit")
    case True
    with Cons.prems show ?thesis by (auto simp: op_defs within_budget_def)
  next
    case over: False
    show ?thesis
    proof (cases "0 < refs_of k c")
      case True
      with over Cons.prems(1) have "enforce_loop limit ks c = (Inr (), c')" by (simp add: op_defs)
      then show ?thesis
        by (rule Cons.IH [where done_keys = "done_keys @ [k]"]) (use True Cons.prems in auto)
    next
      case closed: False
      with over Cons.prems(1) have step: "thenM (evict k) (enforce_loop limit ks) c = (Inr (), c')" by (simp add: op_defs)
      then have "cache_key k = Inr k"
        using closed by (auto simp: op_defs evict_def dest: cache_key_Inr split: sum.splits)
      then have ev: "evict k c = (Inr (), c\<lparr>hc_lru := dict_pop k (hc_lru c), hc_files := dict_pop k (hc_files c),
          hc_meta := dict_pop k (hc_meta c), hc_index := Some (Some (index_json (dict_pop k (hc_lru c))))\<rparr>)" (is "_ = (_, ?c1)")
        using closed by (intro evict_run) auto
      have keys: "dict_keys (hc_lru ?c1) = done_keys @ ks @ [newest]"
        using Cons.prems(2,3) by (auto simp: dict_keys_pop filter_neq_id)
      have refs: "refs_of j ?c1 = refs_of j c" for j by (simp add: refs_of_def)
      have loop: "enforce_loop limit ks ?c1 = (Inr (), c')" using step ev by (simp add: op_defs)
      have dist: "distinct (dict_keys (hc_lru ?c1))" using Cons.prems(2) by (simp add: dict_keys_pop)
      have opened: "list_all (\<lambda>j. 0 < refs_of j ?c1) done_keys" using Cons.prems(4) by (simp only: refs)
      show ?thesis
        by (rule Cons.IH [OF loop dist keys opened]) (use Cons.prems(5) in simp)
    qed
  qed
qed

lemma enforce_budget_within:
  assumes "enforce_budget c = (Inr (), c')" and "distinct (dict_keys (hc_lru c))"
  shows "within_budget c'"
proof (cases "hc_max_bytes c")
  case None
  with assms(1) show ?thesis by (auto simp: enforce_budget_def op_defs within_budget_def)
next
  case (Some limit)
  with assms(1) have loop: "enforce_loop limit (butlast (dict_keys (hc_lru c))) c = (Inr (), c')"
    by (simp add: enforce_budget_def op_defs)
  show ?thesis
  proof (cases "dict_keys (hc_lru c)" rule: rev_cases)
    case Nil
    with loop Some show ?thesis by (auto simp: op_defs within_budget_def)
  next
    case (snoc ks newest)
    with loop Some assms(2) show ?thesis
      by (intro enforce_loop_budget [where ks = ks and done_keys = "[]" and newest = newest]) auto
  qed
qed

section \<open>Histories of the cache\<close>

datatype cache_op = CO_acquire string | CO_release string | CO_store int string bytes
  | CO_store_verified int string bytes | CO_evict string | CO_verify string | CO_retrieve string

primrec op_key :: "cache_op \<Rightarrow> string" where
  "op_key (CO_acquire k) = k"
| "op_key (CO_release k) = k"
| "op_key (CO_store t k b) = k"
| "op_key (CO_store_verified t k b) = k"
| "op_key (CO_evict k) = k"
| "op_key (CO_verify k) = k"
| "op_key (CO_retrieve k) = k"

text \<open>The state after a call, whether it returned or raised.\<close>

primrec cache_step :: "(bytes \<Rightarrow> string) \<Rightarrow> (string \<Rightarrow> int) \<Rightarrow> hydration_cache \<Rightarrow> cache_op \<Rightarrow> hydration_cache" where
  "cache_step sha seed c (CO_acquire k) = snd (cache_acquire k c)"
| "cache_step sha seed c (CO_release k) = snd (cache_release k c)"
| "cache_step sha seed c (CO_store t k b) = snd (cache_store sha seed t k b c)"
| "cache_step sha seed c (CO_store_verified t k b) = snd (store_verified sha seed t k b c)"
| "cache_step sha seed c (CO_evict k) = snd (evict k c)"
| "cache_step sha seed c (CO_verify k) = snd (verify_entry sha seed k c)"
| "cache_step sha seed c (CO_retrieve k) = snd (retrieve sha k c)"

lemma spares_open: "spares k c c' \<Longrightarrow> 0 < refs_of k c \<Longrightarrow> 0 < refs_of k c'"
  by (simp add: spares_def)

lemma track_spares:
  assumes "0 < refs_of k c"
  shows "spares k c (snd (track j sz c))"
proof -
  let ?c1 = "c\<lparr>hc_lru := move_to_end j (dict_set j sz (hc_lru c))\<rparr>"
  have "spares k c ?c1" and "0 < refs_of k ?c1" using assms by (simp_all add: spares_def refs_of_def)
  then have "spares k c (snd (enforce_budget ?c1))" using enforce_budget_spares spares_trans by blast
  then show ?thesis
    by (auto simp: track_def op_defs persist_index_def spares_def refs_of_def split: prod.splits sum.splits)
qed

text \<open>The reference count of a release, before the budget is enforced.\<close>

definition released :: "string \<Rightarrow> hydration_cache \<Rightarrow> hydration_cache" where
  "released j c = (if refs_of j c - 1 \<le> 0 then c\<lparr>hc_refs := dict_pop j (hc_refs c)\<rparr>
     else c\<lparr>hc_refs := dict_set j (refs_of j c - 1) (hc_refs c)\<rparr>)"

lemma cache_release_run: "cache_release j c = enforce_budget (released j c)"
  by (simp add: cache_release_def released_def bindM_def thenM_def getsM_def modifyM_def)

lemma released_spares: "j \<noteq> k \<Longrightarrow> spares k c (released j c)"
  by (simp add: spares_def released_def refs_of_def dict_simps)

text \<open>A call on another entry spares an open one.\<close>

lemma cache_release_spares:
  assumes "0 < refs_of k c" and "j \<noteq> k"
  shows "spares k c (snd (cache_release j c))"
proof -
  have r: "spares k c (released j c)" using assms(2) by (rule released_spares)
  then have "spares k (released j c) (snd (enforce_budget (released j c)))"
    by (intro enforce_budget_spares disjI1) (rule spares_open [OF r assms(1)])
  with r show ?thesis unfolding cache_release_run by (rule spares_trans)
qed

definition written :: "(bytes \<Rightarrow> string) \<Rightarrow> (string \<Rightarrow> int) \<Rightarrow> string \<Rightarrow> cached_file \<Rightarrow> hydration_cache \<Rightarrow> hydration_cache" where
  "written sha seed k f c =
     c\<lparr>hc_files := dict_set k f (hc_files c), hc_meta := dict_set k (Some (meta_record sha seed k f)) (hc_meta c)\<rparr>"

lemma cache_store_run:
  assumes "cache_key k = Inr k"
  shows "cache_store sha seed t k b c =
     thenM (track k (int (length b))) (returnM k) (written sha seed k \<lparr>cf_bytes = b, cf_mtime_ns = t\<rparr> c)"
  using assms by (simp add: cache_store_def bindM_def thenM_def liftM_def modifyM_def write_meta_def getsM_def dict_simps written_def)

lemma cache_store_unsafe: "cache_key k = Inl e \<Longrightarrow> cache_store sha seed t k b c = (Inl e, c)"
  by (simp add: cache_store_def op_defs)

text \<open>\<open>store_verified\<close> is \<open>store\<close> behind the comparison of the digest.\<close>

lemma store_verified_run:
  "store_verified sha seed t k b c =
     (if cache_key k = Inr k \<and> sha b \<noteq> k then (Inl CacheChecksumError, c) else cache_store sha seed t k b c)"
proof (cases "cache_key k")
  case (Inl e)
  then show ?thesis by (simp add: store_verified_def cache_store_def bindM_def liftM_def)
next
  case (Inr key)
  then have "cache_key k = Inr k" using cache_key_Inr by blast
  moreover have "concat (read_chunks (2 ^ 20) b) = b" by (rule concat_read_chunks) simp
  ultimately show ?thesis
    by (simp only: store_verified_def cache_store_def bindM_def liftM_def thenM_def guardM_def Let_def)
      (simp add: returnM_def raiseM_def)
qed

lemma written_spares: "j \<noteq> k \<Longrightarrow> spares k c (written sha seed j f c)"
  by (simp add: spares_def written_def refs_of_def dict_simps)

lemma cache_store_spares:
  assumes "0 < refs_of k c" and "j \<noteq> k"
  shows "spares k c (snd (cache_store sha seed t j b c))"
proof (cases "cache_key j")
  case (Inl e)
  then show ?thesis by (simp add: cache_store_unsafe spares_refl)
next
  case (Inr key)
  let ?c1 = "written sha seed j \<lparr>cf_bytes = b, cf_mtime_ns = t\<rparr> c"
  have w: "spares k c ?c1" using assms(2) by (rule written_spares)
  have "spares k ?c1 (snd (track j (int (length b)) ?c1))"
    by (rule track_spares) (use w assms(1) in \<open>rule spares_open\<close>)
  with w have "spares k c (snd (track j (int (length b)) ?c1))" by (rule spares_trans)
  moreover have "cache_key j = Inr j" using Inr cache_key_Inr by blast
  ultimately show ?thesis by (auto simp: cache_store_run thenM_def bindM_def returnM_def split: prod.splits sum.splits)
qed

lemma cache_step_spares:
  assumes "0 < refs_of k c" and "op_key op \<noteq> k"
  shows "spares k c (cache_step sha seed c op)"
proof (cases op)
  case (CO_acquire j)
  with assms show ?thesis by (auto simp: cache_acquire_def op_defs spares_def refs_of_def dict_simps)
next
  case (CO_release j)
  with assms show ?thesis by (simp add: cache_release_spares)
next
  case (CO_store t j b)
  with assms show ?thesis by (simp add: cache_store_spares)
next
  case (CO_store_verified t j b)
  with assms show ?thesis by (simp add: store_verified_run cache_store_spares spares_refl)
next
  case (CO_evict j)
  with assms show ?thesis by (simp add: evict_spares)
next
  case (CO_verify j)
  with assms show ?thesis
    by (auto simp: verify_entry_def queryM_def op_defs persist_index_def spares_def refs_of_def dict_simps
        dest!: cache_key_Inr split: sum.splits)
next
  case (CO_retrieve j)
  with assms show ?thesis
    by (auto simp: retrieve_def op_defs spares_def refs_of_def dict_simps dest!: cache_key_Inr split: sum.splits option.splits)
qed

lemma acquire_keeps_file:
  "0 < refs_of k c \<Longrightarrow> 0 < refs_of k (snd (cache_acquire k c)) \<and> hc_files (snd (cache_acquire k c)) = hc_files c"
  by (simp add: cache_acquire_def op_defs refs_of_def dict_simps)

text \<open>C32. While a reader has a cached file open, no sequence of calls for other files, and no further opening
  of this one, removes or changes the file: stores, releases and the byte budget evict only closed files.\<close>

theorem open_file_survives:
  assumes "0 < open_count k c" and "list_all (\<lambda>op. op_key op \<noteq> k \<or> op = CO_acquire k) ops"
  shows "dict_get (hc_files (foldl (cache_step sha seed) c ops)) k = dict_get (hc_files c) k
     \<and> 0 < open_count k (foldl (cache_step sha seed) c ops)"
  using assms
proof (induction ops arbitrary: c)
  case (Cons op ops)
  let ?c1 = "cache_step sha seed c op"
  have "0 < open_count k ?c1 \<and> dict_get (hc_files ?c1) k = dict_get (hc_files c) k"
  proof (cases "op_key op = k")
    case True
    with Cons.prems have "op = CO_acquire k" by simp
    then show ?thesis using acquire_keeps_file [OF Cons.prems(1)] by simp
  next
    case False
    from cache_step_spares [OF Cons.prems(1) False, of sha seed] Cons.prems(1) show ?thesis by (simp add: spares_def)
  qed
  with Cons.IH [of ?c1] Cons.prems(2) show ?case by simp
qed simp

theorem open_file_survives_witness:
  "dict_get (hc_files (foldl (cache_step (\<lambda>b. ''ab'') (\<lambda>s. 0))
      \<lparr>hc_max_bytes = Some 1, hc_lru = [(''k'', 2)], hc_refs = [(''k'', 1)],
       hc_files = [(''k'', \<lparr>cf_bytes = [1, 2], cf_mtime_ns = 0\<rparr>)], hc_meta = [], hc_index = None\<rparr>
      [CO_store 5 ''xy'' [3], CO_acquire ''k'', CO_evict ''xy''])) ''k''
   = Some \<lparr>cf_bytes = [1, 2], cf_mtime_ns = 0\<rparr>"
  using open_file_survives [of "''k''" "\<lparr>hc_max_bytes = Some 1, hc_lru = [(''k'', 2)], hc_refs = [(''k'', 1)],
       hc_files = [(''k'', \<lparr>cf_bytes = [1, 2], cf_mtime_ns = 0\<rparr>)], hc_meta = [], hc_index = None\<rparr>"
      "[CO_store 5 ''xy'' [3], CO_acquire ''k'', CO_evict ''xy'']" "\<lambda>b. ''ab''" "\<lambda>s. 0"]
  by (simp add: refs_of_def)

section \<open>What is stored is read back\<close>

lemma move_to_end_set:
  "distinct (dict_keys d) \<Longrightarrow> move_to_end k (dict_set k v d) = dict_pop k d @ [(k, v)]"
proof -
  assume "distinct (dict_keys d)"
  have "dict_pop k (dict_set k v d) = dict_pop k d" by (induction d) auto
  then show ?thesis by (simp add: move_to_end_def dict_simps)
qed

lemma tracked_keys:
  assumes "distinct (dict_keys d)"
  shows "dict_keys (dict_pop k d @ [(k, v)]) = filter (\<lambda>x. x \<noteq> k) (dict_keys d) @ [k]"
    and "distinct (dict_keys (dict_pop k d @ [(k, v)]))"
  using assms by (simp_all add: dict_keys_pop)

lemma index_irrelevant:
  "within_budget (c\<lparr>hc_index := i\<rparr>) = within_budget c" "spares k c0 (c\<lparr>hc_index := i\<rparr>) = spares k c0 c"
  by (simp_all add: within_budget_def used_bytes_def spares_def refs_of_def split: option.splits)

text \<open>Tracking makes the entry the newest and enforces the budget without touching it.\<close>

lemma track_run:
  assumes "distinct (dict_keys (hc_lru c))" and "\<And>j. j \<in> set (dict_keys (hc_lru c)) \<Longrightarrow> cache_key j = Inr j"
    and "cache_key k = Inr k"
  shows "\<exists>c'. track k sz c = (Inr (), c') \<and> within_budget c' \<and> spares k c c'"
proof -
  let ?c1 = "c\<lparr>hc_lru := dict_pop k (hc_lru c) @ [(k, sz)]\<rparr>"
  obtain c2 where eb: "enforce_budget ?c1 = (Inr (), c2)"
    using enforce_budget_returns [of ?c1] assms(2,3)
    by (cases "enforce_budget ?c1") (auto simp: dict_keys_pop)
  have "spares k ?c1 (snd (enforce_budget ?c1))"
    by (rule enforce_budget_spares) (simp add: dict_keys_pop butlast_append)
  then have sp: "spares k c c2" using eb by (simp add: spares_def refs_of_def)
  have "within_budget c2"
    by (rule enforce_budget_within [OF eb]) (use tracked_keys(2) [OF assms(1)] in simp)
  moreover have "track k sz c = (Inr (), c2\<lparr>hc_index := Some (Some (index_json (hc_lru c2)))\<rparr>)"
    using eb by (simp add: track_def thenM_def bindM_def modifyM_def persist_index_def move_to_end_set [OF assms(1)])
  ultimately show ?thesis using sp by (simp add: index_irrelevant)
qed

lemma record_matches_meta: "record_matches sha seed k (meta_record sha seed k f) f = Inr True"
  by (simp add: record_matches_def meta_record_def Let_def index_json_obj_def dict_index_def)

lemma stored_entry_good:
  assumes "spares k (written sha seed k \<lparr>cf_bytes = b, cf_mtime_ns = t\<rparr> c) c'" and "cache_key k = Inr k" and "sha b = k"
  shows "retrieve sha k c' = (Inr b, c') \<and> verify_entry sha seed k c' = (Inr True, c')"
proof -
  let ?f = "\<lparr>cf_bytes = b, cf_mtime_ns = t\<rparr>"
  have fl: "dict_get (hc_files c') k = Some ?f" and meta: "dict_get (hc_meta c') k = Some (Some (meta_record sha seed k ?f))"
    using assms(1) by (simp_all add: spares_def written_def dict_simps)
  have "retrieve sha k c' = (Inr b, c')"
    using fl assms(2,3) by (simp add: retrieve_def op_defs)
  moreover have "entry_matches sha seed k c' = Inr True"
    using fl meta assms(2) by (simp add: entry_matches_def record_matches_meta)
  ultimately show ?thesis by (simp add: verify_entry_def queryM_def bindM_def returnM_def)
qed



section \<open>Restart\<close>

lemma load_pairs_index:
  assumes "\<And>k n. (k, n) \<in> set l \<Longrightarrow> cache_key k = Inr k \<and> dict_get files k \<noteq> None"
  shows "load_pairs files (map (\<lambda>(c, n). JList [JStr c, JInt n]) l) d = Inr (foldl (\<lambda>d (k, v). dict_set k v d) d l)"
  using assms
proof (induction l arbitrary: d)
  case (Cons p l)
  obtain k n where "p = (k, n)" by (cases p)
  moreover from this Cons.prems [of k n] have "cache_key k = Inr k \<and> dict_get files k \<noteq> None" by simp
  ultimately show ?case using Cons.IH [of "dict_set k n d"] Cons.prems by auto
qed simp

lemma scan_files_known:
  "(\<And>k. k \<in> set names \<Longrightarrow> dict_get lru k \<noteq> None \<or> take 1 k = ''.'' \<or> meta_name k) \<Longrightarrow> scan_files files names lru = lru"
proof (induction names)
  case (Cons k names)
  have "dict_get lru k \<noteq> None \<or> take 1 k = ''.'' \<or> meta_name k" by (rule Cons.prems) simp
  moreover have "scan_files files names lru = lru" by (rule Cons.IH) (use Cons.prems in simp)
  ultimately show ?case by auto
qed simp

text \<open>A cache whose index is up to date and whose entries all have their file comes back from a restart
  with the same entries in the same order of use.\<close>

theorem restart_keeps_order:
  assumes "hc_index c = Some (Some (index_json (hc_lru c)))" and "distinct (dict_keys (hc_lru c))"
    and "list_all (\<lambda>k. cache_key k = Inr k \<and> dict_get (hc_files c) k \<noteq> None) (dict_keys (hc_lru c))"
    and "list_all (\<lambda>k. dict_get (hc_lru c) k \<noteq> None) (dict_keys (hc_files c))"
  shows "hc_lru (load_index (empty_cache (hc_max_bytes c) (hc_files c) (hc_meta c) (hc_index c))) = hc_lru c"
proof -
  have "load_pairs (hc_files c) (map (\<lambda>(c, n). JList [JStr c, JInt n]) (hc_lru c)) [] = Inr (dict_of (hc_lru c))"
    unfolding dict_of_def by (rule load_pairs_index) (use assms(3) in \<open>force simp: list_all_iff\<close>)
  moreover have "dict_of (hc_lru c) = hc_lru c" by (rule dict_of_distinct [OF assms(2)])
  moreover have "scan_files (hc_files c) (sort (filter (\<lambda>k. 2 \<le> length k) (dict_keys (hc_files c)))) (hc_lru c) = hc_lru c"
    by (rule scan_files_known) (use assms(4) in \<open>auto simp: list_all_iff\<close>)
  ultimately show ?thesis using assms(1) by (simp add: load_index_def empty_cache_def index_json_def)
qed

theorem restart_keeps_order_witness:
  "hc_lru (load_index (empty_cache None [(''ab'', \<lparr>cf_bytes = [1], cf_mtime_ns = 0\<rparr>), (''cd'', \<lparr>cf_bytes = [2], cf_mtime_ns = 0\<rparr>)] []
      (Some (Some (index_json [(''cd'', 1), (''ab'', 1)])))))
   = [(''cd'', 1), (''ab'', 1)]"
  using restart_keeps_order [of "\<lparr>hc_max_bytes = None, hc_lru = [(''cd'', 1), (''ab'', 1)], hc_refs = [],
      hc_files = [(''ab'', \<lparr>cf_bytes = [1], cf_mtime_ns = 0\<rparr>), (''cd'', \<lparr>cf_bytes = [2], cf_mtime_ns = 0\<rparr>)],
      hc_meta = [], hc_index = Some (Some (index_json [(''cd'', 1), (''ab'', 1)]))\<rparr>"]
  by (simp add: cache_key_def)

end
