(* ===== verification/Job_Context.thy ===== *)
theory Job_Context
  imports File_Catalog Tape_Files Job_Queue Job_Services Fuse_Cache
begin

text \<open>
  What the tape jobs share: the state they work on (catalog, LTFS backend and library in \<open>orchestrator\<close>, the
  scheduler, whose lease store is that catalog, and the emulator's drive and media tables), the environment
  and the steps that every job makes in the same way. The environment numbers the job's external calls: the
  \<open>k\<close>-th reads its clock and draws its identifiers from \<open>av_env k\<close>. Waiting for a drive takes at most
  \<open>av_attempts k\<close> more rounds of the scheduler's loop; that many are enough when the clock has passed the
  deadline by then. The counters of partitions and pools that the emulator derives from its media table are
  left out. Each job extends the state with its local variables, which its handlers read after an exception.
\<close>

section \<open>The state\<close>

record job_ctx =
  as_orch :: orchestrator
  as_sched :: "catalog scheduler"
  as_aml_drives :: "(string, (string, json) dict) dict"
  as_aml_media :: "(string, (string, json) dict) dict"
  as_tick :: nat

record job_env =
  av_env :: "nat \<Rightarrow> op_env"
  av_new_id :: "nat \<Rightarrow> string"
  av_timestamp :: "nat \<Rightarrow> string"
  av_start :: "nat \<Rightarrow> int"
  av_timeout :: int
  av_attempts :: "nat \<Rightarrow> nat"
  av_rounds :: "nat \<Rightarrow> nat \<Rightarrow> catalog wait_round"
  av_journal_fails :: "nat \<Rightarrow> nat \<Rightarrow> bool"
  av_schedule :: "nat \<Rightarrow> nat list"
  av_pick :: "nat \<Rightarrow> nat"
  av_sha :: "bytes \<Rightarrow> string"
  av_message :: "exc \<Rightarrow> string"
  av_class_name :: "exc \<Rightarrow> string"

definition tickM :: "('b job_ctx_scheme, nat) op" where
  "tickM s = (Inr (as_tick s), s\<lparr>as_tick := Suc (as_tick s)\<rparr>)"

definition on_orch :: "(orchestrator, 'a) op \<Rightarrow> ('b job_ctx_scheme, 'a) op" where
  "on_orch m = zoomM as_orch (\<lambda>r s. s\<lparr>as_orch := r\<rparr>) m"

definition on_cat :: "(catalog, 'a) op \<Rightarrow> ('b job_ctx_scheme, 'a) op" where
  "on_cat m = on_orch (zoomM or_catalog (\<lambda>c r. r\<lparr>or_catalog := c\<rparr>) m)"

text \<open>The scheduler with the catalog as its store.\<close>

definition sched_of :: "'b job_ctx_scheme \<Rightarrow> catalog scheduler" where
  "sched_of s = (as_sched s)\<lparr>sch_store := or_catalog (as_orch s)\<rparr>"

definition put_sched :: "catalog scheduler \<Rightarrow> 'b job_ctx_scheme \<Rightarrow> 'b job_ctx_scheme" where
  "put_sched t s = s\<lparr>as_sched := t, as_orch := (as_orch s)\<lparr>or_catalog := sch_store t\<rparr>\<rparr>"

definition on_sched :: "(catalog scheduler, 'a) op \<Rightarrow> ('b job_ctx_scheme, 'a) op" where
  "on_sched m = zoomM sched_of put_sched m"

text \<open>A call at the next tick.\<close>

definition withenv :: "job_env \<Rightarrow> (op_env \<Rightarrow> ('b job_ctx_scheme, 'a) op) \<Rightarrow> ('b job_ctx_scheme, 'a) op" where
  "withenv ae f = bindM tickM (\<lambda>k. f (av_env ae k))"

section \<open>The emulator's tables\<close>

text \<open>\<open>f"DRV-\{n:03d\}"\<close> and \<open>f"1,1,\{slot\}"\<close>.\<close>

definition pad3 :: "int \<Rightarrow> string" where
  "pad3 n = (if n < 0 then CHR ''-'' # replicate (2 - length (int_str (- n))) (CHR ''0'') @ int_str (- n)
     else replicate (3 - length (int_str n)) (CHR ''0'') @ int_str n)"

definition aml_drive_name :: "int \<Rightarrow> string" where
  "aml_drive_name d = ''DRV-'' @ pad3 (d + 1)"

definition aml_slot_address :: "int \<Rightarrow> string" where
  "aml_slot_address k = ''1,1,'' @ int_str k"

definition update_aml_drive :: "string \<Rightarrow> (string \<times> json) list \<Rightarrow> 'b job_ctx_scheme \<Rightarrow> 'b job_ctx_scheme" where
  "update_aml_drive name ups s =
     (case dict_get (as_aml_drives s) name of
        None \<Rightarrow> s
      | Some d \<Rightarrow> s\<lparr>as_aml_drives := dict_set name
          (foldl (\<lambda>d (k, v). if k = ''serialNumber'' then d else dict_set k v d) d ups) (as_aml_drives s)\<rparr>)"

definition update_aml_media :: "string \<Rightarrow> (string \<times> json) list \<Rightarrow> 'b job_ctx_scheme \<Rightarrow> 'b job_ctx_scheme" where
  "update_aml_media b ups s =
     (case dict_get (as_aml_media s) b of
        None \<Rightarrow> s
      | Some m \<Rightarrow> s\<lparr>as_aml_media := dict_set b
          (foldl (\<lambda>m (k, v). if v = JNull then m else dict_set k v m) m (filter (\<lambda>(k, v). k \<noteq> ''barcode'') ups)) (as_aml_media s)\<rparr>)"

definition mark_aml_drive_busy :: "string \<Rightarrow> string \<Rightarrow> int \<Rightarrow> ('b job_ctx_scheme, unit) op" where
  "mark_aml_drive_busy timestamp b d =
     (let name = aml_drive_name d in
      thenM (modifyM (\<lambda>s. case dict_get (as_aml_drives s) name of
          None \<Rightarrow> s
        | Some _ \<Rightarrow>
            (let md = (case dict_get (as_aml_media s) b of None \<Rightarrow> [] | Some m \<Rightarrow> m)
             in update_aml_drive name [(''state'', JStr ''busy''),
                  (''loadedMedia'', JObj [(''barcode'', JStr b), (''type'', get_or md ''type'' (JStr ''LTO-9'')), (''state'', JStr ''loaded'')])] s)))
      (bindM (getsM (\<lambda>s. dict_get (as_aml_media s) b)) (\<lambda>found.
        case found of
          None \<Rightarrow> returnM ()
        | Some md \<Rightarrow>
            bindM (liftM (coerce_int (get_or md ''loadCount'' (JInt 0)))) (\<lambda>n.
             modifyM (update_aml_media b [(''slotAddress'', JStr name), (''state'', JStr ''loaded''), (''lastLoaded'', JStr timestamp),
               (''loadCount'', JInt (n + 1))])))))"

definition mark_aml_drive_idle :: "string \<Rightarrow> int \<Rightarrow> int option \<Rightarrow> ('b job_ctx_scheme, unit) op" where
  "mark_aml_drive_idle b d slot =
     thenM (modifyM (update_aml_drive (aml_drive_name d) [(''state'', JStr ''idle''), (''loadedMedia'', JNull)]))
      (case slot of
         None \<Rightarrow> returnM ()
       | Some k \<Rightarrow> modifyM (update_aml_media b [(''slotAddress'', JStr (aml_slot_address k)), (''state'', JStr ''home'')]))"

definition lease_handle :: "'b job_ctx_scheme \<Rightarrow> handle_ref \<Rightarrow> drive_handle" where
  "lease_handle s r = handle (as_sched s) r"

definition set_physical :: "handle_ref \<Rightarrow> int \<Rightarrow> 'b job_ctx_scheme \<Rightarrow> 'b job_ctx_scheme" where
  "set_physical r d s =
     s\<lparr>as_sched := (as_sched s)\<lparr>sch_handles := (sch_handles (as_sched s))[r := (lease_handle s r)\<lparr>dh_physical_drive_id := Some d\<rparr>]\<rparr>\<rparr>"

text \<open>\<open>leases.acquire_drives(barcodes)\<close>; a wait that outlasts the rounds of the environment ends in an error.\<close>

definition acquire_many :: "job_env \<Rightarrow> string list \<Rightarrow> ('b job_ctx_scheme, handle_ref list) op" where
  "acquire_many ae bs =
     bindM tickM (\<lambda>k s.
      case acquire_drives cat_ops (av_rounds ae k) (Suc (av_attempts ae k)) bs (av_start ae k) (av_timeout ae) (sched_of s) of
        None \<Rightarrow> (Inl RuntimeError, s)
      | Some (Inl e, t) \<Rightarrow> (Inl e, put_sched t s)
      | Some (Inr refs, t) \<Rightarrow> (Inr refs, put_sched t s))"

definition acquire_one :: "job_env \<Rightarrow> string \<Rightarrow> ('b job_ctx_scheme, handle_ref) op" where
  "acquire_one ae b = bindM (acquire_many ae [b]) (\<lambda>refs. returnM (hd refs))"

text \<open>\<open>leases.verify(handle)\<close> and \<open>leases.release_drives([handle])\<close>.\<close>

definition verify_lease :: "job_env \<Rightarrow> handle_ref \<Rightarrow> ('b job_ctx_scheme, unit) op" where
  "verify_lease ae r = withenv ae (\<lambda>e. on_sched (verify cat_ops (oe_now e) r))"

definition release_lease :: "job_env \<Rightarrow> handle_ref \<Rightarrow> ('b job_ctx_scheme, unit) op" where
  "release_lease ae r = withenv ae (\<lambda>e. on_sched (release_drives cat_ops (oe_now e) [r]))"

definition journal_job :: "job_env \<Rightarrow> string \<Rightarrow> string \<Rightarrow> (string, jval) dict \<Rightarrow> ('b job_ctx_scheme, unit) op" where
  "journal_job ae jid event detail = withenv ae (\<lambda>e. thenM (on_cat (journal (oe_now e) jid event detail)) (returnM ()))"

definition job_state_to :: "job_env \<Rightarrow> string \<Rightarrow> string \<Rightarrow> string option \<Rightarrow> ('b job_ctx_scheme, unit) op" where
  "job_state_to ae jid state err = withenv ae (\<lambda>e. on_cat (update_job_state (oe_now e) jid state err))"

definition check_reconciled :: "int \<Rightarrow> string \<Rightarrow> ('b job_ctx_scheme, unit) op" where
  "check_reconciled d b = on_cat (queryM (ensure_drive_reconciled d (Some b)))"

text \<open>\<open>record_physical_state_unknown\<close> of \<open>jobs/sharded_archive.py\<close>: fail closed when the journal cannot be written.\<close>

definition record_physical_state_unknown ::
  "job_env \<Rightarrow> string \<Rightarrow> string \<Rightarrow> string \<Rightarrow> int option \<Rightarrow> handle_ref list \<Rightarrow> ('b job_ctx_scheme, unit) op" where
  "record_physical_state_unknown ae jid what b drive refs =
     catchM
       (bindM tickM (\<lambda>k. on_cat (journal_durable (av_journal_fails ae k) (oe_now (av_env ae k)) jid ''physical_state_unknown''
          [(''op'', J_str what), (''barcode'', J_str b), (''drive'', jval_of_int drive)])))
       (\<lambda>_. bindM (getsM (\<lambda>s. filter (\<lambda>r. dh_barcode (lease_handle s r) = b
               \<or> (case drive of None \<Rightarrow> False | Some d \<Rightarrow> d = dh_drive_id (lease_handle s r) \<or> d = physical (lease_handle s r))) refs)) (\<lambda>matched.
          if matched = [] then raiseM JournalWriteError
          else modifyM (\<lambda>s. s\<lparr>as_sched := (as_sched s)\<lparr>sch_handles :=
             foldl (\<lambda>hs r. hs[r := (hs ! r)\<lparr>dh_hold_unjournaled := True\<rparr>]) (sch_handles (as_sched s)) matched\<rparr>\<rparr>)))"

text \<open>\<open>_scheduler\<close> of the services: a drive scheduler of the job over the catalog's leases.\<close>

definition job_scheduler :: "string \<Rightarrow> 'b job_ctx_scheme \<Rightarrow> 'b job_ctx_scheme" where
  "job_scheduler jid s =
     s\<lparr>as_sched := new_scheduler (int (length (inv_drives (inventory (or_library (as_orch s)))))) (or_catalog (as_orch s)) jid DEFAULT_LEASE_TTL\<rparr>"

definition sha256sum :: "(bytes \<Rightarrow> string) \<Rightarrow> bytes \<Rightarrow> string" where
  "sha256sum sha content = sha (concat (read_chunks (1024 * 1024) content))"

lemma sha256sum_eq [code]: "sha256sum sha content = sha content"
  by (simp add: sha256sum_def concat_read_chunks)

section \<open>The job's row\<close>

abbreviation job_catalog :: "'b job_ctx_scheme \<Rightarrow> catalog" where
  "job_catalog s \<equiv> or_catalog (as_orch s)"

definition job_in :: "string \<Rightarrow> string \<Rightarrow> catalog \<Rightarrow> bool" where
  "job_in jid state c \<longleftrightarrow> map_option jb_state (get_job_row jid c) = Some state"

lemma job_row_set:
  "List.find (\<lambda>j. jb_id j = jid) (map (\<lambda>j. if jb_id j = jid then j\<lparr>jb_state := st, jb_error := err, jb_updated_at := now\<rparr> else j) js)
   = map_option (\<lambda>j. j\<lparr>jb_state := st, jb_error := err, jb_updated_at := now\<rparr>) (List.find (\<lambda>j. jb_id j = jid) js)"
  by (induction js) auto

lemma wp_job_state:
  "wp (job_state_to ae jid st err) (\<lambda>_ s'. job_in jid st (job_catalog s') \<and> (\<exists>js. job_catalog s' = (job_catalog s)\<lparr>cat_jobs := js\<rparr>))
     (\<lambda>_ _. True) s"
  unfolding job_state_to_def withenv_def wp_bind on_cat_def on_orch_def wp_zoom update_job_state_def wp_gets
  by (auto simp: wp_def [of tickM] tickM_def wp_rules job_in_def get_job_row_def job_row_set split: option.splits)

section \<open>A concrete environment\<close>

text \<open>A digest that is cheap to evaluate and tells the contents of the examples apart.\<close>

definition demo_sha :: "bytes \<Rightarrow> string" where
  "demo_sha content = map (\<lambda>b. if b = 1 then CHR ''1'' else CHR ''0'') content"

definition demo_job_env :: job_env where
  "demo_job_env = \<lparr>av_env = (\<lambda>k. \<lparr>oe_now = 10, oe_op_id = ''o'', oe_handle_id = ''h'', oe_instance_id = ''n'', oe_sha = demo_sha,
       oe_message = (\<lambda>_. ''m'')\<rparr>),
     av_new_id = (\<lambda>k. ''i''), av_timestamp = (\<lambda>k. ''t''), av_start = (\<lambda>k. 0), av_timeout = 5, av_attempts = (\<lambda>k. 0),
     av_rounds = (\<lambda>k j. \<lparr>wr_now = 10, wr_ids = (\<lambda>i. ''l''), wr_monotonic = 5, wr_others = id\<rparr>),
     av_journal_fails = (\<lambda>k n. False), av_schedule = (\<lambda>k. []), av_pick = (\<lambda>k. 0), av_sha = demo_sha, av_message = (\<lambda>_. ''m''), av_class_name = (\<lambda>_. ''c'')\<rparr>"

text \<open>A library with one cartridge, already in the only drive.\<close>

definition demo_job_library :: mock_library where
  "demo_job_library = snd (load 1 0 (snd (add_cartridge 1 ''VTA001L8'' (mk_library None ''lib'' 1 1 None None None 0))))"

section \<open>Frames\<close>

text \<open>
  What a job relies on when it calls the shared steps. Its proof follows a view of its state. The view may read
  the files of the tapes, the job's variables and, through \<open>cview\<close>, a part of the catalog, but not the rest of
  the catalog, the scheduler, the emulator or the clock. A step keeps the view when it keeps the files and that part.
\<close>

locale catalog_frame =
  fixes view :: "'b job_ctx_scheme \<Rightarrow> 'v"
    and cview :: "catalog \<Rightarrow> 'c"
  assumes view_orch: "orch_files r = orch_files (as_orch s) \<Longrightarrow> cview (or_catalog r) = cview (or_catalog (as_orch s)) \<Longrightarrow> view (s\<lparr>as_orch := r\<rparr>) = view s"
    and view_sched: "view (s\<lparr>as_sched := t\<rparr>) = view s"
    and view_aml_drives: "view (s\<lparr>as_aml_drives := d\<rparr>) = view s"
    and view_aml_media: "view (s\<lparr>as_aml_media := m\<rparr>) = view s"
    and view_tick: "view (s\<lparr>as_tick := n\<rparr>) = view s"
begin

lemma on_orch_keeps: "keepsv (\<lambda>r. (orch_files r, cview (or_catalog r))) m \<Longrightarrow> keepsv view (on_orch m)"
  by (auto simp: keepsv_def on_orch_def zoomM_def split: prod.splits intro!: view_orch) (metis prod.inject snd_conv)+

lemma on_cat_keeps: "keepsv cview m \<Longrightarrow> keepsv view (on_cat m)"
  unfolding on_cat_def by (rule on_orch_keeps) (auto simp: keepsv_def zoomM_def split: prod.splits, metis snd_conv)

lemma on_sched_keeps:
  assumes "\<And>t. cview (sch_store (snd (m t))) = cview (sch_store t)"
  shows "keepsv view (on_sched m)"
proof -
  have "view (put_sched t s) = view s" if "cview (sch_store t) = cview (or_catalog (as_orch s))" for t s
  proof -
    have "put_sched t s = (s\<lparr>as_sched := t\<rparr>)\<lparr>as_orch := (as_orch s)\<lparr>or_catalog := sch_store t\<rparr>\<rparr>" by (simp add: put_sched_def)
    then show ?thesis using view_orch [of _ "s\<lparr>as_sched := t\<rparr>"] view_sched that by simp
  qed
  moreover have "cview (sch_store (snd (m (sched_of s)))) = cview (or_catalog (as_orch s))" for s :: "'b job_ctx_scheme"
    using assms [of "sched_of s"] by (simp add: sched_of_def)
  ultimately show ?thesis by (simp add: keepsv_def on_sched_def zoomM_def split_beta)
qed

lemma kf_tick [kf_intros]: "keepsv view tickM"
  by (simp add: keepsv_def tickM_def view_tick)

lemma kf_withenv [kf_intros]: "(\<And>e. keepsv view (f e)) \<Longrightarrow> keepsv view (withenv ae f)"
  unfolding withenv_def by (intro kf_intros)

lemma update_aml_view [simp]:
  "view (update_aml_drive n ups s) = view s" "view (update_aml_media b ups s) = view s"
  by (simp_all add: update_aml_drive_def update_aml_media_def view_aml_drives view_aml_media split: option.splits)

lemma kf_busy [kf_intros]: "keepsv view (mark_aml_drive_busy t b d)"
  unfolding mark_aml_drive_busy_def Let_def by (intro kf_intros) (simp_all split: option.splits)

lemma kf_idle [kf_intros]: "keepsv view (mark_aml_drive_idle b d k)"
  unfolding mark_aml_drive_idle_def by (intro kf_intros) simp_all

lemma kf_set_physical [kf_intros]: "keepsv view (modifyM (set_physical r d))"
  by (intro kf_intros) (simp add: set_physical_def view_sched)

lemma kf_query [kf_intros]: "keepsv view (on_cat (queryM q))"
  by (rule on_cat_keeps) (intro kf_intros)

lemma kf_check_reconciled [kf_intros]: "keepsv view (check_reconciled d b)"
  unfolding check_reconciled_def by (rule kf_query)

lemma kf_ask [kf_intros]: "keepsv view (on_orch (ask_lib q))"
  by (rule on_orch_keeps) (intro kf_intros)

lemma kf_verify [kf_intros]: "keepsv view (verify_lease ae r)"
  unfolding verify_lease_def
  by (intro kf_withenv on_sched_keeps) (auto simp: verify_def op_defs split: prod.splits)

end

text \<open>A view that moreover reads none of the tables in which every job writes: the journal, the leases and the log of tape
  operations. Loading and unloading, the journal and the scheduler's calls on held leases keep it.\<close>

locale log_frame = catalog_frame view cview
  for view :: "'b job_ctx_scheme \<Rightarrow> 'v" and cview :: "catalog \<Rightarrow> 'c" +
  assumes cview_journal: "cview (c\<lparr>cat_journal := es\<rparr>) = cview c"
    and cview_leases: "cview (c\<lparr>cat_leases := ls\<rparr>) = cview c"
    and cview_tape_ops: "cview (c\<lparr>cat_tape_ops := ops\<rparr>) = cview c"
begin

lemma kf_journal_entry [kf_intros]: "keepsv cview (journal now jid ev detail)"
  by (simp add: keepsv_def journal_def add_entry_def Let_def cview_journal)

lemma kf_journal_attempts [kf_intros]: "keepsv cview (journal_attempts fails k n now jid ev detail)"
  by (induction n arbitrary: k) (auto intro!: kf_intros)

lemma kf_journal [kf_intros]: "keepsv view (journal_job ae jid ev detail)"
  unfolding journal_job_def by (intro kf_withenv kf_then on_cat_keeps kf_journal_entry kf_basic)

lemma kf_state_unknown [kf_intros]: "keepsv view (record_physical_state_unknown ae jid what b d refs)"
  unfolding record_physical_state_unknown_def journal_durable_def
  by (intro kf_intros on_cat_keeps) (simp add: view_sched)

lemma kf_release_drives [kf_intros]: "keepsv view (on_sched (release_drives cat_ops now refs))"
  by (rule on_sched_keeps) (auto simp: release_drives_def cat_ops_def op_defs cview_leases mark_released_def split: if_splits)

lemma kf_release_lease [kf_intros]: "keepsv view (release_lease ae r)"
  unfolding release_lease_def by (intro kf_intros)

lemma kf_heartbeat [kf_intros]: "keepsv view (on_sched (modifyM (heartbeat cat_ops now refs)))"
  by (rule on_sched_keeps) (simp add: heartbeat_def cat_ops_def op_defs cview_leases)

lemma kf_record_physical [kf_intros]: "keepsv view (on_sched (modifyM (record_physical_drives cat_ops refs)))"
proof (rule on_sched_keeps)
  fix t :: "catalog scheduler"
  have "cview (fold (\<lambda>r st. case dh_physical_drive_id (handle t r) of None \<Rightarrow> st
      | Some p \<Rightarrow> so_set_physical_drive cat_ops (dh_lease_id (handle t r)) p st) refs c) = cview c" for c
    by (induction refs arbitrary: c) (auto simp: cat_ops_def cview_leases split: option.splits)
  then show "cview (sch_store (snd (modifyM (record_physical_drives cat_ops refs) t))) = cview (sch_store t)"
    by (simp add: record_physical_drives_def op_defs)
qed

lemma kf_orch_ltfs [kf_intros]: "keepsv files_of m \<Longrightarrow> keepsv view (on_orch (on_ltfs m))"
  by (rule on_orch_keeps) (auto simp: keepsv_def on_ltfs_def zoomM_def split: prod.splits, metis snd_conv)

lemma kf_execute_on [kf_intros]:
  assumes "tq_op_type rq \<in> {TO_LOAD, TO_UNLOAD}"
  shows "keepsv view (on_orch (execute_tape_request e raise_on_failed rq))"
proof (rule on_orch_keeps)
  let ?g = "\<lambda>r. (orch_files r, cview (or_catalog r))"
  have lib: "keepsv ?g (on_lib m)" for m :: "(mock_library, 'x) op"
    using kf_on_lib [of m] by (auto simp: keepsv_def on_lib_def on_ltfs_def zoomM_def split: prod.splits)
  have ops: "?g (set_tape_ops os r) = ?g r" for os r by (simp add: set_tape_ops_def cview_tape_ops)
  have upd: "keepsv ?g (update_op oid f)" for oid f by (simp add: keepsv_def update_op_def ops [simplified] split: prod.splits)
  have "keepsv ?g (dispatch e rq (tq_op_type rq))"
    using assms by (auto simp: load_op_def unload_op_def refuse_if_leased_def Let_def intro!: kf_intros lib)
  then show "keepsv ?g (execute_tape_request e raise_on_failed rq)"
    unfolding execute_tape_request_def execute_def execute_locked_def close_op_def
    by (intro kf_intros upd) (simp_all add: ops [simplified])
qed

end

text \<open>A view that reads nothing of the catalog is kept by every step but a write to a tape, whatever other jobs do.\<close>

locale job_frame = catalog_frame view "\<lambda>_. ()" for view :: "'b job_ctx_scheme \<Rightarrow> 'v"
begin

lemma kf_on_orch [kf_intros]: "keepsv orch_files m \<Longrightarrow> keepsv view (on_orch m)"
  by (rule on_orch_keeps) (simp add: keepsv_def)

lemma kf_on_cat [kf_intros]: "keepsv view (on_cat m)"
  by (rule on_cat_keeps) (simp add: keepsv_def)

lemma kf_on_sched [kf_intros]: "keepsv view (on_sched m)"
  by (rule on_sched_keeps) simp

lemma view_put_sched [simp]: "view (put_sched t s) = view s"
proof -
  have "put_sched t s = (s\<lparr>as_sched := t\<rparr>)\<lparr>as_orch := (as_orch s)\<lparr>or_catalog := sch_store t\<rparr>\<rparr>" by (simp add: put_sched_def)
  then show ?thesis using view_orch [of _ "s\<lparr>as_sched := t\<rparr>"] view_sched by simp
qed

lemma kf_job_state [kf_intros]: "keepsv view (job_state_to ae jid st err)"
  unfolding job_state_to_def by (intro kf_intros)

lemma kf_acquire_many [kf_intros]: "keepsv view (acquire_many ae bs)"
  unfolding acquire_many_def
  by (rule kf_bind [OF kf_tick]) (auto simp: keepsv_def split: option.splits prod.splits sum.splits)

lemma kf_acquire_one [kf_intros]: "keepsv view (acquire_one ae b)"
  unfolding acquire_one_def by (intro kf_intros)

end

text \<open>Such a view is kept by the calls above too, and by waiting for a drive.\<close>

sublocale job_frame \<subseteq> log_frame view "\<lambda>_. ()"
  by unfold_locales simp_all

end
