(* ===== verification/Archive_Job.thy ===== *)
theory Archive_Job
  imports Job_Context
begin

text \<open>
  \<open>jobs/archive.py\<close>: the archive job over the scheduler, the orchestrator, the LTFS backend and the
  catalog. The state is that of the tape jobs with the local variables of \<open>run_archive_job\<close>, which its
  handlers read after an exception. The files of the source tree are an argument.
\<close>

section \<open>The job's state\<close>

record archive_state = job_ctx +
  as_lease :: "handle_ref option"
  as_barcode :: "string option"
  as_mount :: "mount_handle option"
  as_slot_id :: "int option"
  as_drive_id :: "int option"
  as_pending :: "string list"
  as_bytes :: int
  as_files :: nat
  as_tapes_used :: "string list"

datatype source = Src_file string bytes | Src_dir "(string \<times> bytes) list"

record archive_request =
  ar_source :: source
  ar_volume_group_name :: string
  ar_dry_run :: bool

record archive_result =
  ares_job_id :: string
  ares_files_archived :: nat
  ares_bytes_archived :: int
  ares_tapes_used :: "string list"

section \<open>Choosing a tape\<close>

text \<open>\<open>_iter_source_files\<close>: relative path and bytes, in the order of the paths.\<close>

definition iter_source_files :: "source \<Rightarrow> (string \<times> bytes) list" where
  "iter_source_files src =
     (case src of Src_file name b \<Rightarrow> [(name, b)] | Src_dir fs \<Rightarrow> sort_key (\<lambda>(rel, b). px_parts (pure_posix rel)) fs)"

definition inventory_barcodes :: "mock_library \<Rightarrow> string list" where
  "inventory_barcodes L =
     sort (List.map_filter sv_barcode (inv_slots (inventory L)) @ List.map_filter dv_barcode (inv_drives (inventory L)))"

definition is_cleaning_barcode :: "string \<Rightarrow> bool" where
  "is_cleaning_barcode b \<longleftrightarrow> take 3 (str_upper b) = ''CLN''"

definition tape_has_room_for :: "string \<Rightarrow> int \<Rightarrow> (orchestrator, bool) op" where
  "tape_has_room_for b sz =
     bindM (on_ltfs (ensure_tape b)) (\<lambda>(key, tape). returnM (has_room_for (tc_capacity_bytes tape) (tc_used_bytes tape) sz))"

fun choose_assigned :: "cartridge_row list \<Rightarrow> int \<Rightarrow> (orchestrator, string option) op" where
  "choose_assigned [] sz = returnM None"
| "choose_assigned (r # rs) sz =
     (if is_cleaning_barcode (cr_barcode r) then choose_assigned rs sz
      else bindM (tape_has_room_for (cr_barcode r) sz) (\<lambda>ok.
        if ok then returnM (Some (cr_barcode r)) else choose_assigned rs sz))"

fun choose_scratch :: "string list \<Rightarrow> string \<Rightarrow> int \<Rightarrow> (orchestrator, string) op" where
  "choose_scratch [] vg sz = raiseM NoScratchMediaError"
| "choose_scratch (b # bs) vg sz =
     (if is_cleaning_barcode b then choose_scratch bs vg sz
      else thenM (on_catalog (catalog_add_cartridge b None))
       (bindM (getsM (\<lambda>s. get_cartridge b (or_catalog s))) (\<lambda>row.
         if (case row of None \<Rightarrow> True | Some r \<Rightarrow> cr_volume_group_id r \<notin> {None, Some vg} \<or> cr_state r = ''exported'')
         then choose_scratch bs vg sz
         else bindM (tape_has_room_for b sz) (\<lambda>ok.
           if \<not> ok then choose_scratch bs vg sz
           else thenM (on_catalog (update_cartridge b (\<lambda>r. r\<lparr>cr_volume_group_id := Some vg\<rparr>))) (returnM b)))))"

definition choose_tape :: "string \<Rightarrow> int \<Rightarrow> (orchestrator, string) op" where
  "choose_tape vg sz =
     bindM (getsM (\<lambda>s. filter (\<lambda>r. cr_volume_group_id r = Some vg \<and> cr_state r \<noteq> ''exported'') (list_cartridges (or_catalog s)))) (\<lambda>assigned.
     bindM (choose_assigned assigned sz) (\<lambda>found.
      case found of
        Some b \<Rightarrow> returnM b
      | None \<Rightarrow> bindM (getsM (\<lambda>s. inventory_barcodes (or_library s))) (\<lambda>bs. choose_scratch bs vg sz)))"

section \<open>Leases, loads and mounts\<close>

definition archive_tape_request :: "tape_op_type \<Rightarrow> string \<Rightarrow> int \<Rightarrow> int \<Rightarrow> string \<Rightarrow> tape_op_request" where
  "archive_tape_request ty b d k jid =
     \<lparr>tq_op_type = ty, tq_barcode = b, tq_drive_id = Some d, tq_slot_id = Some k, tq_tape_path = None, tq_content = None,
      tq_size_bytes = None, tq_checksum = None, tq_requested_by = ''archive-job'', tq_job_id = Some jid, tq_priority = 5, tq_extras = []\<rparr>"

definition archive_load_if_needed :: "job_env \<Rightarrow> handle_ref \<Rightarrow> string \<Rightarrow> (archive_state, int \<times> int option) op" where
  "archive_load_if_needed ae r jid =
     bindM (getsM (\<lambda>s. lease_handle s r)) (\<lambda>h.
     bindM (on_orch (ask_lib (find_drive_by_barcode (dh_barcode h)))) (\<lambda>loaded.
      case loaded of
        Some d \<Rightarrow> thenM (if d \<noteq> dh_drive_id h then modifyM (set_physical r d) else returnM ()) (returnM (d, None))
      | None \<Rightarrow>
          bindM (on_orch (ask_lib (find_slot_by_barcode (dh_barcode h)))) (\<lambda>found.
           case found of
             None \<Rightarrow> raiseM NoScratchMediaError
           | Some k \<Rightarrow>
               thenM (withenv ae (\<lambda>e. catchM
                   (on_orch (execute_tape_request e True (archive_tape_request TO_LOAD (dh_barcode h) (dh_drive_id h) k jid)))
                   (\<lambda>x. if x = TapeOperationFailedError then raiseM NoScratchMediaError else raiseM x)))
                (returnM (dh_drive_id h, Some k)))))"

definition release_current_lease :: "job_env \<Rightarrow> string \<Rightarrow> (archive_state, unit) op" where
  "release_current_lease ae jid =
     bindM (getsM as_lease) (\<lambda>l.
      case l of
        None \<Rightarrow> returnM ()
      | Some r \<Rightarrow>
          thenM (modifyM (\<lambda>s. s\<lparr>as_lease := None\<rparr>))
          (thenM (release_lease ae r)
          (bindM (getsM (\<lambda>s. lease_handle s r)) (\<lambda>h.
           thenM (journal_job ae jid ''lease_released'' [(''drive_id'', J_int (dh_drive_id h)), (''barcode'', J_str (dh_barcode h))])
            (returnM ())))))"

definition archive_unload :: "job_env \<Rightarrow> string \<Rightarrow> string \<Rightarrow> int \<Rightarrow> int option \<Rightarrow> (archive_state, unit) op" where
  "archive_unload ae jid b d slot =
     (case slot of
        None \<Rightarrow> returnM ()
      | Some k \<Rightarrow> thenM (withenv ae (\<lambda>e. on_orch (execute_tape_request e False (archive_tape_request TO_UNLOAD b d k jid)))) (returnM ()))"

text \<open>\<open>finalize_current_mount\<close>, after its early return.\<close>

definition finalize_mount :: "job_env \<Rightarrow> string \<Rightarrow> string \<Rightarrow> mount_handle \<Rightarrow> string \<Rightarrow> int \<Rightarrow> (archive_state, unit) op" where
  "finalize_mount ae jid vg m b d =
     bindM (getsM as_lease) (\<lambda>l.
      case l of
        None \<Rightarrow> raiseM AssertionError
      | Some r \<Rightarrow>
          thenM (verify_lease ae r)
          (thenM (on_orch (on_ltfs (ltfs_unmount m)))
          (bindM (getsM as_pending) (\<lambda>ids.
           thenM (forM ids (\<lambda>i. withenv ae (\<lambda>e. on_cat (mark_instance_archived (oe_now e) i True))))
           (thenM (modifyM (\<lambda>s. s\<lparr>as_pending := []\<rparr>))
           (thenM (verify_lease ae r)
           (bindM (getsM as_slot_id) (\<lambda>slot.
            thenM (archive_unload ae jid b d slot)
            (thenM (mark_aml_drive_idle b d slot)
            (thenM (on_orch (on_catalog (catalog_add_cartridge b (Some vg))))
            (bindM (on_orch (on_ltfs (ensure_tape b))) (\<lambda>(key, tape).
             thenM (on_orch (on_catalog (update_cartridge b (\<lambda>row. row\<lparr>cr_used_bytes := tc_used_bytes tape,
                cr_capacity_bytes := tc_capacity_bytes tape, cr_formatted := tc_formatted tape,
                cr_state := (if slot \<noteq> None then ''in_slot'' else ''in_drive'')\<rparr>))))
             (thenM (modifyM (\<lambda>s. s\<lparr>as_barcode := None, as_mount := None, as_slot_id := None, as_drive_id := None\<rparr>))
              (release_current_lease ae jid))))))))))))))"

definition finalize_current_mount :: "job_env \<Rightarrow> string \<Rightarrow> string \<Rightarrow> (archive_state, unit) op" where
  "finalize_current_mount ae jid vg =
     bindM (getsM (\<lambda>s. (as_mount s, as_barcode s, as_drive_id s))) (\<lambda>cur.
      case cur of
        (Some m, Some b, Some d) \<Rightarrow> finalize_mount ae jid vg m b d
      | _ \<Rightarrow> returnM ())"

text \<open>The branch of the loop that moves on to another tape.\<close>

definition switch_tape :: "job_env \<Rightarrow> string \<Rightarrow> string \<Rightarrow> string \<Rightarrow> (archive_state, unit) op" where
  "switch_tape ae jid vg b =
     thenM (finalize_current_mount ae jid vg)
     (bindM (acquire_one ae b) (\<lambda>r.
      thenM (modifyM (\<lambda>s. s\<lparr>as_lease := Some r\<rparr>))
      (bindM (getsM (\<lambda>s. lease_handle s r)) (\<lambda>h.
       thenM (journal_job ae jid ''lease_acquired'' [(''drive_id'', J_int (dh_drive_id h)), (''barcode'', J_str (dh_barcode h))])
       (bindM (archive_load_if_needed ae r jid) (\<lambda>(d, slot).
        thenM (modifyM (\<lambda>s. s\<lparr>as_drive_id := Some d, as_slot_id := slot\<rparr>))
        (thenM (on_sched (modifyM (record_physical_drives cat_ops [r])))
        (thenM (bindM tickM (\<lambda>k. mark_aml_drive_busy (av_timestamp ae k) b d))
        (thenM (verify_lease ae r)
        (bindM (withenv ae (\<lambda>e. on_orch (on_ltfs (ltfs_mount (oe_handle_id e) b READ_WRITE)))) (\<lambda>m.
          modifyM (\<lambda>s. s\<lparr>as_mount := Some m, as_barcode := Some b, as_tapes_used := as_tapes_used s @ [b]\<rparr>))))))))))))"

section \<open>The job\<close>

definition archive_path :: "string \<Rightarrow> string \<Rightarrow> string" where
  "archive_path vg_name rel = path_str (path_join (path_join (pure_posix ''/'') vg_name) rel)"

text \<open>The body of the loop after the tape is mounted.\<close>

definition write_one :: "job_env \<Rightarrow> string \<Rightarrow> string \<Rightarrow> bytes \<Rightarrow> string \<Rightarrow> int \<Rightarrow> (archive_state, unit) op" where
  "write_one ae vg path content checksum sz =
     bindM (getsM (\<lambda>s. (as_mount s, as_barcode s))) (\<lambda>cur.
      case cur of
        (Some m, Some b) \<Rightarrow>
          thenM (withenv ae (\<lambda>e. on_orch (on_ltfs (ltfs_write_file (av_sha ae) (oe_now e) (oe_instance_id e) m content path))))
          (bindM (bindM tickM (\<lambda>k. on_cat (create_file_record (av_new_id ae k) (oe_now (av_env ae k)) path sz checksum vg
              (Some 1) None None (Some ''standard'') None))) (\<lambda>rec.
           bindM (bindM tickM (\<lambda>k. on_cat (create_file_instance (av_new_id ae k) (oe_now (av_env ae k)) (rr_id rec) b path))) (\<lambda>inst.
           bindM (on_orch (on_ltfs (ltfs_stat m path))) (\<lambda>st.
           thenM (guardM (st_checksum_sha256 st = checksum \<and> st_size_bytes st = sz) ChecksumMismatchError)
            (modifyM (\<lambda>s. s\<lparr>as_pending := as_pending s @ [ir_id inst], as_bytes := as_bytes s + sz, as_files := Suc (as_files s)\<rparr>))))))
      | _ \<Rightarrow> raiseM AssertionError)"

definition archive_one :: "job_env \<Rightarrow> archive_request \<Rightarrow> string \<Rightarrow> string \<Rightarrow> string \<times> bytes \<Rightarrow> (archive_state, unit) op" where
  "archive_one ae rq jid vg f =
     (let (rel, content) = f;
          path = archive_path (ar_volume_group_name rq) rel;
          checksum = sha256sum (av_sha ae) content;
          sz = int (length content)
      in bindM (on_orch (choose_tape vg sz)) (\<lambda>b.
         bindM (getsM as_barcode) (\<lambda>cur.
         thenM (if cur \<noteq> Some b then switch_tape ae jid vg b else returnM ())
          (write_one ae vg path content checksum sz))))"

text \<open>The two \<open>except\<close> clauses; both record the failure and raise again.\<close>

definition fail_job :: "job_env \<Rightarrow> string \<Rightarrow> exc \<Rightarrow> (archive_state, 'a) op" where
  "fail_job ae jid x =
     thenM (job_state_to ae jid ''failed'' (Some (safe_job_error (av_message ae) (av_class_name ae) x)))
      (raiseM x)"

definition ignore_errors :: "('s, 'a) op \<Rightarrow> ('s, unit) op" where
  "ignore_errors m = catchM (thenM m (returnM ())) (\<lambda>_. returnM ())"

definition archive_cleanup :: "job_env \<Rightarrow> string \<Rightarrow> (archive_state, unit) op" where
  "archive_cleanup ae jid =
     bindM (getsM as_mount) (\<lambda>m.
      thenM (case m of None \<Rightarrow> returnM () | Some h \<Rightarrow> ignore_errors (on_orch (on_ltfs (ltfs_unmount h))))
      (bindM (getsM (\<lambda>s. (as_barcode s, as_drive_id s, as_slot_id s))) (\<lambda>cur.
        case cur of
          (Some b, Some d, slot) \<Rightarrow>
            thenM (ignore_errors (archive_unload ae jid b d slot)) (ignore_errors (mark_aml_drive_idle b d slot))
        | _ \<Rightarrow> returnM ())))"

definition archive_except :: "job_env \<Rightarrow> string \<Rightarrow> exc \<Rightarrow> (archive_state, 'a) op" where
  "archive_except ae jid x =
     (if x = StaleLeaseError then fail_job ae jid x else thenM (archive_cleanup ae jid) (fail_job ae jid x))"

definition archive_files :: "job_env \<Rightarrow> archive_request \<Rightarrow> string \<Rightarrow> string \<Rightarrow> (string \<times> bytes) list \<Rightarrow> (archive_state, unit) op" where
  "archive_files ae rq jid vg fs =
     finallyM
       (catchM (thenM (forM fs (archive_one ae rq jid vg)) (finalize_current_mount ae jid vg)) (archive_except ae jid))
       (release_current_lease ae jid)"

definition reset_locals :: "archive_state \<Rightarrow> archive_state" where
  "reset_locals s = s\<lparr>as_lease := None, as_barcode := None, as_mount := None, as_slot_id := None, as_drive_id := None,
     as_pending := [], as_bytes := 0, as_files := 0, as_tapes_used := []\<rparr>"

definition finish_job :: "job_env \<Rightarrow> string \<Rightarrow> archive_result \<Rightarrow> (archive_state, archive_result) op" where
  "finish_job ae jid res = thenM (job_state_to ae jid ''completed'' None) (returnM res)"

text \<open>\<open>run_archive_job\<close> with the scheduler its service passes.\<close>

definition run_archive_job :: "job_env \<Rightarrow> archive_request \<Rightarrow> string \<Rightarrow> (archive_state, archive_result) op" where
  "run_archive_job ae rq jid =
     thenM (job_state_to ae jid ''running'' None)
     (let fs = iter_source_files (ar_source rq) in
      bindM (bindM tickM (\<lambda>k. on_cat (\<lambda>c. case create_volume_group (av_new_id ae k) (ar_volume_group_name rq) c of (g, c') \<Rightarrow> (Inr g, c')))) (\<lambda>g.
       if ar_dry_run rq
       then finish_job ae jid \<lparr>ares_job_id = jid, ares_files_archived = length fs,
              ares_bytes_archived = sum_list (map (\<lambda>(rel, b). int (length b)) fs), ares_tapes_used = []\<rparr>
       else if fs = []
       then finish_job ae jid \<lparr>ares_job_id = jid, ares_files_archived = 0, ares_bytes_archived = 0, ares_tapes_used = []\<rparr>
       else thenM (modifyM reset_locals)
            (thenM (archive_files ae rq jid (gr_id g) fs)
            (bindM (getsM (\<lambda>s. \<lparr>ares_job_id = jid, ares_files_archived = as_files s, ares_bytes_archived = as_bytes s,
                ares_tapes_used = as_tapes_used s\<rparr>)) (finish_job ae jid)))))"

text \<open>\<open>ArchiveService.enqueue\<close>.\<close>

definition enqueue_archive :: "job_env \<Rightarrow> string \<Rightarrow> source \<Rightarrow> string \<Rightarrow> (archive_state, job_row) op" where
  "enqueue_archive ae vg_name src metadata =
     bindM (bindM tickM (\<lambda>k. on_cat (create_job_row (av_new_id ae k) (oe_now (av_env ae k)) ''archive'' metadata))) (\<lambda>job.
     thenM (modifyM (job_scheduler (jb_id job)))
     (thenM
       (catchM (run_archive_job ae \<lparr>ar_source = src, ar_volume_group_name = vg_name, ar_dry_run = False\<rparr> (jb_id job))
         (\<lambda>x. thenM (forM (iter_source_files src) (\<lambda>(rel, b).
                on_orch (on_catalog (delete_file_record_if_unarchived (archive_path vg_name rel))))) (raiseM x)))
       (bindM (getsM (\<lambda>s. get_job_row (jb_id job) (or_catalog (as_orch s)))) (\<lambda>found.
         case found of None \<Rightarrow> raiseM AssertionError | Some row \<Rightarrow> returnM row))))"

section \<open>A run\<close>

text \<open>One formatted cartridge, already in the only drive, and a job that is to archive one file.\<close>

definition demo_archive_ltfs :: ltfs_backend where
  "demo_archive_ltfs = (let B = mk_ltfs demo_job_library 1000 None No_injector
     in B\<lparr>lt_tapes := map (\<lambda>(k, t). (k, t\<lparr>tc_formatted := True\<rparr>)) (lt_tapes B)\<rparr>)"

definition demo_archive_state :: archive_state where
  "demo_archive_state =
     \<lparr>as_orch = \<lparr>or_has_catalog = True, or_catalog = empty_catalog\<lparr>cat_jobs := [\<lparr>jb_id = ''j'', jb_job_type = ''archive'',
          jb_state = ''pending'', jb_metadata_json = [], jb_error = None, jb_created_at = 0, jb_updated_at = 0\<rparr>]\<rparr>,
        or_transient = [], or_ltfs = demo_archive_ltfs\<rparr>,
      as_sched = new_scheduler 1 empty_catalog ''j'' 1000, as_aml_drives = [], as_aml_media = [], as_tick = 0, as_lease = None,
      as_barcode = None, as_mount = None, as_slot_id = None, as_drive_id = None, as_pending = [], as_bytes = 0, as_files = 0,
      as_tapes_used = []\<rparr>"

definition demo_archive_request :: archive_request where
  "demo_archive_request = \<lparr>ar_source = Src_file ''a'' [1, 2], ar_volume_group_name = ''v'', ar_dry_run = False\<rparr>"

lemma demo_archive_returns: "isl (fst (run_archive_job demo_job_env demo_archive_request ''j'' demo_archive_state)) = False"
  by code_simp

end
