(* ===== verification/Archive_Props.thy ===== *)
theory Archive_Props
  imports Archive_Job
begin

text \<open>
  What a completed archive job has done. The proofs follow the files on the tapes through the job: no
  operation of the job but a write changes any file of any tape, and a write that returns has put the bytes
  under its path on the mounted tape. The invariant of the loop over the files says where the files written
  so far are; it holds whatever other jobs do to the catalog while this one waits for a drive.
\<close>

section \<open>The job's view\<close>

definition job_files :: "archive_state \<Rightarrow> string \<Rightarrow> (string, file_record) dict" where
  "job_files s = orch_files (as_orch s)"

text \<open>The files of the tapes and the variables of the job that say what it has done.\<close>

definition job_view where
  "job_view s = (job_files s, as_mount s, as_barcode s, as_tapes_used s, as_files s, as_bytes s)"

interpretation arch: job_frame job_view
  by unfold_locales (simp_all add: job_view_def job_files_def)

section \<open>The steps of the job\<close>

lemma kf_room [kf_intros]: "keepsv orch_files (tape_has_room_for b n)"
  unfolding tape_has_room_for_def by (intro kf_intros)

lemma kf_choose_assigned [kf_intros]: "keepsv orch_files (choose_assigned rs n)"
  by (induction rs) (auto intro!: kf_intros)

lemma kf_choose_scratch [kf_intros]: "keepsv orch_files (choose_scratch bs vg n)"
  by (induction bs) (auto intro!: kf_intros)

lemma kf_choose_tape [kf_intros]: "keepsv orch_files (choose_tape vg n)"
  unfolding choose_tape_def by (intro kf_intros)

lemma kf_release [kf_intros]: "keepsv job_view (release_current_lease ae jid)"
  unfolding release_current_lease_def by (intro kf_intros) (simp add: job_view_def job_files_def)

lemma kf_load_if_needed [kf_intros]: "keepsv job_view (archive_load_if_needed ae r jid)"
  unfolding archive_load_if_needed_def
  by (intro kf_intros) (simp_all add: set_physical_def archive_tape_request_def)

lemma kf_unload [kf_intros]: "keepsv job_view (archive_unload ae jid b d k)"
  unfolding archive_unload_def by (intro kf_intros) (simp add: archive_tape_request_def)

section \<open>The loop\<close>

definition archived_on :: "(string \<Rightarrow> (string, file_record) dict) \<Rightarrow> string list \<Rightarrow> string \<times> bytes \<Rightarrow> bool" where
  "archived_on F tapes = (\<lambda>(path, content). \<exists>b \<in> set tapes. \<exists>k. mk_barcode b = Inr k \<and> on_tape F k path content)"

definition loop_ok :: "(string \<times> bytes) list \<Rightarrow> archive_state \<Rightarrow> bool" where
  "loop_ok written_files s \<longleftrightarrow>
     list_all (archived_on (job_files s) (as_tapes_used s)) written_files
     \<and> (case as_mount s of None \<Rightarrow> True
        | Some m \<Rightarrow> \<exists>b \<in> set (as_tapes_used s). as_barcode s = Some b \<and> mk_barcode b = Inr (mh_barcode m))
     \<and> as_files s = length written_files \<and> as_bytes s = sum_list (map (\<lambda>(path, content). int (length content)) written_files)"

lemma loop_ok_view: "job_view s' = job_view s \<Longrightarrow> loop_ok w s' = loop_ok w s"
  by (cases "as_mount s") (simp_all add: job_view_def loop_ok_def)

lemma wp_loop: "keepsv job_view m \<Longrightarrow> loop_ok w s \<Longrightarrow> (\<And>x s'. loop_ok w s' \<Longrightarrow> Q x s') \<Longrightarrow> wp m Q (\<lambda>_ _. True) s"
  by (rule wp_kf) (auto dest: loop_ok_view)

lemma wp_finalize:
  assumes "loop_ok w s"
  shows "wp (finalize_current_mount ae jid vg) (\<lambda>_. loop_ok w) (\<lambda>_ _. True) s"
proof -
  have fin: "wp (finalize_mount ae jid vg m b d) (\<lambda>_. loop_ok w) (\<lambda>_ _. True) s1" if "loop_ok w s1" for m b d s1
  proof -
    let ?reset = "\<lambda>s. s\<lparr>as_barcode := None, as_mount := None, as_slot_id := None, as_drive_id := None\<rparr>"
    have tail: "wp (thenM (modifyM ?reset) (release_current_lease ae jid)) (\<lambda>_. loop_ok w) (\<lambda>_ _. True) s2" if "loop_ok w s2" for s2
    proof -
      have "loop_ok w (?reset s2)" using that by (simp add: loop_ok_def job_files_def)
      then show ?thesis unfolding wp_then wp_modify by (rule wp_loop [OF kf_release])
    qed
    have drop: "keepsv job_view (modifyM (\<lambda>s. s\<lparr>as_pending := []\<rparr>))"
      by (intro kf_intros) (simp add: job_view_def job_files_def)
    have mark: "keepsv job_view (forM ids (\<lambda>i. withenv ae (\<lambda>e. on_cat (mark_instance_archived (oe_now e) i True))))" for ids
      by (intro kf_intros)
    show ?thesis
      unfolding finalize_mount_def wp_bind [of "getsM _"] wp_gets
      using that
      by (auto simp: wp_raise tail [unfolded wp_then] split: option.splits
          intro!: wp_loop [OF arch.kf_verify] wp_loop [OF drop] wp_loop [OF mark] wp_loop [OF kf_unload] wp_loop [OF arch.kf_idle]
            wp_loop [OF arch.kf_on_orch [OF kf_on_catalog]] wp_loop [OF arch.kf_on_orch [OF kf_on_ltfs [OF kf_unmount]]]
            wp_loop [OF arch.kf_on_orch [OF kf_on_ltfs [OF kf_ensure_tape]]] simp: wp_then wp_bind wp_gets)
  qed
  show ?thesis
    unfolding finalize_current_mount_def wp_bind wp_gets
    using assms by (auto simp: wp_return fin split: option.splits)
qed

lemma loop_ok_mounted:
  assumes "loop_ok w s" and "mk_barcode b = Inr (mh_barcode m)"
  shows "loop_ok w (s\<lparr>as_mount := Some m, as_barcode := Some b, as_tapes_used := as_tapes_used s @ [b]\<rparr>)"
  using assms by (auto simp: loop_ok_def job_files_def archived_on_def list_all_iff)

lemma wp_switch:
  assumes "loop_ok w s"
  shows "wp (switch_tape ae jid vg b) (\<lambda>_. loop_ok w) (\<lambda>_ _. True) s"
proof -
  let ?mount = "\<lambda>e. on_orch (on_ltfs (ltfs_mount (oe_handle_id e) b READ_WRITE))"
  have barcode: "wp (withenv ae ?mount) (\<lambda>m _. mk_barcode b = Inr (mh_barcode m)) (\<lambda>_ _. True) s1" for s1
    by (simp add: withenv_def wp_bind wp_def [of tickM] tickM_def on_orch_def on_ltfs_def wp_zoom wp_mount_barcode)
  have mount: "wp (withenv ae ?mount) (\<lambda>m s'. loop_ok w (s'\<lparr>as_mount := Some m, as_barcode := Some b, as_tapes_used := as_tapes_used s' @ [b]\<rparr>)) (\<lambda>_ _. True) s1"
    if "loop_ok w s1" for s1
    by (rule wp_both [OF barcode wp_loop [OF arch.kf_withenv [OF arch.kf_on_orch [OF kf_on_ltfs [OF kf_mount]]] that]])
      (assumption, rule loop_ok_mounted)
  have sets: "loop_ok w (s1\<lparr>as_lease := l\<rparr>) = loop_ok w s1" "loop_ok w (s1\<lparr>as_drive_id := d, as_slot_id := k\<rparr>) = loop_ok w s1" for s1 l d k
    by (rule loop_ok_view, simp add: job_view_def job_files_def)+
  note lp = wp_loop [where w = w]
  show ?thesis
    unfolding switch_tape_def wp_then wp_bind wp_gets wp_modify
    by (rule wp_mono [OF wp_finalize [OF assms]])
      (auto simp: wp_rules sets split: prod.splits
        intro!: lp [OF arch.kf_acquire_one] lp [OF arch.kf_journal] lp [OF kf_load_if_needed] lp [OF arch.kf_on_sched]
          lp [OF arch.kf_tick] lp [OF arch.kf_busy] lp [OF arch.kf_verify] mount)
qed

lemma loop_ok_written:
  assumes "loop_ok w s" and "as_mount s = Some m" and "writes (mh_barcode m) path content (or_ltfs (as_orch s)) (or_ltfs (as_orch s'))"
    and "path \<notin> fst ` set w" and "as_mount s' = as_mount s" and "as_barcode s' = as_barcode s" and "as_tapes_used s' = as_tapes_used s"
    and "as_files s' = Suc (as_files s)" and "as_bytes s' = as_bytes s + int (length content)"
  shows "loop_ok (w @ [(path, content)]) s'"
proof -
  obtain b where b: "b \<in> set (as_tapes_used s)" "as_barcode s = Some b" "mk_barcode b = Inr (mh_barcode m)"
    using assms(1,2) by (auto simp: loop_ok_def)
  have "archived_on (job_files s') (as_tapes_used s') (path, content)"
    using b(1,3) on_tape_write(1) [OF assms(3)] assms(7) by (auto simp: archived_on_def job_files_def)
  moreover have "archived_on (job_files s') (as_tapes_used s') x" if "x \<in> set w" for x
  proof -
    obtain p c where x: "x = (p, c)" by (cases x)
    have "p \<noteq> path" using that x assms(4) by force
    then have other: "on_tape (files_of (or_ltfs (as_orch s))) j p d \<Longrightarrow> on_tape (files_of (or_ltfs (as_orch s'))) j p d" for j d
      by (intro on_tape_write(2) [OF assms(3)]) simp_all
    have "archived_on (job_files s) (as_tapes_used s) (p, c)"
      using assms(1) that x by (simp add: loop_ok_def list_all_iff)
    then show ?thesis
      unfolding x archived_on_def job_files_def assms(7) prod.case using other by blast
  qed
  ultimately show ?thesis
    using assms(1,2,5-9) b by (auto simp: loop_ok_def list_all_iff)
qed

lemma wp_view: "keepsv job_view m \<Longrightarrow> job_view s = v \<Longrightarrow> (\<And>x s'. job_view s' = v \<Longrightarrow> Q x s') \<Longrightarrow> wp m Q (\<lambda>_ _. True) s"
  by (rule wp_kf [of job_view]) auto

lemma wp_write_one:
  assumes "loop_ok w s" and "path \<notin> fst ` set w"
  shows "wp (write_one ae vg path content checksum (int (length content))) (\<lambda>_. loop_ok (w @ [(path, content)])) (\<lambda>_ _. True) s"
proof (cases "as_mount s")
  case None
  then show ?thesis by (simp add: write_one_def wp_rules)
next
  case (Some m)
  then obtain b where b: "as_barcode s = Some b" "mk_barcode b = Inr (mh_barcode m)"
    using assms(1) by (auto simp: loop_ok_def)
  have idem: "mk_barcode (mh_barcode m) = Inr (mh_barcode m)" using b(2) by (rule mk_barcode_idem)
  let ?after = "\<lambda>s1. writes (mh_barcode m) path content (or_ltfs (as_orch s)) (or_ltfs (as_orch s1)) \<and> as_mount s1 = as_mount s
     \<and> as_barcode s1 = as_barcode s \<and> as_tapes_used s1 = as_tapes_used s \<and> as_files s1 = as_files s \<and> as_bytes s1 = as_bytes s"
  have wr: "wp (withenv ae (\<lambda>e. on_orch (on_ltfs (ltfs_write_file (av_sha ae) (oe_now e) (oe_instance_id e) m content path)))) (\<lambda>_. ?after) (\<lambda>_ _. True) s"
    by (simp add: withenv_def wp_bind wp_def [of tickM] tickM_def on_orch_def on_ltfs_def wp_zoom wp_write_file [OF idem])
  have after_view: "?after s2" if "job_view s2 = job_view s1" and "?after s1" for s1 s2
    using that by (simp add: job_view_def job_files_def writes_def)
  have rest: "wp m' Q (\<lambda>_ _. True) s1" if "keepsv job_view m'" and "?after s1" and "\<And>x s2. ?after s2 \<Longrightarrow> Q x s2" for m' Q s1
    by (rule wp_view [OF that(1) refl]) (use after_view that(2,3) in blast)
  have r1: "keepsv job_view (bindM tickM (\<lambda>k. on_cat (f k)))" for f by (intro kf_intros)
  have r2: "keepsv job_view (on_orch (on_ltfs (ltfs_stat m path)))" by (intro kf_intros)
  show ?thesis
    unfolding write_one_def wp_bind [of "getsM _"] wp_gets Some b(1) prod.case option.case wp_then
    by (rule wp_mono [OF wr], unfold wp_bind [of "bindM _ _"], rule rest [OF r1], assumption, rule rest [OF r1], assumption,
        unfold wp_bind, rule rest [OF r2], assumption) (auto simp: wp_rules intro!: loop_ok_written [OF assms(1) Some _ assms(2)])
qed

lemma wp_archive_one:
  assumes "loop_ok w s" and "archive_path (ar_volume_group_name rq) rel \<notin> fst ` set w"
  shows "wp (archive_one ae rq jid vg (rel, content)) (\<lambda>_. loop_ok (w @ [(archive_path (ar_volume_group_name rq) rel, content)])) (\<lambda>_ _. True) s"
  unfolding archive_one_def Let_def prod.case wp_bind wp_then wp_gets
  using assms
  by (auto simp: wp_rules intro!: wp_loop [OF arch.kf_on_orch [OF kf_choose_tape], of w] wp_mono [OF wp_switch [of w]] wp_write_one)

lemma wp_archive_loop:
  assumes "loop_ok w s" and "distinct (map fst w @ map (\<lambda>(rel, content). archive_path (ar_volume_group_name rq) rel) fs)"
  shows "wp (forM fs (archive_one ae rq jid vg))
     (\<lambda>_. loop_ok (w @ map (\<lambda>(rel, content). (archive_path (ar_volume_group_name rq) rel, content)) fs)) (\<lambda>_ _. True) s"
  using assms
proof (induction fs arbitrary: w s)
  case Nil
  then show ?case by (simp add: wp_rules)
next
  case (Cons f fs)
  obtain rel content where f: "f = (rel, content)" by (cases f)
  let ?p = "archive_path (ar_volume_group_name rq) rel"
  have fresh: "?p \<notin> fst ` set w" using Cons.prems(2) f by auto
  show ?case
    unfolding f forM.simps wp_then
    by (rule wp_mono [OF wp_archive_one [OF Cons.prems(1) fresh]])
      (use Cons.IH [of "w @ [(?p, content)]"] Cons.prems(2) f in auto)
qed

section \<open>The job\<close>

lemma except_raises: "wp (archive_except ae jid x) (\<lambda>_ _. False) (\<lambda>_ _. True) s"
proof -
  have fail: "wp (fail_job ae jid x) (\<lambda>_ _. False) (\<lambda>_ _. True) s1" for s1
    unfolding fail_job_def wp_then wp_raise by (rule wp_mono [OF wp_true]) auto
  then show ?thesis
    unfolding archive_except_def wp_if by (auto simp: wp_then intro: wp_mono [OF wp_true])
qed

lemma wp_archive_files:
  assumes "loop_ok [] s" and "distinct (map (\<lambda>(rel, content). archive_path (ar_volume_group_name rq) rel) fs)"
  shows "wp (archive_files ae rq jid vg fs)
     (\<lambda>_. loop_ok (map (\<lambda>(rel, content). (archive_path (ar_volume_group_name rq) rel, content)) fs)) (\<lambda>_ _. True) s"
proof -
  let ?w = "map (\<lambda>(rel, content). (archive_path (ar_volume_group_name rq) rel, content)) fs"
  have loop: "wp (forM fs (archive_one ae rq jid vg)) (\<lambda>_. loop_ok ?w) (\<lambda>_ _. True) s"
    using wp_archive_loop [OF assms(1), of rq fs] assms(2) by simp
  have release: "wp (release_current_lease ae jid) (\<lambda>_. loop_ok ?w) (\<lambda>_ _. True) s1" if "loop_ok ?w s1" for s1
    by (rule wp_loop [OF kf_release that])
  have body: "wp (thenM (forM fs (archive_one ae rq jid vg)) (finalize_current_mount ae jid vg)) (\<lambda>_. loop_ok ?w) (\<lambda>_ _. True) s"
    unfolding wp_then by (rule wp_mono [OF loop]) (auto intro: wp_finalize)
  show ?thesis
    unfolding archive_files_def wp_finally wp_catch
    by (rule wp_mono [OF body]) (auto intro: release wp_mono [OF except_raises] simp: wp_true)
qed

text \<open>C3. When the archive job returns, every file of the source is on a tape: under its catalog path, with its
  bytes, on one of the cartridges the job reports as used; and the numbers of files and bytes it reports are
  those of the source. This holds whatever other jobs do to the catalog while it waits for drives.\<close>

theorem archived_files_on_tape:
  assumes "run_archive_job ae rq jid s = (Inr res, s')" and "\<not> ar_dry_run rq"
    and "distinct (map (\<lambda>(rel, content). archive_path (ar_volume_group_name rq) rel) (iter_source_files (ar_source rq)))"
  shows "list_all (\<lambda>(rel, content). \<exists>b \<in> set (ares_tapes_used res). \<exists>k. mk_barcode b = Inr k
        \<and> on_tape (files_of (or_ltfs (as_orch s'))) k (archive_path (ar_volume_group_name rq) rel) content) (iter_source_files (ar_source rq))
     \<and> ares_files_archived res = length (iter_source_files (ar_source rq))
     \<and> ares_bytes_archived res = sum_list (map (\<lambda>(rel, content). int (length content)) (iter_source_files (ar_source rq)))"
proof -
  let ?fs = "iter_source_files (ar_source rq)"
  let ?w = "map (\<lambda>(rel, content). (archive_path (ar_volume_group_name rq) rel, content)) ?fs"
  let ?res = "\<lambda>s2. \<lparr>ares_job_id = jid, ares_files_archived = as_files s2, ares_bytes_archived = as_bytes s2, ares_tapes_used = as_tapes_used s2\<rparr>"
  let ?good = "\<lambda>res s2. ?fs \<noteq> [] \<longrightarrow> loop_ok ?w s2 \<and> ares_tapes_used res = as_tapes_used s2 \<and> ares_files_archived res = as_files s2
      \<and> ares_bytes_archived res = as_bytes s2"
  let ?nil = "\<lambda>res :: archive_result. ?fs = [] \<longrightarrow> ares_files_archived res = 0 \<and> ares_bytes_archived res = 0"
  have finish: "wp (finish_job ae jid (?res s2)) (\<lambda>res s3. ?good res s3 \<and> ?nil res) (\<lambda>_ _. True) s2" if "loop_ok ?w s2" for s2
    unfolding finish_job_def wp_then wp_return
  proof (rule wp_view [OF arch.kf_job_state refl])
    fix s3
    assume v: "job_view s3 = job_view s2"
    from v have "as_files s3 = as_files s2" "as_bytes s3 = as_bytes s2" "as_tapes_used s3 = as_tapes_used s2"
      by (simp_all add: job_view_def)
    moreover have "loop_ok ?w s3" using that loop_ok_view [OF v] by blast
    ultimately show "?good (?res s2) s3 \<and> ?nil (?res s2)" by (simp add: loop_ok_def)
  qed
  have empty: "wp (finish_job ae jid res0) (\<lambda>res s3. ares_files_archived res = 0 \<and> ares_bytes_archived res = 0) (\<lambda>_ _. True) s2"
    if "ares_files_archived res0 = 0" and "ares_bytes_archived res0 = 0" for res0 s2
    unfolding finish_job_def wp_then wp_return by (rule wp_mono [OF wp_true]) (use that in auto)
  have start: "loop_ok [] (reset_locals s2)" for s2 by (simp add: loop_ok_def reset_locals_def)
  have work: "wp (thenM (modifyM reset_locals) (thenM (archive_files ae rq jid vg ?fs) (bindM (getsM ?res) (finish_job ae jid))))
      (\<lambda>res s3. ?good res s3 \<and> ?nil res) (\<lambda>_ _. True) s2" for vg s2
    unfolding wp_then wp_bind wp_modify wp_gets
    by (rule wp_mono [OF wp_archive_files [OF start assms(3)]]) (rule finish, assumption, rule TrueI)
  have "wp (run_archive_job ae rq jid) (\<lambda>res s3. ?good res s3 \<and> ?nil res) (\<lambda>_ _. True) s"
    unfolding run_archive_job_def Let_def wp_then [of "job_state_to _ _ _ _"] wp_bind [of "bindM _ _"]
  proof (rule wp_mono [OF wp_true], rule wp_mono [OF wp_true])
    fix g s2
    show "wp (if ar_dry_run rq
       then finish_job ae jid \<lparr>ares_job_id = jid, ares_files_archived = length ?fs,
              ares_bytes_archived = sum_list (map (\<lambda>(rel, b). int (length b)) ?fs), ares_tapes_used = []\<rparr>
       else if ?fs = []
       then finish_job ae jid \<lparr>ares_job_id = jid, ares_files_archived = 0, ares_bytes_archived = 0, ares_tapes_used = []\<rparr>
       else thenM (modifyM reset_locals) (thenM (archive_files ae rq jid (gr_id g) ?fs) (bindM (getsM ?res) (finish_job ae jid))))
      (\<lambda>res s3. ?good res s3 \<and> ?nil res) (\<lambda>_ _. True) s2"
      unfolding wp_if
      using assms(2) work by (auto intro!: empty)
  qed (rule TrueI)+
  then have "?good res s' \<and> ?nil res" using assms(1) by (rule wp_returns)
  then show ?thesis
    by (cases "?fs = []") (auto simp: loop_ok_def archived_on_def job_files_def list_all_iff o_def case_prod_unfold)
qed

theorem archived_files_on_tape_witness:
  "\<exists>res s'. run_archive_job demo_job_env demo_archive_request ''j'' demo_archive_state = (Inr res, s')
     \<and> ares_files_archived res = 1 \<and> ares_bytes_archived res = 2
     \<and> (\<exists>b \<in> set (ares_tapes_used res). \<exists>k. mk_barcode b = Inr k \<and> on_tape (files_of (or_ltfs (as_orch s'))) k ''/v/a'' [1, 2])"
proof -
  obtain r s' where r: "run_archive_job demo_job_env demo_archive_request ''j'' demo_archive_state = (r, s')" by fastforce
  then obtain res where "r = Inr res" using demo_archive_returns by (cases r) auto
  with r have run: "run_archive_job demo_job_env demo_archive_request ''j'' demo_archive_state = (Inr res, s')" by simp
  have fs: "iter_source_files (ar_source demo_archive_request) = [(''a'', [1, 2])]" by code_simp
  have path: "archive_path (ar_volume_group_name demo_archive_request) ''a'' = ''/v/a''" by code_simp
  have dry: "\<not> ar_dry_run demo_archive_request" by (simp add: demo_archive_request_def)
  from archived_files_on_tape [OF run dry] run show ?thesis by (simp add: fs path)
qed

end
