(* ===== verification/Restore_Job.thy ===== *)
theory Restore_Job
  imports Job_Context
begin

text \<open>
  \<open>jobs/restore.py\<close>: the restore of one file and of a batch, over the same parts as the archive job and the
  local files they write. The state is that of the tape jobs with the local variables the handlers read after
  an exception. Local paths are taken as they are written (no symbolic links, no \<open>..\<close>); of the errors of the
  operating system those are modelled that come from a directory where a file should be or a file where a
  directory should be, as one class.
\<close>

section \<open>Local files\<close>

record local_fs =
  lf_files :: "(posix_path, bytes) dict"
  lf_dirs :: "posix_path list"

definition with_name :: "posix_path \<Rightarrow> string \<Rightarrow> exc + posix_path" where
  "with_name p n = (if px_parts p = [] then Inl (ValueError ''has an empty name'') else Inr (p\<lparr>px_parts := butlast (px_parts p) @ [n]\<rparr>))"

definition ancestors :: "posix_path \<Rightarrow> posix_path list" where
  "ancestors p = map (\<lambda>n. p\<lparr>px_parts := take n (px_parts p)\<rparr>) [0..<length (px_parts p)]"

text \<open>\<open>dest.parent.mkdir(parents=True, exist_ok=True); dest.write_bytes(payload)\<close>.\<close>

definition fs_write :: "posix_path \<Rightarrow> bytes \<Rightarrow> (local_fs, unit) op" where
  "fs_write p content =
     bindM (getsM (\<lambda>f. list_ex (\<lambda>a. dict_get (lf_files f) a \<noteq> None) (ancestors p))) (\<lambda>blocked.
     thenM (guardM (\<not> blocked) OSError)
     (thenM (modifyM (\<lambda>f. f\<lparr>lf_dirs := foldl (\<lambda>ds a. List.insert a ds) (lf_dirs f) (ancestors p)\<rparr>))
     (bindM (getsM (\<lambda>f. p \<in> set (lf_dirs f))) (\<lambda>dir.
     thenM (guardM (\<not> dir) OSError)
      (modifyM (\<lambda>f. f\<lparr>lf_files := dict_set p content (lf_files f)\<rparr>))))))"

definition fs_read :: "posix_path \<Rightarrow> (local_fs, bytes) op" where
  "fs_read p = queryM (\<lambda>f. case dict_get (lf_files f) p of None \<Rightarrow> Inl OSFileNotFoundError | Some b \<Rightarrow> Inr b)"

text \<open>\<open>Path.rename\<close> and \<open>Path.replace\<close> of a file to a name in the same directory; a file there is replaced.\<close>

definition fs_rename :: "posix_path \<Rightarrow> posix_path \<Rightarrow> (local_fs, unit) op" where
  "fs_rename p q =
     bindM (fs_read p) (\<lambda>content.
     bindM (getsM (\<lambda>f. q \<in> set (lf_dirs f))) (\<lambda>dir.
     thenM (guardM (\<not> dir) OSError)
      (modifyM (\<lambda>f. f\<lparr>lf_files := dict_set q content (dict_pop p (lf_files f))\<rparr>))))"

text \<open>\<open>unlink(missing_ok=True)\<close>.\<close>

definition fs_unlink :: "posix_path \<Rightarrow> (local_fs, unit) op" where
  "fs_unlink p =
     bindM (getsM (\<lambda>f. p \<in> set (lf_dirs f))) (\<lambda>dir.
     thenM (guardM (\<not> dir) OSError) (modifyM (\<lambda>f. f\<lparr>lf_files := dict_pop p (lf_files f)\<rparr>)))"

section \<open>The job's state\<close>

record restore_request =
  rq_catalog_path :: string
  rq_dest_path :: posix_path
  rq_dry_run :: bool

record restore_result =
  rres_job_id :: string
  rres_source_barcode :: string
  rres_checksum_verified :: bool

record restore_item =
  ri_catalog_path :: string
  ri_ok :: bool
  ri_error :: "string option"

record batch_result =
  bres_job_id :: string
  bres_items :: "restore_item list"
  bres_tape_errors :: "string list"

record restore_state = job_ctx +
  rs_fs :: local_fs
  rs_drive_id :: "int option"
  rs_slot_id :: "int option"
  rs_fenced_out :: bool
  rs_unmount_failed :: bool
  rs_results :: "restore_item list"
  rs_tape_error :: "string option"
  rs_items :: "restore_item list"
  rs_tape_errors :: "string list"

definition on_fs :: "(local_fs, 'a) op \<Rightarrow> (restore_state, 'a) op" where
  "on_fs m = zoomM rs_fs (\<lambda>f s. s\<lparr>rs_fs := f\<rparr>) m"

definition batch_ok :: "batch_result \<Rightarrow> bool" where
  "batch_ok b \<longleftrightarrow> bres_tape_errors b = [] \<and> list_all ri_ok (bres_items b)"

section \<open>Steps\<close>

definition restore_tape_request :: "tape_op_type \<Rightarrow> string \<Rightarrow> int \<Rightarrow> int \<Rightarrow> string \<Rightarrow> tape_op_request" where
  "restore_tape_request ty b d k jid =
     \<lparr>tq_op_type = ty, tq_barcode = b, tq_drive_id = Some d, tq_slot_id = Some k, tq_tape_path = None, tq_content = None,
      tq_size_bytes = None, tq_checksum = None, tq_requested_by = ''restore-job'', tq_job_id = Some jid, tq_priority = 5, tq_extras = []\<rparr>"

definition restore_load_if_needed :: "job_env \<Rightarrow> handle_ref \<Rightarrow> string \<Rightarrow> (restore_state, int \<times> int option) op" where
  "restore_load_if_needed ae r jid =
     bindM (getsM (\<lambda>s. lease_handle s r)) (\<lambda>h.
     bindM (on_orch (ask_lib (find_drive_by_barcode (dh_barcode h)))) (\<lambda>loaded.
      case loaded of
        Some d \<Rightarrow>
          thenM (check_reconciled d (dh_barcode h))
          (thenM (if d \<noteq> dh_drive_id h then modifyM (set_physical r d) else returnM ()) (returnM (d, None)))
      | None \<Rightarrow>
          bindM (on_orch (ask_lib (find_slot_by_barcode (dh_barcode h)))) (\<lambda>found.
           case found of
             None \<Rightarrow> raiseM CartridgeOfflineError
           | Some k \<Rightarrow>
               thenM (check_reconciled (dh_drive_id h) (dh_barcode h))
               (thenM (withenv ae (\<lambda>e. on_orch (execute_tape_request e True (restore_tape_request TO_LOAD (dh_barcode h) (dh_drive_id h) k jid))))
                (returnM (dh_drive_id h, Some k))))))"

text \<open>\<open>ltfs.read_file(mount_handle, tape_path, dest)\<close>.\<close>

definition read_to :: "job_env \<Rightarrow> mount_handle \<Rightarrow> string \<Rightarrow> posix_path \<Rightarrow> (restore_state, unit) op" where
  "read_to ae m tape_path dest =
     bindM (on_orch (on_ltfs (ltfs_read_file (av_sha ae) m (path_str (pure_posix tape_path))))) (\<lambda>(checksum, content).
      on_fs (fs_write dest content))"

definition mount_read_only :: "job_env \<Rightarrow> string \<Rightarrow> (restore_state, mount_handle) op" where
  "mount_read_only ae b = withenv ae (\<lambda>e. on_orch (on_ltfs (ltfs_mount (oe_handle_id e) b READ_ONLY)))"

definition unmount_volume :: "mount_handle \<Rightarrow> (restore_state, unit) op" where
  "unmount_volume m = thenM (on_orch (on_ltfs (ltfs_unmount m))) (returnM ())"

text \<open>\<open>except StaleLeaseError: fenced_out = True; raise\<close>.\<close>

definition note_fenced :: "(restore_state, 'a) op \<Rightarrow> (restore_state, 'a) op" where
  "note_fenced m = catchM m (\<lambda>x. thenM (if x = StaleLeaseError then modifyM (\<lambda>s. s\<lparr>rs_fenced_out := True\<rparr>) else returnM ()) (raiseM x))"

text \<open>The inner \<open>finally\<close> clause: verify, unload what the job loaded, mark the drive idle.\<close>

definition restore_unload :: "job_env \<Rightarrow> string \<Rightarrow> handle_ref \<Rightarrow> string \<Rightarrow> (restore_state, unit) op" where
  "restore_unload ae jid r b =
     bindM (getsM (\<lambda>s. (rs_fenced_out s \<or> rs_unmount_failed s, rs_drive_id s))) (\<lambda>cur.
      case cur of
        (False, Some d) \<Rightarrow>
          thenM (note_fenced (verify_lease ae r))
          (bindM (getsM rs_slot_id) (\<lambda>slot.
           thenM (case slot of
               None \<Rightarrow> returnM ()
             | Some k \<Rightarrow> thenM (withenv ae (\<lambda>e. on_orch (execute_tape_request e False (restore_tape_request TO_UNLOAD b d k jid)))) (returnM ()))
            (mark_aml_drive_idle b d slot)))
      | _ \<Rightarrow> returnM ())"

text \<open>Load, record the drive, mark it busy, verify, mount: the head of both jobs' \<open>try\<close>.\<close>

definition load_and_mount :: "job_env \<Rightarrow> string \<Rightarrow> handle_ref \<Rightarrow> string \<Rightarrow> (restore_state, int \<times> mount_handle) op" where
  "load_and_mount ae jid r b =
     bindM (restore_load_if_needed ae r jid) (\<lambda>(d, slot).
     thenM (modifyM (\<lambda>s. s\<lparr>rs_drive_id := Some d, rs_slot_id := slot\<rparr>))
     (thenM (on_sched (modifyM (record_physical_drives cat_ops [r])))
     (thenM (bindM tickM (\<lambda>k. mark_aml_drive_busy (av_timestamp ae k) b d))
     (thenM (verify_lease ae r)
     (bindM (mount_read_only ae b) (\<lambda>m. returnM (d, m)))))))"

definition reset_tape_locals :: "restore_state \<Rightarrow> restore_state" where
  "reset_tape_locals s = s\<lparr>rs_drive_id := None, rs_slot_id := None, rs_fenced_out := False, rs_unmount_failed := False,
     rs_results := [], rs_tape_error := None\<rparr>"

definition final_dest :: "restore_request \<Rightarrow> local_fs \<Rightarrow> posix_path" where
  "final_dest rq f =
     (if rq_dest_path rq \<in> set (lf_dirs f) then path_join (rq_dest_path rq) (posix_name (pure_posix (rq_catalog_path rq))) else rq_dest_path rq)"

section \<open>One file\<close>

definition restore_tape :: "job_env \<Rightarrow> string \<Rightarrow> handle_ref \<Rightarrow> instance_row \<Rightarrow> posix_path \<Rightarrow> (restore_state, unit) op" where
  "restore_tape ae jid r inst dest =
     finallyM
       (note_fenced
         (bindM (load_and_mount ae jid r (ir_barcode inst)) (\<lambda>(d, m).
           finallyM (read_to ae m (ir_tape_path inst) dest)
             (thenM (verify_lease ae r) (unmount_volume m)))))
       (restore_unload ae jid r (ir_barcode inst))"

definition restore_leased :: "job_env \<Rightarrow> string \<Rightarrow> handle_ref \<Rightarrow> drive_handle \<Rightarrow> instance_row \<Rightarrow> posix_path \<Rightarrow> (restore_state, unit) op" where
  "restore_leased ae jid r h inst dest =
     finallyM
       (catchM (restore_tape ae jid r inst dest) (\<lambda>x.
          if x = StaleLeaseError
          then thenM (job_state_to ae jid ''failed'' (Some (safe_job_error (av_message ae) (av_class_name ae) x))) (raiseM x)
          else raiseM x))
       (thenM (release_lease ae r)
         (journal_job ae jid ''lease_released'' [(''drive_id'', J_int (dh_drive_id h)), (''barcode'', J_str (dh_barcode h))]))"

text \<open>The check of the bytes that arrived; a file that fails it is moved aside.\<close>

definition check_restored :: "job_env \<Rightarrow> string \<Rightarrow> restore_request \<Rightarrow> record_row \<Rightarrow> posix_path \<Rightarrow> (restore_state, unit) op" where
  "check_restored ae jid rq record dest =
     bindM (on_fs (fs_read dest)) (\<lambda>content.
      if sha256sum (av_sha ae) content \<noteq> rr_checksum_sha256 record
      then bindM (liftM (with_name dest (posix_name dest @ ''.quarantine''))) (\<lambda>quarantine.
           thenM (on_fs (fs_rename dest quarantine))
           (thenM (job_state_to ae jid ''failed'' (Some (''Checksum mismatch for '' @ rq_catalog_path rq)))
            (raiseM ChecksumMismatchError)))
      else returnM ())"

text \<open>The job from the lease on, and the whole.\<close>

definition restore_file :: "job_env \<Rightarrow> restore_request \<Rightarrow> string \<Rightarrow> record_row \<Rightarrow> instance_row \<Rightarrow> (restore_state, restore_result) op" where
  "restore_file ae rq jid record inst =
     bindM (acquire_one ae (ir_barcode inst)) (\<lambda>r.
     bindM (getsM (\<lambda>s. lease_handle s r)) (\<lambda>h.
     thenM (journal_job ae jid ''lease_acquired'' [(''drive_id'', J_int (dh_drive_id h)), (''barcode'', J_str (dh_barcode h))])
     (bindM (getsM (\<lambda>s. final_dest rq (rs_fs s))) (\<lambda>dest.
     thenM (modifyM reset_tape_locals)
     (thenM (restore_leased ae jid r h inst dest)
     (thenM (check_restored ae jid rq record dest)
     (thenM (job_state_to ae jid ''completed'' None)
       (returnM \<lparr>rres_job_id = jid, rres_source_barcode = ir_barcode inst, rres_checksum_verified = True\<rparr>))))))))"

definition run_restore_job :: "job_env \<Rightarrow> restore_request \<Rightarrow> string \<Rightarrow> (restore_state, restore_result) op" where
  "run_restore_job ae rq jid =
     thenM (job_state_to ae jid ''running'' None)
     (bindM (on_cat (queryM (get_latest_instance_for_path (rq_catalog_path rq)))) (\<lambda>(record, inst).
      bindM (on_cat (getsM (get_cartridge (ir_barcode inst)))) (\<lambda>cart.
      if map_option cr_state cart = Some ''exported''
      then thenM (job_state_to ae jid ''failed'' (Some (''Cartridge '' @ ir_barcode inst @ '' is offline''))) (raiseM CartridgeOfflineError)
      else if rq_dry_run rq
      then thenM (job_state_to ae jid ''completed'' None)
             (returnM \<lparr>rres_job_id = jid, rres_source_barcode = ir_barcode inst, rres_checksum_verified = False\<rparr>)
      else restore_file ae rq jid record inst)))"

section \<open>A batch\<close>

definition with_error :: "restore_request \<Rightarrow> string \<Rightarrow> restore_item" where
  "with_error rq e = \<lparr>ri_catalog_path = rq_catalog_path rq, ri_ok = False, ri_error = Some e\<rparr>"

definition item_ok :: "restore_request \<Rightarrow> restore_item" where
  "item_ok rq = \<lparr>ri_catalog_path = rq_catalog_path rq, ri_ok = True, ri_error = None\<rparr>"

text \<open>The part of \<open>_restore_one_verified\<close> after a successful read.\<close>

definition settle_item :: "job_env \<Rightarrow> restore_request \<Rightarrow> record_row \<Rightarrow> posix_path \<Rightarrow> posix_path \<Rightarrow> (restore_state, restore_item) op" where
  "settle_item ae rq record dest temp =
     bindM (on_fs (fs_read temp)) (\<lambda>content.
      if sha256sum (av_sha ae) content \<noteq> rr_checksum_sha256 record
      then bindM (liftM (with_name dest (posix_name dest @ ''.quarantine''))) (\<lambda>quarantine.
           thenM (on_fs (fs_rename temp quarantine))
            (returnM (with_error rq (''Checksum mismatch for '' @ rq_catalog_path rq))))
      else thenM (on_fs (fs_rename temp dest)) (returnM (item_ok rq)))"

definition restore_one_verified ::
  "job_env \<Rightarrow> mount_handle \<Rightarrow> restore_request \<Rightarrow> record_row \<Rightarrow> instance_row \<Rightarrow> (restore_state, restore_item) op" where
  "restore_one_verified ae m rq record inst =
     bindM (getsM (\<lambda>s. final_dest rq (rs_fs s))) (\<lambda>dest.
     bindM (liftM (with_name dest (''.'' @ posix_name dest @ ''.restoring''))) (\<lambda>temp.
     bindM (catchM (thenM (read_to ae m (ir_tape_path inst) temp) (returnM None)) (\<lambda>x.
         if x = StaleLeaseError then raiseM x
         else thenM (on_fs (fs_unlink temp))
               (returnM (Some (with_error rq (safe_job_error (av_message ae) (av_class_name ae) x)))))) (\<lambda>failed.
      case failed of Some item \<Rightarrow> returnM item | None \<Rightarrow> settle_item ae rq record dest temp)))"

type_synonym tape_group = "(restore_request \<times> record_row \<times> instance_row) list"

definition unmount_or_note :: "job_env \<Rightarrow> string \<Rightarrow> handle_ref \<Rightarrow> string \<Rightarrow> int \<Rightarrow> mount_handle \<Rightarrow> (restore_state, unit) op" where
  "unmount_or_note ae jid r b d m =
     catchM (unmount_volume m) (\<lambda>_.
       thenM (modifyM (\<lambda>s. s\<lparr>rs_unmount_failed := True\<rparr>))
       (thenM (record_physical_state_unknown ae jid ''unmount'' b (Some d) [r])
        (modifyM (\<lambda>s. s\<lparr>rs_tape_error := Some (''Unmount of '' @ b @ '' failed; left in drive for reconcile'')\<rparr>))))"

definition restore_group_items :: "job_env \<Rightarrow> mount_handle \<Rightarrow> tape_group \<Rightarrow> (restore_state, unit) op" where
  "restore_group_items ae m grp =
     forM grp (\<lambda>(rq, record, inst).
       bindM (restore_one_verified ae m rq record inst) (\<lambda>item. modifyM (\<lambda>s. s\<lparr>rs_results := rs_results s @ [item]\<rparr>)))"

text \<open>A load or mount that failed fails the items of the tape that have no result yet.\<close>

definition fail_rest :: "job_env \<Rightarrow> tape_group \<Rightarrow> exc \<Rightarrow> (restore_state, unit) op" where
  "fail_rest ae grp x =
     (let message = safe_job_error (av_message ae) (av_class_name ae) x in
      modifyM (\<lambda>s. s\<lparr>rs_results := rs_results s @ map (\<lambda>(rq, record, inst). with_error rq message)
        (filter (\<lambda>(rq, record, inst). rq_catalog_path rq \<notin> set (map ri_catalog_path (rs_results s))) grp)\<rparr>))"

definition restore_group_tape :: "job_env \<Rightarrow> string \<Rightarrow> handle_ref \<Rightarrow> string \<Rightarrow> tape_group \<Rightarrow> (restore_state, unit) op" where
  "restore_group_tape ae jid r b grp =
     finallyM
       (catchM
         (bindM (load_and_mount ae jid r b) (\<lambda>(d, m).
           finallyM (restore_group_items ae m grp) (thenM (verify_lease ae r) (unmount_or_note ae jid r b d m))))
         (\<lambda>x. if x = StaleLeaseError then thenM (modifyM (\<lambda>s. s\<lparr>rs_fenced_out := True\<rparr>)) (raiseM x) else fail_rest ae grp x))
       (restore_unload ae jid r b)"

definition restore_tape_group :: "job_env \<Rightarrow> string \<Rightarrow> string \<Rightarrow> tape_group \<Rightarrow> (restore_state, restore_item list \<times> string option) op" where
  "restore_tape_group ae jid b grp =
     bindM (acquire_one ae b) (\<lambda>r.
     bindM (getsM (\<lambda>s. lease_handle s r)) (\<lambda>h.
     thenM (journal_job ae jid ''lease_acquired'' [(''drive_id'', J_int (dh_drive_id h)), (''barcode'', J_str b)])
     (thenM (journal_job ae jid ''batch_tape_started'' [(''barcode'', J_str b), (''files'', J_int (int (length grp)))])
     (thenM (modifyM reset_tape_locals)
     (thenM
       (finallyM (restore_group_tape ae jid r b grp)
         (thenM (release_lease ae r)
         (thenM (journal_job ae jid ''lease_released'' [(''drive_id'', J_int (dh_drive_id h)), (''barcode'', J_str b)])
         (bindM (getsM (\<lambda>s. length (filter ri_ok (rs_results s)))) (\<lambda>ok.
           journal_job ae jid ''batch_tape_finished'' [(''barcode'', J_str b), (''ok'', J_int (int ok)), (''files'', J_int (int (length grp)))])))))
       (getsM (\<lambda>s. (rs_results s, rs_tape_error s))))))))"

text \<open>The loop that sorts the requests into failures and groups by tape.\<close>

definition plan_request :: "catalog \<Rightarrow> restore_item list \<times> (string, tape_group) dict \<Rightarrow> restore_request
    \<Rightarrow> restore_item list \<times> (string, tape_group) dict" where
  "plan_request c acc rq =
     (case acc of (items, groups) \<Rightarrow>
       (case get_latest_instance_for_path (rq_catalog_path rq) c of
          Inl x \<Rightarrow> (items @ [with_error rq (''No archived instance for '' @ rq_catalog_path rq)], groups)
        | Inr (record, inst) \<Rightarrow>
            if map_option cr_state (get_cartridge (ir_barcode inst) c) = Some ''exported''
            then (items @ [with_error rq (''Cartridge '' @ ir_barcode inst @ '' is offline'')], groups)
            else if rq_dry_run rq then (items @ [item_ok rq], groups)
            else (items, dict_set (ir_barcode inst)
              ((case dict_get groups (ir_barcode inst) of None \<Rightarrow> [] | Some g \<Rightarrow> g) @ [(rq, record, inst)]) groups)))"

definition plan_batch :: "restore_request list \<Rightarrow> catalog \<Rightarrow> restore_item list \<times> (string, tape_group) dict" where
  "plan_batch requests c = foldl (plan_request c) ([], []) requests"

definition restore_groups :: "job_env \<Rightarrow> string \<Rightarrow> (string, tape_group) dict \<Rightarrow> (restore_state, unit) op" where
  "restore_groups ae jid groups =
     forM groups (\<lambda>(b, grp).
       bindM (catchM (restore_tape_group ae jid b grp) (\<lambda>x.
           if x = StaleLeaseError
           then thenM (job_state_to ae jid ''failed'' (Some (safe_job_error (av_message ae) (av_class_name ae) x))) (raiseM x)
           else raiseM x)) (\<lambda>(results, tape_error).
        modifyM (\<lambda>s. s\<lparr>rs_items := rs_items s @ results,
          rs_tape_errors := rs_tape_errors s @ (case tape_error of None \<Rightarrow> [] | Some e \<Rightarrow> [e])\<rparr>)))"

fun join_semicolon :: "string list \<Rightarrow> string" where
  "join_semicolon [] = []"
| "join_semicolon [x] = x"
| "join_semicolon (x # y # xs) = x @ ''; '' @ join_semicolon (y # xs)"

definition batch_failure_text :: "batch_result \<Rightarrow> string" where
  "batch_failure_text res =
     (let failed = length (filter (\<lambda>i. \<not> ri_ok i) (bres_items res));
          detail = int_str (int failed) @ '' of '' @ int_str (int (length (bres_items res))) @ '' files failed to restore''
      in if bres_tape_errors res = [] then detail else detail @ ''; '' @ join_semicolon (bres_tape_errors res))"

definition run_restore_batch :: "job_env \<Rightarrow> restore_request list \<Rightarrow> string \<Rightarrow> (restore_state, batch_result) op" where
  "run_restore_batch ae requests jid =
     thenM (job_state_to ae jid ''running'' None)
     (bindM (on_cat (getsM (plan_batch requests))) (\<lambda>(items, groups).
      thenM (modifyM (\<lambda>s. s\<lparr>rs_items := items, rs_tape_errors := []\<rparr>))
      (thenM (restore_groups ae jid groups)
      (bindM (getsM (\<lambda>s. \<lparr>bres_job_id = jid, bres_items = rs_items s, bres_tape_errors = rs_tape_errors s\<rparr>)) (\<lambda>res.
       thenM (if batch_ok res then job_state_to ae jid ''completed'' None
              else job_state_to ae jid ''failed'' (Some (batch_failure_text res)))
        (returnM res))))))"

section \<open>The service\<close>

definition find_own_job :: "string \<Rightarrow> (restore_state, job_row) op" where
  "find_own_job jid = bindM (on_cat (getsM (get_job_row jid))) (\<lambda>found. case found of None \<Rightarrow> raiseM AssertionError | Some row \<Rightarrow> returnM row)"

definition create_restore_job :: "job_env \<Rightarrow> string \<Rightarrow> (restore_state, job_row) op" where
  "create_restore_job ae metadata = bindM tickM (\<lambda>k. on_cat (create_job_row (av_new_id ae k) (oe_now (av_env ae k)) ''restore'' metadata))"

definition enqueue_restore :: "job_env \<Rightarrow> string \<Rightarrow> posix_path \<Rightarrow> string \<Rightarrow> (restore_state, job_row) op" where
  "enqueue_restore ae path dest metadata =
     bindM (create_restore_job ae metadata) (\<lambda>job.
     thenM (modifyM (job_scheduler (jb_id job)))
     (thenM (run_restore_job ae \<lparr>rq_catalog_path = path, rq_dest_path = dest, rq_dry_run = False\<rparr> (jb_id job))
      (find_own_job (jb_id job))))"

definition enqueue_restore_batch :: "job_env \<Rightarrow> restore_request list \<Rightarrow> string \<Rightarrow> (restore_state, job_row \<times> batch_result) op" where
  "enqueue_restore_batch ae requests metadata =
     bindM (create_restore_job ae metadata) (\<lambda>job.
     thenM (modifyM (job_scheduler (jb_id job)))
     (bindM (run_restore_batch ae requests (jb_id job)) (\<lambda>res.
      bindM (find_own_job (jb_id job)) (\<lambda>row. returnM (row, res)))))"

section \<open>A run\<close>

text \<open>One cartridge, already in the only drive, with one file, and a job that is to restore it.\<close>

definition demo_restore_ltfs :: ltfs_backend where
  "demo_restore_ltfs = (let B = mk_ltfs demo_job_library 1000 None No_injector
     in B\<lparr>lt_tapes := map (\<lambda>(k, t). (k, t\<lparr>tc_formatted := True, tc_files := [(''/a'', \<lparr>fr_tape_path = ''/a'', fr_size_bytes = 2,
        fr_checksum_sha256 = demo_sha [1, 2], fr_content = [1, 2], fr_modified_at = 0\<rparr>)]\<rparr>)) (lt_tapes B)\<rparr>)"

definition demo_restore_catalog :: catalog where
  "demo_restore_catalog = empty_catalog\<lparr>cat_jobs := [\<lparr>jb_id = ''j'', jb_job_type = ''restore'',
      jb_state = ''pending'', jb_metadata_json = [], jb_error = None, jb_created_at = 0, jb_updated_at = 0\<rparr>],
    cat_records := [\<lparr>rr_id = ''r'', rr_path = ''/a'', rr_size_bytes = 2, rr_checksum_sha256 = demo_sha [1, 2], rr_volume_group_id = ''g'',
      rr_shard_count = None, rr_shard_index = None, rr_block_size = None, rr_shard_profile = None, rr_parent_id = None, rr_created_at = 0\<rparr>],
    cat_instances := [\<lparr>ir_id = ''i'', ir_file_record_id = ''r'', ir_barcode = ''VTA001L8'', ir_tape_path = ''/a'', ir_state = FI_ARCHIVED,
      ir_archived_at = None, ir_checksum_verified = True, ir_created_at = 0\<rparr>]\<rparr>"

definition demo_restore_state :: restore_state where
  "demo_restore_state =
     \<lparr>as_orch = \<lparr>or_has_catalog = True, or_catalog = demo_restore_catalog, or_transient = [], or_ltfs = demo_restore_ltfs\<rparr>,
      as_sched = new_scheduler 1 empty_catalog ''j'' 1000, as_aml_drives = [], as_aml_media = [], as_tick = 0,
      rs_fs = \<lparr>lf_files = [], lf_dirs = []\<rparr>, rs_drive_id = None, rs_slot_id = None, rs_fenced_out = False, rs_unmount_failed = False,
      rs_results = [], rs_tape_error = None, rs_items = [], rs_tape_errors = []\<rparr>"

definition demo_restore_request :: "string \<Rightarrow> restore_request" where
  "demo_restore_request path = \<lparr>rq_catalog_path = path, rq_dest_path = \<lparr>px_root = [], px_parts = [''b'']\<rparr>, rq_dry_run = False\<rparr>"

lemma demo_restore_returns: "isl (fst (run_restore_job demo_job_env (demo_restore_request ''/a'') ''j'' demo_restore_state)) = False"
  by code_simp

end
