(* ===== verification/Restore_Props.thy ===== *)
theory Restore_Props
  imports Restore_Job
begin

text \<open>
  What a restore has done when it returns, and what a batch can and cannot do to the local files. The proofs
  follow the files of the tapes and the local files through the jobs; every other part of the state may change
  under them, the catalog in particular while they wait for a drive.
\<close>

section \<open>The view\<close>

definition restore_view :: "restore_state \<Rightarrow> (string \<Rightarrow> (string, file_record) dict) \<times> local_fs" where
  "restore_view s = (orch_files (as_orch s), rs_fs s)"

interpretation rest: job_frame restore_view
  by unfold_locales (simp_all add: restore_view_def)

lemma kf_locals [kf_intros]:
  "keepsv restore_view (modifyM (\<lambda>s. s\<lparr>rs_fenced_out := b\<rparr>))"
  "keepsv restore_view (modifyM (\<lambda>s. s\<lparr>rs_unmount_failed := b\<rparr>))"
  "keepsv restore_view (modifyM (\<lambda>s. s\<lparr>rs_tape_error := e\<rparr>))"
  "keepsv restore_view (modifyM (\<lambda>s. s\<lparr>rs_drive_id := d, rs_slot_id := k\<rparr>))"
  "keepsv restore_view (modifyM (\<lambda>s. s\<lparr>rs_results := rr s\<rparr>))"
  "keepsv restore_view (modifyM (\<lambda>s. s\<lparr>rs_items := ii s, rs_tape_errors := tt s\<rparr>))"
  "keepsv restore_view (modifyM reset_tape_locals)"
  by (auto intro!: kf_modify simp: restore_view_def reset_tape_locals_def)

lemma kf_note_fenced [kf_intros]: "keepsv restore_view m \<Longrightarrow> keepsv restore_view (note_fenced m)"
  unfolding note_fenced_def by (intro kf_intros)

lemma kf_restore_load [kf_intros]: "keepsv restore_view (restore_load_if_needed ae r jid)"
  unfolding restore_load_if_needed_def by (intro kf_intros) (simp_all add: restore_tape_request_def)

lemma kf_mount_read_only [kf_intros]: "keepsv restore_view (mount_read_only ae b)"
  unfolding mount_read_only_def by (intro kf_intros)

lemma kf_unmount_volume [kf_intros]: "keepsv restore_view (unmount_volume m)"
  unfolding unmount_volume_def by (intro kf_intros)

lemma kf_load_and_mount [kf_intros]: "keepsv restore_view (load_and_mount ae jid r b)"
  unfolding load_and_mount_def by (intro kf_intros)

lemma kf_restore_unload [kf_intros]: "keepsv restore_view (restore_unload ae jid r b)"
  unfolding restore_unload_def
  by (rule kf_bind [OF kf_basic(3)]) (auto split: bool.splits option.splits intro!: kf_intros simp: restore_tape_request_def)

lemma kf_unmount_or_note [kf_intros]: "keepsv restore_view (unmount_or_note ae jid r b d m)"
  unfolding unmount_or_note_def by (intro kf_intros)

lemma kf_fail_rest [kf_intros]: "keepsv restore_view (fail_rest ae grp x)"
  unfolding fail_rest_def Let_def by (intro kf_intros)

section \<open>The read\<close>

text \<open>The state after a file was copied from the tape to a local path.\<close>

definition copied :: "restore_state \<Rightarrow> string \<Rightarrow> string \<Rightarrow> posix_path \<Rightarrow> restore_state \<Rightarrow> bool" where
  "copied s k tp dest s' \<longleftrightarrow>
     (\<exists>r. dict_get (orch_files (as_orch s) k) tp = Some r \<and> orch_files (as_orch s') = orch_files (as_orch s)
        \<and> dict_get (lf_files (rs_fs s')) = (dict_get (lf_files (rs_fs s)))(dest \<mapsto> fr_content r))"

lemma copied_view: "restore_view s1' = restore_view s1 \<Longrightarrow> copied s k tp dest s1' = copied s k tp dest s1"
  and copied_view_left: "restore_view s' = restore_view s \<Longrightarrow> copied s' k tp dest s1 = copied s k tp dest s1"
  by (simp_all add: copied_def restore_view_def)

lemma wp_fs_write: "wp (fs_write p c) (\<lambda>_ f'. dict_get (lf_files f') = (dict_get (lf_files f))(p \<mapsto> c)) (\<lambda>_ f'. lf_files f' = lf_files f) f"
  unfolding fs_write_def by (auto simp: wp_rules dict_simps)

lemma wp_read_to:
  assumes "mk_barcode (mh_barcode m) = Inr k"
  shows "wp (read_to ae m tp dest) (\<lambda>_. copied s k (path_str (pure_posix tp)) dest) (\<lambda>_ _. True) s"
  unfolding read_to_def wp_bind on_orch_def on_ltfs_def wp_zoom
  by (rule wp_mono [OF wp_read_file [OF assms]])
    (auto simp: on_fs_def wp_zoom copied_def intro!: wp_mono [OF wp_fs_write])

lemma wp_load_and_mount:
  "wp (load_and_mount ae jid r b) (\<lambda>x s'. restore_view s' = restore_view s \<and> mk_barcode b = Inr (mh_barcode (snd x))) (\<lambda>_ _. True) s"
proof -
  have m: "wp (mount_read_only ae b) (\<lambda>m _. mk_barcode b = Inr (mh_barcode m)) (\<lambda>_ _. True) s1" for s1
    unfolding mount_read_only_def
    by (simp add: withenv_def wp_bind wp_def [of tickM] tickM_def on_orch_def on_ltfs_def wp_zoom wp_mount_barcode)
  have last: "wp (bindM (mount_read_only ae b) (\<lambda>m. returnM (d, m))) (\<lambda>x _. mk_barcode b = Inr (mh_barcode (snd x))) (\<lambda>_ _. True) s1" for d s1
    unfolding wp_bind wp_return by (rule wp_mono [OF m]) auto
  have "wp (load_and_mount ae jid r b) (\<lambda>x _. mk_barcode b = Inr (mh_barcode (snd x))) (\<lambda>_ _. True) s"
    unfolding load_and_mount_def
    by (rule wp_bind_any, clarify, (rule wp_then_any)+) (rule last)
  moreover have "wp (load_and_mount ae jid r b) (\<lambda>_ s'. restore_view s' = restore_view s) (\<lambda>_ _. True) s"
    by (rule wp_kf [OF kf_load_and_mount])
  ultimately show ?thesis by (rule wp_both) auto
qed

section \<open>One file\<close>

definition fetched :: "restore_state \<Rightarrow> instance_row \<Rightarrow> posix_path \<Rightarrow> restore_state \<Rightarrow> bool" where
  "fetched s inst dest s' \<longleftrightarrow> (\<exists>k. mk_barcode (ir_barcode inst) = Inr k \<and> copied s k (path_str (pure_posix (ir_tape_path inst))) dest s')"

lemma wp_fetched: "keepsv restore_view n \<Longrightarrow> fetched s inst dest s1 \<Longrightarrow> wp n (\<lambda>_. fetched s inst dest) (\<lambda>_ _. True) s1"
  by (rule wp_kf) (auto simp: fetched_def dest: copied_view)

lemma wp_note_fenced: "wp m Q (\<lambda>_ _. True) s \<Longrightarrow> wp (note_fenced m) Q (\<lambda>_ _. True) s"
  unfolding note_fenced_def wp_catch by (erule wp_mono) (auto simp: wp_rules)

lemma wp_restore_tape: "wp (restore_tape ae jid r inst dest) (\<lambda>_. fetched s inst dest) (\<lambda>_ _. True) s"
proof -
  have read: "wp (finallyM (read_to ae m (ir_tape_path inst) dest) (thenM (verify_lease ae r) (unmount_volume m)))
      (\<lambda>_. fetched s inst dest) (\<lambda>_ _. True) s1"
    if v: "restore_view s1 = restore_view s" and b: "mk_barcode (ir_barcode inst) = Inr (mh_barcode m)" for m s1
  proof (rule wp_finally_any)
    have idem: "mk_barcode (mh_barcode m) = Inr (mh_barcode m)"
      using b by (auto simp: mk_barcode_def Let_def str_upper_pattern split: if_splits)
    show "wp (read_to ae m (ir_tape_path inst) dest) (\<lambda>_. fetched s inst dest) (\<lambda>_ _. True) s1"
      by (rule wp_mono [OF wp_read_to [OF idem]]) (auto simp: fetched_def b copied_view_left [OF v])
  qed (intro wp_fetched kf_intros)
  have "wp (bindM (load_and_mount ae jid r (ir_barcode inst)) (\<lambda>(d, m).
      finallyM (read_to ae m (ir_tape_path inst) dest) (thenM (verify_lease ae r) (unmount_volume m)))) (\<lambda>_. fetched s inst dest) (\<lambda>_ _. True) s"
    unfolding wp_bind by (rule wp_mono [OF wp_load_and_mount]) (auto intro!: read)
  then show ?thesis
    unfolding restore_tape_def by (intro wp_finally_any [OF wp_note_fenced] wp_fetched kf_restore_unload)
qed

lemma wp_restore_leased: "wp (restore_leased ae jid r h inst dest) (\<lambda>_. fetched s inst dest) (\<lambda>_ _. True) s"
proof -
  have "wp (catchM (restore_tape ae jid r inst dest) (\<lambda>x. if x = StaleLeaseError then thenM (job_state_to ae jid ''failed'' (e x)) (raiseM x) else raiseM x))
      (\<lambda>_. fetched s inst dest) (\<lambda>_ _. True) s" for e
    unfolding wp_catch
    by (rule wp_mono [OF wp_restore_tape]) (auto simp: wp_if wp_raise wp_then intro!: wp_mono [OF wp_true])
  then show ?thesis
    unfolding restore_leased_def by (rule wp_finally_any) (intro wp_fetched kf_intros)
qed

lemma wp_check_restored:
  "wp (check_restored ae jid rq record dest)
     (\<lambda>_ s'. restore_view s' = restore_view s
        \<and> (\<exists>c. dict_get (lf_files (rs_fs s)) dest = Some c \<and> av_sha ae c = rr_checksum_sha256 record)) (\<lambda>_ _. True) s"
  unfolding check_restored_def
  by (auto simp: on_fs_def fs_read_def wp_rules sha256sum_eq restore_view_def split: option.splits sum.splits intro!: wp_mono [OF wp_true])

definition restored :: "job_env \<Rightarrow> restore_request \<Rightarrow> string \<Rightarrow> restore_state \<Rightarrow> record_row \<Rightarrow> instance_row \<Rightarrow> restore_result \<Rightarrow> restore_state \<Rightarrow> bool" where
  "restored ae rq jid s rcd inst res s' \<longleftrightarrow>
     rres_source_barcode res = ir_barcode inst \<and> fetched s inst (final_dest rq (rs_fs s)) s' \<and> job_in jid ''completed'' (job_catalog s')
     \<and> (\<exists>b. dict_get (lf_files (rs_fs s')) (final_dest rq (rs_fs s)) = Some b \<and> av_sha ae b = rr_checksum_sha256 rcd)"

lemma restored_view: "restore_view s1 = restore_view s \<Longrightarrow> restored ae rq jid s1 = restored ae rq jid s"
  by (simp add: restored_def fun_eq_iff fetched_def copied_def restore_view_def)

lemma wp_complete:
  assumes "fetched s inst (final_dest rq (rs_fs s)) s1" and "rres_source_barcode res = ir_barcode inst"
    and "dict_get (lf_files (rs_fs s1)) (final_dest rq (rs_fs s)) = Some b" and "av_sha ae b = rr_checksum_sha256 rcd"
  shows "wp (thenM (job_state_to ae jid ''completed'' None) (returnM res)) (restored ae rq jid s rcd inst) (\<lambda>_ _. True) s1"
  unfolding wp_then wp_return
  by (rule wp_both [OF wp_job_state wp_kf [OF rest.kf_job_state]], assumption)
    (use assms in \<open>auto simp: restored_def fetched_def copied_def restore_view_def\<close>)

lemma wp_restore_file: "wp (restore_file ae rq jid rcd inst) (restored ae rq jid s rcd inst) (\<lambda>_ _. True) s"
proof -
  let ?dest = "\<lambda>s2 :: restore_state. final_dest rq (rs_fs s2)"
  have tail: "wp (thenM (restore_leased ae jid r h inst (?dest s2)) (thenM (check_restored ae jid rq rcd (?dest s2))
        (thenM (job_state_to ae jid ''completed'' None)
          (returnM \<lparr>rres_job_id = jid, rres_source_barcode = ir_barcode inst, rres_checksum_verified = True\<rparr>))))
      (restored ae rq jid s2 rcd inst) (\<lambda>_ _. True) (reset_tape_locals s2)" for r h s2
    unfolding wp_then [of "restore_leased _ _ _ _ _ _"] wp_then [of "check_restored _ _ _ _ _"]
  proof (rule wp_mono [OF wp_restore_leased], rule wp_mono [OF wp_check_restored])
      fix t t'
      assume "fetched (reset_tape_locals s2) inst (?dest s2) t"
        and "restore_view t' = restore_view t \<and> (\<exists>c. dict_get (lf_files (rs_fs t)) (?dest s2) = Some c \<and> av_sha ae c = rr_checksum_sha256 rcd)"
      then show "wp (thenM (job_state_to ae jid ''completed'' None)
          (returnM \<lparr>rres_job_id = jid, rres_source_barcode = ir_barcode inst, rres_checksum_verified = True\<rparr>))
          (restored ae rq jid s2 rcd inst) (\<lambda>_ _. True) t'"
        by (auto simp: reset_tape_locals_def fetched_def copied_def restore_view_def intro!: wp_complete)
  qed (rule TrueI)+
  show ?thesis
    unfolding restore_file_def wp_bind [of "acquire_one _ _"] wp_bind [of "getsM _"] wp_then [of "journal_job _ _ _ _"] wp_then [of "modifyM _"]
      wp_gets wp_modify
  proof (rule wp_kf [OF rest.kf_acquire_one], rule wp_kf [OF rest.kf_journal])
    fix r s1 u s2
    assume "restore_view s1 = restore_view s" and "restore_view s2 = restore_view s1"
    then have "restored ae rq jid s2 = restored ae rq jid s" by (intro restored_view) simp
    then show "wp (thenM (restore_leased ae jid r (lease_handle s1 r) inst (?dest s2)) (thenM (check_restored ae jid rq rcd (?dest s2))
        (thenM (job_state_to ae jid ''completed'' None)
          (returnM \<lparr>rres_job_id = jid, rres_source_barcode = ir_barcode inst, rres_checksum_verified = True\<rparr>))))
        (restored ae rq jid s rcd inst) (\<lambda>_ _. True) (reset_tape_locals s2)"
      using tail [of r "lease_handle s1 r" s2] by simp
  qed
qed

text \<open>C5. A restore that returns put at its destination the bytes that the tape holds under the path of the latest
  archived instance, their digest is the one in the catalog, no other local file and no tape has changed, and
  the job is recorded as completed. This holds whatever other jobs do to the catalog while it waits for a drive.\<close>

theorem restored_file_verified:
  assumes "run_restore_job ae rq jid s = (Inr res, s')" and "\<not> rq_dry_run rq"
  shows "\<exists>record inst k r. get_latest_instance_for_path (rq_catalog_path rq) (or_catalog (as_orch s)) = Inr (record, inst)
     \<and> rres_source_barcode res = ir_barcode inst \<and> mk_barcode (ir_barcode inst) = Inr k
     \<and> dict_get (files_of (or_ltfs (as_orch s)) k) (path_str (pure_posix (ir_tape_path inst))) = Some r
     \<and> av_sha ae (fr_content r) = rr_checksum_sha256 record
     \<and> dict_get (lf_files (rs_fs s')) = (dict_get (lf_files (rs_fs s)))(final_dest rq (rs_fs s) \<mapsto> fr_content r)
     \<and> files_of (or_ltfs (as_orch s')) = files_of (or_ltfs (as_orch s))
     \<and> map_option jb_state (get_job_row jid (or_catalog (as_orch s'))) = Some ''completed''"
proof -
  let ?c = "or_catalog (as_orch s)"
  let ?good = "\<lambda>res s3. \<exists>rcd inst. get_latest_instance_for_path (rq_catalog_path rq) ?c = Inr (rcd, inst) \<and> restored ae rq jid s rcd inst res s3"
  have "wp (run_restore_job ae rq jid) ?good (\<lambda>_ _. True) s"
    unfolding run_restore_job_def wp_then [of "job_state_to _ _ ''running'' _"]
  proof (rule wp_both [OF wp_job_state wp_kf [OF rest.kf_job_state]], assumption)
    fix u s1
    assume "job_in jid ''running'' (job_catalog s1) \<and> (\<exists>js. job_catalog s1 = ?c\<lparr>cat_jobs := js\<rparr>)" and v: "restore_view s1 = restore_view s"
    then have latest: "get_latest_instance_for_path (rq_catalog_path rq) (job_catalog s1) = get_latest_instance_for_path (rq_catalog_path rq) ?c"
      by (auto simp: get_latest_cat_jobs)
    have put: "s1\<lparr>as_orch := (as_orch s1)\<lparr>or_catalog := job_catalog s1\<rparr>\<rparr> = s1" by simp
    have rf: "wp (restore_file ae rq jid rcd inst) (restored ae rq jid s rcd inst) (\<lambda>_ _. True) s1" for rcd inst
      using wp_restore_file [of ae rq jid rcd inst s1] restored_view [OF v] by simp
    show "wp (bindM (on_cat (queryM (get_latest_instance_for_path (rq_catalog_path rq)))) (\<lambda>(record, inst).
      bindM (on_cat (getsM (get_cartridge (ir_barcode inst)))) (\<lambda>cart.
      if map_option cr_state cart = Some ''exported''
      then thenM (job_state_to ae jid ''failed'' (Some (''Cartridge '' @ ir_barcode inst @ '' is offline''))) (raiseM CartridgeOfflineError)
      else if rq_dry_run rq
      then thenM (job_state_to ae jid ''completed'' None)
             (returnM \<lparr>rres_job_id = jid, rres_source_barcode = ir_barcode inst, rres_checksum_verified = False\<rparr>)
      else restore_file ae rq jid record inst))) ?good (\<lambda>_ _. True) s1"
      unfolding wp_bind on_cat_def on_orch_def wp_zoom wp_query
      by (auto simp: latest put wp_rules assms(2) split: sum.splits prod.splits intro!: wp_mono [OF wp_true] wp_mono [OF rf])
  qed
  then have "?good res s'" using assms(1) by (rule wp_returns)
  then show ?thesis
    by (auto simp: restored_def fetched_def copied_def job_in_def)
qed

theorem restored_file_verified_witness:
  "\<exists>res s'. run_restore_job demo_job_env (demo_restore_request ''/a'') ''j'' demo_restore_state = (Inr res, s')
     \<and> dict_get (lf_files (rs_fs s')) \<lparr>px_root = [], px_parts = [''b'']\<rparr> = Some [1, 2]"
proof -
  obtain r s' where r: "run_restore_job demo_job_env (demo_restore_request ''/a'') ''j'' demo_restore_state = (r, s')" by fastforce
  then obtain res where "r = Inr res" using demo_restore_returns by (cases r) auto
  with r have run: "run_restore_job demo_job_env (demo_restore_request ''/a'') ''j'' demo_restore_state = (Inr res, s')" by simp
  have cp: "rq_catalog_path (demo_restore_request ''/a'') = ''/a''" by (simp add: demo_restore_request_def)
  have dry: "\<not> rq_dry_run (demo_restore_request ''/a'')" by (simp add: demo_restore_request_def)
  have dest: "final_dest (demo_restore_request ''/a'') (rs_fs demo_restore_state) = \<lparr>px_root = [], px_parts = [''b'']\<rparr>" by code_simp
  have latest: "case get_latest_instance_for_path ''/a'' (or_catalog (as_orch demo_restore_state)) of Inl _ \<Rightarrow> False
      | Inr (rcd, inst) \<Rightarrow> ir_barcode inst = ''VTA001L8'' \<and> ir_tape_path inst = ''/a''" by code_simp
  have key: "mk_barcode ''VTA001L8'' = Inr ''VTA001L8''" and path: "path_str (pure_posix ''/a'') = ''/a''" by code_simp+
  have content: "map_option fr_content (dict_get (files_of (or_ltfs (as_orch demo_restore_state)) ''VTA001L8'') ''/a'') = Some [1, 2]" by code_simp
  from restored_file_verified [OF run dry] obtain rcd inst k q where
    l: "get_latest_instance_for_path (rq_catalog_path (demo_restore_request ''/a'')) (or_catalog (as_orch demo_restore_state)) = Inr (rcd, inst)"
    and k: "mk_barcode (ir_barcode inst) = Inr k"
    and q: "dict_get (files_of (or_ltfs (as_orch demo_restore_state)) k) (path_str (pure_posix (ir_tape_path inst))) = Some q"
    and f: "dict_get (lf_files (rs_fs s')) = (dict_get (lf_files (rs_fs demo_restore_state)))
      (final_dest (demo_restore_request ''/a'') (rs_fs demo_restore_state) \<mapsto> fr_content q)" by blast
  have inst: "ir_barcode inst = ''VTA001L8''" "ir_tape_path inst = ''/a''" using latest l by (simp_all add: cp)
  with k key have "k = ''VTA001L8''" by simp
  with q content inst path have "fr_content q = [1, 2]" by simp
  with f run show ?thesis by (simp add: dest)
qed

text \<open>C40. A restore whose path has no archived instance raises and leaves its job recorded as running: no handler
  of the job or of the service that runs it records the failure.\<close>

theorem restore_missing_path_stays_running:
  assumes "get_latest_instance_for_path (rq_catalog_path rq) (or_catalog (as_orch s)) = Inl x"
    and "get_job_row jid (or_catalog (as_orch s)) \<noteq> None"
  shows "fst (run_restore_job ae rq jid s) = Inl FileNotFoundError
     \<and> map_option jb_state (get_job_row jid (or_catalog (as_orch (snd (run_restore_job ae rq jid s))))) = Some ''running''"
proof -
  have x: "x = FileNotFoundError" using assms(1) by (rule get_latest_instance_Inl)
  obtain row where row: "get_job_row jid (or_catalog (as_orch s)) = Some row" using assms(2) by auto
  have "wp (job_state_to ae jid ''running'' None) (\<lambda>_ s'. job_in jid ''running'' (job_catalog s') \<and> (\<exists>js. job_catalog s' = (job_catalog s)\<lparr>cat_jobs := js\<rparr>))
     (\<lambda>_ _. False) s"
    unfolding job_state_to_def withenv_def wp_bind on_cat_def on_orch_def wp_zoom update_job_state_def wp_gets
    using row by (auto simp: wp_def [of tickM] tickM_def wp_rules job_in_def get_job_row_def job_row_set)
  then have "wp (run_restore_job ae rq jid) (\<lambda>_ _. False) (\<lambda>e s'. e = FileNotFoundError \<and> job_in jid ''running'' (job_catalog s')) s"
    unfolding run_restore_job_def wp_then [of "job_state_to _ _ ''running'' _"]
    by (rule wp_mono) (auto simp: on_cat_def on_orch_def wp_bind wp_zoom wp_query get_latest_cat_jobs assms(1) x)
  then show ?thesis
    by (auto simp: wp_def job_in_def split: prod.splits sum.splits)
qed

theorem restore_missing_path_stays_running_witness:
  "fst (run_restore_job demo_job_env (demo_restore_request ''/z'') ''j'' demo_restore_state) = Inl FileNotFoundError"
proof -
  have "get_latest_instance_for_path (rq_catalog_path (demo_restore_request ''/z'')) (or_catalog (as_orch demo_restore_state)) = Inl FileNotFoundError"
    by code_simp
  moreover have "get_job_row ''j'' (or_catalog (as_orch demo_restore_state)) \<noteq> None" by code_simp
  ultimately show ?thesis using restore_missing_path_stays_running [of "demo_restore_request ''/z''"] by blast
qed

section \<open>A batch\<close>

text \<open>The paths a request may restore to, and the names beside one that a restore works with.\<close>

definition targets :: "restore_request \<Rightarrow> posix_path list" where
  "targets rq = [rq_dest_path rq, path_join (rq_dest_path rq) (posix_name (pure_posix (rq_catalog_path rq)))]"

definition side_file :: "posix_path \<Rightarrow> posix_path \<Rightarrow> bool" where
  "side_file d p \<longleftrightarrow> with_name d (''.'' @ posix_name d @ ''.restoring'') = Inr p \<or> with_name d (posix_name d @ ''.quarantine'') = Inr p"

text \<open>What a batch may have done to the local files: a path has changed only if it is a working name beside a
  target, or a target that now holds bytes with the digest the catalog has for the requested path.\<close>

definition verified_target :: "(bytes \<Rightarrow> string) \<Rightarrow> catalog \<Rightarrow> restore_request \<Rightarrow> bytes option \<Rightarrow> bool" where
  "verified_target sha c rq content \<longleftrightarrow>
     (\<exists>rcd inst b. get_latest_instance_for_path (rq_catalog_path rq) c = Inr (rcd, inst) \<and> content = Some b \<and> sha b = rr_checksum_sha256 rcd)"

definition verified_only :: "(bytes \<Rightarrow> string) \<Rightarrow> catalog \<Rightarrow> restore_request list \<Rightarrow> local_fs \<Rightarrow> local_fs \<Rightarrow> bool" where
  "verified_only sha c rqs f f' \<longleftrightarrow>
     (\<forall>p. dict_get (lf_files f') p = dict_get (lf_files f) p
        \<or> (\<exists>rq \<in> set rqs. \<exists>d \<in> set (targets rq). side_file d p \<or> p = d \<and> verified_target sha c rq (dict_get (lf_files f') p)))"

lemma final_dest_target: "final_dest rq f \<in> set (targets rq)"
  by (simp add: final_dest_def targets_def)

lemma verified_only_refl: "verified_only sha c rqs f f"
  by (simp add: verified_only_def)

lemma verified_only_step:
  assumes "verified_only sha c rqs f f1" and "rq \<in> set rqs" and "d \<in> set (targets rq)"
    and "\<And>p. dict_get (lf_files f2) p \<noteq> dict_get (lf_files f1) p \<Longrightarrow> side_file d p \<or> p = d \<and> verified_target sha c rq (dict_get (lf_files f2) p)"
  shows "verified_only sha c rqs f f2"
  unfolding verified_only_def
proof
  fix p
  show "dict_get (lf_files f2) p = dict_get (lf_files f) p
     \<or> (\<exists>rq \<in> set rqs. \<exists>d \<in> set (targets rq). side_file d p \<or> p = d \<and> verified_target sha c rq (dict_get (lf_files f2) p))"
    using assms unfolding verified_only_def by (cases "dict_get (lf_files f2) p = dict_get (lf_files f1) p") (metis, blast)
qed

lemma keeps_files: "keepsv restore_view m \<Longrightarrow> keeps (\<lambda>s. P (rs_fs s)) m"
  using keepsv_keeps [of restore_view m "\<lambda>v. P (snd v)"] by (simp add: restore_view_def)

text \<open>The steps of one item.\<close>

lemma verified_only_side:
  assumes "verified_only sha c rqs f f1" and "rq \<in> set rqs" and "d \<in> set (targets rq)" and "side_file d p"
    and "\<And>q. q \<noteq> p \<Longrightarrow> dict_get (lf_files f2) q = dict_get (lf_files f1) q"
  shows "verified_only sha c rqs f f2"
  by (rule verified_only_step [OF assms(1-3)]) (use assms(4,5) in metis)

lemma verified_only_cong: "lf_files f1 = lf_files f2 \<Longrightarrow> verified_only sha c rqs f f1 = verified_only sha c rqs f f2"
  by (simp add: verified_only_def)

definition batch_inv :: "(bytes \<Rightarrow> string) \<Rightarrow> catalog \<Rightarrow> restore_request list \<Rightarrow> local_fs \<Rightarrow> restore_state \<Rightarrow> bool" where
  "batch_inv sha c rqs f0 s = verified_only sha c rqs f0 (rs_fs s)"

lemma keeps_batch [keeps_intros]: "keepsv restore_view m \<Longrightarrow> keeps (batch_inv sha c rqs f0) m"
  unfolding batch_inv_def by (rule keeps_files)

lemma keeps_on_fs_write:
  assumes "rq \<in> set rqs" and "d \<in> set (targets rq)" and "side_file d p"
  shows "keeps (batch_inv sha c rqs f0) (on_fs (fs_write p content))"
proof (rule keepsI_wp)
  fix s
  assume I: "batch_inv sha c rqs f0 s"
  show "wp (on_fs (fs_write p content)) (\<lambda>_. batch_inv sha c rqs f0) (\<lambda>_. batch_inv sha c rqs f0) s"
    unfolding on_fs_def wp_zoom
  proof (rule wp_mono [OF wp_fs_write])
    fix t :: local_fs
    assume "dict_get (lf_files t) = (dict_get (lf_files (rs_fs s)))(p \<mapsto> content)"
    then show "batch_inv sha c rqs f0 (s\<lparr>rs_fs := t\<rparr>)"
      using verified_only_side [OF I [unfolded batch_inv_def] assms, of t] by (simp add: batch_inv_def)
  next
    fix t :: local_fs
    assume "lf_files t = lf_files (rs_fs s)"
    then show "batch_inv sha c rqs f0 (s\<lparr>rs_fs := t\<rparr>)"
      using I verified_only_cong [of t "rs_fs s"] by (simp add: batch_inv_def)
  qed
qed

lemma keeps_on_fs_unlink:
  assumes "rq \<in> set rqs" and "d \<in> set (targets rq)" and "side_file d p"
  shows "keeps (batch_inv sha c rqs f0) (on_fs (fs_unlink p))"
proof (rule keepsI_wp)
  fix s
  assume I: "batch_inv sha c rqs f0 s"
  then have "batch_inv sha c rqs f0 (s\<lparr>rs_fs := (rs_fs s)\<lparr>lf_files := dict_pop p (lf_files (rs_fs s))\<rparr>\<rparr>)"
    using verified_only_side [OF _ assms, of sha c f0 "rs_fs s" "(rs_fs s)\<lparr>lf_files := dict_pop p (lf_files (rs_fs s))\<rparr>"]
    by (simp add: batch_inv_def dict_simps)
  with I show "wp (on_fs (fs_unlink p)) (\<lambda>_. batch_inv sha c rqs f0) (\<lambda>_. batch_inv sha c rqs f0) s"
    by (simp add: on_fs_def fs_unlink_def wp_zoom wp_bind wp_gets wp_then wp_guard wp_modify)
qed

lemma keeps_read_to:
  assumes "rq \<in> set rqs" and "d \<in> set (targets rq)" and "side_file d p"
  shows "keeps (batch_inv sha c rqs f0) (read_to ae m tp p)"
proof -
  have read: "keepsv restore_view (on_orch (on_ltfs (ltfs_read_file (av_sha ae) m q)))" for q
    unfolding ltfs_read_file_def by (intro kf_intros)
  show ?thesis
    unfolding read_to_def
    by (rule keeps_bind [OF keeps_batch [OF read]]) (simp add: case_prod_unfold keeps_on_fs_write [OF assms])
qed

lemma batch_inv_renamed:
  assumes "batch_inv sha c rqs f0 s" and "rq \<in> set rqs" and "d \<in> set (targets rq)" and "side_file d temp"
    and "get_latest_instance_for_path (rq_catalog_path rq) c = Inr (rcd, inst)"
    and "side_file d q \<or> q = d \<and> sha content = rr_checksum_sha256 rcd"
  shows "batch_inv sha c rqs f0 (s\<lparr>rs_fs := (rs_fs s)\<lparr>lf_files := dict_set q content (dict_pop temp (lf_files (rs_fs s)))\<rparr>\<rparr>)"
proof -
  have "side_file d p \<or> p = d \<and> verified_target sha c rq (dict_get (dict_set q content (dict_pop temp (lf_files (rs_fs s)))) p)"
    if "dict_get (dict_set q content (dict_pop temp (lf_files (rs_fs s)))) p \<noteq> dict_get (lf_files (rs_fs s)) p" for p
    using that assms(4-6) by (auto simp: dict_simps verified_target_def split: if_splits)
  then show ?thesis
    using verified_only_step [OF assms(1) [unfolded batch_inv_def] assms(2,3),
        of "(rs_fs s)\<lparr>lf_files := dict_set q content (dict_pop temp (lf_files (rs_fs s)))\<rparr>"]
    by (simp add: batch_inv_def)
qed

lemma wp_rename:
  assumes "batch_inv sha c rqs f0 s" and "rq \<in> set rqs" and "d \<in> set (targets rq)" and "side_file d temp"
    and "get_latest_instance_for_path (rq_catalog_path rq) c = Inr (rcd, inst)" and "dict_get (lf_files (rs_fs s)) temp = Some content"
    and "side_file d q \<or> q = d \<and> sha content = rr_checksum_sha256 rcd"
  shows "wp (on_fs (fs_rename temp q)) (\<lambda>_. batch_inv sha c rqs f0) (\<lambda>_. batch_inv sha c rqs f0) s"
  using batch_inv_renamed [OF assms(1-5,7)] assms(1,6)
  by (simp add: on_fs_def fs_rename_def fs_read_def wp_zoom wp_bind wp_gets wp_then wp_guard wp_modify wp_query)

lemma wp_on_fs_read:
  "wp (on_fs (fs_read p)) Q E = (\<lambda>s. case dict_get (lf_files (rs_fs s)) p of None \<Rightarrow> E OSFileNotFoundError s | Some c \<Rightarrow> Q c s)"
  by (auto simp: on_fs_def fs_read_def wp_zoom wp_query fun_eq_iff split: option.splits)

lemma keeps_settle_item:
  assumes "rq \<in> set rqs" and "d \<in> set (targets rq)"
    and "get_latest_instance_for_path (rq_catalog_path rq) c = Inr (rcd, inst)" and "side_file d temp"
  shows "keeps (batch_inv (av_sha ae) c rqs f0) (settle_item ae rq rcd d temp)"
proof (rule keepsI_wp)
  let ?I = "batch_inv (av_sha ae) c rqs f0"
  fix s
  assume I: "?I s"
  show "wp (settle_item ae rq rcd d temp) (\<lambda>_. ?I) (\<lambda>_. ?I) s"
  proof (cases "dict_get (lf_files (rs_fs s)) temp")
    case None
    then show ?thesis using I by (simp add: settle_item_def wp_bind wp_on_fs_read)
  next
    case (Some content)
    note ren = wp_rename [OF I assms(1,2,4,3) Some]
    have quar: "wp (bindM (liftM (with_name d (posix_name d @ ''.quarantine''))) (\<lambda>quarantine.
           thenM (on_fs (fs_rename temp quarantine)) (returnM item))) (\<lambda>_. ?I) (\<lambda>_. ?I) s" for item :: restore_item
      unfolding wp_bind wp_lift wp_then wp_return
      using I by (auto split: sum.splits intro!: ren simp: side_file_def)
    have good: "wp (thenM (on_fs (fs_rename temp d)) (returnM item)) (\<lambda>_. ?I) (\<lambda>_. ?I) s"
      if "av_sha ae content = rr_checksum_sha256 rcd" for item :: restore_item
      unfolding wp_then wp_return by (rule ren) (use that in simp)
    show ?thesis
      unfolding settle_item_def wp_bind [of "on_fs _"] wp_on_fs_read
      using quar good Some by (simp add: sha256sum_eq)
  qed
qed

lemma keeps_restore_one:
  assumes "rq \<in> set rqs" and "get_latest_instance_for_path (rq_catalog_path rq) c = Inr (rcd, inst)"
  shows "keeps (batch_inv (av_sha ae) c rqs f0) (restore_one_verified ae m rq rcd inst)"
proof (rule keepsI_wp)
  let ?I = "batch_inv (av_sha ae) c rqs f0"
  fix s
  assume I: "?I s"
  define d where "d = final_dest rq (rs_fs s)"
  have d: "d \<in> set (targets rq)" by (simp add: d_def final_dest_target)
  show "wp (restore_one_verified ae m rq rcd inst) (\<lambda>_. ?I) (\<lambda>_. ?I) s"
  proof (cases "with_name d (''.'' @ posix_name d @ ''.restoring'')")
    case (Inl e)
    then show ?thesis using I by (simp add: restore_one_verified_def wp_rules d_def)
  next
    case (Inr temp)
    have side: "side_file d temp" using Inr by (simp add: side_file_def)
    let ?read = "catchM (thenM (read_to ae m (ir_tape_path inst) temp) (returnM None)) (\<lambda>x.
         if x = StaleLeaseError then raiseM x
         else thenM (on_fs (fs_unlink temp)) (returnM (Some (with_error rq (safe_job_error (av_message ae) (av_class_name ae) x)))))"
    have "keeps ?I (bindM ?read (\<lambda>failed. case failed of Some item \<Rightarrow> returnM item | None \<Rightarrow> settle_item ae rq rcd d temp))"
      by (intro keeps_bind keeps_catch keeps_then keeps_if keeps_return keeps_raise keeps_case_option keeps_read_to [OF assms(1) d side]
          keeps_on_fs_unlink [OF assms(1) d side] keeps_settle_item [OF assms(1) d assms(2) side])
    with I have "wp (bindM ?read (\<lambda>failed. case failed of Some item \<Rightarrow> returnM item | None \<Rightarrow> settle_item ae rq rcd d temp)) (\<lambda>_. ?I) (\<lambda>_. ?I) s"
      by (simp only: keeps_iff_wp)
    then show ?thesis
      using Inr by (simp add: restore_one_verified_def wp_bind [of "getsM _"] wp_bind [of "liftM _"] wp_gets wp_lift d_def [symmetric])
  qed
qed

text \<open>The groups of the plan.\<close>

definition planned :: "catalog \<Rightarrow> restore_request list \<Rightarrow> tape_group \<Rightarrow> bool" where
  "planned c rqs grp \<longleftrightarrow> list_all (\<lambda>(rq, rcd, inst). rq \<in> set rqs \<and> get_latest_instance_for_path (rq_catalog_path rq) c = Inr (rcd, inst)) grp"

lemma planned_step:
  assumes "list_all (\<lambda>(b, grp). planned c rqs grp) (snd acc)" and "rq \<in> set rqs"
  shows "list_all (\<lambda>(b, grp). planned c rqs grp) (snd (plan_request c acc rq))"
proof -
  have old: "planned c rqs g" if "dict_get (snd acc) b = Some g" for b g
    using that assms(1) by (auto simp: list_all_iff dest!: map_of_SomeD)
  have new: "planned c rqs ((case dict_get (snd acc) b of None \<Rightarrow> [] | Some g \<Rightarrow> g) @ [(rq, rcd, inst)])"
    if "get_latest_instance_for_path (rq_catalog_path rq) c = Inr (rcd, inst)" for b rcd inst
    using that assms(2) old [of b] by (auto simp: planned_def split: option.splits)
  show ?thesis
    using assms(1) new by (auto simp: plan_request_def list_all_iff split: prod.splits sum.splits dest!: dict_set_subset)
qed

lemma planned_batch: "list_all (\<lambda>(b, grp). planned c rqs grp) (snd (plan_batch rqs c))"
proof -
  have "list_all (\<lambda>(b, grp). planned c rqs grp) (snd (foldl (plan_request c) ([], []) xs))" if "set xs \<subseteq> set rqs" for xs
    using that by (induction xs rule: rev_induct) (simp_all add: planned_step)
  then show ?thesis by (simp add: plan_batch_def)
qed

lemma keeps_group_items:
  assumes "planned c rqs grp"
  shows "keeps (batch_inv (av_sha ae) c rqs f0) (restore_group_items ae m grp)"
  unfolding restore_group_items_def
  by (rule keeps_forM_mem) (use assms in \<open>auto simp: planned_def list_all_iff intro!: keeps_bind keeps_restore_one keeps_batch [OF kf_locals(5)]\<close>)

lemma keeps_tape_group:
  assumes "planned c rqs grp"
  shows "keeps (batch_inv (av_sha ae) c rqs f0) (restore_tape_group ae jid b grp)"
proof -
  have items: "keeps (batch_inv (av_sha ae) c rqs f0) (finallyM (restore_group_items ae m grp) (thenM (verify_lease ae r) (unmount_or_note ae jid r b d m)))" for m r d
    by (rule keeps_finally [OF keeps_group_items [OF assms]], rule keeps_batch) (intro kf_intros)
  have tape: "keeps (batch_inv (av_sha ae) c rqs f0) (restore_group_tape ae jid r b grp)" for r
    unfolding restore_group_tape_def
    by (rule keeps_finally [OF keeps_catch [OF keeps_bind [OF keeps_batch [OF kf_load_and_mount]]]], simp add: case_prod_unfold items)
      (auto intro!: keeps_batch kf_intros)
  have leased: "keeps (batch_inv (av_sha ae) c rqs f0) (finallyM (restore_group_tape ae jid r b grp) n)" if "keepsv restore_view n" for r n
    by (rule keeps_finally [OF tape keeps_batch [OF that]])
  show ?thesis
    unfolding restore_tape_group_def
    by (rule keeps_bind [OF keeps_batch [OF rest.kf_acquire_one]], rule keeps_bind [OF keeps_gets],
        rule keeps_then [OF keeps_batch [OF rest.kf_journal]], rule keeps_then [OF keeps_batch [OF rest.kf_journal]],
        rule keeps_then [OF keeps_batch [OF kf_locals(7)]], rule keeps_then [OF leased keeps_gets]) (intro kf_intros)
qed


end
