(* ===== verification/Worker_Pool.thy ===== *)
theory Worker_Pool
  imports OB_Prelude
begin

text \<open>
  The thread pools of \<open>jobs/sharded_archive.py\<close> and \<open>jobs/sharded_restore.py\<close>: workers whose steps a schedule
  interleaves. A pool that raises nothing has run every worker to its end, for every schedule; a view that every
  step keeps is kept by the pool, and a predicate on the positions of the workers that every step advances holds
  at the end of all of them.
\<close>

section \<open>The pool\<close>

text \<open>A worker is the list of steps it has left; a step that raises ends it. \<open>sched\<close> says which worker moves next;
  when it is used up the workers that are not done finish one after the other.\<close>

fun pool_step :: "nat \<Rightarrow> ('s, unit) op list list \<Rightarrow> exc list \<Rightarrow> 's \<Rightarrow> ('s, unit) op list list \<times> exc list \<times> 's" where
  "pool_step i ws fs s =
     (case (if i < length ws then ws ! i else []) of
        [] \<Rightarrow> (ws, fs, s)
      | m # ms \<Rightarrow> (case m s of (Inr _, s') \<Rightarrow> (ws[i := ms], fs, s') | (Inl e, s') \<Rightarrow> (ws[i := []], fs @ [e], s')))"

fun pool_run :: "nat list \<Rightarrow> ('s, unit) op list list \<Rightarrow> exc list \<Rightarrow> 's \<Rightarrow> ('s, unit) op list list \<times> exc list \<times> 's" where
  "pool_run [] ws fs s = (ws, fs, s)"
| "pool_run (i # js) ws fs s = (case pool_step i ws fs s of (ws', fs', s') \<Rightarrow> pool_run js ws' fs' s')"

definition finish_order :: "('s, unit) op list list \<Rightarrow> nat list" where
  "finish_order ws = concat (map (\<lambda>i. replicate (length (ws ! i)) i) [0..<length ws])"

text \<open>The pool waits for every worker; \<open>as_completed\<close> hands out the futures in an order of its own, so which failure is
  raised is the environment's choice.\<close>

definition run_pool :: "nat list \<Rightarrow> nat \<Rightarrow> ('s, unit) op list list \<Rightarrow> ('s, unit) op" where
  "run_pool sched pick ws s =
     (case pool_run (sched @ finish_order ws) ws [] s of
        (ws', fs, s') \<Rightarrow> (if fs = [] then Inr () else Inl (fs ! (pick mod length fs)), s'))"

section \<open>What a run does\<close>

lemma pool_step_failures: "pool_step i ws fs s = (ws', fs', s') \<Longrightarrow> fs \<noteq> [] \<Longrightarrow> fs' \<noteq> []"
  by (auto split: list.splits prod.splits sum.splits)

lemma pool_run_failures: "pool_run js ws fs s = (ws', [], s') \<Longrightarrow> fs = []"
proof (induction js arbitrary: ws fs s)
  case (Cons i js)
  obtain ws1 fs1 s1 where one: "pool_step i ws fs s = (ws1, fs1, s1)" by (cases "pool_step i ws fs s") auto
  with Cons have "fs1 = []" by (simp del: pool_step.simps)
  then show ?case using pool_step_failures [OF one] by blast
qed simp

text \<open>A run takes every worker at least as many steps as the schedule names it.\<close>

lemma pool_step_shorter:
  assumes "pool_step i ws fs s = (ws', fs', s')"
  shows "length ws' = length ws \<and> (j < length ws \<longrightarrow> length (ws' ! j) \<le> length (ws ! j) - (if i = j then 1 else 0))"
  using assms by (auto simp: nth_list_update split: list.splits prod.splits sum.splits if_splits)

lemma pool_run_shorter:
  assumes "pool_run js ws fs s = (ws', fs', s')"
  shows "length ws' = length ws \<and> (j < length ws \<longrightarrow> length (ws' ! j) \<le> length (ws ! j) - count_list js j)"
  using assms
proof (induction js arbitrary: ws fs s)
  case (Cons i js)
  obtain ws1 fs1 s1 where one: "pool_step i ws fs s = (ws1, fs1, s1)" by (cases "pool_step i ws fs s") auto
  then have "pool_run js ws1 fs1 s1 = (ws', fs', s')" using Cons.prems by (simp del: pool_step.simps)
  then have "length ws' = length ws1 \<and> (j < length ws1 \<longrightarrow> length (ws' ! j) \<le> length (ws1 ! j) - count_list js j)" by (rule Cons.IH)
  with pool_step_shorter [OF one, of j] show ?case by (auto split: if_splits)
qed simp

lemma count_list_concat: "count_list (concat xss) x = sum_list (map (\<lambda>xs. count_list xs x) xss)"
  by (induction xss) simp_all

lemma count_list_replicate: "count_list (replicate n y) x = (if x = y then n else 0)"
  by (induction n) auto

lemma finish_order_all:
  assumes "j < length ws"
  shows "length (ws ! j) \<le> count_list (finish_order ws) j"
proof -
  let ?ns = "map (\<lambda>i. if j = i then length (ws ! i) else 0) [0..<length ws]"
  have "?ns ! j \<le> sum_list ?ns" by (rule elem_le_sum_list) (simp add: assms)
  then show ?thesis using assms by (simp add: finish_order_def count_list_concat o_def count_list_replicate)
qed

lemma pool_finishes:
  assumes "pool_run (sched @ finish_order ws) ws fs s = (ws', fs', s')" and "j < length ws"
  shows "ws' ! j = []"
  using pool_run_shorter [OF assms(1), of j] finish_order_all [OF assms(2)] assms(2) by simp

text \<open>A predicate on the positions of the workers and the state that every step of a worker advances, holds at the
  end of all of them.\<close>

lemma pool_step_advances:
  assumes "pool_step i (map (\<lambda>j. drop (c j) (prog j)) [0..<n]) [] s = (ws', [], s')" and "I c s" and "\<forall>j. c j \<le> length (prog j)"
    and step: "\<And>c s s'. I c s \<Longrightarrow> i < n \<Longrightarrow> c i < length (prog i) \<Longrightarrow> (prog i ! c i) s = (Inr (), s') \<Longrightarrow> I (c(i := Suc (c i))) s'"
  shows "\<exists>c'. ws' = map (\<lambda>j. drop (c' j) (prog j)) [0..<n] \<and> I c' s' \<and> (\<forall>j. c' j \<le> length (prog j))"
proof (cases "i < n \<and> c i < length (prog i)")
  case False
  then have "(if i < n then drop (c i) (prog i) else []) = []" by auto
  then have "ws' = map (\<lambda>j. drop (c j) (prog j)) [0..<n]" "s' = s" using assms(1) by (auto split: if_splits)
  then show ?thesis using assms(2,3) by blast
next
  case True
  then have d: "drop (c i) (prog i) = prog i ! c i # drop (Suc (c i)) (prog i)" by (simp add: Cons_nth_drop_Suc)
  have run: "(prog i ! c i) s = (Inr (), s')" and ws: "ws' = (map (\<lambda>j. drop (c j) (prog j)) [0..<n])[i := drop (Suc (c i)) (prog i)]"
    using assms(1) True by (auto simp: d split: prod.splits sum.splits)
  have "ws' = map (\<lambda>j. drop ((c(i := Suc (c i))) j) (prog j)) [0..<n]"
    unfolding ws by (rule nth_equalityI) (auto simp: nth_list_update)
  then show ?thesis using step [OF assms(2) _ _ run] True assms(3) by (intro exI [of _ "c(i := Suc (c i))"]) auto
qed

lemma pool_run_advances:
  assumes "pool_run js (map (\<lambda>j. drop (c j) (prog j)) [0..<n]) [] s = (ws', [], s')" and "I c s" and "\<forall>j. c j \<le> length (prog j)"
    and step: "\<And>i c s s'. I c s \<Longrightarrow> i < n \<Longrightarrow> c i < length (prog i) \<Longrightarrow> (prog i ! c i) s = (Inr (), s') \<Longrightarrow> I (c(i := Suc (c i))) s'"
  shows "\<exists>c'. ws' = map (\<lambda>j. drop (c' j) (prog j)) [0..<n] \<and> I c' s' \<and> (\<forall>j. c' j \<le> length (prog j))"
  using assms(1-3)
proof (induction js arbitrary: c s)
  case Nil
  then show ?case by auto
next
  case (Cons i js)
  obtain ws1 fs1 s1 where one: "pool_step i (map (\<lambda>j. drop (c j) (prog j)) [0..<n]) [] s = (ws1, fs1, s1)"
    using prod_cases3 by blast
  then have rest: "pool_run js ws1 fs1 s1 = (ws', [], s')" using Cons.prems(1) by (simp del: pool_step.simps)
  then have "fs1 = []" by (rule pool_run_failures)
  with pool_step_advances [of i c prog n s, where I = I] one Cons.prems step
  obtain c1 where "ws1 = map (\<lambda>j. drop (c1 j) (prog j)) [0..<n]" "I c1 s1" "\<forall>j. c1 j \<le> length (prog j)" by blast
  then show ?case using Cons.IH [of c1 s1] rest \<open>fs1 = []\<close> by blast
qed

lemma wp_run_pool:
  assumes "I (\<lambda>_. 0) s"
    and "\<And>i c s s'. I c s \<Longrightarrow> i < length ws \<Longrightarrow> c i < length (ws ! i) \<Longrightarrow> (ws ! i ! c i) s = (Inr (), s') \<Longrightarrow> I (c(i := Suc (c i))) s'"
    and "\<And>c s'. I c s' \<Longrightarrow> (\<And>i. i < length ws \<Longrightarrow> c i = length (ws ! i)) \<Longrightarrow> Q () s'"
  shows "wp (run_pool sched pick ws) Q (\<lambda>_ _. True) s"
proof -
  obtain ws' fs s' where run: "pool_run (sched @ finish_order ws) ws [] s = (ws', fs, s')"
    using prod_cases3 by blast
  have "Q () s'" if "fs = []"
  proof -
    have "pool_run (sched @ finish_order ws) (map (\<lambda>j. drop 0 (ws ! j)) [0..<length ws]) [] s = (ws', [], s')"
      using run that by (simp add: map_nth)
    then have "\<exists>c. ws' = map (\<lambda>j. drop (c j) (ws ! j)) [0..<length ws] \<and> I c s' \<and> (\<forall>j. c j \<le> length (ws ! j))"
      by (rule pool_run_advances) (use assms(1) in simp, simp, erule (3) assms(2))
    then obtain c where c: "ws' = map (\<lambda>j. drop (c j) (ws ! j)) [0..<length ws]" "I c s'" "\<forall>j. c j \<le> length (ws ! j)" by auto
    have "c i = length (ws ! i)" if "i < length ws" for i
      using pool_finishes [OF run that] c(1,3) that by (auto intro: le_antisym)
    with c(2) show ?thesis by (rule assms(3))
  qed
  then show ?thesis by (simp add: wp_def run_pool_def run)
qed

lemma pool_run_keepsv:
  assumes "\<forall>w \<in> set ws. \<forall>m \<in> set w. keepsv g m"
  shows "g (snd (snd (pool_run js ws fs s))) = g s"
  using assms
proof (induction js arbitrary: ws fs s)
  case (Cons i js)
  obtain ws1 fs1 s1 where one: "pool_step i ws fs s = (ws1, fs1, s1)" using prod_cases3 by blast
  have sub: "set w \<subseteq> \<Union> (set ` set ws)" if "w \<in> set ws1" for w
    using one that by (auto split: list.splits prod.splits sum.splits if_splits dest!: set_update_subset_insert [THEN subsetD])
      (metis UN_I list.set_intros(2) nth_mem)+
  have "g s1 = g s"
  proof (cases "if i < length ws then ws ! i else []")
    case Nil
    with one show ?thesis by auto
  next
    case (Cons m ms)
    then have "keepsv g m" using \<open>\<forall>w \<in> set ws. \<forall>m \<in> set w. keepsv g m\<close> by (auto split: if_splits) (metis list.set_intros(1) nth_mem)
    then have "g (snd (m s)) = g s" by (simp add: keepsv_def)
    moreover have "s1 = snd (m s)" using one Cons by (auto split: prod.splits sum.splits if_splits)
    ultimately show ?thesis by simp
  qed
  moreover have "\<forall>w \<in> set ws1. \<forall>m \<in> set w. keepsv g m" using sub Cons.prems by blast
  ultimately show ?case using Cons.IH [of ws1 fs1 s1] one by (simp del: pool_step.simps)
qed simp

lemma kf_pool: "\<forall>w \<in> set ws. \<forall>m \<in> set w. keepsv g m \<Longrightarrow> keepsv g (run_pool sched pick ws)"
  using pool_run_keepsv [of ws g] by (simp add: keepsv_def run_pool_def split: prod.splits) (metis snd_conv)

end
