(* ===== verification/Sharded_Archive.thy ===== *)
theory Sharded_Archive
  imports Job_Context Worker_Pool
begin

text \<open>
  \<open>jobs/sharded_archive.py\<close>: archiving over several drives at once. Instances are staged before the first write
  and become archived in one commit after every lane has verified, every tape is unmounted and unloaded, and the
  inventory shows every cartridge. The lane workers of the thread pool are lists of atomic steps that a schedule
  interleaves; the pool waits for all of them, and a failure of one is raised after that. The bytes of the source
  files and of the temporary shard files do not change while the job runs; scratch directories are left out.
\<close>

section \<open>Paths on the tape\<close>

text \<open>\<open>os.path.normpath\<close>.\<close>

fun norm_parts :: "bool \<Rightarrow> string list \<Rightarrow> string list \<Rightarrow> string list" where
  "norm_parts absolute acc [] = acc"
| "norm_parts absolute acc (p # ps) =
     (if p = [] \<or> p = ''.'' then norm_parts absolute acc ps
      else if p \<noteq> ''..'' \<or> (\<not> absolute \<and> acc = []) \<or> (acc \<noteq> [] \<and> last acc = ''..'') then norm_parts absolute (acc @ [p]) ps
      else norm_parts absolute (butlast acc) ps)"

definition normpath :: "string \<Rightarrow> string" where
  "normpath s =
     (let root = path_root s; parts = norm_parts (root \<noteq> []) [] (split_slash [] s); p = root @ join_slash parts
      in if p = [] then ''.'' else p)"

text \<open>\<open>file_path.relative_to(root)\<close>, \<open>None\<close> where it raises.\<close>

definition relative_to :: "posix_path \<Rightarrow> posix_path \<Rightarrow> string list option" where
  "relative_to p q =
     (if px_root p = px_root q \<and> take (length (px_parts q)) (px_parts p) = px_parts q
      then Some (drop (length (px_parts q)) (px_parts p)) else None)"

definition stripe_parts :: "string \<Rightarrow> string \<Rightarrow> string list" where
  "stripe_parts source_file source_root =
     (let file_path = pure_posix (normpath source_file); root = pure_posix (normpath source_root);
          relative = (if file_path = root then px_parts (pure_posix (posix_name file_path))
            else case relative_to file_path root of Some ps \<Rightarrow> ps | None \<Rightarrow> px_parts (pure_posix (posix_name file_path)));
          parts = filter (\<lambda>p. p \<notin> {[], ''.'', ''..'', ''/''}) relative
      in if parts = [] then [posix_name file_path] else parts)"

definition stripe_tape_path :: "string \<Rightarrow> string \<Rightarrow> string" where
  "stripe_tape_path source_file source_root = path_str (foldl path_join (pure_posix ''/stripe'') (stripe_parts source_file source_root))"

definition shard_record_path :: "string \<Rightarrow> nat \<Rightarrow> string" where
  "shard_record_path source_file k = source_file @ ''#shard'' @ fmt04 k"

section \<open>State\<close>

record sharded_request =
  sq_source_path :: string
  sq_files :: "(string \<times> bytes) list"
  sq_volume_group_name :: string
  sq_lane_barcodes :: "string list"
  sq_mode :: shard_mode
  sq_block_size :: int
  sq_dry_run :: bool

record sharded_result =
  sres_job_id :: string
  sres_files_archived :: nat
  sres_bytes_archived :: int
  sres_tapes_used :: "string list"
  sres_shard_group_ids :: "string list"
  sres_errors :: "string list"

record shard_state = job_ctx +
  sa_mounts :: "(string, mount_handle) dict"
  sa_loaded_slots :: "(int, int option) dict"
  sa_staged_ids :: "string list"
  sa_still_mounted :: "string list"
  sa_failed :: bool
  sa_fenced_out :: bool
  sa_batch_bytes :: int
  sa_group_ids :: "string list"
  sa_errors :: "string list"
  sa_files :: nat
  sa_bytes :: int

type_synonym 'a sop = "(shard_state, 'a) op"

definition shard_mode_value :: "shard_mode \<Rightarrow> string" where
  "shard_mode_value m = (case m of shard_mode.SM_NONE \<Rightarrow> ''none'' | shard_mode.SM_STRIPE \<Rightarrow> ''stripe'' | shard_mode.SM_BLOCK_STRIPE \<Rightarrow> ''block_stripe'')"

definition reset_batch :: "shard_state \<Rightarrow> shard_state" where
  "reset_batch s = s\<lparr>sa_mounts := [], sa_loaded_slots := [], sa_staged_ids := [], sa_fenced_out := False, sa_batch_bytes := 0\<rparr>"

section \<open>Loading, mounting and cleaning up\<close>

definition shard_tape_request :: "tape_op_type \<Rightarrow> string \<Rightarrow> int \<Rightarrow> int \<Rightarrow> string \<Rightarrow> tape_op_request" where
  "shard_tape_request ty b d k jid =
     \<lparr>tq_op_type = ty, tq_barcode = b, tq_drive_id = Some d, tq_slot_id = Some k, tq_tape_path = None, tq_content = None,
      tq_size_bytes = None, tq_checksum = None, tq_requested_by = ''sharded-archive'', tq_job_id = Some jid, tq_priority = 5, tq_extras = []\<rparr>"

definition load_barcode :: "job_env \<Rightarrow> handle_ref \<Rightarrow> string \<Rightarrow> (int \<times> int option) sop" where
  "load_barcode ae r jid =
     bindM (getsM (\<lambda>s. lease_handle s r)) (\<lambda>h.
     bindM (on_orch (ask_lib (find_drive_by_barcode (dh_barcode h)))) (\<lambda>loaded.
      case loaded of
        Some d \<Rightarrow>
          thenM (check_reconciled d (dh_barcode h))
          (thenM (if d \<noteq> dh_drive_id h then modifyM (set_physical r d) else returnM ()) (returnM (d, None)))
      | None \<Rightarrow>
          bindM (on_orch (getsM (\<lambda>q. List.find (\<lambda>sv. sv_barcode sv = Some (dh_barcode h)) (inv_slots (inventory (or_library q)))))) (\<lambda>found.
           case found of
             None \<Rightarrow> raiseM (ValueError ''not found in any slot'')
           | Some sv \<Rightarrow>
               thenM (check_reconciled (dh_drive_id h) (dh_barcode h))
               (thenM (withenv ae (\<lambda>e. on_orch (execute_tape_request e True
                   (shard_tape_request TO_LOAD (dh_barcode h) (dh_drive_id h) (sv_slot_id sv) jid))))
                (returnM (dh_drive_id h, Some (sv_slot_id sv)))))))"

definition load_lanes :: "job_env \<Rightarrow> handle_ref list \<Rightarrow> string \<Rightarrow> unit sop" where
  "load_lanes ae refs jid =
     forM refs (\<lambda>r. bindM (load_barcode ae r jid) (\<lambda>(d, slot). modifyM (\<lambda>s. s\<lparr>sa_loaded_slots := dict_set d slot (sa_loaded_slots s)\<rparr>)))"

definition verify_leases :: "job_env \<Rightarrow> handle_ref list \<Rightarrow> unit sop" where
  "verify_leases ae refs = forM refs (verify_lease ae)"

definition mount_lanes :: "job_env \<Rightarrow> handle_ref list \<Rightarrow> unit sop" where
  "mount_lanes ae refs =
     forM refs (\<lambda>r.
       thenM (verify_lease ae r)
       (bindM (getsM (\<lambda>s. dh_barcode (lease_handle s r))) (\<lambda>b.
        bindM (withenv ae (\<lambda>e. on_orch (on_ltfs (ltfs_mount (oe_handle_id e) b READ_WRITE)))) (\<lambda>m.
         modifyM (\<lambda>s. s\<lparr>sa_mounts := dict_set b m (sa_mounts s)\<rparr>)))))"

definition load_and_mount_lanes :: "job_env \<Rightarrow> handle_ref list \<Rightarrow> string \<Rightarrow> unit sop" where
  "load_and_mount_lanes ae refs jid =
     thenM (load_lanes ae refs jid)
     (thenM (on_sched (modifyM (record_physical_drives cat_ops refs)))
      (mount_lanes ae refs))"

definition note_failure :: "shard_state \<Rightarrow> shard_state" where
  "note_failure s = s\<lparr>sa_failed := True\<rparr>"

definition still_mounted :: "string \<Rightarrow> shard_state \<Rightarrow> shard_state" where
  "still_mounted b s = s\<lparr>sa_failed := True, sa_still_mounted := sa_still_mounted s @ [b]\<rparr>"

definition slot_of_handle :: "shard_state \<Rightarrow> handle_ref \<Rightarrow> int option" where
  "slot_of_handle s r = Option.bind (dict_get (sa_loaded_slots s) (physical (lease_handle s r))) id"

definition unmount_lane :: "mount_handle \<Rightarrow> unit sop" where
  "unmount_lane m = thenM (on_orch (on_ltfs (ltfs_unmount m))) (returnM ())"

definition unload_lane :: "job_env \<Rightarrow> bool \<Rightarrow> string \<Rightarrow> handle_ref \<Rightarrow> int \<Rightarrow> unit sop" where
  "unload_lane ae raise_on_failed jid r k =
     bindM (getsM (\<lambda>s. lease_handle s r)) (\<lambda>h.
      withenv ae (\<lambda>e. thenM (on_orch (execute_tape_request e raise_on_failed (shard_tape_request TO_UNLOAD (dh_barcode h) (physical h) k jid))) (returnM ())))"

definition clean_unload :: "job_env \<Rightarrow> string \<Rightarrow> handle_ref \<Rightarrow> unit sop" where
  "clean_unload ae jid r =
     bindM (getsM (\<lambda>s. (slot_of_handle s r, lease_handle s r, sa_still_mounted s))) (\<lambda>(slot, h, still).
      case slot of
        None \<Rightarrow> returnM ()
      | Some k \<Rightarrow>
          if dh_barcode h \<in> set still then modifyM note_failure
          else catchM
            (thenM (unload_lane ae True jid r k) (modifyM (\<lambda>s. s\<lparr>sa_loaded_slots := dict_pop (physical h) (sa_loaded_slots s)\<rparr>)))
            (\<lambda>_. modifyM note_failure))"

definition clean_unmount_and_unload :: "job_env \<Rightarrow> handle_ref list \<Rightarrow> string \<Rightarrow> unit sop" where
  "clean_unmount_and_unload ae refs jid =
     thenM (modifyM (\<lambda>s. s\<lparr>sa_failed := False, sa_still_mounted := []\<rparr>))
     (bindM (getsM sa_mounts) (\<lambda>mounts.
      thenM (forM mounts (\<lambda>(b, m). catchM
         (thenM (unmount_lane m) (modifyM (\<lambda>s. s\<lparr>sa_mounts := dict_pop b (sa_mounts s)\<rparr>)))
         (\<lambda>_. modifyM (still_mounted b))))
      (thenM (forM refs (clean_unload ae jid))
      (bindM (getsM sa_failed) (\<lambda>failed. guardM (\<not> failed) TapePhysicalStateError)))))"

text \<open>\<open>_journal_failure\<close>: an error of the journal is dropped. The message below has a dash where the code has a long one.\<close>

definition journal_failure :: "job_env \<Rightarrow> string \<Rightarrow> string \<Rightarrow> (string, jval) dict \<Rightarrow> unit sop" where
  "journal_failure ae jid event detail = catchM (journal_job ae jid event detail) (\<lambda>_. returnM ())"

definition PHYSICAL_STATE_UNKNOWN_TEXT :: string where
  "PHYSICAL_STATE_UNKNOWN_TEXT = ''physical state unknown - reconcile before reuse''"

definition shard_job_error :: "job_env \<Rightarrow> exc \<Rightarrow> string" where
  "shard_job_error ae x = (if x = TapePhysicalStateError then PHYSICAL_STATE_UNKNOWN_TEXT else safe_job_error (av_message ae) (av_class_name ae) x)"

definition best_effort_unload :: "job_env \<Rightarrow> string \<Rightarrow> handle_ref list \<Rightarrow> handle_ref \<Rightarrow> unit sop" where
  "best_effort_unload ae jid refs r =
     bindM (getsM (\<lambda>s. (slot_of_handle s r, lease_handle s r, sa_still_mounted s))) (\<lambda>(slot, h, still).
      case slot of
        None \<Rightarrow> returnM ()
      | Some k \<Rightarrow>
          if dh_barcode h \<in> set still then returnM ()
          else catchM (unload_lane ae False jid r k)
            (\<lambda>_. thenM (modifyM note_failure)
              (record_physical_state_unknown ae jid ''unload'' (dh_barcode h) (Some (physical h)) refs)))"

text \<open>\<open>into_errors\<close> says whether the caller passes its list of errors.\<close>

definition best_effort_unmount_and_unload :: "job_env \<Rightarrow> handle_ref list \<Rightarrow> string \<Rightarrow> bool \<Rightarrow> unit sop" where
  "best_effort_unmount_and_unload ae refs jid into_errors =
     thenM (modifyM (\<lambda>s. s\<lparr>sa_failed := False, sa_still_mounted := []\<rparr>))
     (bindM (getsM (\<lambda>s. (sa_mounts s, foldl (\<lambda>d r. dict_set (dh_barcode (lease_handle s r)) (physical (lease_handle s r)) d) [] refs))) (\<lambda>(mounts, drive_by_barcode).
      thenM (forM mounts (\<lambda>(b, m). catchM (unmount_lane m)
         (\<lambda>_. thenM (modifyM (still_mounted b))
           (record_physical_state_unknown ae jid ''unmount'' b (dict_get drive_by_barcode b) refs))))
      (thenM (forM refs (best_effort_unload ae jid refs))
       (modifyM (\<lambda>s. if sa_failed s \<and> into_errors \<and> sa_errors s = [] then s\<lparr>sa_errors := [PHYSICAL_STATE_UNKNOWN_TEXT]\<rparr> else s)))))"

section \<open>The lane workers\<close>

definition lane_room :: "string \<Rightarrow> int \<Rightarrow> unit sop" where
  "lane_room b sz =
     bindM (on_orch (on_ltfs (ensure_tape b))) (\<lambda>(key, tape).
      guardM (has_room_for (tc_capacity_bytes tape) (tc_used_bytes tape) sz) TapeFullError)"

definition lane_write :: "job_env \<Rightarrow> mount_handle \<Rightarrow> string \<Rightarrow> bytes \<Rightarrow> unit sop" where
  "lane_write ae m tape_path content =
     withenv ae (\<lambda>e. thenM (on_orch (on_ltfs (ltfs_write_file (av_sha ae) (oe_now e) (oe_instance_id e) m content (path_str (pure_posix tape_path))))) (returnM ()))"

definition lane_check :: "mount_handle \<Rightarrow> string \<Rightarrow> string \<Rightarrow> unit sop" where
  "lane_check m tape_path checksum =
     bindM (on_orch (on_ltfs (ltfs_stat m (path_str (pure_posix tape_path))))) (\<lambda>st.
      guardM (st_checksum_sha256 st = checksum) (ValueError ''Checksum mismatch''))"

record lane =
  ln_barcode :: string
  ln_tape_path :: string
  ln_content :: bytes

text \<open>\<open>_write_one\<close> and \<open>_write_shard\<close>: check the room, write, read the checksum back. Every lane is mounted before the
  workers are made, so looking its mount up does not fail.\<close>

definition lane_worker :: "job_env \<Rightarrow> lane \<Rightarrow> mount_handle \<Rightarrow> unit sop list" where
  "lane_worker ae la m =
     [lane_room (ln_barcode la) (int (length (ln_content la))),
      lane_write ae m (ln_tape_path la) (ln_content la),
      lane_check m (ln_tape_path la) (compute_checksum (av_sha ae) (ln_content la))]"

definition lane_workers :: "job_env \<Rightarrow> lane list \<Rightarrow> unit sop list list sop" where
  "lane_workers ae lanes =
     bindM (getsM sa_mounts) (\<lambda>mounts.
      liftM (mapR (\<lambda>la. case dict_get mounts (ln_barcode la) of None \<Rightarrow> Inl KeyError | Some m \<Rightarrow> Inr (lane_worker ae la m)) lanes))"

section \<open>Commit\<close>

definition mark_verifying :: "job_env \<Rightarrow> string \<Rightarrow> unit sop" where
  "mark_verifying ae jid =
     bindM (getsM sa_staged_ids) (\<lambda>ids.
      thenM (journal_job ae jid ''verify_started'' [(''instances'', J_int (int (length ids)))])
      (thenM (on_cat (mark_instances_verifying ids))
       (journal_job ae jid ''verify_finished'' [(''instances'', J_int (int (length ids)))])))"

definition commit_staged :: "job_env \<Rightarrow> string \<Rightarrow> handle_ref list \<Rightarrow> unit sop" where
  "commit_staged ae jid refs =
     bindM (getsM (\<lambda>s. (sa_staged_ids s, map (\<lambda>r. dh_barcode (lease_handle s r)) refs, known_barcodes (inventory (or_library (as_orch s)))))) (\<lambda>(ids, wanted, seen).
      thenM (guardM (set wanted \<subseteq> set seen) TapePhysicalStateError)
      (thenM (withenv ae (\<lambda>e. on_cat (mark_instances_archived (oe_now e) ids True)))
       (journal_job ae jid ''committed'' [(''instances'', J_int (int (length ids)))])))"

text \<open>From the writes to the commit, the same for both modes.\<close>

definition write_and_commit :: "job_env \<Rightarrow> string \<Rightarrow> handle_ref list \<Rightarrow> lane list \<Rightarrow> unit sop" where
  "write_and_commit ae jid refs lanes =
     thenM (verify_leases ae refs)
     (bindM (lane_workers ae lanes) (\<lambda>workers.
      thenM (bindM tickM (\<lambda>k. run_pool (av_schedule ae k) (av_pick ae k) workers))
      (thenM (mark_verifying ae jid)
      (thenM (withenv ae (\<lambda>e. on_sched (modifyM (heartbeat cat_ops (oe_now e) refs))))
      (thenM (verify_leases ae refs)
      (thenM (clean_unmount_and_unload ae refs jid)
       (commit_staged ae jid refs)))))))"

definition new_file_record ::
  "job_env \<Rightarrow> string \<Rightarrow> bytes \<Rightarrow> int \<Rightarrow> string \<Rightarrow> int \<Rightarrow> int option \<Rightarrow> int option \<Rightarrow> shard_mode \<Rightarrow> string option \<Rightarrow> record_row sop" where
  "new_file_record ae path content sz vg shards_n idx bs mode parent =
     bindM tickM (\<lambda>k. on_cat (create_file_record (av_new_id ae k) (oe_now (av_env ae k)) path sz (compute_checksum (av_sha ae) content) vg
        (Some shards_n) idx bs (Some (shard_mode_value mode)) parent))"

definition stage_instance :: "job_env \<Rightarrow> string \<Rightarrow> string \<Rightarrow> string \<Rightarrow> string \<Rightarrow> string sop" where
  "stage_instance ae jid frid b tape_path =
     bindM (bindM tickM (\<lambda>k. on_cat (create_staged_instance (av_new_id ae k) (oe_now (av_env ae k)) jid frid b tape_path FI_STAGING))) (\<lambda>inst.
      returnM (ir_id inst))"

definition add_staged :: "string list \<Rightarrow> unit sop" where
  "add_staged ids = modifyM (\<lambda>s. s\<lparr>sa_staged_ids := sa_staged_ids s @ ids\<rparr>)"

section \<open>Whole files over the lanes\<close>

definition stage_file :: "job_env \<Rightarrow> sharded_request \<Rightarrow> string \<Rightarrow> string \<Rightarrow> (string \<times> bytes) \<times> string \<Rightarrow> unit sop" where
  "stage_file ae rq vg jid item =
     (case item of ((path, content), b) \<Rightarrow>
       let tape_path = stripe_tape_path path (sq_source_path rq); sz = int (length content)
       in bindM (new_file_record ae path content sz vg 1 None None (sq_mode rq) None) (\<lambda>rec.
          bindM (stage_instance ae jid (rr_id rec) b tape_path) (\<lambda>i.
          bindM (new_file_record ae (shard_record_path path 0) content sz vg 1 (Some 0) None (sq_mode rq) (Some (rr_id rec))) (\<lambda>srec.
          bindM (stage_instance ae jid (rr_id srec) b tape_path) (\<lambda>j.
          thenM (add_staged [i, j])
           (bindM tickM (\<lambda>k. modifyM (\<lambda>s. s\<lparr>sa_batch_bytes := sa_batch_bytes s + sz, sa_group_ids := sa_group_ids s @ [av_new_id ae k]\<rparr>))))))))"

definition stripe_lane :: "sharded_request \<Rightarrow> (string \<times> bytes) \<times> string \<Rightarrow> lane" where
  "stripe_lane rq item =
     (case item of ((path, content), b) \<Rightarrow>
       \<lparr>ln_barcode = b, ln_tape_path = stripe_tape_path path (sq_source_path rq), ln_content = content\<rparr>)"

definition stripe_body :: "job_env \<Rightarrow> sharded_request \<Rightarrow> string \<Rightarrow> string \<Rightarrow> handle_ref list \<Rightarrow> ((string \<times> bytes) \<times> string) list \<Rightarrow> unit sop" where
  "stripe_body ae rq vg jid refs batch =
     thenM (load_and_mount_lanes ae refs jid)
     (thenM (forM batch (stage_file ae rq vg jid))
     (thenM (write_and_commit ae jid refs (map (stripe_lane rq) batch))
      (modifyM (\<lambda>s. s\<lparr>sa_files := sa_files s + length batch, sa_bytes := sa_bytes s + sa_batch_bytes s\<rparr>))))"

definition fenced_out :: "job_env \<Rightarrow> string \<Rightarrow> string list \<Rightarrow> 'a sop" where
  "fenced_out ae jid barcodes =
     thenM (modifyM (\<lambda>s. s\<lparr>sa_fenced_out := True\<rparr>))
     (thenM (journal_failure ae jid ''fenced_out'' [(''barcodes'', J_strs barcodes)]) (raiseM StaleLeaseError))"

definition cleanup_unless_fenced :: "job_env \<Rightarrow> handle_ref list \<Rightarrow> string \<Rightarrow> bool \<Rightarrow> unit sop" where
  "cleanup_unless_fenced ae refs jid into_errors =
     bindM (getsM sa_fenced_out) (\<lambda>fenced. if fenced then returnM () else best_effort_unmount_and_unload ae refs jid into_errors)"

definition release_leases_of :: "job_env \<Rightarrow> handle_ref list \<Rightarrow> unit sop" where
  "release_leases_of ae refs = withenv ae (\<lambda>e. on_sched (release_drives cat_ops (oe_now e) refs))"

definition archive_stripe_batch :: "job_env \<Rightarrow> sharded_request \<Rightarrow> string \<Rightarrow> string \<Rightarrow> ((string \<times> bytes) \<times> string) list \<Rightarrow> unit sop" where
  "archive_stripe_batch ae rq vg jid batch =
     (let barcodes = dedup_ids (map snd batch) in
      bindM (acquire_many ae barcodes) (\<lambda>refs.
      thenM (journal_job ae jid ''lease_acquired'' [(''barcodes'', J_strs barcodes)])
      (thenM (modifyM reset_batch)
       (finallyM
         (catchM (stripe_body ae rq vg jid refs batch) (\<lambda>x.
            if x = StaleLeaseError then fenced_out ae jid barcodes
            else thenM (journal_failure ae jid ''failed'' [(''error'', J_str (av_class_name ae x))])
                  (modifyM (\<lambda>s. s\<lparr>sa_errors := sa_errors s @ [shard_job_error ae x]\<rparr>))))
         (thenM (cleanup_unless_fenced ae refs jid True) (release_leases_of ae refs))))))"

fun batch_loop :: "nat \<Rightarrow> 'a list \<Rightarrow> 'a list \<Rightarrow> 'a list list" where
  "batch_loop n current [] = (if current = [] then [] else [current])"
| "batch_loop n current (x # xs) =
     (let cur = current @ [x] in if length cur = n then cur # batch_loop n [] xs else batch_loop n cur xs)"

definition stripe_batches :: "string list \<Rightarrow> (string \<times> bytes) list \<Rightarrow> ((string \<times> bytes) \<times> string) list list" where
  "stripe_batches lanes files =
     batch_loop (length lanes) [] (map (\<lambda>(i, f). (f, lanes ! (i mod length lanes))) (zip [0..<length files] files))"

definition archive_stripe :: "job_env \<Rightarrow> sharded_request \<Rightarrow> string \<Rightarrow> string \<Rightarrow> (string \<times> bytes) list \<Rightarrow> unit sop" where
  "archive_stripe ae rq vg jid files =
     (if sq_lane_barcodes rq = [] \<and> files \<noteq> [] then raiseM ZeroDivisionError
      else forM (stripe_batches (sq_lane_barcodes rq) files) (archive_stripe_batch ae rq vg jid))"

section \<open>One file in blocks over the lanes\<close>

definition stage_shard :: "job_env \<Rightarrow> sharded_request \<Rightarrow> string \<Rightarrow> string \<Rightarrow> string \<Rightarrow> string \<Rightarrow> int \<Rightarrow> shard_spec \<times> bytes \<Rightarrow> unit sop" where
  "stage_shard ae rq vg jid path frid shards_n item =
     (case item of (spec, shard) \<Rightarrow>
       bindM (stage_instance ae jid frid (sh_barcode spec) (sh_tape_path spec)) (\<lambda>i.
       bindM (new_file_record ae (shard_record_path path (nat (sh_index spec))) shard (int (length shard)) vg shards_n (Some (sh_index spec))
           (Some (sq_block_size rq)) (sq_mode rq) (Some frid)) (\<lambda>srec.
       bindM (stage_instance ae jid (rr_id srec) (sh_barcode spec) (sh_tape_path spec)) (\<lambda>j.
        add_staged [i, j]))))"

definition shard_lane :: "shard_spec \<times> bytes \<Rightarrow> lane" where
  "shard_lane item = (case item of (spec, shard) \<Rightarrow> \<lparr>ln_barcode = sh_barcode spec, ln_tape_path = sh_tape_path spec, ln_content = shard\<rparr>)"

definition block_body :: "job_env \<Rightarrow> sharded_request \<Rightarrow> string \<Rightarrow> string \<Rightarrow> handle_ref list \<Rightarrow> string \<Rightarrow> bytes \<Rightarrow> shard_plan \<Rightarrow> unit sop" where
  "block_body ae rq vg jid refs path content plan =
     thenM (load_and_mount_lanes ae refs jid)
     (bindM (liftM (mapR (\<lambda>spec. write_shard_to_tempfile content (nat (sh_index spec)) (length (sp_shards plan)) (sq_block_size rq)) (sp_shards plan))) (\<lambda>shards.
      bindM (new_file_record ae path content (sp_file_size plan) vg (int (length (sp_shards plan))) None (Some (sq_block_size rq)) (sq_mode rq) None) (\<lambda>rec.
      thenM (forM (zip (sp_shards plan) shards) (stage_shard ae rq vg jid path (rr_id rec) (int (length (sp_shards plan)))))
       (write_and_commit ae jid refs (map shard_lane (zip (sp_shards plan) shards))))))"

definition archive_block_stripe :: "job_env \<Rightarrow> sharded_request \<Rightarrow> string \<Rightarrow> string \<Rightarrow> string \<times> bytes \<Rightarrow> unit sop" where
  "archive_block_stripe ae rq vg jid f =
     (case f of (path, content) \<Rightarrow>
       bindM (bindM tickM (\<lambda>k. liftM (plan_block_stripe (av_sha ae) (av_new_id ae k) path (posix_name (pure_posix path)) content
           (sq_lane_barcodes rq) ''/block_stripe'' (sq_block_size rq)))) (\<lambda>plan.
       thenM (modifyM (\<lambda>s. s\<lparr>sa_group_ids := sa_group_ids s @ [sp_group_id plan]\<rparr>))
       (bindM (acquire_many ae (sq_lane_barcodes rq)) (\<lambda>refs.
        thenM (journal_job ae jid ''lease_acquired'' [(''barcodes'', J_strs (sq_lane_barcodes rq))])
        (thenM (modifyM reset_batch)
         (finallyM
           (catchM (block_body ae rq vg jid refs path content plan) (\<lambda>x.
              if x = StaleLeaseError then fenced_out ae jid (sq_lane_barcodes rq)
              else thenM (journal_failure ae jid ''failed'' [(''error'', J_str (av_class_name ae x))]) (raiseM x)))
           (thenM (cleanup_unless_fenced ae refs jid False) (release_leases_of ae refs))))))))"

section \<open>The job\<close>

definition JOB_ERROR_MAX_CHARS :: nat where
  "JOB_ERROR_MAX_CHARS = 2000"

fun join_bar :: "string list \<Rightarrow> string" where
  "join_bar [] = []"
| "join_bar [x] = x"
| "join_bar (x # y # xs) = x @ '' | '' @ join_bar (y # xs)"

definition summarize_errors :: "string list \<Rightarrow> string option" where
  "summarize_errors errors =
     (if errors = [] then None
      else let distinct_errors = dedup_ids errors;
               summary = int_str (int (length errors)) @ '' shard batch failure(s); '' @ int_str (int (length distinct_errors)) @ '' distinct: ''
                 @ join_bar distinct_errors
           in Some (if length summary > JOB_ERROR_MAX_CHARS then take (JOB_ERROR_MAX_CHARS - 3) summary @ ''...'' else summary))"

definition block_file :: "job_env \<Rightarrow> sharded_request \<Rightarrow> string \<Rightarrow> string \<Rightarrow> string \<times> bytes \<Rightarrow> unit sop" where
  "block_file ae rq vg jid f =
     catchM
       (thenM (archive_block_stripe ae rq vg jid f)
         (modifyM (\<lambda>s. s\<lparr>sa_bytes := sa_bytes s + int (length (snd f)), sa_files := Suc (sa_files s)\<rparr>)))
       (\<lambda>x. modifyM (\<lambda>s. s\<lparr>sa_errors := sa_errors s @ [shard_job_error ae x]\<rparr>))"

definition known_lanes :: "string \<Rightarrow> string list \<Rightarrow> catalog \<Rightarrow> catalog" where
  "known_lanes vg lanes c = foldl (\<lambda>c b. if get_cartridge b c = None then catalog_add_cartridge b (Some vg) c else c) c lanes"

definition run_sharded_archive :: "job_env \<Rightarrow> sharded_request \<Rightarrow> string \<Rightarrow> sharded_result sop" where
  "run_sharded_archive ae rq jid =
     (let files = sort_key (\<lambda>(p, b). px_parts (pure_posix p)) (sq_files rq);
          result = (\<lambda>n k ids es. \<lparr>sres_job_id = jid, sres_files_archived = n, sres_bytes_archived = k, sres_tapes_used = sq_lane_barcodes rq,
            sres_shard_group_ids = ids, sres_errors = es\<rparr>)
      in thenM (job_state_to ae jid ''running'' None)
      (if sq_dry_run rq
       then thenM (job_state_to ae jid ''completed'' None) (returnM (result (length files) (sum_list (map (\<lambda>(p, b). int (length b)) files)) [] []))
       else if files = []
       then thenM (job_state_to ae jid ''completed'' None) (returnM (result 0 0 [] []))
       else
        bindM (bindM tickM (\<lambda>k. on_cat (\<lambda>c. case create_volume_group (av_new_id ae k) (sq_volume_group_name rq) c of (g, c') \<Rightarrow> (Inr g, c')))) (\<lambda>g.
        thenM (on_cat (modifyM (known_lanes (gr_id g) (sq_lane_barcodes rq))))
        (thenM (modifyM (\<lambda>s. s\<lparr>sa_group_ids := [], sa_errors := [], sa_files := 0, sa_bytes := 0\<rparr>))
        (thenM
          (if sq_mode rq = shard_mode.SM_BLOCK_STRIPE \<and> 2 \<le> length (sq_lane_barcodes rq) then forM files (block_file ae rq (gr_id g) jid)
           else archive_stripe ae rq (gr_id g) jid files)
        (bindM (getsM (\<lambda>s. result (sa_files s) (sa_bytes s) (sa_group_ids s) (sa_errors s))) (\<lambda>res.
         thenM (job_state_to ae jid (if sres_errors res = [] then ''completed'' else ''failed_recoverable'') (summarize_errors (sres_errors res)))
          (returnM res))))))))"

section \<open>A concrete job\<close>

definition demo_shard_state :: "mock_library \<Rightarrow> int \<Rightarrow> shard_state" where
  "demo_shard_state L drives =
     \<lparr>as_orch = \<lparr>or_has_catalog = True, or_catalog = empty_catalog\<lparr>cat_jobs := [\<lparr>jb_id = ''j'', jb_job_type = ''archive'',
          jb_state = ''pending'', jb_metadata_json = [], jb_error = None, jb_created_at = 0, jb_updated_at = 0\<rparr>]\<rparr>,
        or_transient = [],
        or_ltfs = (let B = mk_ltfs L 1000 None No_injector in B\<lparr>lt_tapes := map (\<lambda>(k, t). (k, t\<lparr>tc_formatted := True\<rparr>)) (lt_tapes B)\<rparr>)\<rparr>,
      as_sched = new_scheduler drives empty_catalog ''j'' 1000, as_aml_drives = [], as_aml_media = [], as_tick = 0,
      sa_mounts = [], sa_loaded_slots = [], sa_staged_ids = [], sa_still_mounted = [], sa_failed = False, sa_fenced_out = False,
      sa_batch_bytes = 0, sa_group_ids = [], sa_errors = [], sa_files = 0, sa_bytes = 0\<rparr>"

definition demo_shard_request :: sharded_request where
  "demo_shard_request = \<lparr>sq_source_path = ''/d'', sq_files = [(''/d/a'', [1, 2])], sq_volume_group_name = ''v'',
     sq_lane_barcodes = [''VTA001L8''], sq_mode = shard_mode.SM_STRIPE, sq_block_size = 4, sq_dry_run = False\<rparr>"

lemma demo_shard_returns:
  "case fst (run_sharded_archive demo_job_env demo_shard_request ''j'' (demo_shard_state demo_job_library 1)) of
     Inr res \<Rightarrow> sres_errors res = [] | Inl _ \<Rightarrow> False"
  by code_simp

lemma demo_batch_leased:
  "case acquire_many demo_job_env (dedup_ids (map snd [((''/d/a'', [1, 2]), ''VTA001L8'')])) (demo_shard_state demo_job_library 1) of
     (Inr refs, s1) \<Rightarrow> cat_instances (job_catalog s1) = [] | (Inl _, _) \<Rightarrow> False"
  by code_simp

end
