(* ===== verification/Sharded_Props.thy ===== *)
theory Sharded_Props
  imports Sharded_Archive
begin

text \<open>
  What a sharded archive has done when it returns. First the places on the tape, then the files of the tapes,
  followed through a batch and the job for every interleaving of the lane workers, and the instances of the
  catalog through a batch: they become visible to a restore all together, or not at all.
\<close>

section \<open>Places on the tape\<close>

lemma stripe_parts_names:
  assumes "posix_name (pure_posix (normpath f)) \<noteq> []"
  shows "stripe_parts f r \<noteq> []" and "\<forall>p \<in> set (stripe_parts f r). path_name p"
    and "posix_name (pure_posix (normpath f)) \<noteq> ''..'' \<Longrightarrow> ''..'' \<notin> set (stripe_parts f r)"
proof -
  let ?file = "pure_posix (normpath f)" and ?root = "pure_posix (normpath r)"
  let ?name = "px_parts (pure_posix (posix_name ?file))"
  define rel where "rel = (if ?file = ?root then ?name else case relative_to ?file ?root of Some ps \<Rightarrow> ps | None \<Rightarrow> ?name)"
  have parts: "stripe_parts f r = (let ps = filter (\<lambda>p. p \<notin> {[], ''.'', ''..'', ''/''}) rel in if ps = [] then [posix_name ?file] else ps)"
    by (simp add: stripe_parts_def rel_def Let_def)
  have rel: "path_name p" if "p \<in> set rel" for p
    using that by (auto simp: rel_def relative_to_def dest: pure_posix_names in_set_dropD split: if_splits option.splits)
  have name: "path_name (posix_name ?file)" using posix_name_cases [of "normpath f"] assms by blast
  show "stripe_parts f r \<noteq> []" "\<forall>p \<in> set (stripe_parts f r). path_name p"
    unfolding parts Let_def using rel name by auto
  show "''..'' \<notin> set (stripe_parts f r)" if "posix_name ?file \<noteq> ''..''"
    unfolding parts Let_def using that by auto
qed

text \<open>C39. The place of a source file on its tape is strictly under \<open>/stripe\<close>, whatever the paths of the request: no component
  climbs or hides a separator, as long as the file has a name of its own, which a regular file has.\<close>

theorem stripe_path_confined:
  assumes "posix_name (pure_posix (normpath f)) \<notin> {[], ''..''}"
  shows "\<exists>ps. stripe_tape_path f r = path_str \<lparr>px_root = ''/'', px_parts = ''stripe'' # ps\<rparr> \<and> ps \<noteq> []
     \<and> list_all (\<lambda>p. p \<notin> {[], ''.'', ''..''} \<and> CHR ''/'' \<notin> set p) ps"
proof -
  have n: "posix_name (pure_posix (normpath f)) \<noteq> []" "posix_name (pure_posix (normpath f)) \<noteq> ''..''" using assms by auto
  note names = stripe_parts_names [OF n(1)]
  have "pure_posix ''/stripe'' = \<lparr>px_root = ''/'', px_parts = [''stripe'']\<rparr>" by (simp add: pure_posix_def path_root_def)
  then have "stripe_tape_path f r = path_str \<lparr>px_root = ''/'', px_parts = ''stripe'' # stripe_parts f r\<rparr>"
    unfolding stripe_tape_path_def by (simp add: join_names [OF names(2)])
  then show ?thesis
    using names(1,2) names(3) [OF n(2)] by (intro exI [of _ "stripe_parts f r"]) (auto simp: list_all_iff path_name_def)
qed

theorem stripe_path_confined_witness: "stripe_tape_path ''/data/../etc/passwd'' ''/data'' = ''/stripe/passwd'' \<and>
   (\<exists>ps. stripe_tape_path ''/data/../etc/passwd'' ''/data'' = path_str \<lparr>px_root = ''/'', px_parts = ''stripe'' # ps\<rparr> \<and> ps \<noteq> [])"
proof -
  have "posix_name (pure_posix (normpath ''/data/../etc/passwd'')) \<notin> {[], ''..''}" by code_simp
  from stripe_path_confined [OF this, of "''/data''"]
  have "\<exists>ps. stripe_tape_path ''/data/../etc/passwd'' ''/data'' = path_str \<lparr>px_root = ''/'', px_parts = ''stripe'' # ps\<rparr> \<and> ps \<noteq> []" by blast
  moreover have "stripe_tape_path ''/data/../etc/passwd'' ''/data'' = ''/stripe/passwd''" by code_simp
  ultimately show ?thesis by blast
qed

section \<open>Frames\<close>

text \<open>A view of the job that does not read where a cartridge was loaded from; then one that reads none of the variables
  the cleanup sets.\<close>

locale shard_frame = log_frame view cview
  for view :: "shard_state \<Rightarrow> 'v" and cview :: "catalog \<Rightarrow> 'c" +
  assumes view_slots: "view (s\<lparr>sa_loaded_slots := d\<rparr>) = view s"
begin

lemma kf_orch_gets [kf_intros]: "keepsv view (on_orch (getsM f))"
  by (rule on_orch_keeps) (intro kf_intros)

lemma kf_load_barcode [kf_intros]: "keepsv view (load_barcode ae r jid)"
  unfolding load_barcode_def by (intro kf_intros) (simp_all add: shard_tape_request_def)

lemma kf_load_lanes [kf_intros]: "keepsv view (load_lanes ae refs jid)"
  unfolding load_lanes_def by (intro kf_intros) (simp add: view_slots)

lemma kf_verify_leases [kf_intros]: "keepsv view (verify_leases ae refs)"
  unfolding verify_leases_def by (intro kf_intros)

lemma kf_unmount_lane [kf_intros]: "keepsv view (unmount_lane m)"
  unfolding unmount_lane_def by (intro kf_intros)

lemma kf_unload_lane [kf_intros]: "keepsv view (unload_lane ae rof jid r k)"
  unfolding unload_lane_def by (intro kf_intros) (simp add: shard_tape_request_def)

lemma kf_journal_failure [kf_intros]: "keepsv view (journal_failure ae jid ev detail)"
  unfolding journal_failure_def by (intro kf_intros)

lemma kf_release_leases_of [kf_intros]: "keepsv view (release_leases_of ae refs)"
  unfolding release_leases_of_def by (intro kf_intros)

lemma kf_heartbeat_at [kf_intros]: "keepsv view (withenv ae (\<lambda>e. on_sched (modifyM (heartbeat cat_ops (oe_now e) refs))))"
  by (intro kf_intros)

end

locale shard_cleanup_frame = shard_frame view cview
  for view :: "shard_state \<Rightarrow> 'v" and cview :: "catalog \<Rightarrow> 'c" +
  assumes view_mounts: "view (s\<lparr>sa_mounts := d\<rparr>) = view s"
    and view_failed: "view (s\<lparr>sa_failed := b\<rparr>) = view s"
    and view_still: "view (s\<lparr>sa_still_mounted := bs\<rparr>) = view s"
begin

lemma kf_mount_lanes [kf_intros]: "keepsv view (mount_lanes ae refs)"
  unfolding mount_lanes_def by (intro kf_intros) (simp add: view_mounts)

lemma kf_load_mount_lanes [kf_intros]: "keepsv view (load_and_mount_lanes ae refs jid)"
  unfolding load_and_mount_lanes_def by (intro kf_intros)

lemma kf_flags [kf_intros]:
  "keepsv view (modifyM note_failure)" "keepsv view (modifyM (still_mounted b))"
  "keepsv view (modifyM (\<lambda>s. s\<lparr>sa_failed := False, sa_still_mounted := []\<rparr>))"
  by (auto intro!: kf_modify simp: note_failure_def still_mounted_def view_failed view_still)

lemma kf_clean_unload [kf_intros]: "keepsv view (clean_unload ae jid r)"
  unfolding clean_unload_def by (intro kf_intros) (simp add: view_slots)

lemma kf_clean [kf_intros]: "keepsv view (clean_unmount_and_unload ae refs jid)"
  unfolding clean_unmount_and_unload_def by (intro kf_intros) (simp add: view_mounts)

lemma kf_best_effort_unload [kf_intros]: "keepsv view (best_effort_unload ae jid refs r)"
  unfolding best_effort_unload_def by (intro kf_intros)

lemma kf_cleanup:
  assumes "\<And>s es. view (s\<lparr>sa_errors := es\<rparr>) = view s"
  shows "keepsv view (cleanup_unless_fenced ae refs jid into_errors)"
  unfolding cleanup_unless_fenced_def best_effort_unmount_and_unload_def by (intro kf_intros) (simp add: assms)

lemma wp_best_effort:
  assumes "\<And>s'. view s' = view s \<Longrightarrow> Q s'"
    and "\<And>s'. view s' = view s \<Longrightarrow> into_errors \<Longrightarrow> sa_errors s' = [] \<Longrightarrow> Q (s'\<lparr>sa_errors := [PHYSICAL_STATE_UNKNOWN_TEXT]\<rparr>)"
  shows "wp (cleanup_unless_fenced ae refs jid into_errors) (\<lambda>_. Q) (\<lambda>_ _. True) s"
proof -
  let ?last = "\<lambda>s. if sa_failed s \<and> into_errors \<and> sa_errors s = [] then s\<lparr>sa_errors := [PHYSICAL_STATE_UNKNOWN_TEXT]\<rparr> else s"
  have last: "wp (modifyM ?last) (\<lambda>_. Q) (\<lambda>_ _. True) s'" if "view s' = view s" for s'
    using assms(1) [OF that] assms(2) [OF that] by (simp add: wp_modify)
  have unmounts: "keepsv view (forM mounts (\<lambda>(b, m). catchM (unmount_lane m)
       (\<lambda>_. thenM (modifyM (still_mounted b)) (record_physical_state_unknown ae jid ''unmount'' b (dict_get drives b) refs))))" for mounts drives
    by (intro kf_intros)
  have unloads: "keepsv view (forM refs (best_effort_unload ae jid refs))" by (intro kf_intros)
  have tail: "wp (thenM (forM mounts (\<lambda>(b, m). catchM (unmount_lane m)
       (\<lambda>_. thenM (modifyM (still_mounted b)) (record_physical_state_unknown ae jid ''unmount'' b (dict_get drives b) refs))))
     (thenM (forM refs (best_effort_unload ae jid refs)) (modifyM ?last))) (\<lambda>_. Q) (\<lambda>_ _. True) s'" if "view s' = view s" for s' mounts drives
    unfolding wp_then by (rule wp_kf [OF unmounts], rule wp_kf [OF unloads], rule last) (simp add: that)
  show ?thesis
    unfolding cleanup_unless_fenced_def best_effort_unmount_and_unload_def wp_bind wp_gets wp_if
    by (auto simp: wp_return assms(1) wp_then [of "modifyM _"] wp_bind wp_gets split: prod.splits intro!: wp_kf [OF kf_flags(3)] tail)
qed

end

section \<open>Files on the tapes\<close>

definition batch_view :: "shard_state \<Rightarrow> (string \<Rightarrow> (string, file_record) dict) \<times> string list \<times> nat" where
  "batch_view s = (orch_files (as_orch s), sa_errors s, sa_files s)"

definition mount_view :: "shard_state \<Rightarrow> ((string \<Rightarrow> (string, file_record) dict) \<times> string list \<times> nat) \<times> (string, mount_handle) dict" where
  "mount_view s = (batch_view s, sa_mounts s)"

interpretation tapes: job_frame batch_view
  by unfold_locales (simp_all add: batch_view_def)

interpretation tapes: shard_cleanup_frame batch_view "\<lambda>_. ()"
  by unfold_locales (simp_all add: batch_view_def)

interpretation mounted: job_frame mount_view
  by unfold_locales (simp_all add: mount_view_def batch_view_def)

interpretation mounted: shard_frame mount_view "\<lambda>_. ()"
  by unfold_locales (simp_all add: mount_view_def batch_view_def)

definition lane_path :: "lane \<Rightarrow> string" where
  "lane_path la = path_str (pure_posix (ln_tape_path la))"

definition lane_on_tape :: "(string \<Rightarrow> (string, file_record) dict) \<Rightarrow> lane \<Rightarrow> bool" where
  "lane_on_tape F la \<longleftrightarrow> (\<exists>k. mk_barcode (ln_barcode la) = Inr k \<and> on_tape F k (lane_path la) (ln_content la))"

text \<open>Where a lane writes: two lanes with different targets do not touch each other's files.\<close>

definition lane_target :: "lane \<Rightarrow> (exc + string) \<times> string" where
  "lane_target la = (mk_barcode (ln_barcode la), lane_path la)"

lemma lane_on_tape_write:
  assumes "writes k (lane_path la) (ln_content la) B B'" and "mk_barcode (ln_barcode la) = Inr k"
  shows "lane_on_tape (files_of B') la"
    and "lane_target la' \<noteq> lane_target la \<Longrightarrow> lane_on_tape (files_of B) la' \<Longrightarrow> lane_on_tape (files_of B') la'"
  using on_tape_write [OF assms(1)] assms(2) by (auto simp: lane_on_tape_def lane_target_def)

definition tapes_ok :: "lane list \<Rightarrow> string list \<Rightarrow> nat \<Rightarrow> shard_state \<Rightarrow> bool" where
  "tapes_ok w es n s \<longleftrightarrow> list_all (lane_on_tape (orch_files (as_orch s))) w \<and> sa_errors s = es \<and> sa_files s = n"

lemma tapes_ok_view: "batch_view s' = batch_view s \<Longrightarrow> tapes_ok w es n s \<Longrightarrow> tapes_ok w es n s'"
  by (simp add: batch_view_def tapes_ok_def)

lemma wp_tapes: "keepsv batch_view m \<Longrightarrow> tapes_ok w es n s \<Longrightarrow> wp m (\<lambda>_. tapes_ok w es n) (\<lambda>_ _. True) s"
  by (rule wp_kf [of batch_view]) (auto intro: tapes_ok_view)

definition mounts_ok :: "shard_state \<Rightarrow> bool" where
  "mounts_ok s \<longleftrightarrow> (\<forall>b m. dict_get (sa_mounts s) b = Some m \<longrightarrow> mk_barcode b = Inr (mh_barcode m))"

lemma mounts_ok_view: "mount_view s' = mount_view s \<Longrightarrow> mounts_ok s \<Longrightarrow> mounts_ok s'"
  by (simp add: mount_view_def mounts_ok_def)

lemma wp_mount_lanes:
  assumes "mounts_ok s"
  shows "wp (mount_lanes ae refs) (\<lambda>_. mounts_ok) (\<lambda>_ _. True) s"
  unfolding mount_lanes_def
proof (rule wp_forM [of mounts_ok, OF assms])
  fix r s1
  assume ok: "mounts_ok s1"
  have mnt: "wp (withenv ae (\<lambda>e. on_orch (on_ltfs (ltfs_mount (oe_handle_id e) b READ_WRITE))))
      (\<lambda>m s3. mk_barcode b = Inr (mh_barcode m) \<and> mount_view s3 = mount_view s2) (\<lambda>_ _. True) s2" for b s2
  proof (rule wp_both)
    show "wp (withenv ae (\<lambda>e. on_orch (on_ltfs (ltfs_mount (oe_handle_id e) b READ_WRITE)))) (\<lambda>m _. mk_barcode b = Inr (mh_barcode m)) (\<lambda>_ _. True) s2"
      by (simp add: withenv_def wp_bind wp_def [of tickM] tickM_def on_orch_def on_ltfs_def wp_zoom wp_mount_barcode)
    show "wp (withenv ae (\<lambda>e. on_orch (on_ltfs (ltfs_mount (oe_handle_id e) b READ_WRITE)))) (\<lambda>_ s3. mount_view s3 = mount_view s2) (\<lambda>_ _. True) s2"
      by (rule wp_kf [of mount_view]) (intro kf_intros)
  qed simp
  have add: "mounts_ok (s3\<lparr>sa_mounts := dict_set b m (sa_mounts s3)\<rparr>)" if "mounts_ok s3" "mk_barcode b = Inr (mh_barcode m)" for b m s3
    using that by (simp add: mounts_ok_def dict_simps)
  show "wp (thenM (verify_lease ae r) (bindM (getsM (\<lambda>s. dh_barcode (lease_handle s r))) (\<lambda>b.
        bindM (withenv ae (\<lambda>e. on_orch (on_ltfs (ltfs_mount (oe_handle_id e) b READ_WRITE)))) (\<lambda>m.
         modifyM (\<lambda>s. s\<lparr>sa_mounts := dict_set b m (sa_mounts s)\<rparr>))))) (\<lambda>_. mounts_ok) (\<lambda>_ _. True) s1"
    unfolding wp_then wp_bind wp_gets wp_modify
    by (rule wp_kf [OF mounted.kf_verify], rule wp_mono [OF mnt]) (auto intro!: add intro: mounts_ok_view ok)
qed

lemma wp_load_and_mount_lanes:
  assumes "tapes_ok w es n s" and "sa_mounts s = []"
  shows "wp (load_and_mount_lanes ae refs jid) (\<lambda>_ s'. tapes_ok w es n s' \<and> mounts_ok s') (\<lambda>_ _. True) s"
proof (rule wp_both)
  show "wp (load_and_mount_lanes ae refs jid) (\<lambda>_. tapes_ok w es n) (\<lambda>_ _. True) s"
    by (rule wp_tapes [OF tapes.kf_load_mount_lanes assms(1)])
  have ok: "mounts_ok s" using assms(2) by (simp add: mounts_ok_def)
  show "wp (load_and_mount_lanes ae refs jid) (\<lambda>_. mounts_ok) (\<lambda>_ _. True) s"
    unfolding load_and_mount_lanes_def wp_then
    by (rule wp_kf [OF mounted.kf_load_lanes], rule wp_kf [OF mounted.kf_record_physical], rule wp_mount_lanes)
      (use ok in \<open>auto intro: mounts_ok_view\<close>)
qed simp

lemma wp_lane_write:
  assumes "mk_barcode (mh_barcode m) = Inr k"
  shows "wp (lane_write ae m p content) (\<lambda>_ s'. writes k (path_str (pure_posix p)) content (or_ltfs (as_orch s)) (or_ltfs (as_orch s'))
     \<and> sa_errors s' = sa_errors s \<and> sa_files s' = sa_files s) (\<lambda>_ _. True) s"
  unfolding lane_write_def withenv_def wp_bind wp_then wp_return on_orch_def on_ltfs_def wp_zoom
  by (simp add: wp_def [of tickM] tickM_def) (rule wp_mono [OF wp_write_file [OF assms]], auto)

lemma kf_lane_room [kf_intros]: "keepsv batch_view (lane_room b sz)"
  and kf_lane_check [kf_intros]: "keepsv batch_view (lane_check m p ck)"
  unfolding lane_room_def lane_check_def by (intro kf_intros)+

definition pool_ok :: "lane list \<Rightarrow> lane list \<Rightarrow> string list \<Rightarrow> nat \<Rightarrow> (nat \<Rightarrow> nat) \<Rightarrow> shard_state \<Rightarrow> bool" where
  "pool_ok w lanes es n c s \<longleftrightarrow> tapes_ok w es n s \<and> (\<forall>j < length lanes. 2 \<le> c j \<longrightarrow> lane_on_tape (orch_files (as_orch s)) (lanes ! j))"

lemma pool_ok_view: "pool_ok w lanes es n c s \<Longrightarrow> batch_view s' = batch_view s \<Longrightarrow> pool_ok w lanes es n c s'"
  by (simp add: pool_ok_def tapes_ok_def batch_view_def)

lemma worker_step:
  assumes "pool_ok w lanes es n c s" and "i < length lanes" and "c i < 3" and "(lane_worker ae (lanes ! i) m ! c i) s = (Inr (), s')"
    and m: "mk_barcode (ln_barcode (lanes ! i)) = Inr (mh_barcode m)" and "distinct (map lane_target (w @ lanes))"
  shows "pool_ok w lanes es n (c(i := Suc (c i))) s'"
proof -
  let ?la = "lanes ! i"
  consider "c i = 0" | "c i = 1" | "c i = 2" using assms(3) by linarith
  then show ?thesis
  proof cases
    case 1
    then have "batch_view s' = batch_view s"
      using assms(4) by (intro keepsvD [OF kf_lane_room]) (simp add: lane_worker_def)
    then have "pool_ok w lanes es n c s'" by (rule pool_ok_view [OF assms(1)])
    with 1 show ?thesis by (simp add: pool_ok_def)
  next
    case 2
    have "writes (mh_barcode m) (lane_path ?la) (ln_content ?la) (or_ltfs (as_orch s)) (or_ltfs (as_orch s'))
        \<and> sa_errors s' = sa_errors s \<and> sa_files s' = sa_files s"
      using wp_returns [OF wp_lane_write [OF mk_barcode_idem [OF m]]] assms(4) 2 by (simp add: lane_worker_def lane_path_def)
    then have wr: "writes (mh_barcode m) (lane_path ?la) (ln_content ?la) (or_ltfs (as_orch s)) (or_ltfs (as_orch s'))"
      and same: "sa_errors s' = sa_errors s" "sa_files s' = sa_files s" by simp_all
    note on = lane_on_tape_write [OF wr m]
    have "lane_target ` set w \<inter> lane_target ` set lanes = {}" using assms(6) by simp
    then have "lane_target x \<noteq> lane_target ?la" if "x \<in> set w" for x using that nth_mem [OF assms(2)] by blast
    then have "list_all (lane_on_tape (orch_files (as_orch s'))) w"
      using assms(1) on(2) by (simp add: pool_ok_def tapes_ok_def list_all_iff)
    moreover have "lane_on_tape (orch_files (as_orch s')) (lanes ! j)" if "j < length lanes" "2 \<le> c j" for j
    proof (rule on(2))
      show "lane_target (lanes ! j) \<noteq> lane_target ?la"
        using 2 assms(2,6) that nth_eq_iff_index_eq [of "map lane_target lanes" j i] by auto
      show "lane_on_tape (orch_files (as_orch s)) (lanes ! j)" using assms(1) that by (simp add: pool_ok_def)
    qed
    ultimately show ?thesis
      using assms(1) on(1) same by (simp add: pool_ok_def tapes_ok_def)
  next
    case 3
    then have "batch_view s' = batch_view s"
      using assms(4) by (intro keepsvD [OF kf_lane_check]) (simp add: lane_worker_def)
    then have "pool_ok w lanes es n c s'" by (rule pool_ok_view [OF assms(1)])
    with 3 show ?thesis by (simp add: pool_ok_def)
  qed
qed

lemma wp_write_lanes:
  assumes "tapes_ok w es n s" and "mounts_ok s" and "distinct (map lane_target (w @ lanes))"
  shows "wp (bindM (lane_workers ae lanes) (\<lambda>workers. bindM tickM (\<lambda>k. run_pool (av_schedule ae k) (av_pick ae k) workers)))
     (\<lambda>_. tapes_ok (w @ lanes) es n) (\<lambda>_ _. True) s"
proof -
  let ?f = "\<lambda>la. case dict_get (sa_mounts s) (ln_barcode la) of None \<Rightarrow> Inl KeyError | Some m \<Rightarrow> Inr (lane_worker ae la m)"
  have pool: "wp (run_pool sched pick ws) (\<lambda>_. tapes_ok (w @ lanes) es n) (\<lambda>_ _. True) s1"
    if ws: "mapR ?f lanes = Inr ws" and ok: "tapes_ok w es n s1" for sched pick ws s1
  proof (rule wp_run_pool [where I = "pool_ok w lanes es n"])
    have len: "length ws = length lanes" using mapR_nth [OF ws] by simp
    have each: "\<exists>m. ws ! i = lane_worker ae (lanes ! i) m \<and> mk_barcode (ln_barcode (lanes ! i)) = Inr (mh_barcode m)" if "i < length ws" for i
    proof -
      have "?f (lanes ! i) = Inr (ws ! i)" using mapR_nth [OF ws] that by simp
      then obtain m where "dict_get (sa_mounts s) (ln_barcode (lanes ! i)) = Some m" "ws ! i = lane_worker ae (lanes ! i) m"
        by (auto split: option.splits)
      with assms(2) show ?thesis by (auto simp: mounts_ok_def)
    qed
    have l3: "length (lane_worker ae la m) = 3" for la m by (simp add: lane_worker_def)
    show "pool_ok w lanes es n (\<lambda>_. 0) s1" using ok by (simp add: pool_ok_def)
    show "pool_ok w lanes es n (c(i := Suc (c i))) s3"
      if "pool_ok w lanes es n c s2" "i < length ws" "c i < length (ws ! i)" "(ws ! i ! c i) s2 = (Inr (), s3)" for i c s2 s3
    proof -
      from each [OF that(2)] obtain m where m: "ws ! i = lane_worker ae (lanes ! i) m" "mk_barcode (ln_barcode (lanes ! i)) = Inr (mh_barcode m)" by blast
      show ?thesis by (rule worker_step [OF that(1), where m = m and ae = ae]) (use that len m l3 assms(3) in auto)
    qed
    show "tapes_ok (w @ lanes) es n s2" if "pool_ok w lanes es n c s2" "\<And>i. i < length ws \<Longrightarrow> c i = length (ws ! i)" for c s2
    proof -
      have "2 \<le> c i" if "i < length lanes" for i
      proof -
        from each [of i] that len obtain m where "ws ! i = lane_worker ae (lanes ! i) m" by auto
        then show ?thesis using \<open>\<And>i. i < length ws \<Longrightarrow> c i = length (ws ! i)\<close> [of i] that len by (simp add: l3)
      qed
      with that(1) show ?thesis by (auto simp: pool_ok_def tapes_ok_def list_all_iff in_set_conv_nth)
    qed
  qed
  have tick: "tapes_ok w es n (s\<lparr>as_tick := t\<rparr>)" for t using assms(1) by (simp add: tapes_ok_def)
  show ?thesis
    unfolding lane_workers_def
    by (simp add: wp_bind wp_gets wp_lift wp_def [of tickM] tickM_def split: sum.split) (auto intro!: pool tick)
qed

lemma kf_mark_verifying [kf_intros]: "keepsv batch_view (mark_verifying ae jid)"
  unfolding mark_verifying_def by (intro kf_intros)

lemma kf_commit_staged [kf_intros]: "keepsv batch_view (commit_staged ae jid refs)"
  unfolding commit_staged_def by (intro kf_intros)

lemma wp_write_and_commit:
  assumes "tapes_ok w es n s" and "mounts_ok s" and "distinct (map lane_target (w @ lanes))"
  shows "wp (write_and_commit ae jid refs lanes) (\<lambda>_. tapes_ok (w @ lanes) es n) (\<lambda>_ _. True) s"
proof -
  let ?lanes_run = "bindM (lane_workers ae lanes) (\<lambda>workers. bindM tickM (\<lambda>k. run_pool (av_schedule ae k) (av_pick ae k) workers))"
  let ?rest = "thenM (mark_verifying ae jid) (thenM (withenv ae (\<lambda>e. on_sched (modifyM (heartbeat cat_ops (oe_now e) refs))))
      (thenM (verify_leases ae refs) (thenM (clean_unmount_and_unload ae refs jid) (commit_staged ae jid refs))))"
  have rest: "keepsv batch_view ?rest" by (intro kf_intros)
  have eq: "write_and_commit ae jid refs lanes = thenM (verify_leases ae refs) (thenM ?lanes_run ?rest)"
    by (simp add: write_and_commit_def thenM_def bindM_def fun_eq_iff split: prod.splits sum.splits)
  have start: "tapes_ok w es n s1 \<and> mounts_ok s1" if "mount_view s1 = mount_view s" for s1
    using tapes_ok_view [OF _ assms(1)] mounts_ok_view [OF that assms(2)] that by (simp add: mount_view_def)
  show ?thesis
    unfolding eq wp_then [of "verify_leases _ _"]
  proof (rule wp_kf [OF mounted.kf_verify_leases])
    fix x s1
    assume "mount_view s1 = mount_view s"
    from start [OF this] have s1: "tapes_ok w es n s1" "mounts_ok s1" by simp_all
    show "wp (thenM ?lanes_run ?rest) (\<lambda>_. tapes_ok (w @ lanes) es n) (\<lambda>_ _. True) s1"
      unfolding wp_then [of ?lanes_run] by (rule wp_mono [OF wp_write_lanes [OF s1 assms(3)]]) (auto intro: wp_tapes [OF rest])
  qed
qed

lemma kf_new_file_record [kf_intros]: "keepsv mount_view (new_file_record ae path content sz vg k idx bs mode parent)"
  unfolding new_file_record_def by (intro kf_intros)

lemma kf_stage_instance [kf_intros]: "keepsv mount_view (stage_instance ae jid frid b p)"
  unfolding stage_instance_def by (intro kf_intros)

lemma kf_shard_locals [kf_intros]:
  "keepsv mount_view (add_staged ids)"
  "keepsv mount_view (modifyM (\<lambda>s. s\<lparr>sa_batch_bytes := bb s, sa_group_ids := gg s\<rparr>))"
  "keepsv batch_view (modifyM reset_batch)"
  unfolding add_staged_def by (auto intro!: kf_modify simp: mount_view_def batch_view_def reset_batch_def)

lemma kf_stage_file [kf_intros]: "keepsv mount_view (stage_file ae rq vg jid item)"
  unfolding stage_file_def Let_def by (intro kf_intros)

lemma kf_stage_shard [kf_intros]: "keepsv mount_view (stage_shard ae rq vg jid path frid k item)"
  unfolding stage_shard_def by (intro kf_intros)

text \<open>The writes of a mode after its staging.\<close>

lemma wp_staged_lanes:
  assumes "tapes_ok w es n s" and "sa_mounts s = []" and "distinct (map lane_target (w @ lanes))" and "keepsv mount_view stage"
    and "\<And>s'. tapes_ok (w @ lanes) es n s' \<Longrightarrow> wp m Q (\<lambda>_ _. True) s'"
  shows "wp (thenM (load_and_mount_lanes ae refs jid) (thenM stage (thenM (write_and_commit ae jid refs lanes) m))) Q (\<lambda>_ _. True) s"
  unfolding wp_then
proof (rule wp_mono [OF wp_load_and_mount_lanes [OF assms(1,2)]], rule wp_kf [OF assms(4)])
  fix x x1 s1 s2
  assume "tapes_ok w es n s1 \<and> mounts_ok s1" and v: "mount_view s2 = mount_view s1"
  then have "tapes_ok w es n s2" "mounts_ok s2"
    using tapes_ok_view mounts_ok_view [OF v] by (auto simp: mount_view_def)
  then show "wp (write_and_commit ae jid refs lanes) (\<lambda>_. wp m Q (\<lambda>_ _. True)) (\<lambda>_ _. True) s2"
    by (rule wp_mono [OF wp_write_and_commit [OF _ _ assms(3)]]) (auto intro: assms(5))
qed simp

lemma wp_stripe_body:
  assumes "tapes_ok w es n s" and "sa_mounts s = []" and "distinct (map lane_target (w @ map (stripe_lane rq) batch))"
  shows "wp (stripe_body ae rq vg jid refs batch) (\<lambda>_. tapes_ok (w @ map (stripe_lane rq) batch) es (n + length batch)) (\<lambda>_ _. True) s"
  unfolding stripe_body_def
  by (rule wp_staged_lanes [OF assms]) (auto intro!: kf_intros simp: wp_modify tapes_ok_def)

section \<open>The job over whole files\<close>

definition batch_inv :: "lane list \<Rightarrow> nat \<Rightarrow> shard_state \<Rightarrow> bool" where
  "batch_inv w n s \<longleftrightarrow> (sa_errors s = [] \<longrightarrow> tapes_ok w [] n s)"

lemma batch_inv_view: "batch_view s' = batch_view s \<Longrightarrow> batch_inv w n s \<Longrightarrow> batch_inv w n s'"
  by (simp add: batch_inv_def tapes_ok_def batch_view_def)

lemma wp_batch_end:
  assumes "batch_inv w n s"
  shows "wp (thenM (cleanup_unless_fenced ae refs jid b) (release_leases_of ae refs)) (\<lambda>_. batch_inv w n) (\<lambda>_ _. True) s"
  unfolding wp_then
proof (rule tapes.wp_best_effort)
  have release: "wp (release_leases_of ae refs) (\<lambda>_. batch_inv w n) (\<lambda>_ _. True) s1" if "batch_inv w n s1" for s1
    by (rule wp_kf [OF tapes.kf_release_leases_of]) (rule batch_inv_view, assumption, rule that)
  fix s'
  assume v: "batch_view s' = batch_view s"
  show "wp (release_leases_of ae refs) (\<lambda>_. batch_inv w n) (\<lambda>_ _. True) s'"
    by (rule release [OF batch_inv_view [OF v assms]])
  show "wp (release_leases_of ae refs) (\<lambda>_. batch_inv w n) (\<lambda>_ _. True) (s'\<lparr>sa_errors := [PHYSICAL_STATE_UNKNOWN_TEXT]\<rparr>)"
    by (rule release) (simp add: batch_inv_def)
qed

lemma wp_fenced_out: "wp (fenced_out ae jid bs) (\<lambda>_ _. False) (\<lambda>_ _. True) s"
  unfolding fenced_out_def wp_then wp_raise by (auto simp: wp_modify intro: wp_mono [OF wp_true])

lemma wp_archive_stripe_batch:
  assumes "batch_inv w n s" and "distinct (map lane_target (w @ map (stripe_lane rq) batch))"
  shows "wp (archive_stripe_batch ae rq vg jid batch) (\<lambda>_. batch_inv (w @ map (stripe_lane rq) batch) (n + length batch)) (\<lambda>_ _. True) s"
proof -
  let ?w = "if sa_errors s = [] then w else []"
  let ?n = "sa_files s"
  let ?Q = "batch_inv (w @ map (stripe_lane rq) batch) (n + length batch)"
  have start: "tapes_ok ?w (sa_errors s) ?n (reset_batch s1) \<and> sa_mounts (reset_batch s1) = []" if "batch_view s1 = batch_view s" for s1
    using that assms(1) by (auto simp: batch_inv_def tapes_ok_def batch_view_def reset_batch_def)
  have d: "distinct (map lane_target (?w @ map (stripe_lane rq) batch))" using assms(2) by auto
  have done_ok: "?Q s2" if "tapes_ok (?w @ map (stripe_lane rq) batch) (sa_errors s) (?n + length batch) s2" for s2
    using that assms(1) by (auto simp: batch_inv_def tapes_ok_def split: if_splits)
  have handler: "wp (if x = StaleLeaseError then fenced_out ae jid bs
      else thenM (journal_failure ae jid ''failed'' [(''error'', J_str (av_class_name ae x))])
             (modifyM (\<lambda>s. s\<lparr>sa_errors := sa_errors s @ [shard_job_error ae x]\<rparr>))) (\<lambda>_. ?Q) (\<lambda>_ _. True) s2" for x bs s2
    by (auto simp: wp_if wp_then wp_modify batch_inv_def intro: wp_mono [OF wp_fenced_out] wp_mono [OF wp_true])
  have body: "wp (finallyM (catchM (stripe_body ae rq vg jid refs batch) (\<lambda>x.
            if x = StaleLeaseError then fenced_out ae jid bs
            else thenM (journal_failure ae jid ''failed'' [(''error'', J_str (av_class_name ae x))])
                  (modifyM (\<lambda>s. s\<lparr>sa_errors := sa_errors s @ [shard_job_error ae x]\<rparr>))))
         (thenM (cleanup_unless_fenced ae refs jid True) (release_leases_of ae refs))) (\<lambda>_. ?Q) (\<lambda>_ _. True) (reset_batch s1)"
    if "batch_view s1 = batch_view s" for refs bs s1
    using start [OF that]
    by (intro wp_finally_any [where Q = "\<lambda>_. ?Q"] wp_batch_end)
      (auto simp: wp_catch intro!: wp_mono [OF wp_stripe_body [OF _ _ d]] done_ok handler)
  show ?thesis
    unfolding archive_stripe_batch_def Let_def wp_bind wp_then wp_modify
    by (rule wp_kf [OF tapes.kf_acquire_many], rule wp_kf [OF tapes.kf_journal], rule body) simp
qed

lemma concat_batch_loop: "concat (batch_loop k cur xs) = cur @ xs"
  by (induction k cur xs rule: batch_loop.induct) (auto simp: Let_def)

lemma concat_stripe_batches:
  "concat (stripe_batches lanes files) = map (\<lambda>(i, f). (f, lanes ! (i mod length lanes))) (zip [0..<length files] files)"
  by (simp add: stripe_batches_def concat_batch_loop)

lemma wp_archive_stripe:
  assumes "sa_errors s = []" and "sa_files s = 0" and "distinct (map lane_target (map (stripe_lane rq) (concat (stripe_batches (sq_lane_barcodes rq) files))))"
  shows "wp (archive_stripe ae rq vg jid files)
     (\<lambda>_. batch_inv (map (stripe_lane rq) (concat (stripe_batches (sq_lane_barcodes rq) files))) (length files)) (\<lambda>_ _. True) s"
proof -
  let ?bs = "stripe_batches (sq_lane_barcodes rq) files"
  have "wp (forM ?bs (archive_stripe_batch ae rq vg jid))
      (\<lambda>_. batch_inv (map (stripe_lane rq) (concat ?bs)) (length (concat ?bs))) (\<lambda>_ _. True) s"
  proof (rule wp_forM_prefix [where I = "\<lambda>ys. batch_inv (map (stripe_lane rq) (concat ys)) (length (concat ys))"])
    show "batch_inv (map (stripe_lane rq) (concat [])) (length (concat [])) s" using assms by (simp add: batch_inv_def tapes_ok_def)
    fix ys x zs t
    assume split: "?bs = ys @ x # zs" and inv: "batch_inv (map (stripe_lane rq) (concat ys)) (length (concat ys)) t"
    have "distinct (map lane_target (map (stripe_lane rq) (concat ys) @ map (stripe_lane rq) x))" using assms(3) unfolding split by (simp add: Int_Un_distrib)
    from wp_archive_stripe_batch [OF inv this, of ae vg jid]
    show "wp (archive_stripe_batch ae rq vg jid x) (\<lambda>_. batch_inv (map (stripe_lane rq) (concat (ys @ [x]))) (length (concat (ys @ [x])))) (\<lambda>_ _. True) t"
      by simp
  qed
  then show ?thesis
    by (simp add: archive_stripe_def wp_raise concat_stripe_batches)
qed

lemma wp_job_state_view:
  "wp (job_state_to ae jid st err) (\<lambda>_ s'. job_in jid st (job_catalog s') \<and> batch_view s' = batch_view s) (\<lambda>_ _. True) s"
  by (rule wp_both [OF wp_job_state wp_kf [OF tapes.kf_job_state, where Q = "\<lambda>_ s'. batch_view s' = batch_view s"]]) simp_all

definition sharded_sources :: "sharded_request \<Rightarrow> (string \<times> bytes) list" where
  "sharded_sources rq = sort_key (\<lambda>(p, b). px_parts (pure_posix p)) (sq_files rq)"

definition stripe_lanes :: "sharded_request \<Rightarrow> lane list" where
  "stripe_lanes rq =
     map (\<lambda>(i, f). stripe_lane rq (f, sq_lane_barcodes rq ! (i mod length (sq_lane_barcodes rq)))) (zip [0..<length (sharded_sources rq)] (sharded_sources rq))"

text \<open>C7. When the sharded archive of whole files returns, its job is completed or, if it reports an error, failed and
  recoverable. Without an error every source file is on the tape of its lane, the lanes taken in turn, under its path with
  its bytes, and the number of files is that of the source. This holds for every interleaving of the lane workers and
  whatever other jobs do to the catalog, as long as no two files have the same place on the same tape.\<close>

theorem sharded_files_on_tape:
  assumes "run_sharded_archive ae rq jid s = (Inr res, s')" and "\<not> sq_dry_run rq"
    and "sq_mode rq = shard_mode.SM_BLOCK_STRIPE \<longrightarrow> length (sq_lane_barcodes rq) < 2"
    and "distinct (map lane_target (stripe_lanes rq))"
  shows "job_in jid (if sres_errors res = [] then ''completed'' else ''failed_recoverable'') (job_catalog s')
     \<and> (sres_errors res = [] \<longrightarrow> list_all (lane_on_tape (orch_files (as_orch s'))) (stripe_lanes rq)
          \<and> sres_files_archived res = length (sharded_sources rq))"
proof -
  let ?fs = "sort_key (\<lambda>(p, b). px_parts (pure_posix p)) (sq_files rq)"
  let ?res = "\<lambda>n k ids es. \<lparr>sres_job_id = jid, sres_files_archived = n, sres_bytes_archived = k, sres_tapes_used = sq_lane_barcodes rq,
            sres_shard_group_ids = ids, sres_errors = es\<rparr>"
  let ?st = "\<lambda>res. if sres_errors res = [] then ''completed'' else ''failed_recoverable''"
  let ?Q = "\<lambda>res s2. job_in jid (?st res) (job_catalog s2)
     \<and> (sres_errors res = [] \<longrightarrow> list_all (lane_on_tape (orch_files (as_orch s2))) (stripe_lanes rq) \<and> sres_files_archived res = length ?fs)"
  have fs: "sharded_sources rq = ?fs" by (simp add: sharded_sources_def)
  have lanes: "map (stripe_lane rq) (concat (stripe_batches (sq_lane_barcodes rq) ?fs)) = stripe_lanes rq"
    by (simp add: concat_stripe_batches stripe_lanes_def fs case_prod_unfold)
  have finish: "wp (bindM (getsM (\<lambda>s. ?res (sa_files s) (sa_bytes s) (sa_group_ids s) (sa_errors s))) (\<lambda>res.
         thenM (job_state_to ae jid (if sres_errors res = [] then ''completed'' else ''failed_recoverable'') (summarize_errors (sres_errors res)))
          (returnM res))) ?Q (\<lambda>_ _. True) s2" if "batch_inv (stripe_lanes rq) (length ?fs) s2" for s2
    unfolding wp_bind wp_gets wp_then wp_return
    by (rule wp_mono [OF wp_job_state_view]) (use that in \<open>auto simp: batch_inv_def tapes_ok_def batch_view_def\<close>)
  have work: "wp (thenM (archive_stripe ae rq vg jid ?fs) m) ?Q (\<lambda>_ _. True) (s2\<lparr>sa_group_ids := [], sa_errors := [], sa_files := 0, sa_bytes := 0\<rparr>)"
    if "\<And>s3. batch_inv (stripe_lanes rq) (length ?fs) s3 \<Longrightarrow> wp m ?Q (\<lambda>_ _. True) s3" for vg m s2
    unfolding wp_then by (rule wp_mono [OF wp_archive_stripe]) (use that lanes assms(4) in auto)
  have empty: "wp (thenM (job_state_to ae jid ''completed'' None) (returnM (?res 0 0 [] []))) ?Q (\<lambda>_ _. True) s2" if "?fs = []" for s2 :: shard_state
    unfolding wp_then wp_return
    by (rule wp_mono [OF wp_job_state_view]) (use that in \<open>auto simp: stripe_lanes_def fs\<close>)
  have "wp (run_sharded_archive ae rq jid) ?Q (\<lambda>_ _. True) s"
  proof (cases "?fs = []")
    case True
    then show ?thesis
      unfolding run_sharded_archive_def Let_def using empty [OF True] assms(2) by (intro wp_then_any) simp
  next
    case False
    have mode: "\<not> (sq_mode rq = shard_mode.SM_BLOCK_STRIPE \<and> 2 \<le> length (sq_lane_barcodes rq))" using assms(3) by auto
    show ?thesis
      unfolding run_sharded_archive_def Let_def if_not_P [OF assms(2)] if_not_P [OF False] if_not_P [OF mode]
      by (rule wp_then_any, rule wp_bind_any, rule wp_then_any, unfold wp_then [of "modifyM _"] wp_modify, rule work, rule finish)
  qed
  then show ?thesis using assms(1) unfolding fs by (rule wp_returns)
qed

theorem sharded_files_on_tape_witness:
  "\<exists>res s'. run_sharded_archive demo_job_env demo_shard_request ''j'' (demo_shard_state demo_job_library 1) = (Inr res, s')
     \<and> sres_errors res = [] \<and> sres_files_archived res = 1 \<and> on_tape (orch_files (as_orch s')) ''VTA001L8'' ''/stripe/a'' [1, 2]"
proof -
  obtain r s' where r: "run_sharded_archive demo_job_env demo_shard_request ''j'' (demo_shard_state demo_job_library 1) = (r, s')" by fastforce
  with demo_shard_returns obtain res where "r = Inr res" and ok: "sres_errors res = []" by (auto split: sum.splits)
  with r have run: "run_sharded_archive demo_job_env demo_shard_request ''j'' (demo_shard_state demo_job_library 1) = (Inr res, s')" by simp
  have lanes: "stripe_lanes demo_shard_request = [\<lparr>ln_barcode = ''VTA001L8'', ln_tape_path = ''/stripe/a'', ln_content = [1, 2]\<rparr>]" by code_simp
  have n: "length (sharded_sources demo_shard_request) = 1" by code_simp
  have key: "mk_barcode ''VTA001L8'' = Inr ''VTA001L8''" by code_simp
  have path: "path_str (pure_posix ''/stripe/a'') = ''/stripe/a''" by code_simp
  have dry: "\<not> sq_dry_run demo_shard_request" and mode: "sq_mode demo_shard_request = shard_mode.SM_BLOCK_STRIPE \<longrightarrow> length (sq_lane_barcodes demo_shard_request) < 2"
    by (simp_all add: demo_shard_request_def)
  from sharded_files_on_tape [OF run dry mode] run ok show ?thesis
    by (simp add: lanes n lane_on_tape_def lane_path_def key path)
qed

section \<open>One file in blocks\<close>

lemma mapR_map: "mapR f (map g xs) = mapR (\<lambda>x. f (g x)) xs"
  by (induction xs) simp_all

lemma wp_block_body:
  assumes "tapes_ok [] es n s" and "sa_mounts s = []"
    and shards: "mapR (\<lambda>spec. write_shard_to_tempfile content (nat (sh_index spec)) (length (sp_shards plan)) (sq_block_size rq)) (sp_shards plan) = Inr shards"
    and "distinct (map lane_target (map shard_lane (zip (sp_shards plan) shards)))"
  shows "wp (block_body ae rq vg jid refs path content plan) (\<lambda>_. tapes_ok (map shard_lane (zip (sp_shards plan) shards)) es n) (\<lambda>_ _. True) s"
proof -
  let ?parent = "new_file_record ae path content (sp_file_size plan) vg (int (length (sp_shards plan))) None (Some (sq_block_size rq)) (sq_mode rq) None"
  let ?stage = "\<lambda>rec. forM (zip (sp_shards plan) shards) (stage_shard ae rq vg jid path (rr_id rec) (int (length (sp_shards plan))))"
  let ?lanes = "map shard_lane (zip (sp_shards plan) shards)"
  have eq: "block_body ae rq vg jid refs path content plan = thenM (load_and_mount_lanes ae refs jid)
      (thenM (bindM ?parent ?stage) (thenM (write_and_commit ae jid refs ?lanes) (returnM ())))"
    by (simp add: block_body_def shards thenM_def bindM_def liftM_def returnM_def fun_eq_iff split: prod.splits sum.splits)
  have stage: "keepsv mount_view (bindM ?parent ?stage)" by (intro kf_intros)
  have d: "distinct (map lane_target ([] @ ?lanes))" using assms(4) by simp
  show ?thesis
    unfolding eq by (rule wp_staged_lanes [OF assms(1,2) d stage]) (simp add: wp_return)
qed

definition block_lane :: "sharded_request \<Rightarrow> string \<Rightarrow> string \<Rightarrow> bytes list \<Rightarrow> nat \<Rightarrow> lane" where
  "block_lane rq path gid shards i =
     \<lparr>ln_barcode = sq_lane_barcodes rq ! i,
      ln_tape_path = ''/block_stripe'' @ ''/'' @ gid @ ''/'' @ posix_name (pure_posix path) @ ''.shard'' @ fmt04 i, ln_content = shards ! i\<rparr>"

definition block_stored :: "job_env \<Rightarrow> sharded_request \<Rightarrow> string \<Rightarrow> bytes \<Rightarrow> shard_state \<Rightarrow> bool" where
  "block_stored ae rq path content s \<longleftrightarrow>
     (\<exists>gid shards. length shards = length (sq_lane_barcodes rq)
        \<and> reassemble_block_stripe (av_sha ae) shards (sq_block_size rq) = Some (content, compute_checksum (av_sha ae) content)
        \<and> list_all (\<lambda>i. lane_on_tape (orch_files (as_orch s)) (block_lane rq path gid shards i)) [0..<length (sq_lane_barcodes rq)])"

lemma block_stored_view: "batch_view s' = batch_view s \<Longrightarrow> block_stored ae rq path content s' = block_stored ae rq path content s"
  by (simp add: block_stored_def batch_view_def)

lemma wp_planned_block:
  assumes plan: "plan_block_stripe (av_sha ae) gid path (posix_name (pure_posix path)) content (sq_lane_barcodes rq) ''/block_stripe'' (sq_block_size rq) = Inr plan"
    and bs: "0 < sq_block_size rq" and "distinct (map mk_barcode (sq_lane_barcodes rq))"
  shows "wp (block_body ae rq vg jid refs path content plan) (\<lambda>_. block_stored ae rq path content) (\<lambda>_ _. True) (reset_batch s)"
proof -
  let ?n = "length (sq_lane_barcodes rq)"
  let ?shards = "map (\<lambda>i. concat (stripe ?n i (read_chunks (sq_block_size rq) content))) [0..<?n]"
  from plan have n: "0 < ?n" and sp: "sp_shards plan = map (\<lambda>i. \<lparr>sh_index = int i, sh_total = int ?n, sh_barcode = sq_lane_barcodes rq ! i,
      sh_tape_path = ''/block_stripe'' @ ''/'' @ gid @ ''/'' @ posix_name (pure_posix path) @ ''.shard'' @ fmt04 i, sh_block_start = 0,
      sh_block_end = lane_sizes ?n (sq_block_size rq) (int (length content)) ! i, sh_group_id = gid\<rparr>) [0..<?n]"
    by (auto simp: plan_block_stripe_def Let_def split: if_splits)
  have shards: "mapR (\<lambda>spec. write_shard_to_tempfile content (nat (sh_index spec)) (length (sp_shards plan)) (sq_block_size rq)) (sp_shards plan) = Inr ?shards"
    using mapR_write_shard [OF n, of content "sq_block_size rq" "[0..<?n]"] by (simp add: sp mapR_map o_def)
  have lanes: "map shard_lane (zip (sp_shards plan) ?shards) = map (block_lane rq path gid ?shards) [0..<?n]"
    by (rule nth_equalityI) (simp_all add: sp shard_lane_def block_lane_def)
  have "distinct (map lane_target (map (block_lane rq path gid ?shards) [0..<?n]))"
    using assms(3) by (simp add: distinct_conv_nth lane_target_def block_lane_def)
  then have d: "distinct (map lane_target (map shard_lane (zip (sp_shards plan) ?shards)))" unfolding lanes .
  have "length ?shards = ?n" by simp
  then have "block_stored ae rq path content s2" if "list_all (lane_on_tape (orch_files (as_orch s2))) (map (block_lane rq path gid ?shards) [0..<?n])" for s2
    using that reassemble_concat_stripes [OF bs n, of "av_sha ae" content] unfolding block_stored_def by (intro exI [of _ gid] exI [of _ ?shards]) (simp add: list_all_iff)
  then show ?thesis
    by (intro wp_mono [OF wp_block_body [OF _ _ shards d, of "sa_errors s" "sa_files s"]]) (auto simp: tapes_ok_def reset_batch_def lanes)
qed

lemma wp_block_end:
  assumes "block_stored ae rq path content s"
  shows "wp (thenM (cleanup_unless_fenced ae refs jid False) (release_leases_of ae refs)) (\<lambda>_. block_stored ae rq path content) (\<lambda>_ _. True) s"
proof -
  have "wp (release_leases_of ae refs) (\<lambda>_. block_stored ae rq path content) (\<lambda>_ _. True) s1" if "batch_view s1 = batch_view s" for s1
    by (rule wp_kf [OF tapes.kf_release_leases_of]) (metis block_stored_view that assms)
  then show ?thesis unfolding wp_then by (auto intro!: tapes.wp_best_effort)
qed

lemma wp_block_handler:
  "wp (if x = StaleLeaseError then fenced_out ae jid bs
       else thenM (journal_failure ae jid ''failed'' [(''error'', J_str (av_class_name ae x))]) (raiseM x)) (\<lambda>_. Q) (\<lambda>_ _. True) s"
  by (auto simp: wp_if wp_then wp_raise intro: wp_mono [OF wp_fenced_out] wp_mono [OF wp_true])

text \<open>When a file was archived in blocks, its shards are on the tapes of the lanes, one on each, under the paths of one
  shard group, and reassembling them gives the file back with its checksum; for every interleaving of the lane workers,
  every positive block size, and lanes that are different cartridges.\<close>

theorem block_striped_file_recoverable:
  assumes "archive_block_stripe ae rq vg jid (path, content) s = (Inr (), s')" and "0 < sq_block_size rq"
    and "distinct (map mk_barcode (sq_lane_barcodes rq))"
  shows "\<exists>gid shards. length shards = length (sq_lane_barcodes rq)
     \<and> reassemble_block_stripe (av_sha ae) shards (sq_block_size rq) = Some (content, compute_checksum (av_sha ae) content)
     \<and> list_all (\<lambda>i. lane_on_tape (orch_files (as_orch s')) (block_lane rq path gid shards i)) [0..<length (sq_lane_barcodes rq)]"
proof -
  have "wp (archive_block_stripe ae rq vg jid (path, content)) (\<lambda>_. block_stored ae rq path content) (\<lambda>_ _. True) s"
    unfolding archive_block_stripe_def prod.case wp_bind wp_lift wp_then wp_modify
    by (rule wp_mono [OF wp_true], split sum.split, intro conjI allI impI TrueI, rule wp_mono [OF wp_true], rule wp_mono [OF wp_true])
      (auto intro!: wp_finally_any [where Q = "\<lambda>_. block_stored ae rq path content"] wp_block_end wp_mono [OF wp_planned_block [OF _ assms(2,3)]]
        wp_block_handler simp: wp_catch)
  from wp_returns [OF this assms(1)] show ?thesis unfolding block_stored_def .
qed

section \<open>Instances in the catalog\<close>

definition inst_view :: "shard_state \<Rightarrow> instance_row list \<times> string list" where
  "inst_view s = (cat_instances (job_catalog s), sa_staged_ids s)"

interpretation inst: shard_cleanup_frame inst_view cat_instances
  by unfold_locales (simp_all add: inst_view_def)

lemma kf_tape_io [kf_intros]: "keepsv inst_view (on_orch (on_ltfs m))"
  by (auto simp: keepsv_def on_orch_def on_ltfs_def zoomM_def inst_view_def split: prod.splits)

lemma kf_lane_worker: "\<forall>m \<in> set (lane_worker ae la mh). keepsv inst_view m"
  by (auto simp: lane_worker_def lane_room_def lane_write_def lane_check_def intro!: kf_intros)

lemma mapR_mem: "mapR f xs = Inr ys \<Longrightarrow> y \<in> set ys \<Longrightarrow> \<exists>x \<in> set xs. f x = Inr y"
  using mapR_nth [of f xs ys] by (metis in_set_conv_nth)

lemma kf_write_lanes:
  "keepsv inst_view (bindM (lane_workers ae lanes) (\<lambda>ws. bindM tickM (\<lambda>k. run_pool (av_schedule ae k) (av_pick ae k) ws)))"
proof -
  have ws: "wp (lane_workers ae lanes) (\<lambda>ws s'. s' = s \<and> (\<forall>w \<in> set ws. \<forall>m \<in> set w. keepsv inst_view m)) (\<lambda>_ s'. s' = s) s" for s
    unfolding lane_workers_def wp_bind wp_gets wp_lift
    by (auto split: sum.splits option.splits dest!: mapR_mem intro: bspec [OF kf_lane_worker])
  have pool: "keepsv inst_view (bindM tickM (\<lambda>k. run_pool (av_schedule ae k) (av_pick ae k) ws))" if "\<forall>w \<in> set ws. \<forall>m \<in> set w. keepsv inst_view m" for ws
    by (intro kf_intros kf_pool that)
  show ?thesis
    unfolding keepsv_iff keeps_iff_wp wp_bind [of "lane_workers _ _"]
    by (intro allI impI, rule wp_mono [OF ws]) (auto intro!: wp_kf_both [OF pool])
qed

text \<open>The instances of a batch: \<open>ids\<close> are the identifiers the job draws, \<open>base\<close> the instances before it.\<close>

definition batch_instances :: "string set \<Rightarrow> instance_row list \<Rightarrow> instance_row list \<Rightarrow> shard_state \<Rightarrow> bool" where
  "batch_instances ids base new s \<longleftrightarrow> cat_instances (job_catalog s) = base @ new \<and> ir_id ` set new \<subseteq> ids"

definition places :: "instance_row list \<Rightarrow> (string \<times> string) list" where
  "places new = map (\<lambda>i. (ir_barcode i, ir_tape_path i)) new"

definition staged_only :: "string set \<Rightarrow> instance_row list \<Rightarrow> shard_state \<Rightarrow> bool" where
  "staged_only ids base s \<longleftrightarrow> (\<exists>new. batch_instances ids base new s \<and> (\<forall>i \<in> set new. ir_state i \<in> set STAGED_INSTANCE_STATES))"

definition staged_as :: "string set \<Rightarrow> instance_row list \<Rightarrow> (string \<times> string) list \<Rightarrow> string list \<Rightarrow> shard_state \<Rightarrow> bool" where
  "staged_as ids base ps pending s \<longleftrightarrow>
     (\<exists>new. batch_instances ids base new s \<and> (\<forall>i \<in> set new. ir_state i \<in> set STAGED_INSTANCE_STATES) \<and> places new = ps
        \<and> set (sa_staged_ids s) \<union> set pending = ir_id ` set new)"

definition committed_as :: "string set \<Rightarrow> instance_row list \<Rightarrow> (string \<times> string) list \<Rightarrow> shard_state \<Rightarrow> bool" where
  "committed_as ids base ps s \<longleftrightarrow>
     (\<exists>new. batch_instances ids base new s \<and> (\<forall>i \<in> set new. ir_state i = FI_ARCHIVED \<and> ir_checksum_verified i) \<and> places new = ps)"

lemma instances_view:
  assumes "inst_view s' = inst_view s"
  shows "staged_only ids base s' = staged_only ids base s" and "staged_as ids base ps pd s' = staged_as ids base ps pd s"
    and "committed_as ids base ps s' = committed_as ids base ps s"
  using assms by (simp_all add: inst_view_def staged_only_def staged_as_def committed_as_def batch_instances_def)

lemma staged_as_only: "staged_as ids base ps pd s \<Longrightarrow> staged_only ids base s"
  by (auto simp: staged_as_def staged_only_def)

text \<open>A step that keeps the view, in the middle of the staging.\<close>

lemma wp_staged_step:
  assumes "keepsv inst_view m" and "staged_as ids base ps pd s"
  shows "wp m (\<lambda>_. staged_as ids base ps pd) (\<lambda>_. staged_only ids base) s"
  by (rule wp_kf_both [OF assms(1)]) (use assms(2) instances_view staged_as_only in blast)+

lemma wp_journal_job: "(\<And>s'. inst_view s' = inst_view s \<Longrightarrow> Q () s') \<Longrightarrow> wp (journal_job ae jid ev detail) Q E s"
  by (simp add: journal_job_def withenv_def wp_bind wp_def [of tickM] tickM_def wp_then wp_return on_cat_def on_orch_def wp_zoom
      wp_def [of "journal _ _ _ _"] journal_def add_entry_def Let_def inst_view_def)

lemma kf_inst_record [kf_intros]: "keepsv inst_view (new_file_record ae path content sz vg k idx bs mode parent)"
proof -
  have "keepsv cat_instances (create_file_record i now path sz ck vg sc si bs prof par)" for i now ck sc si prof par
    by (auto simp: keepsv_def create_file_record_def Let_def split: option.splits)
  then show ?thesis unfolding new_file_record_def by (intro kf_intros inst.on_cat_keeps)
qed

lemma wp_stage_instance:
  assumes "staged_as (range (av_new_id ae)) base ps pd s"
  shows "wp (stage_instance ae jid frid b p) (\<lambda>i. staged_as (range (av_new_id ae)) base (ps @ [(b, p)]) (pd @ [i]))
     (\<lambda>_. staged_only (range (av_new_id ae)) base) s"
proof -
  obtain new where new: "cat_instances (job_catalog s) = base @ new" "ir_id ` set new \<subseteq> range (av_new_id ae)"
      "\<forall>i \<in> set new. ir_state i \<in> set STAGED_INSTANCE_STATES" "places new = ps" "set (sa_staged_ids s) \<union> set pd = ir_id ` set new"
    using assms by (auto simp: staged_as_def batch_instances_def)
  have create: "wp (create_staged_instance (av_new_id ae k) now jid frid b p FI_STAGING)
      (\<lambda>i c'. cat_instances c' = cat_instances c @ [i] \<and> ir_id i = av_new_id ae k \<and> ir_state i = FI_STAGING \<and> (ir_barcode i, ir_tape_path i) = (b, p))
      (\<lambda>_ c'. cat_instances c' = cat_instances c) c" for k now c
    by (auto simp: create_staged_instance_def wp_rules STAGED_INSTANCE_STATES_def Let_def wp_def [of "journal _ _ _ _"] journal_def add_entry_def
        split: option.splits)
  have ok: "staged_as (range (av_new_id ae)) base (ps @ [(ir_barcode i, ir_tape_path i)]) (pd @ [av_new_id ae k]) s'"
    if "cat_instances (job_catalog s') = cat_instances (job_catalog s) @ [i]" "ir_id i = av_new_id ae k" "ir_state i = FI_STAGING"
      "sa_staged_ids s' = sa_staged_ids s" for i k s'
    unfolding staged_as_def batch_instances_def
    by (intro exI [of _ "new @ [i]"]) (use that new in \<open>auto simp: places_def STAGED_INSTANCE_STATES_def\<close>)
  have no: "staged_only (range (av_new_id ae)) base s'" if "cat_instances (job_catalog s') = cat_instances (job_catalog s)" for s'
    unfolding staged_only_def batch_instances_def by (intro exI [of _ new]) (use that new in auto)
  show ?thesis
    unfolding stage_instance_def wp_bind wp_return on_cat_def on_orch_def wp_zoom
    by (simp add: wp_def [of tickM] tickM_def) (rule wp_mono [OF create], auto intro!: ok no)
qed

lemma wp_add_staged:
  assumes "staged_as ids base ps xs s"
  shows "wp (add_staged xs) (\<lambda>_. staged_as ids base ps []) E s"
  using assms by (auto simp: add_staged_def wp_modify staged_as_def batch_instances_def)

lemma wp_staged_bind:
  assumes "wp m (\<lambda>x. staged_as ids base ps (pd x)) (\<lambda>_. staged_only ids base) s"
    and "\<And>x s'. staged_as ids base ps (pd x) s' \<Longrightarrow> wp (f x) Q (\<lambda>_. staged_only ids base) s'"
  shows "wp (bindM m f) Q (\<lambda>_. staged_only ids base) s"
  unfolding wp_bind by (rule wp_mono [OF assms(1)]) (use assms(2) in auto)

abbreviation lane_place :: "lane \<Rightarrow> string \<times> string" where
  "lane_place la \<equiv> (ln_barcode la, ln_tape_path la)"

lemma wp_stage_file:
  assumes "staged_as (range (av_new_id ae)) base ps [] s"
  shows "wp (stage_file ae rq vg jid item)
     (\<lambda>_. staged_as (range (av_new_id ae)) base (ps @ [lane_place (stripe_lane rq item), lane_place (stripe_lane rq item)]) [])
     (\<lambda>_. staged_only (range (av_new_id ae)) base) s"
proof -
  obtain path content b where item: "item = ((path, content), b)" by (cases item) auto
  let ?p = "stripe_tape_path path (sq_source_path rq)"
  have place: "lane_place (stripe_lane rq item) = (b, ?p)" by (simp add: item stripe_lane_def)
  have rest: "keepsv inst_view (bindM tickM (\<lambda>k. modifyM (\<lambda>s. s\<lparr>sa_batch_bytes := sa_batch_bytes s + z, sa_group_ids := sa_group_ids s @ [av_new_id ae k]\<rparr>)))" for z
    by (intro kf_intros) (simp add: inst_view_def)
  show ?thesis
    unfolding stage_file_def item prod.case Let_def place [unfolded item]
    by (rule wp_staged_bind, rule wp_staged_step [OF kf_inst_record assms],
        rule wp_staged_bind, erule wp_stage_instance,
        rule wp_staged_bind, erule wp_staged_step [OF kf_inst_record],
        rule wp_staged_bind, erule wp_stage_instance,
        unfold wp_then, rule wp_mono [OF wp_add_staged [where E = "\<lambda>_ _. False"]])
      (auto intro!: wp_staged_step [OF rest])
qed

lemma load_instances_ids: "load_instances_in iids allowed c = Inr is \<Longrightarrow> map ir_id is = iids"
proof (induction iids arbitrary: "is")
  case (Cons i iids)
  then obtain x xs where "get_instance i c = Some x" "load_instances_in iids allowed c = Inr xs" "is = x # xs"
    by (auto simp: bindR_Inr_iff split: option.splits if_splits)
  with Cons.IH [of xs] show ?case by (auto simp: get_instance_def dest: find_SomeD)
qed simp

lemma set_dedup_ids [simp]: "set (dedup_ids xs) = set xs"
  by (simp add: dedup_ids_def)

text \<open>A change of the instances with the given identifiers leaves the others alone.\<close>

lemma update_batch:
  assumes "cat_instances c = base @ new" and "\<forall>i \<in> set base. ir_id i \<notin> ids" and "ir_id ` set new = ids"
  shows "cat_instances (update_instances (\<lambda>i. ir_id i \<in> ids) f c) = base @ map f new"
  using assms by (auto simp: update_instances_def intro!: map_idI map_cong)

lemma wp_update_loaded:
  "wp (bindM (queryM (load_instances_in (dedup_ids iids) allowed)) (\<lambda>instances. modifyM (update_instances (\<lambda>i. ir_id i \<in> set (map ir_id instances)) f)))
     (\<lambda>_ c'. c' = update_instances (\<lambda>i. ir_id i \<in> set iids) f c) (\<lambda>_ c'. c' = c) c"
proof (cases "load_instances_in (dedup_ids iids) allowed c")
  case (Inr loaded)
  then have "set (map ir_id loaded) = set iids" using load_instances_ids by fastforce
  then show ?thesis by (simp only: wp_bind wp_query wp_modify Inr sum.case)
qed (simp add: wp_bind wp_query)

lemma wp_mark_verifying:
  assumes "staged_as ids base ps [] s" and "\<forall>i \<in> set base. ir_id i \<notin> ids"
  shows "wp (mark_verifying ae jid) (\<lambda>_. staged_as ids base ps []) (\<lambda>_. staged_only ids base) s"
proof -
  have mark: "wp (on_cat (mark_instances_verifying iids)) (\<lambda>_. staged_as ids base ps []) (\<lambda>_. staged_only ids base) s1"
    if st: "staged_as ids base ps [] s1" and iids: "sa_staged_ids s1 = iids" for s1 iids
  proof -
    obtain new where new: "cat_instances (job_catalog s1) = base @ new" "ir_id ` set new \<subseteq> ids" "places new = ps" "set iids = ir_id ` set new"
      using st iids by (auto simp: staged_as_def batch_instances_def)
    have b: "\<forall>i \<in> set base. ir_id i \<notin> set iids" using assms(2) new(2,4) by auto
    let ?f = "\<lambda>i. i\<lparr>ir_state := FI_VERIFYING\<rparr>"
    have upd: "cat_instances (update_instances (\<lambda>i. ir_id i \<in> set iids) ?f (job_catalog s1)) = base @ map ?f new"
      by (rule update_batch [OF new(1) b new(4) [symmetric]])
    have "staged_as ids base ps [] (s1\<lparr>as_orch := (as_orch s1)\<lparr>or_catalog := update_instances (\<lambda>i. ir_id i \<in> set iids) ?f (job_catalog s1)\<rparr>\<rparr>)"
      unfolding staged_as_def batch_instances_def
      by (intro exI [of _ "map ?f new"]) (use upd new iids in \<open>auto simp: places_def STAGED_INSTANCE_STATES_def o_def image_image\<close>)
    then show ?thesis
      unfolding on_cat_def on_orch_def wp_zoom mark_instances_verifying_def
      using staged_as_only [OF st] by (intro wp_mono [OF wp_update_loaded]) simp_all
  qed
  have j: "wp (journal_job ae jid ev d) (\<lambda>_ s2. staged_as ids base ps [] s2 \<and> sa_staged_ids s2 = sa_staged_ids s1) (\<lambda>_. staged_only ids base) s1"
    if "staged_as ids base ps [] s1" for s1 ev d
    by (rule wp_journal_job) (use that in \<open>simp add: inst_view_def staged_as_def batch_instances_def\<close>)
  show ?thesis
    unfolding mark_verifying_def wp_bind wp_gets wp_then
    by (rule wp_mono [OF j [OF assms(1)]], rule wp_mono [OF mark]) (auto intro: wp_mono [OF j])
qed

lemma wp_commit_staged:
  assumes "staged_as ids base ps [] s" and "\<forall>i \<in> set base. ir_id i \<notin> ids"
  shows "wp (commit_staged ae jid refs) (\<lambda>_. committed_as ids base ps) (\<lambda>_. staged_only ids base) s"
proof -
  have mark: "wp (withenv ae (\<lambda>e. on_cat (mark_instances_archived (oe_now e) (sa_staged_ids s) True))) (\<lambda>_. committed_as ids base ps) (\<lambda>_. staged_only ids base) s"
  proof -
    obtain new where new: "cat_instances (job_catalog s) = base @ new" "ir_id ` set new \<subseteq> ids" "places new = ps" "set (sa_staged_ids s) = ir_id ` set new"
      using assms(1) by (auto simp: staged_as_def batch_instances_def)
    have b: "\<forall>i \<in> set base. ir_id i \<notin> set (sa_staged_ids s)" using assms(2) new(2,4) by auto
    let ?f = "\<lambda>now i. i\<lparr>ir_state := FI_ARCHIVED, ir_archived_at := Some now, ir_checksum_verified := True\<rparr>"
    have upd: "cat_instances (update_instances (\<lambda>i. ir_id i \<in> set (sa_staged_ids s)) (?f now) (job_catalog s)) = base @ map (?f now) new" for now
      by (rule update_batch [OF new(1) b new(4) [symmetric]])
    have "committed_as ids base ps (s\<lparr>as_tick := t, as_orch := (as_orch s)\<lparr>or_catalog := update_instances (\<lambda>i. ir_id i \<in> set (sa_staged_ids s)) (?f now) (job_catalog s)\<rparr>\<rparr>)" for t now
      unfolding committed_as_def batch_instances_def
      by (intro exI [of _ "map (?f now) new"]) (use upd new in \<open>auto simp: places_def o_def image_image\<close>)
    moreover have "staged_only ids base (s\<lparr>as_tick := t\<rparr>)" for t
      using staged_as_only [OF assms(1)] by (simp add: staged_only_def batch_instances_def)
    ultimately show ?thesis
      unfolding withenv_def wp_bind [of tickM] on_cat_def on_orch_def wp_zoom mark_instances_archived_def
      by (simp only: wp_def [of tickM] tickM_def prod.case sum.case) (intro wp_mono [OF wp_update_loaded], simp_all)
  qed
  have j: "wp (journal_job ae jid ev d) (\<lambda>_. committed_as ids base ps) (\<lambda>_. staged_only ids base) s1" if "committed_as ids base ps s1" for s1 ev d
    by (rule wp_journal_job) (use that instances_view in blast)
  show ?thesis
    unfolding commit_staged_def wp_bind wp_gets prod.case wp_then wp_guard
    using staged_as_only [OF assms(1)] by (auto intro!: wp_mono [OF mark] j)
qed

lemma wp_staged_then:
  assumes "wp m (\<lambda>_. staged_as ids base ps pd) (\<lambda>_. staged_only ids base) s"
    and "\<And>s'. staged_as ids base ps pd s' \<Longrightarrow> wp n Q (\<lambda>_. staged_only ids base) s'"
  shows "wp (thenM m n) Q (\<lambda>_. staged_only ids base) s"
  unfolding thenM_def by (rule wp_staged_bind [OF assms])

lemma wp_commit_batch:
  assumes "staged_as ids base ps [] s" and "\<forall>i \<in> set base. ir_id i \<notin> ids"
  shows "wp (write_and_commit ae jid refs lanes) (\<lambda>_. committed_as ids base ps) (\<lambda>_. staged_only ids base) s"
proof -
  have eq: "write_and_commit ae jid refs lanes = thenM (verify_leases ae refs)
      (thenM (bindM (lane_workers ae lanes) (\<lambda>ws. bindM tickM (\<lambda>k. run_pool (av_schedule ae k) (av_pick ae k) ws)))
      (thenM (mark_verifying ae jid) (thenM (withenv ae (\<lambda>e. on_sched (modifyM (heartbeat cat_ops (oe_now e) refs))))
      (thenM (verify_leases ae refs) (thenM (clean_unmount_and_unload ae refs jid) (commit_staged ae jid refs))))))"
    by (simp add: write_and_commit_def thenM_def bindM_def fun_eq_iff split: prod.splits sum.splits)
  show ?thesis
    unfolding eq
    by (rule wp_staged_then, rule wp_staged_step [OF inst.kf_verify_leases assms(1)],
        rule wp_staged_then, erule wp_staged_step [OF kf_write_lanes],
        rule wp_staged_then, erule wp_mark_verifying [OF _ assms(2)],
        rule wp_staged_then, erule wp_staged_step [OF inst.kf_heartbeat_at],
        rule wp_staged_then, erule wp_staged_step [OF inst.kf_verify_leases],
        rule wp_staged_then, erule wp_staged_step [OF inst.kf_clean],
        erule wp_commit_staged [OF _ assms(2)])
qed

definition batch_places :: "sharded_request \<Rightarrow> ((string \<times> bytes) \<times> string) list \<Rightarrow> (string \<times> string) list" where
  "batch_places rq batch = concat (map (\<lambda>item. [lane_place (stripe_lane rq item), lane_place (stripe_lane rq item)]) batch)"

lemma wp_stage_batch:
  assumes "staged_as (range (av_new_id ae)) base [] [] s"
  shows "wp (forM batch (stage_file ae rq vg jid)) (\<lambda>_. staged_as (range (av_new_id ae)) base (batch_places rq batch) [])
     (\<lambda>_. staged_only (range (av_new_id ae)) base) s"
proof (rule wp_forM_prefix [where I = "\<lambda>ys. staged_as (range (av_new_id ae)) base (batch_places rq ys) []"])
  show "staged_as (range (av_new_id ae)) base (batch_places rq []) [] s" using assms by (simp add: batch_places_def)
  fix ys x t
  assume "staged_as (range (av_new_id ae)) base (batch_places rq ys) [] t"
  from wp_stage_file [OF this, of rq vg jid x]
  show "wp (stage_file ae rq vg jid x) (\<lambda>_. staged_as (range (av_new_id ae)) base (batch_places rq (ys @ [x])) [])
      (\<lambda>_. staged_only (range (av_new_id ae)) base) t"
    by (simp add: batch_places_def)
qed

lemma wp_stripe_commit:
  assumes "cat_instances (job_catalog s) = base" and "sa_staged_ids s = []" and "\<forall>i \<in> set base. ir_id i \<notin> range (av_new_id ae)"
  shows "wp (stripe_body ae rq vg jid refs batch) (\<lambda>_. committed_as (range (av_new_id ae)) base (batch_places rq batch))
     (\<lambda>_. staged_only (range (av_new_id ae)) base) s"
proof -
  have start: "staged_as (range (av_new_id ae)) base [] [] s"
    using assms(1,2) by (auto simp: staged_as_def batch_instances_def places_def)
  have last: "wp (modifyM (\<lambda>s. s\<lparr>sa_files := ff s, sa_bytes := bb s\<rparr>)) (\<lambda>_. committed_as ids base ps) E s1" if "committed_as ids base ps s1" for s1 ids ps ff bb E
    using that by (simp add: wp_modify committed_as_def batch_instances_def)
  show ?thesis
    unfolding stripe_body_def
    by (rule wp_staged_then, rule wp_staged_step [OF inst.kf_load_mount_lanes start],
        rule wp_staged_then, erule wp_stage_batch,
        unfold wp_then, rule wp_mono [OF wp_commit_batch [OF _ assms(3)]], assumption)
      (auto intro: last)
qed

text \<open>What follows the work of a batch changes no instance and takes no error back.\<close>

lemma kf_batch_end: "keepsv inst_view (thenM (cleanup_unless_fenced ae refs jid b) (release_leases_of ae refs))"
  by (intro kf_then inst.kf_cleanup inst.kf_release_leases_of) (simp add: inst_view_def)

lemma wp_end_errors:
  assumes "sa_errors s \<noteq> []"
  shows "wp (thenM (cleanup_unless_fenced ae refs jid b) (release_leases_of ae refs)) (\<lambda>_ s'. sa_errors s' \<noteq> []) (\<lambda>_ _. True) s"
proof -
  have "wp (release_leases_of ae refs) (\<lambda>_ s'. sa_errors s' \<noteq> []) (\<lambda>_ _. True) s1" if "sa_errors s1 \<noteq> []" for s1
    by (rule wp_kf [OF tapes.kf_release_leases_of]) (use that in \<open>simp add: batch_view_def\<close>)
  then show ?thesis
    unfolding wp_then using assms by (auto intro!: tapes.wp_best_effort simp: batch_view_def)
qed

definition settled :: "string set \<Rightarrow> instance_row list \<Rightarrow> (string \<times> string) list \<Rightarrow> shard_state \<Rightarrow> bool" where
  "settled ids base ps s \<longleftrightarrow> committed_as ids base ps s \<or> staged_only ids base s"

definition settled_ok :: "string set \<Rightarrow> instance_row list \<Rightarrow> (string \<times> string) list \<Rightarrow> shard_state \<Rightarrow> bool" where
  "settled_ok ids base ps s \<longleftrightarrow> committed_as ids base ps s \<or> staged_only ids base s \<and> sa_errors s \<noteq> []"

lemma wp_settled:
  assumes "keepsv inst_view m" and "settled ids base ps s"
  shows "wp m (\<lambda>_. settled ids base ps) (\<lambda>_. settled ids base ps) s"
  by (rule wp_kf_both [OF assms(1)]) (use assms(2) instances_view in \<open>unfold settled_def, blast+\<close>)

lemma wp_end_settled:
  assumes "settled_ok ids base ps s"
  shows "wp (thenM (cleanup_unless_fenced ae refs jid b) (release_leases_of ae refs)) (\<lambda>_. settled_ok ids base ps) (\<lambda>_. settled ids base ps) s"
proof (cases "committed_as ids base ps s")
  case True
  show ?thesis by (rule wp_kf_both [OF kf_batch_end]) (use True instances_view in \<open>unfold settled_ok_def settled_def, blast+\<close>)
next
  case False
  then have s: "staged_only ids base s" "sa_errors s \<noteq> []" using assms by (auto simp: settled_ok_def)
  have "wp (thenM (cleanup_unless_fenced ae refs jid b) (release_leases_of ae refs)) (\<lambda>_. staged_only ids base) (\<lambda>_. staged_only ids base) s"
    by (rule wp_kf_both [OF kf_batch_end]) (use s(1) instances_view in blast)+
  with wp_end_errors [OF s(2), of ae refs jid b] show ?thesis
    by (auto simp: settled_ok_def settled_def wp_def split: prod.splits sum.splits)
qed

lemma wp_batch_handler:
  assumes "staged_only ids base s"
  shows "wp (if x = StaleLeaseError then fenced_out ae jid bs
      else thenM (journal_failure ae jid ''failed'' [(''error'', J_str (av_class_name ae x))])
             (modifyM (\<lambda>s. s\<lparr>sa_errors := sa_errors s @ [shard_job_error ae x]\<rparr>))) (\<lambda>_. settled_ok ids base ps) (\<lambda>_. settled ids base ps) s"
proof -
  have s: "settled ids base ps s" using assms by (simp add: settled_def)
  have fence: "keepsv inst_view (thenM (modifyM (\<lambda>s. s\<lparr>sa_fenced_out := True\<rparr>)) (journal_failure ae jid ''fenced_out'' [(''barcodes'', J_strs bs)]))"
    by (intro kf_intros) (simp add: inst_view_def)
  have f: "wp (fenced_out ae jid bs :: unit sop) (\<lambda>_. settled_ok ids base ps) (\<lambda>_. settled ids base ps) s"
    using wp_settled [OF fence s] by (simp add: fenced_out_def wp_then wp_raise)
  have j: "wp (journal_failure ae jid ev d) (\<lambda>_. staged_only ids base) (\<lambda>_. settled ids base ps) s" for ev d
    by (rule wp_kf_both [OF inst.kf_journal_failure]) (use assms instances_view in \<open>unfold settled_def, blast+\<close>)
  have "wp (thenM (journal_failure ae jid ev d) (modifyM (\<lambda>s. s\<lparr>sa_errors := sa_errors s @ [shard_job_error ae x]\<rparr>)))
      (\<lambda>_. settled_ok ids base ps) (\<lambda>_. settled ids base ps) s" for ev d
    unfolding wp_then wp_modify by (rule wp_mono [OF j]) (auto simp: settled_ok_def staged_only_def batch_instances_def)
  with f show ?thesis by simp
qed

text \<open>C8. A batch of whole files becomes visible all together or not at all. Its instances are appended to those the catalog
  had when the leases were granted, which are left as they are. Either all of them are archived, with their checksums
  verified, two for each file at its place on its lane's tape; or all of them are still staging or verifying, which no
  restore reads, and the batch raised an error or reported one.\<close>

theorem batch_commits_all_or_nothing:
  assumes "acquire_many ae (dedup_ids (map snd batch)) s = (Inr refs, s1)" and "archive_stripe_batch ae rq vg jid batch s = (r, s')"
    and "\<forall>i \<in> set (cat_instances (job_catalog s1)). ir_id i \<notin> range (av_new_id ae)"
  shows "\<exists>new. cat_instances (job_catalog s') = cat_instances (job_catalog s1) @ new
     \<and> (list_all (\<lambda>i. ir_state i = FI_ARCHIVED \<and> ir_checksum_verified i) new \<and> places new = batch_places rq batch
        \<or> list_all (\<lambda>i. ir_state i \<in> {FI_STAGING, FI_VERIFYING}) new \<and> (isl r \<or> sa_errors s' \<noteq> []))"
proof -
  let ?ids = "range (av_new_id ae)" and ?base = "cat_instances (job_catalog s1)" and ?ps = "batch_places rq batch"
  let ?rest = "thenM (journal_job ae jid ''lease_acquired'' [(''barcodes'', J_strs (dedup_ids (map snd batch)))])
      (thenM (modifyM reset_batch)
       (finallyM
         (catchM (stripe_body ae rq vg jid refs batch) (\<lambda>x.
            if x = StaleLeaseError then fenced_out ae jid (dedup_ids (map snd batch))
            else thenM (journal_failure ae jid ''failed'' [(''error'', J_str (av_class_name ae x))])
                  (modifyM (\<lambda>s. s\<lparr>sa_errors := sa_errors s @ [shard_job_error ae x]\<rparr>))))
         (thenM (cleanup_unless_fenced ae refs jid True) (release_leases_of ae refs))))"
  have run: "?rest s1 = (r, s')" using assms(1,2) by (simp add: archive_stripe_batch_def Let_def bindM_def)
  have start: "cat_instances (job_catalog (reset_batch s2)) = ?base" "sa_staged_ids (reset_batch s2) = []" if "inst_view s2 = inst_view s1" for s2
    using that by (simp_all add: reset_batch_def inst_view_def)
  have "wp ?rest (\<lambda>_. settled_ok ?ids ?base ?ps) (\<lambda>_. settled ?ids ?base ?ps) s1"
    unfolding wp_then [of "journal_job _ _ _ _"] wp_then [of "modifyM reset_batch"] wp_modify wp_finally wp_catch
  proof (rule wp_journal_job, rule wp_mono [OF wp_stripe_commit [OF start assms(3)]])
    show "wp (thenM (cleanup_unless_fenced ae refs jid True) (release_leases_of ae refs)) (\<lambda>_. settled_ok ?ids ?base ?ps) (\<lambda>_. settled ?ids ?base ?ps) t"
      if "committed_as ?ids ?base ?ps t" for t
      by (rule wp_end_settled) (simp add: settled_ok_def that)
  qed (assumption, assumption, rule wp_mono [OF wp_batch_handler], assumption, erule wp_end_settled, erule wp_settled [OF kf_batch_end])
  then have "settled ?ids ?base ?ps s'" and "isl r \<or> settled_ok ?ids ?base ?ps s'"
    using run by (auto simp: wp_def settled_ok_def settled_def split: sum.splits)
  then show ?thesis
    unfolding settled_def settled_ok_def committed_as_def staged_only_def batch_instances_def
    by (auto simp: list_all_iff STAGED_INSTANCE_STATES_def)
qed

theorem batch_commits_all_or_nothing_witness:
  "\<exists>r s' new. archive_stripe_batch demo_job_env demo_shard_request ''g'' ''j'' [((''/d/a'', [1, 2]), ''VTA001L8'')] (demo_shard_state demo_job_library 1) = (r, s')
     \<and> cat_instances (job_catalog s') = new
     \<and> (list_all (\<lambda>i. ir_state i = FI_ARCHIVED) new \<and> places new = [(''VTA001L8'', ''/stripe/a''), (''VTA001L8'', ''/stripe/a'')]
        \<or> list_all (\<lambda>i. ir_state i \<in> {FI_STAGING, FI_VERIFYING}) new)"
proof -
  let ?batch = "[((''/d/a'', [1, 2]), ''VTA001L8'')]" and ?s = "demo_shard_state demo_job_library 1"
  obtain r s' where run: "archive_stripe_batch demo_job_env demo_shard_request ''g'' ''j'' ?batch ?s = (r, s')" by fastforce
  obtain q s1 where a: "acquire_many demo_job_env (dedup_ids (map snd ?batch)) ?s = (q, s1)" by fastforce
  with demo_batch_leased obtain refs where "q = Inr refs" and none: "cat_instances (job_catalog s1) = []" by (auto split: sum.splits)
  with a have acq: "acquire_many demo_job_env (dedup_ids (map snd ?batch)) ?s = (Inr refs, s1)" by simp
  have ps: "batch_places demo_shard_request ?batch = [(''VTA001L8'', ''/stripe/a''), (''VTA001L8'', ''/stripe/a'')]" by code_simp
  from batch_commits_all_or_nothing [OF acq run] run none show ?thesis
    unfolding ps by (auto simp: list_all_iff)
qed

end
