(* ===== verification/Sharded_Restore.thy ===== *)
theory Sharded_Restore
  imports Sharded_Archive Restore_Job "HOL-Library.Product_Lexorder"
begin

text \<open>
  \<open>jobs/sharded_restore.py\<close>: a file read back from one tape, or from several at once and reassembled. The
  instances are chosen in the catalog, the volumes mounted read-only, the shards read by a pool of workers that a
  schedule interleaves, and the whole compared with the digest of the catalog. The files of the scratch directory
  are values of the model; the local file system keeps the destination.
\<close>

section \<open>Choosing the instances\<close>

text \<open>\<open>list_shard_records\<close>: a record without an index comes first.\<close>

definition list_shard_records :: "string \<Rightarrow> catalog \<Rightarrow> record_row list" where
  "list_shard_records parent c =
     sort_key (\<lambda>r. case rr_shard_index r of None \<Rightarrow> (0, 0) | Some i \<Rightarrow> (1 :: int, i))
       (sort_key rr_created_at (filter (\<lambda>r. rr_parent_id r = Some parent) (cat_records c)))"

definition archived_instances :: "record_row \<Rightarrow> catalog \<Rightarrow> instance_row list" where
  "archived_instances record c =
     filter (\<lambda>i. ir_state i = FI_ARCHIVED) (filter (\<lambda>i. ir_file_record_id i = rr_id record) (cat_instances c))"

definition instance_time :: "instance_row \<Rightarrow> int" where
  "instance_time i = (case ir_archived_at i of None \<Rightarrow> ir_created_at i | Some t \<Rightarrow> t)"

text \<open>\<open>max\<close> with a key: the first of the greatest.\<close>

definition latest_archived_instance :: "record_row \<Rightarrow> catalog \<Rightarrow> instance_row option" where
  "latest_archived_instance record c =
     (case archived_instances record c of
        [] \<Rightarrow> None
      | i # is \<Rightarrow> Some (foldl (\<lambda>best j. if instance_time best < instance_time j then j else best) i is))"

record sharded_restore_request =
  sx_catalog_path :: string
  sx_dest_path :: posix_path
  sx_block_size :: int

record sharded_restore_result =
  sxr_job_id :: string
  sxr_source_barcodes :: "string list"
  sxr_checksum_verified :: bool
  sxr_bytes_restored :: int
  sxr_error :: "string option"

definition shard_count_of :: "record_row \<Rightarrow> int" where
  "shard_count_of record = (case rr_shard_count record of None \<Rightarrow> 0 | Some n \<Rightarrow> n)"

definition requires_shard_records :: "record_row \<Rightarrow> bool" where
  "requires_shard_records record \<longleftrightarrow> shard_count_of record > 1 \<or> rr_shard_profile record = Some ''block_stripe''"

definition restore_block_size :: "record_row \<Rightarrow> int \<Rightarrow> int" where
  "restore_block_size record requested = (case rr_block_size record of None \<Rightarrow> requested | Some n \<Rightarrow> if n = 0 then requested else n)"

text \<open>What is to be read, in order, and the size of its blocks; an error is the text for the job.\<close>

definition choose_instances :: "sharded_restore_request \<Rightarrow> record_row \<Rightarrow> catalog \<Rightarrow> string + instance_row list \<times> int" where
  "choose_instances rq record c =
     (let shards = list_shard_records (rr_id record) c
      in if requires_shard_records record \<and> int (length shards) \<noteq> shard_count_of record then Inl ''Missing shard catalog entries''
         else if shards \<noteq> []
         then (let ordered = sort_key (\<lambda>r. case rr_shard_index r of None \<Rightarrow> 0 | Some i \<Rightarrow> i) shards;
                   instances = List.map_filter (\<lambda>r. latest_archived_instance r c) ordered
               in if length instances \<noteq> length ordered then Inl ''Missing archived shard instances''
                  else Inr (instances, restore_block_size record (sx_block_size rq)))
         else Inr (sort_key ir_tape_path (archived_instances record c), sx_block_size rq))"

section \<open>State\<close>

record sharded_restore_state = job_ctx +
  sx_fs :: local_fs
  sx_mounts :: "(string, mount_handle) dict"
  sx_loaded_slots :: "(int, int option) dict"
  sx_still_mounted :: "string list"
  sx_cleanup_failed :: bool
  sx_drive_id :: int
  sx_slot_id :: "int option"
  sx_shard_files :: "bytes list"

type_synonym 'a xop = "(sharded_restore_state, 'a) op"

definition on_local :: "(local_fs, 'a) op \<Rightarrow> 'a xop" where
  "on_local m = zoomM sx_fs (\<lambda>f s. s\<lparr>sx_fs := f\<rparr>) m"

definition reset_restore :: "sharded_restore_state \<Rightarrow> sharded_restore_state" where
  "reset_restore s = s\<lparr>sx_mounts := [], sx_loaded_slots := [], sx_still_mounted := [], sx_cleanup_failed := False, sx_shard_files := []\<rparr>"

text \<open>\<open>dest.parent.mkdir(parents=True, exist_ok=True)\<close>.\<close>

definition fs_make_parents :: "posix_path \<Rightarrow> (local_fs, unit) op" where
  "fs_make_parents p =
     bindM (getsM (\<lambda>f. list_ex (\<lambda>a. dict_get (lf_files f) a \<noteq> None) (ancestors p))) (\<lambda>blocked.
     thenM (guardM (\<not> blocked) OSError)
      (modifyM (\<lambda>f. f\<lparr>lf_dirs := foldl (\<lambda>ds a. List.insert a ds) (lf_dirs f) (ancestors p)\<rparr>)))"

text \<open>\<open>shutil.copy2(tmp, dest)\<close>: into the directory when the destination is one.\<close>

definition copy_target :: "string \<Rightarrow> posix_path \<Rightarrow> local_fs \<Rightarrow> posix_path" where
  "copy_target name dest f = (if dest \<in> set (lf_dirs f) then path_join dest name else dest)"

section \<open>Loading, reading and cleaning up\<close>

definition sharded_restore_request_of :: "tape_op_type \<Rightarrow> string \<Rightarrow> int \<Rightarrow> int \<Rightarrow> string \<Rightarrow> tape_op_request" where
  "sharded_restore_request_of ty b d k jid = (restore_tape_request ty b d k jid)\<lparr>tq_requested_by := ''sharded-restore''\<rparr>"

definition ensure_loaded_for :: "job_env \<Rightarrow> handle_ref \<Rightarrow> string \<Rightarrow> (int \<times> int option) xop" where
  "ensure_loaded_for ae r jid =
     bindM (getsM (\<lambda>s. lease_handle s r)) (\<lambda>h.
     bindM (on_orch (ask_lib (find_drive_by_barcode (dh_barcode h)))) (\<lambda>loaded.
      case loaded of
        Some d \<Rightarrow>
          thenM (check_reconciled d (dh_barcode h))
          (thenM (if d \<noteq> dh_drive_id h then modifyM (set_physical r d) else returnM ()) (returnM (d, None)))
      | None \<Rightarrow>
          bindM (on_orch (ask_lib (find_slot_by_barcode (dh_barcode h)))) (\<lambda>found.
           case found of
             None \<Rightarrow> raiseM CartridgeOfflineError
           | Some k \<Rightarrow>
               thenM (check_reconciled (dh_drive_id h) (dh_barcode h))
               (thenM (withenv ae (\<lambda>e. on_orch (execute_tape_request e True
                   (sharded_restore_request_of TO_LOAD (dh_barcode h) (dh_drive_id h) k jid))))
                (returnM (dh_drive_id h, Some k))))))"

definition mount_to_read :: "job_env \<Rightarrow> string \<Rightarrow> mount_handle xop" where
  "mount_to_read ae b = withenv ae (\<lambda>e. on_orch (on_ltfs (ltfs_mount (oe_handle_id e) b READ_ONLY)))"

text \<open>\<open>ltfs.read_file\<close> into the scratch directory.\<close>

definition read_tape_file :: "job_env \<Rightarrow> mount_handle \<Rightarrow> string \<Rightarrow> bytes xop" where
  "read_tape_file ae m tape_path =
     bindM (on_orch (on_ltfs (ltfs_read_file (av_sha ae) m (path_str (pure_posix tape_path))))) (\<lambda>(checksum, content). returnM content)"

definition unmount_read :: "mount_handle \<Rightarrow> unit xop" where
  "unmount_read m = thenM (on_orch (on_ltfs (ltfs_unmount m))) (returnM ())"

definition unload_read :: "job_env \<Rightarrow> string \<Rightarrow> string \<Rightarrow> int \<Rightarrow> int \<Rightarrow> unit xop" where
  "unload_read ae jid b d k =
     withenv ae (\<lambda>e. thenM (on_orch (execute_tape_request e False (sharded_restore_request_of TO_UNLOAD b d k jid))) (returnM ()))"

definition cleanup_failed :: "job_env \<Rightarrow> string \<Rightarrow> string \<Rightarrow> string \<Rightarrow> int option \<Rightarrow> handle_ref list \<Rightarrow> unit xop" where
  "cleanup_failed ae jid what b drive refs =
     thenM (record_physical_state_unknown ae jid what b drive refs)
     (bindM (getsM (\<lambda>s. get_job_row jid (job_catalog s))) (\<lambda>found.
      case found of
        None \<Rightarrow> returnM ()
      | Some job \<Rightarrow>
          if jb_error job = None \<or> jb_error job = Some []
          then job_state_to ae jid ''failed'' (Some PHYSICAL_STATE_UNKNOWN_TEXT) else returnM ()))"

definition fail_restore :: "job_env \<Rightarrow> string \<Rightarrow> string \<Rightarrow> exc \<Rightarrow> 'a xop" where
  "fail_restore ae jid text x = thenM (job_state_to ae jid ''failed'' (Some text)) (raiseM x)"

definition require_online :: "job_env \<Rightarrow> string \<Rightarrow> string \<Rightarrow> unit xop" where
  "require_online ae jid b =
     bindM (getsM (\<lambda>s. get_cartridge b (job_catalog s))) (\<lambda>found.
      case found of
        None \<Rightarrow> returnM ()
      | Some row \<Rightarrow> if cr_state row = ''exported'' then fail_restore ae jid (''Cartridge '' @ b @ '' is offline/exported'') CartridgeOfflineError
                   else returnM ())"

definition release_read_leases :: "job_env \<Rightarrow> handle_ref list \<Rightarrow> unit xop" where
  "release_read_leases ae refs = withenv ae (\<lambda>e. on_sched (release_drives cat_ops (oe_now e) refs))"

definition finish_restore :: "job_env \<Rightarrow> string \<Rightarrow> string list \<Rightarrow> record_row \<Rightarrow> sharded_restore_result xop" where
  "finish_restore ae jid barcodes record =
     thenM (bindM (getsM sx_cleanup_failed) (\<lambda>failed. if failed then returnM () else job_state_to ae jid ''completed'' None))
      (returnM \<lparr>sxr_job_id = jid, sxr_source_barcodes = barcodes, sxr_checksum_verified = True,
         sxr_bytes_restored = rr_size_bytes record, sxr_error = None\<rparr>)"

section \<open>From one tape\<close>

text \<open>The copy is compared with the catalog before it is put at the destination.\<close>

definition copy_verified :: "job_env \<Rightarrow> sharded_restore_request \<Rightarrow> string \<Rightarrow> record_row \<Rightarrow> string \<Rightarrow> bytes \<Rightarrow> unit xop" where
  "copy_verified ae rq jid record name content =
     (let actual = compute_checksum (av_sha ae) content
      in if actual \<noteq> rr_checksum_sha256 record
         then fail_restore ae jid (''Checksum mismatch: expected '' @ rr_checksum_sha256 record @ '', got '' @ actual) ChecksumMismatchError
         else bindM (getsM (\<lambda>s. copy_target name (sx_dest_path rq) (sx_fs s))) (\<lambda>target. on_local (fs_write target content)))"

definition read_single :: "job_env \<Rightarrow> sharded_restore_request \<Rightarrow> string \<Rightarrow> record_row \<Rightarrow> instance_row \<Rightarrow> handle_ref \<Rightarrow> unit xop" where
  "read_single ae rq jid record inst r =
     bindM (ensure_loaded_for ae r jid) (\<lambda>(d, slot).
     thenM (modifyM (\<lambda>s. s\<lparr>sx_drive_id := d, sx_slot_id := slot\<rparr>))
     (bindM (mount_to_read ae (ir_barcode inst)) (\<lambda>m.
      finallyM
        (bindM (read_tape_file ae m (ir_tape_path inst)) (\<lambda>content.
         thenM (guardM (posix_name (pure_posix (ir_tape_path inst)) \<notin> {[], ''..''}) OSError)
          (copy_verified ae rq jid record (posix_name (pure_posix (ir_tape_path inst))) content)))
        (catchM (unmount_read m) (\<lambda>_.
          thenM (modifyM (\<lambda>s. s\<lparr>sx_cleanup_failed := True, sx_still_mounted := [ir_barcode inst]\<rparr>))
           (bindM (getsM sx_drive_id) (\<lambda>d. cleanup_failed ae jid ''unmount'' (ir_barcode inst) (Some d) [r])))))))"

definition unload_single :: "job_env \<Rightarrow> string \<Rightarrow> instance_row \<Rightarrow> handle_ref \<Rightarrow> unit xop" where
  "unload_single ae jid inst r =
     bindM (getsM (\<lambda>s. (sx_slot_id s, sx_drive_id s, sx_still_mounted s))) (\<lambda>(slot, d, still).
      case slot of
        None \<Rightarrow> returnM ()
      | Some k \<Rightarrow>
          if still \<noteq> [] then returnM ()
          else catchM (unload_read ae jid (ir_barcode inst) d k)
            (\<lambda>_. thenM (modifyM (\<lambda>s. s\<lparr>sx_cleanup_failed := True\<rparr>)) (cleanup_failed ae jid ''unload'' (ir_barcode inst) (Some d) [r])))"

definition restore_single :: "job_env \<Rightarrow> sharded_restore_request \<Rightarrow> string \<Rightarrow> record_row \<Rightarrow> instance_row \<Rightarrow> sharded_restore_result xop" where
  "restore_single ae rq jid record inst =
     thenM (require_online ae jid (ir_barcode inst))
     (bindM (acquire_one ae (ir_barcode inst)) (\<lambda>r.
      thenM (modifyM (\<lambda>s. (reset_restore s)\<lparr>sx_drive_id := dh_drive_id (lease_handle s r), sx_slot_id := None\<rparr>))
      (thenM (finallyM (read_single ae rq jid record inst r) (thenM (unload_single ae jid inst r) (release_read_leases ae [r])))
       (finish_restore ae jid [ir_barcode inst] record))))"

section \<open>From several tapes\<close>

definition mount_all_to_read :: "job_env \<Rightarrow> string \<Rightarrow> handle_ref list \<Rightarrow> unit xop" where
  "mount_all_to_read ae jid refs =
     thenM (forM refs (\<lambda>r. bindM (ensure_loaded_for ae r jid) (\<lambda>(d, slot). modifyM (\<lambda>s. s\<lparr>sx_loaded_slots := dict_set d slot (sx_loaded_slots s)\<rparr>))))
     (thenM (on_sched (modifyM (record_physical_drives cat_ops refs)))
      (forM refs (\<lambda>r. bindM (getsM (\<lambda>s. dh_barcode (lease_handle s r))) (\<lambda>b.
        bindM (mount_to_read ae b) (\<lambda>m. modifyM (\<lambda>s. s\<lparr>sx_mounts := dict_set b m (sx_mounts s)\<rparr>))))))"

text \<open>\<open>_read_shard\<close>: one step of a worker of the pool.\<close>

definition read_shard :: "job_env \<Rightarrow> nat \<Rightarrow> instance_row \<Rightarrow> unit xop" where
  "read_shard ae i inst =
     bindM (getsM (\<lambda>s. dict_get (sx_mounts s) (ir_barcode inst))) (\<lambda>found.
      case found of
        None \<Rightarrow> raiseM KeyError
      | Some m \<Rightarrow> bindM (read_tape_file ae m (ir_tape_path inst)) (\<lambda>content.
          modifyM (\<lambda>s. s\<lparr>sx_shard_files := (sx_shard_files s)[i := content]\<rparr>)))"

definition read_shards :: "job_env \<Rightarrow> instance_row list \<Rightarrow> unit xop" where
  "read_shards ae instances =
     thenM (modifyM (\<lambda>s. s\<lparr>sx_shard_files := replicate (length instances) []\<rparr>))
     (bindM tickM (\<lambda>k. run_pool (av_schedule ae k) (av_pick ae k) (map (\<lambda>(i, inst). [read_shard ae i inst]) (zip [0..<length instances] instances))))"

text \<open>The shards are reassembled at the destination itself and removed from there when the digest is wrong. Reassembling
  at least one shard ends, so that the first case below does not arise.\<close>

definition reassemble_verified :: "job_env \<Rightarrow> sharded_restore_request \<Rightarrow> string \<Rightarrow> record_row \<Rightarrow> int \<Rightarrow> unit xop" where
  "reassemble_verified ae rq jid record bs =
     bindM (getsM sx_shard_files) (\<lambda>shards.
      case reassemble_block_stripe (av_sha ae) shards bs of
        None \<Rightarrow> raiseM RuntimeError
      | Some (content, actual) \<Rightarrow>
          thenM (on_local (fs_write (sx_dest_path rq) content))
           (if actual \<noteq> rr_checksum_sha256 record
            then thenM (on_local (fs_unlink (sx_dest_path rq)))
              (fail_restore ae jid (''Reassembled checksum mismatch: '' @ actual @ '' != '' @ rr_checksum_sha256 record) ChecksumMismatchError)
            else returnM ()))"

definition unload_sharded :: "job_env \<Rightarrow> string \<Rightarrow> handle_ref list \<Rightarrow> handle_ref \<Rightarrow> unit xop" where
  "unload_sharded ae jid refs r =
     bindM (getsM (\<lambda>s. (Option.bind (dict_get (sx_loaded_slots s) (physical (lease_handle s r))) id, lease_handle s r, sx_still_mounted s))) (\<lambda>(slot, h, still).
      case slot of
        None \<Rightarrow> returnM ()
      | Some k \<Rightarrow>
          if dh_barcode h \<in> set still then returnM ()
          else catchM (unload_read ae jid (dh_barcode h) (physical h) k)
            (\<lambda>_. thenM (modifyM (\<lambda>s. s\<lparr>sx_cleanup_failed := True\<rparr>))
              (cleanup_failed ae jid ''unload'' (dh_barcode h) (Some (physical h)) refs)))"

definition cleanup_sharded :: "job_env \<Rightarrow> string \<Rightarrow> handle_ref list \<Rightarrow> unit xop" where
  "cleanup_sharded ae jid refs =
     bindM (getsM (\<lambda>s. (sx_mounts s, foldl (\<lambda>d r. dict_set (dh_barcode (lease_handle s r)) (physical (lease_handle s r)) d) [] refs))) (\<lambda>(mounts, drives).
      thenM (forM mounts (\<lambda>(b, m). catchM (unmount_read m)
         (\<lambda>_. thenM (modifyM (\<lambda>s. s\<lparr>sx_cleanup_failed := True, sx_still_mounted := sx_still_mounted s @ [b]\<rparr>))
           (cleanup_failed ae jid ''unmount'' b (dict_get drives b) refs))))
      (thenM (forM refs (unload_sharded ae jid refs))
       (release_read_leases ae refs)))"

definition restore_sharded :: "job_env \<Rightarrow> sharded_restore_request \<Rightarrow> string \<Rightarrow> record_row \<Rightarrow> instance_row list \<Rightarrow> int \<Rightarrow> sharded_restore_result xop" where
  "restore_sharded ae rq jid record instances bs =
     thenM (forM (map ir_barcode instances) (require_online ae jid))
     (bindM (acquire_many ae (map ir_barcode instances)) (\<lambda>refs.
      thenM (modifyM reset_restore)
      (thenM (finallyM
         (thenM (mount_all_to_read ae jid refs) (thenM (read_shards ae instances) (reassemble_verified ae rq jid record bs)))
         (cleanup_sharded ae jid refs))
       (finish_restore ae jid (map ir_barcode instances) record))))"

section \<open>The job\<close>

definition restore_error :: "job_env \<Rightarrow> string \<Rightarrow> string \<Rightarrow> sharded_restore_result xop" where
  "restore_error ae jid text =
     thenM (job_state_to ae jid ''failed'' (Some text))
      (returnM \<lparr>sxr_job_id = jid, sxr_source_barcodes = [], sxr_checksum_verified = False, sxr_bytes_restored = 0, sxr_error = Some text\<rparr>)"

definition restore_instances :: "job_env \<Rightarrow> sharded_restore_request \<Rightarrow> string \<Rightarrow> record_row \<Rightarrow> instance_row list \<Rightarrow> int \<Rightarrow> sharded_restore_result xop" where
  "restore_instances ae rq jid record instances bs =
     (if instances = [] then restore_error ae jid ''No archived instances found''
      else thenM (on_local (fs_make_parents (sx_dest_path rq)))
        (if length instances = 1 then restore_single ae rq jid record (hd instances)
         else restore_sharded ae rq jid record instances bs))"

definition run_sharded_restore :: "job_env \<Rightarrow> sharded_restore_request \<Rightarrow> string \<Rightarrow> sharded_restore_result xop" where
  "run_sharded_restore ae rq jid =
     thenM (job_state_to ae jid ''running'' None)
     (bindM (getsM (\<lambda>s. get_file_record (sx_catalog_path rq) (job_catalog s))) (\<lambda>found.
      case found of
        None \<Rightarrow> restore_error ae jid ''File not found in catalog''
      | Some record \<Rightarrow>
          bindM (getsM (\<lambda>s. choose_instances rq record (job_catalog s))) (\<lambda>chosen.
           case chosen of
             Inl text \<Rightarrow> fail_restore ae jid text FileNotFoundError
           | Inr (instances, bs) \<Rightarrow> restore_instances ae rq jid record instances bs)))"

section \<open>A run\<close>

text \<open>The cartridge, the file and the catalog of the restore job's example.\<close>

definition demo_sharded_restore_state :: sharded_restore_state where
  "demo_sharded_restore_state =
     \<lparr>as_orch = \<lparr>or_has_catalog = True, or_catalog = demo_restore_catalog, or_transient = [], or_ltfs = demo_restore_ltfs\<rparr>,
      as_sched = new_scheduler 1 empty_catalog ''j'' 1000, as_aml_drives = [], as_aml_media = [], as_tick = 0,
      sx_fs = \<lparr>lf_files = [], lf_dirs = []\<rparr>, sx_mounts = [], sx_loaded_slots = [], sx_still_mounted = [], sx_cleanup_failed = False,
      sx_drive_id = 0, sx_slot_id = None, sx_shard_files = []\<rparr>"

definition demo_sharded_restore_request :: sharded_restore_request where
  "demo_sharded_restore_request = \<lparr>sx_catalog_path = ''/a'', sx_dest_path = \<lparr>px_root = [], px_parts = [''b'']\<rparr>, sx_block_size = 1\<rparr>"

lemma demo_sharded_restore_returns:
  "case run_sharded_restore demo_job_env demo_sharded_restore_request ''j'' demo_sharded_restore_state of
     (Inl e, s') \<Rightarrow> False
   | (Inr res, s') \<Rightarrow> sxr_error res = None \<and> lf_files (sx_fs s') = [(\<lparr>px_root = [], px_parts = [''b'']\<rparr>, [1, 2])]"
  by code_simp

end
