(* ===== verification/Sharded_Restore_Props.thy ===== *)
theory Sharded_Restore_Props
  imports Sharded_Restore
begin

text \<open>
  What a sharded restore does to the local files. The proofs follow the local files through the job; the catalog, the
  tapes and the library may change under it. What stands at the destination when the job returns has the digest of
  the catalog, and whatever happens nothing else than the destination is touched.
\<close>

section \<open>The view\<close>

interpretation lfs: job_frame sx_fs
  by unfold_locales simp_all

lemma kf_restore_locals [kf_intros]:
  "keepsv sx_fs (modifyM (\<lambda>s. s\<lparr>sx_drive_id := d, sx_slot_id := k\<rparr>))"
  "keepsv sx_fs (modifyM (\<lambda>s. s\<lparr>sx_mounts := ms s\<rparr>))"
  "keepsv sx_fs (modifyM (\<lambda>s. s\<lparr>sx_loaded_slots := ls s\<rparr>))"
  "keepsv sx_fs (modifyM (\<lambda>s. s\<lparr>sx_shard_files := fs s\<rparr>))"
  "keepsv sx_fs (modifyM (\<lambda>s. s\<lparr>sx_cleanup_failed := b\<rparr>))"
  "keepsv sx_fs (modifyM (\<lambda>s. s\<lparr>sx_cleanup_failed := b, sx_still_mounted := bs s\<rparr>))"
  "keepsv sx_fs (modifyM reset_restore)"
  "keepsv sx_fs (modifyM (\<lambda>s. (reset_restore s)\<lparr>sx_drive_id := dd s, sx_slot_id := k\<rparr>))"
  by (auto intro!: kf_modify simp: reset_restore_def)

lemma kf_ensure_loaded_for [kf_intros]: "keepsv sx_fs (ensure_loaded_for ae r jid)"
  unfolding ensure_loaded_for_def by (intro kf_intros) (simp_all add: sharded_restore_request_of_def restore_tape_request_def)

lemma kf_mount_to_read [kf_intros]: "keepsv sx_fs (mount_to_read ae b)"
  and kf_read_tape_file [kf_intros]: "keepsv sx_fs (read_tape_file ae m p)"
  and kf_unmount_read [kf_intros]: "keepsv sx_fs (unmount_read m)"
  unfolding mount_to_read_def read_tape_file_def unmount_read_def ltfs_read_file_def by (intro kf_intros)+

lemma kf_unload_read [kf_intros]: "keepsv sx_fs (unload_read ae jid b d k)"
  unfolding unload_read_def by (intro kf_intros) (simp_all add: sharded_restore_request_of_def restore_tape_request_def)

lemma kf_cleanup_failed [kf_intros]: "keepsv sx_fs (cleanup_failed ae jid what b drive refs)"
  and kf_fail_restore [kf_intros]: "keepsv sx_fs (fail_restore ae jid text x)"
  and kf_require_online [kf_intros]: "keepsv sx_fs (require_online ae jid b)"
  and kf_release_read_leases [kf_intros]: "keepsv sx_fs (release_read_leases ae refs)"
  and kf_finish_restore [kf_intros]: "keepsv sx_fs (finish_restore ae jid bs record)"
  unfolding cleanup_failed_def fail_restore_def require_online_def release_read_leases_def finish_restore_def by (intro kf_intros)+

lemma kf_unload_single [kf_intros]: "keepsv sx_fs (unload_single ae jid inst r)"
  and kf_mount_all_to_read [kf_intros]: "keepsv sx_fs (mount_all_to_read ae jid refs)"
  and kf_read_shard [kf_intros]: "keepsv sx_fs (read_shard ae i inst)"
  and kf_unload_sharded [kf_intros]: "keepsv sx_fs (unload_sharded ae jid refs r)"
  and kf_restore_error [kf_intros]: "keepsv sx_fs (restore_error ae jid text)"
  unfolding unload_single_def mount_all_to_read_def read_shard_def unload_sharded_def restore_error_def
  by (intro kf_intros)+

lemma kf_cleanup_sharded [kf_intros]: "keepsv sx_fs (cleanup_sharded ae jid refs)"
  unfolding cleanup_sharded_def by (intro kf_intros)

lemma kf_read_shards [kf_intros]: "keepsv sx_fs (read_shards ae instances)"
  unfolding read_shards_def by (intro kf_intros kf_pool) (auto intro: kf_read_shard)

section \<open>The destination\<close>

text \<open>Where a restore may put the file: the destination, or a file of an instance's name in it.\<close>

definition restore_place :: "catalog \<Rightarrow> posix_path \<Rightarrow> posix_path \<Rightarrow> bool" where
  "restore_place c dest p \<longleftrightarrow> p = dest \<or> (\<exists>inst \<in> set (cat_instances c). p = path_join dest (posix_name (pure_posix (ir_tape_path inst))))"

definition restored_at :: "(bytes \<Rightarrow> string) \<Rightarrow> string \<Rightarrow> local_fs \<Rightarrow> posix_path \<Rightarrow> bool" where
  "restored_at sha digest f p \<longleftrightarrow> (\<exists>content. dict_get (lf_files f) p = Some content \<and> sha content = digest)"

text \<open>What a restore may have done to the local files: every path is as it was, or is a place of the restore with the
  right bytes, or is the destination and gone.\<close>

definition only_restored :: "(bytes \<Rightarrow> string) \<Rightarrow> string \<Rightarrow> catalog \<Rightarrow> posix_path \<Rightarrow> local_fs \<Rightarrow> local_fs \<Rightarrow> bool" where
  "only_restored sha digest c dest f f' \<longleftrightarrow>
     (\<forall>p. dict_get (lf_files f') p = dict_get (lf_files f) p \<or> restore_place c dest p \<and> restored_at sha digest f' p
        \<or> p = dest \<and> dict_get (lf_files f') p = None)"

definition restored :: "(bytes \<Rightarrow> string) \<Rightarrow> string \<Rightarrow> catalog \<Rightarrow> posix_path \<Rightarrow> local_fs \<Rightarrow> bool" where
  "restored sha digest c dest f \<longleftrightarrow> (\<exists>p. restore_place c dest p \<and> restored_at sha digest f p)"

lemma only_restored_refl: "only_restored sha digest c dest f f"
  by (simp add: only_restored_def)

lemma only_restored_files: "lf_files f2 = lf_files f1 \<Longrightarrow> only_restored sha digest c dest f f2 = only_restored sha digest c dest f f1"
  by (simp add: only_restored_def restored_at_def)

lemma only_restored_write:
  assumes "only_restored sha digest c dest f f1" and "restore_place c dest p" and "sha content = digest"
    and "dict_get (lf_files f2) = (dict_get (lf_files f1))(p \<mapsto> content)"
  shows "only_restored sha digest c dest f f2" and "restored sha digest c dest f2"
  using assms by (auto simp: only_restored_def restored_def restored_at_def)

lemma only_restored_remove:
  assumes "only_restored sha digest c dest f f1" and "dict_get (lf_files f2) = (dict_get (lf_files f1))(dest := None)"
  shows "only_restored sha digest c dest f f2"
  using assms by (auto simp: only_restored_def restored_at_def)

lemma wp_fs_write_file:
  "wp (fs_write p c) (\<lambda>_ f'. dict_get (lf_files f') = (dict_get (lf_files f))(p \<mapsto> c) \<and> p \<notin> set (lf_dirs f')) (\<lambda>_ f'. lf_files f' = lf_files f) f"
  unfolding fs_write_def by (auto simp: wp_rules dict_simps)

lemma wp_local_write:
  assumes "\<And>g. dict_get (lf_files g) = (dict_get (lf_files (sx_fs s)))(p \<mapsto> content) \<Longrightarrow> p \<notin> set (lf_dirs g) \<Longrightarrow> Q () (s\<lparr>sx_fs := g\<rparr>)"
    and "\<And>e g. lf_files g = lf_files (sx_fs s) \<Longrightarrow> E e (s\<lparr>sx_fs := g\<rparr>)"
  shows "wp (on_local (fs_write p content)) Q E s"
  unfolding on_local_def wp_zoom by (rule wp_mono [OF wp_fs_write_file]) (use assms in auto)

lemma wp_local_unlink:
  "wp (on_local (fs_unlink p)) Q E s =
     (if p \<in> set (lf_dirs (sx_fs s)) then E OSError s else Q () (s\<lparr>sx_fs := (sx_fs s)\<lparr>lf_files := dict_pop p (lf_files (sx_fs s))\<rparr>\<rparr>))"
  by (simp add: on_local_def fs_unlink_def wp_zoom wp_bind wp_gets wp_then wp_guard wp_modify)

section \<open>The copy\<close>

text \<open>What every step is shown to keep, \<open>restored_or\<close> for a step that returns and the first part alone for one that raises.\<close>

definition restore_inv :: "job_env \<Rightarrow> sharded_restore_request \<Rightarrow> string \<Rightarrow> catalog \<Rightarrow> local_fs \<Rightarrow> sharded_restore_state \<Rightarrow> bool" where
  "restore_inv ae rq digest c f s = only_restored (av_sha ae) digest c (sx_dest_path rq) f (sx_fs s)"

definition restore_done :: "job_env \<Rightarrow> sharded_restore_request \<Rightarrow> string \<Rightarrow> catalog \<Rightarrow> local_fs \<Rightarrow> sharded_restore_state \<Rightarrow> bool" where
  "restore_done ae rq digest c f s \<longleftrightarrow> restore_inv ae rq digest c f s \<and> restored (av_sha ae) digest c (sx_dest_path rq) (sx_fs s)"

lemma keeps_restore [keeps_intros]:
  assumes "keepsv sx_fs m"
  shows "keeps (restore_inv ae rq digest c f) m" and "keeps (restore_done ae rq digest c f) m"
  using keepsv_keeps [OF assms, of "only_restored (av_sha ae) digest c (sx_dest_path rq) f"]
    keepsv_keeps [OF assms, of "\<lambda>g. only_restored (av_sha ae) digest c (sx_dest_path rq) f g \<and> restored (av_sha ae) digest c (sx_dest_path rq) g"]
  by (simp_all add: restore_inv_def [abs_def] restore_done_def [abs_def])

lemma restore_inv_files:
  "restore_inv ae rq digest c f s \<Longrightarrow> lf_files g = lf_files (sx_fs s) \<Longrightarrow> restore_inv ae rq digest c f (s\<lparr>sx_fs := g\<rparr>)"
  using only_restored_files [of g "sx_fs s"] by (simp add: restore_inv_def)

lemma wp_keeps: "keeps I m \<Longrightarrow> I s \<Longrightarrow> wp m (\<lambda>_. I) (\<lambda>_. I) s"
  by (simp add: keeps_iff_wp)

lemma wp_copy_verified:
  assumes I: "restore_inv ae rq (rr_checksum_sha256 record) c f s"
    and inst: "inst \<in> set (cat_instances c)" "name = posix_name (pure_posix (ir_tape_path inst))"
  shows "wp (copy_verified ae rq jid record name content) (\<lambda>_. restore_done ae rq (rr_checksum_sha256 record) c f)
    (\<lambda>_. restore_inv ae rq (rr_checksum_sha256 record) c f) s"
proof (cases "compute_checksum (av_sha ae) content = rr_checksum_sha256 record")
  case False
  have "wp (fail_restore ae jid msg ChecksumMismatchError :: unit xop) (\<lambda>_ _. False) (\<lambda>_. restore_inv ae rq (rr_checksum_sha256 record) c f) s" for msg
    unfolding fail_restore_def wp_then wp_raise
    by (rule wp_keeps [OF keeps_restore(1) I]) (intro kf_intros)
  then show ?thesis using False unfolding copy_verified_def Let_def by (auto intro: wp_mono)
next
  case True
  have place: "restore_place c (sx_dest_path rq) (copy_target name (sx_dest_path rq) (sx_fs s))"
    using inst by (auto simp: copy_target_def restore_place_def)
  have sha: "av_sha ae content = rr_checksum_sha256 record" using True by (simp add: compute_checksum_eq)
  have fin: "restore_done ae rq (rr_checksum_sha256 record) c f (s\<lparr>sx_fs := g\<rparr>)"
    if "dict_get (lf_files g) = (dict_get (lf_files (sx_fs s)))(copy_target name (sx_dest_path rq) (sx_fs s) \<mapsto> content)" for g
    using only_restored_write [of "av_sha ae" "rr_checksum_sha256 record" c "sx_dest_path rq" f "sx_fs s" "copy_target name (sx_dest_path rq) (sx_fs s)" content g]
      place sha that I by (simp add: restore_done_def restore_inv_def)
  have "wp (on_local (fs_write (copy_target name (sx_dest_path rq) (sx_fs s)) content)) (\<lambda>_. restore_done ae rq (rr_checksum_sha256 record) c f)
    (\<lambda>_. restore_inv ae rq (rr_checksum_sha256 record) c f) s"
    by (rule wp_local_write) (use fin restore_inv_files [OF I] in auto)
  then show ?thesis using True by (simp add: copy_verified_def wp_bind wp_gets)
qed

lemma wp_reassemble_verified:
  assumes I: "restore_inv ae rq (rr_checksum_sha256 record) c f s"
  shows "wp (reassemble_verified ae rq jid record bs) (\<lambda>_. restore_done ae rq (rr_checksum_sha256 record) c f)
    (\<lambda>_. restore_inv ae rq (rr_checksum_sha256 record) c f) s"
proof (cases "reassemble_block_stripe (av_sha ae) (sx_shard_files s) bs")
  case None
  then show ?thesis using I by (simp add: reassemble_verified_def wp_bind wp_gets wp_raise)
next
  case (Some p)
  then obtain content where p: "p = (content, av_sha ae content)" by (auto simp: reassemble_block_stripe_def)
  let ?dest = "sx_dest_path rq"
  have fin: "restore_done ae rq (rr_checksum_sha256 record) c f (s\<lparr>sx_fs := g\<rparr>)"
    if "dict_get (lf_files g) = (dict_get (lf_files (sx_fs s)))(?dest \<mapsto> content)" "av_sha ae content = rr_checksum_sha256 record" for g
    using only_restored_write [of "av_sha ae" _ c ?dest f "sx_fs s" ?dest content g] that I
    by (simp add: restore_done_def restore_inv_def restore_place_def)
  have bad: "wp (thenM (on_local (fs_unlink ?dest)) (fail_restore ae jid msg ChecksumMismatchError)) (\<lambda>_ :: unit. restore_done ae rq (rr_checksum_sha256 record) c f)
      (\<lambda>_. restore_inv ae rq (rr_checksum_sha256 record) c f) (s\<lparr>sx_fs := g\<rparr>)"
    if "dict_get (lf_files g) = (dict_get (lf_files (sx_fs s)))(?dest \<mapsto> content)" "?dest \<notin> set (lf_dirs g)" for g msg
  proof -
    have J: "restore_inv ae rq (rr_checksum_sha256 record) c f (s\<lparr>sx_fs := g\<lparr>lf_files := dict_pop ?dest (lf_files g)\<rparr>\<rparr>)"
      using only_restored_remove [of "av_sha ae" _ c ?dest f "sx_fs s" "g\<lparr>lf_files := dict_pop ?dest (lf_files g)\<rparr>"] I that
      by (simp add: restore_inv_def dict_simps)
    have "wp (fail_restore ae jid msg ChecksumMismatchError :: unit xop) (\<lambda>_ _. False) (\<lambda>_. restore_inv ae rq (rr_checksum_sha256 record) c f)
        (s\<lparr>sx_fs := g\<lparr>lf_files := dict_pop ?dest (lf_files g)\<rparr>\<rparr>)"
      unfolding fail_restore_def wp_then wp_raise by (rule wp_keeps [OF keeps_restore(1) J]) (intro kf_intros)
    then show ?thesis using that(2) unfolding wp_then wp_local_unlink by (auto intro: wp_mono)
  qed
  show ?thesis
    unfolding reassemble_verified_def wp_bind wp_gets Some p option.case prod.case wp_then [of "on_local (fs_write _ _)"]
    by (rule wp_local_write) (use fin bad restore_inv_files [OF I] in \<open>simp_all add: wp_return\<close>)
qed

section \<open>The job\<close>

lemma wp_finally_inv:
  assumes "wp m (\<lambda>_. J) (\<lambda>_. I) s" and "keeps I c" and "keeps J c" and "\<And>s. J s \<Longrightarrow> I s"
  shows "wp (finallyM m c) (\<lambda>_. J) (\<lambda>_. I) s"
proof -
  have "wp c (\<lambda>_. J) (\<lambda>_. I) t" if "J t" for t
    by (rule wp_mono [OF wp_keeps [OF assms(3) that]]) (use assms(4) in auto)
  moreover have "wp c (\<lambda>_. I) (\<lambda>_. I) t" if "I t" for t by (rule wp_keeps [OF assms(2) that])
  ultimately show ?thesis unfolding wp_finally by (intro wp_mono [OF assms(1)])
qed

lemma restore_done_inv: "restore_done ae rq digest c f s \<Longrightarrow> restore_inv ae rq digest c f s"
  by (simp add: restore_done_def)

text \<open>A step that leaves the local files alone, before and after the copy.\<close>

lemma wp_before:
  assumes "keepsv sx_fs m" and "restore_inv ae rq digest c f s"
    and "\<And>x t. restore_inv ae rq digest c f t \<Longrightarrow> wp (k x) Q (\<lambda>_. restore_inv ae rq digest c f) t"
  shows "wp (bindM m k) Q (\<lambda>_. restore_inv ae rq digest c f) s"
  unfolding wp_bind by (rule wp_mono [OF wp_keeps [OF keeps_restore(1) [OF assms(1)] assms(2)]]) (use assms(3) in auto)

lemma wp_before_then:
  assumes "keepsv sx_fs m" and "restore_inv ae rq digest c f s"
    and "\<And>t. restore_inv ae rq digest c f t \<Longrightarrow> wp k Q (\<lambda>_. restore_inv ae rq digest c f) t"
  shows "wp (thenM m k) Q (\<lambda>_. restore_inv ae rq digest c f) s"
  unfolding thenM_def by (rule wp_before [OF assms])

lemma wp_after:
  assumes "wp m (\<lambda>_. restore_done ae rq digest c f) (\<lambda>_. restore_inv ae rq digest c f) s" and "keepsv sx_fs k"
  shows "wp (thenM m k) (\<lambda>_. restore_done ae rq digest c f) (\<lambda>_. restore_inv ae rq digest c f) s"
  unfolding wp_then
  by (rule wp_mono [OF assms(1)], erule wp_mono [OF wp_keeps [OF keeps_restore(2) [OF assms(2)]]]) (auto dest: restore_done_inv)

lemma wp_finally_clean:
  assumes "wp m (\<lambda>_. restore_done ae rq digest c f) (\<lambda>_. restore_inv ae rq digest c f) s" and "keepsv sx_fs k"
  shows "wp (finallyM m k) (\<lambda>_. restore_done ae rq digest c f) (\<lambda>_. restore_inv ae rq digest c f) s"
  by (rule wp_finally_inv [OF assms(1) keeps_restore [OF assms(2)] restore_done_inv])

lemma wp_read_single:
  assumes I: "restore_inv ae rq (rr_checksum_sha256 record) c f s" and inst: "inst \<in> set (cat_instances c)"
  shows "wp (read_single ae rq jid record inst r) (\<lambda>_. restore_done ae rq (rr_checksum_sha256 record) c f)
    (\<lambda>_. restore_inv ae rq (rr_checksum_sha256 record) c f) s"
  unfolding read_single_def
  by (rule wp_before [OF _ I], intro kf_intros, clarify, rule wp_before_then, intro kf_intros, assumption,
      rule wp_before, intro kf_intros, assumption, rule wp_finally_clean, rule wp_before, intro kf_intros, assumption,
      rule wp_before_then, intro kf_intros, assumption, erule wp_copy_verified [OF _ inst refl], intro kf_intros)

lemma wp_restore_single:
  assumes I: "restore_inv ae rq (rr_checksum_sha256 record) c f s" and inst: "inst \<in> set (cat_instances c)"
  shows "wp (restore_single ae rq jid record inst) (\<lambda>_. restore_done ae rq (rr_checksum_sha256 record) c f)
    (\<lambda>_. restore_inv ae rq (rr_checksum_sha256 record) c f) s"
  unfolding restore_single_def
  by (rule wp_before_then [OF _ I], intro kf_intros, rule wp_before, intro kf_intros, assumption, rule wp_before_then, intro kf_intros, assumption,
      rule wp_after, rule wp_finally_clean, erule wp_read_single [OF _ inst], (intro kf_intros)+)

lemma wp_restore_sharded:
  assumes I: "restore_inv ae rq (rr_checksum_sha256 record) c f s"
  shows "wp (restore_sharded ae rq jid record instances bs) (\<lambda>_. restore_done ae rq (rr_checksum_sha256 record) c f)
    (\<lambda>_. restore_inv ae rq (rr_checksum_sha256 record) c f) s"
  unfolding restore_sharded_def
  by (rule wp_before_then [OF _ I], intro kf_intros, rule wp_before, intro kf_intros, assumption, rule wp_before_then, intro kf_intros, assumption,
      rule wp_after, rule wp_finally_clean, rule wp_before_then, intro kf_intros, assumption, rule wp_before_then, intro kf_intros, assumption,
      erule wp_reassemble_verified, (intro kf_intros)+)

text \<open>The instances that are read come from the catalog.\<close>

lemma latest_archived_mem:
  assumes "latest_archived_instance record c = Some i"
  shows "i \<in> set (cat_instances c)"
proof -
  have latest: "foldl (\<lambda>best j. if instance_time best < instance_time j then j else best) k js \<in> set (k # js)" for k js
    by (induction js arbitrary: k) auto
  obtain k js where "archived_instances record c = k # js" and "i \<in> set (k # js)"
    using assms latest by (auto simp: latest_archived_instance_def simp del: set_simps split: list.splits)
  moreover have "set (archived_instances record c) \<subseteq> set (cat_instances c)" by (auto simp: archived_instances_def)
  ultimately show ?thesis by auto
qed

lemma choose_instances_mem: "choose_instances rq record c = Inr (instances, bs) \<Longrightarrow> inst \<in> set instances \<Longrightarrow> inst \<in> set (cat_instances c)"
  by (auto simp: choose_instances_def Let_def archived_instances_def mem_map_filter dest!: latest_archived_mem split: if_splits)

lemma choose_instances_jobs: "choose_instances rq record (c\<lparr>cat_jobs := js\<rparr>) = choose_instances rq record c"
  by (simp add: choose_instances_def Let_def list_shard_records_def latest_archived_instance_def archived_instances_def)

lemma get_file_record_jobs: "get_file_record path (c\<lparr>cat_jobs := js\<rparr>) = get_file_record path c"
  by (simp add: get_file_record_def)

lemma wp_restore_instances:
  assumes I: "restore_inv ae rq (rr_checksum_sha256 record) c f s" and mem: "set instances \<subseteq> set (cat_instances c)"
  shows "wp (restore_instances ae rq jid record instances bs)
    (\<lambda>res t. restore_inv ae rq (rr_checksum_sha256 record) c f t \<and> (sxr_error res = None \<longrightarrow> restore_done ae rq (rr_checksum_sha256 record) c f t))
    (\<lambda>_. restore_inv ae rq (rr_checksum_sha256 record) c f) s" (is "wp _ ?Q ?E s")
proof -
  have parents: "keeps (restore_inv ae rq (rr_checksum_sha256 record) c f) (on_local (fs_make_parents p))" for p
    by (rule keepsI_wp) (auto simp: on_local_def fs_make_parents_def wp_zoom wp_bind wp_gets wp_then wp_guard wp_modify intro!: restore_inv_files)
  have none: "wp (restore_error ae jid msg) ?Q ?E s" for msg
  proof -
    have "wp (job_state_to ae jid ''failed'' (Some msg)) (\<lambda>_. restore_inv ae rq (rr_checksum_sha256 record) c f) ?E s"
      by (rule wp_keeps [OF keeps_restore(1) I]) (intro kf_intros)
    then show ?thesis unfolding restore_error_def wp_then wp_return by (rule wp_mono) auto
  qed
  have "wp (if length instances = 1 then restore_single ae rq jid record (hd instances) else restore_sharded ae rq jid record instances bs) ?Q ?E t"
    if "restore_inv ae rq (rr_checksum_sha256 record) c f t" "instances \<noteq> []" for t
  proof -
    have "hd instances \<in> set (cat_instances c)" using mem that(2) hd_in_set by blast
    then show ?thesis
      by (auto intro!: wp_mono [OF wp_restore_single [OF that(1)]] wp_mono [OF wp_restore_sharded [OF that(1)]] dest: restore_done_inv)
  qed
  then have "wp (thenM (on_local (fs_make_parents (sx_dest_path rq)))
      (if length instances = 1 then restore_single ae rq jid record (hd instances) else restore_sharded ae rq jid record instances bs)) ?Q ?E s"
    if "instances \<noteq> []"
    unfolding wp_then by (intro wp_mono [OF wp_keeps [OF parents I]]) (use that in auto)
  with none show ?thesis by (simp add: restore_instances_def)
qed

lemma wp_run_sharded_restore:
  "wp (run_sharded_restore ae rq jid)
     (\<lambda>res t. (case get_file_record (sx_catalog_path rq) (job_catalog s) of
         None \<Rightarrow> sxr_error res \<noteq> None \<and> sx_fs t = sx_fs s
       | Some record \<Rightarrow> restore_inv ae rq (rr_checksum_sha256 record) (job_catalog s) (sx_fs s) t
           \<and> (sxr_error res = None \<longrightarrow> restore_done ae rq (rr_checksum_sha256 record) (job_catalog s) (sx_fs s) t)))
     (\<lambda>_ t. case get_file_record (sx_catalog_path rq) (job_catalog s) of
         None \<Rightarrow> sx_fs t = sx_fs s
       | Some record \<Rightarrow> restore_inv ae rq (rr_checksum_sha256 record) (job_catalog s) (sx_fs s) t) s"
  (is "wp _ ?Q ?E s")
proof -
  let ?c = "job_catalog s"
  define rest where "rest = (\<lambda>found. case found of
        None \<Rightarrow> restore_error ae jid ''File not found in catalog''
      | Some record \<Rightarrow>
          bindM (getsM (\<lambda>s. choose_instances rq record (job_catalog s))) (\<lambda>chosen.
           case chosen of
             Inl text \<Rightarrow> fail_restore ae jid text FileNotFoundError
           | Inr (instances, bs) \<Rightarrow> restore_instances ae rq jid record instances bs))"
  have rest: "wp (rest (get_file_record (sx_catalog_path rq) (job_catalog t))) ?Q ?E t"
    if fs: "sx_fs t = sx_fs s" and cat: "job_catalog t = ?c\<lparr>cat_jobs := js\<rparr>" for t :: sharded_restore_state and js
  proof (cases "get_file_record (sx_catalog_path rq) ?c")
    case None
    have "wp (job_state_to ae jid ''failed'' (Some msg)) (\<lambda>_ u. sx_fs u = sx_fs s) (\<lambda>_ u. sx_fs u = sx_fs s) t" for msg
      by (rule wp_kf_both [OF lfs.kf_job_state]) (simp_all add: fs)
    with None show ?thesis by (auto simp: rest_def cat get_file_record_jobs restore_error_def wp_then wp_return intro: wp_mono)
  next
    case (Some rcd)
    have I: "restore_inv ae rq (rr_checksum_sha256 rcd) ?c (sx_fs s) t" by (simp add: restore_inv_def fs only_restored_refl)
    have fail: "wp (fail_restore ae jid msg FileNotFoundError :: sharded_restore_result xop) (\<lambda>_ _. False) (\<lambda>_. restore_inv ae rq (rr_checksum_sha256 rcd) ?c (sx_fs s)) t" for msg
      unfolding fail_restore_def wp_then wp_raise by (rule wp_keeps [OF keeps_restore(1) I]) (intro kf_intros)
    show ?thesis
    proof (cases "choose_instances rq rcd ?c")
      case (Inl msg)
      with Some show ?thesis
        by (auto simp: rest_def cat get_file_record_jobs wp_bind wp_gets choose_instances_jobs intro: wp_mono [OF fail])
    next
      case (Inr ib)
      obtain instances bs where ib: "ib = (instances, bs)" by (cases ib)
      have "set instances \<subseteq> set (cat_instances ?c)" using choose_instances_mem Inr ib by blast
      with wp_restore_instances [OF I this, of jid bs] Some Inr ib show ?thesis
        by (simp add: rest_def cat get_file_record_jobs wp_bind wp_gets choose_instances_jobs)
    qed
  qed
  have start: "wp (job_state_to ae jid ''running'' None) (\<lambda>_ t. sx_fs t = sx_fs s \<and> (\<exists>js. job_catalog t = ?c\<lparr>cat_jobs := js\<rparr>)) (\<lambda>_ t. sx_fs t = sx_fs s) s"
    unfolding job_state_to_def withenv_def wp_bind on_cat_def on_orch_def wp_zoom update_job_state_def wp_gets
    by (auto simp: wp_def [of tickM] tickM_def wp_rules split: option.splits)
  show ?thesis
    unfolding run_sharded_restore_def wp_then wp_bind wp_gets rest_def [symmetric]
  proof (rule wp_mono [OF start])
    fix x and t :: sharded_restore_state
    assume "sx_fs t = sx_fs s \<and> (\<exists>js. job_catalog t = ?c\<lparr>cat_jobs := js\<rparr>)"
    then show "wp (rest (get_file_record (sx_catalog_path rq) (job_catalog t))) ?Q ?E t" using rest by blast
  next
    fix e and t :: sharded_restore_state
    assume "sx_fs t = sx_fs s"
    then show "?E e t" by (simp add: restore_inv_def only_restored_refl split: option.splits)
  qed
qed

text \<open>C9. A sharded restore that returns without an error has put, at the destination it was given or under an instance's
  name in it, bytes with the digest that the catalog had for the path when the job started.\<close>

theorem sharded_restore_verified:
  assumes "run_sharded_restore ae rq jid s = (Inr res, s')" and "sxr_error res = None"
  shows "\<exists>record p content. get_file_record (sx_catalog_path rq) (job_catalog s) = Some record
    \<and> restore_place (job_catalog s) (sx_dest_path rq) p
    \<and> dict_get (lf_files (sx_fs s')) p = Some content \<and> av_sha ae content = rr_checksum_sha256 record"
  using wp_returns [OF wp_run_sharded_restore assms(1)] assms(2)
  by (auto simp: restore_done_def restored_def restored_at_def split: option.splits)

text \<open>One tape with one file: the restore puts it at the destination.\<close>

theorem sharded_restore_verified_witness:
  "\<exists>res s'. run_sharded_restore demo_job_env demo_sharded_restore_request ''j'' demo_sharded_restore_state = (Inr res, s')
     \<and> (\<exists>record p content. get_file_record ''/a'' demo_restore_catalog = Some record
          \<and> restore_place demo_restore_catalog \<lparr>px_root = [], px_parts = [''b'']\<rparr> p
          \<and> dict_get (lf_files (sx_fs s')) p = Some content \<and> demo_sha content = rr_checksum_sha256 record)"
proof -
  obtain r s' where run: "run_sharded_restore demo_job_env demo_sharded_restore_request ''j'' demo_sharded_restore_state = (r, s')" by fastforce
  then obtain res where r: "r = Inr res" and ok: "sxr_error res = None" using demo_sharded_restore_returns by (cases r) auto
  have eqs: "sx_catalog_path demo_sharded_restore_request = ''/a''" "sx_dest_path demo_sharded_restore_request = \<lparr>px_root = [], px_parts = [''b'']\<rparr>"
      "job_catalog demo_sharded_restore_state = demo_restore_catalog" "av_sha demo_job_env = demo_sha"
    by (simp_all add: demo_sharded_restore_request_def demo_sharded_restore_state_def demo_job_env_def)
  from sharded_restore_verified [OF run [unfolded r] ok] run r show ?thesis unfolding eqs by blast
qed

text \<open>C10. However a sharded restore ends, the only local files it has changed are the destination and files of the
  instances' names in it: such a file has bytes with the digest of the catalog, or it was the destination and is gone.\<close>

theorem sharded_restore_touches_destination:
  assumes "run_sharded_restore ae rq jid s = (r, s')" and "dict_get (lf_files (sx_fs s')) p \<noteq> dict_get (lf_files (sx_fs s)) p"
  shows "\<exists>record. get_file_record (sx_catalog_path rq) (job_catalog s) = Some record
    \<and> (restore_place (job_catalog s) (sx_dest_path rq) p
         \<and> (\<exists>content. dict_get (lf_files (sx_fs s')) p = Some content \<and> av_sha ae content = rr_checksum_sha256 record)
       \<or> p = sx_dest_path rq \<and> dict_get (lf_files (sx_fs s')) p = None)"
proof (cases "get_file_record (sx_catalog_path rq) (job_catalog s)")
  case None
  then have "sx_fs s' = sx_fs s"
    using assms(1) wp_run_sharded_restore [of ae rq jid s] by (cases r) (auto dest: wp_returns wp_raises)
  with assms(2) show ?thesis by simp
next
  case (Some rcd)
  then have "restore_inv ae rq (rr_checksum_sha256 rcd) (job_catalog s) (sx_fs s) s'"
    using assms(1) wp_run_sharded_restore [of ae rq jid s] by (cases r) (auto dest: wp_returns wp_raises)
  with assms(2) have "restore_place (job_catalog s) (sx_dest_path rq) p \<and> restored_at (av_sha ae) (rr_checksum_sha256 rcd) (sx_fs s') p
      \<or> p = sx_dest_path rq \<and> dict_get (lf_files (sx_fs s')) p = None"
    unfolding restore_inv_def only_restored_def by blast
  with Some show ?thesis by (simp add: restored_at_def)
qed

theorem sharded_restore_touches_destination_witness:
  "\<exists>r s' p. run_sharded_restore demo_job_env demo_sharded_restore_request ''j'' demo_sharded_restore_state = (r, s')
     \<and> dict_get (lf_files (sx_fs demo_sharded_restore_state)) p = None \<and> dict_get (lf_files (sx_fs s')) p \<noteq> None
     \<and> (restore_place demo_restore_catalog \<lparr>px_root = [], px_parts = [''b'']\<rparr> p \<or> p = \<lparr>px_root = [], px_parts = [''b'']\<rparr>)"
proof -
  obtain r s' where run: "run_sharded_restore demo_job_env demo_sharded_restore_request ''j'' demo_sharded_restore_state = (r, s')" by fastforce
  let ?p = "\<lparr>px_root = [], px_parts = [''b'']\<rparr> :: posix_path"
  have after: "dict_get (lf_files (sx_fs s')) ?p = Some [1, 2]" using run demo_sharded_restore_returns by (cases r) auto
  have before: "dict_get (lf_files (sx_fs demo_sharded_restore_state)) ?p = None" by (simp add: demo_sharded_restore_state_def)
  have eqs: "sx_dest_path demo_sharded_restore_request = ?p" "job_catalog demo_sharded_restore_state = demo_restore_catalog"
    by (simp_all add: demo_sharded_restore_request_def demo_sharded_restore_state_def)
  from sharded_restore_touches_destination [OF run, of ?p] run before after show ?thesis unfolding eqs by auto
qed

section \<open>Copies of one file\<close>

text \<open>Copies are read as if they were the shards of one file: the result is longer than the file.\<close>

lemma read_round_copies:
  "read_round bs (replicate n h) dest =
     (if n = 0 then ([], dest, False) else if py_read bs h = [] then (replicate n h, dest, True)
      else (replicate n (py_rest bs h), dest @ concat (replicate n (py_read bs h)), False))"
  by (induction n arbitrary: dest) (auto simp: Let_def)

lemma reassemble_copies:
  assumes "0 < n" and "bs \<noteq> 0"
  shows "\<exists>out. reassemble_loop bs (replicate n h) dest = Some out \<and> length out = length dest + n * length h"
proof (induction h arbitrary: dest rule: length_induct)
  case (1 h)
  show ?case
  proof (cases "py_read bs h = []")
    case True
    then have "h = []" using assms(2) by (auto simp: py_read_def split: if_splits)
    with True assms(1) show ?thesis by (subst reassemble_loop.simps) (simp add: read_round_copies)
  next
    case False
    then have "\<exists>out. reassemble_loop bs (replicate n (py_rest bs h)) (dest @ concat (replicate n (py_read bs h))) = Some out
        \<and> length out = length (dest @ concat (replicate n (py_read bs h))) + n * length (py_rest bs h)"
      using "1.IH" py_rest_shorter by blast
    moreover have "length h = length (py_read bs h) + length (py_rest bs h)" using py_read_rest [of bs h] by (metis length_append)
    ultimately show ?thesis
      using False assms(1) by (subst reassemble_loop.simps)
        (auto simp: read_round_copies length_concat sum_list_replicate map_replicate algebra_simps)
  qed
qed

lemma reassemble_copies_differs:
  assumes "1 < n" and "content \<noteq> []"
  shows "\<exists>out. reassemble_block_stripe sha (replicate n content) bs = Some (out, sha out) \<and> out \<noteq> content"
proof (cases "bs = 0")
  case True
  then have "reassemble_loop bs (replicate n content) [] = Some []"
    using assms(1) by (subst reassemble_loop.simps) (simp add: read_round_copies py_read_def)
  with assms(2) show ?thesis by (simp add: reassemble_block_stripe_def)
next
  case False
  with reassemble_copies [of n bs content "[]"] assms(1)
  obtain out where out: "reassemble_loop bs (replicate n content) [] = Some out" "length out = n * length content" by auto
  moreover have "1 * length content < n * length content" using assms by (intro mult_less_mono1) auto
  then have "out \<noteq> content" using out(2) by auto
  ultimately show ?thesis by (auto simp: reassemble_block_stripe_def)
qed

text \<open>A file of which the catalog has several archived copies and no shards is read as if the copies were shards: all of
  them are chosen, and copies with the same nonempty bytes reassemble to something else, so that the restore cannot verify.\<close>

theorem sharded_restore_mixes_copies:
  assumes "list_shard_records (rr_id record) c = []" and "\<not> requires_shard_records record" and "1 < length (archived_instances record c)"
    and "content \<noteq> []"
  shows "\<exists>instances out. choose_instances rq record c = Inr (instances, sx_block_size rq) \<and> mset instances = mset (archived_instances record c)
    \<and> reassemble_block_stripe sha (replicate (length instances) content) (sx_block_size rq) = Some (out, sha out) \<and> out \<noteq> content"
proof -
  let ?is = "sort_key ir_tape_path (archived_instances record c)"
  have "choose_instances rq record c = Inr (?is, sx_block_size rq)" using assms(1,2) by (simp add: choose_instances_def)
  moreover have "1 < length ?is" using assms(3) by simp
  ultimately show ?thesis using reassemble_copies_differs [of "length ?is" content sha "sx_block_size rq"] assms(4) by force
qed

definition demo_copies :: catalog where
  "demo_copies = demo_restore_catalog\<lparr>cat_instances := cat_instances demo_restore_catalog @ map (ir_barcode_update (\<lambda>_. ''VTA002L8'')) (cat_instances demo_restore_catalog)\<rparr>"

theorem sharded_restore_mixes_copies_witness:
  "\<exists>record. get_file_record ''/a'' demo_copies = Some record
     \<and> (\<exists>instances out. choose_instances demo_sharded_restore_request record demo_copies = Inr (instances, 1)
          \<and> reassemble_block_stripe demo_sha (replicate (length instances) [1, 2]) 1 = Some (out, demo_sha out) \<and> out \<noteq> [1, 2])"
proof -
  obtain rcd where rcd: "get_file_record ''/a'' demo_copies = Some rcd"
    and "list_shard_records (rr_id rcd) demo_copies = []" "\<not> requires_shard_records rcd" "1 < length (archived_instances rcd demo_copies)"
  proof -
    have "case get_file_record ''/a'' demo_copies of None \<Rightarrow> False
        | Some r \<Rightarrow> list_shard_records (rr_id r) demo_copies = [] \<and> \<not> requires_shard_records r \<and> 1 < length (archived_instances r demo_copies)"
      by code_simp
    then show ?thesis using that by (auto split: option.splits)
  qed
  then show ?thesis
    using sharded_restore_mixes_copies [of rcd demo_copies "[1, 2]" demo_sharded_restore_request demo_sha]
    by (auto simp: demo_sharded_restore_request_def)
qed

end
