(* ===== verification/Tape_Shelf.thy ===== *)
theory Tape_Shelf
  imports Tape_Files
begin

text \<open>
  What a client of the LTFS backend may think of it: a shelf of tapes, each a map from paths to bytes. The
  abstract machine has one transition relation over calls and their results; the locale \<open>tape_store\<close> states
  that an implementation simulates it step by step and keeps its invariant, and carries the simulation to
  sequences of calls. The interpretation discharges the laws for the model of \<open>simulator/ltfs_volume.py\<close>
  with the moves of the library among the calls.
\<close>

section \<open>The abstract shelf\<close>

type_synonym shelf = "string \<Rightarrow> string \<Rightarrow> bytes option"

datatype volume_call =
    V_format int string "format_confirmation option"
  | V_mount string string mount_mode
  | V_unmount mount_handle
  | V_write int string mount_handle string bytes "int option" "string option"
  | V_metadata int string string bytes
  | V_read string string
  | V_read_file mount_handle string
  | V_stat mount_handle string
  | V_library lib_call

type_synonym volume_result = "exc + bytes option"

definition erased :: "string \<Rightarrow> shelf \<Rightarrow> shelf \<Rightarrow> bool" where
  "erased c S S' \<longleftrightarrow> (\<exists>k. mk_barcode c = Inr k \<and> S' = S(k := Map.empty))"

definition stored_at :: "string \<Rightarrow> string \<Rightarrow> bytes \<Rightarrow> shelf \<Rightarrow> shelf \<Rightarrow> bool" where
  "stored_at c path content S S' \<longleftrightarrow> (\<exists>k. mk_barcode c = Inr k \<and> S' = S(k := (S k)(path \<mapsto> content)))"

text \<open>A call that raises has no effect, but for a confirmed format, which may have erased its tape. A call that
  returns has exactly its effect, and a read returns what the shelf holds.\<close>

fun shelf_step :: "volume_call \<Rightarrow> shelf \<Rightarrow> volume_result \<Rightarrow> shelf \<Rightarrow> bool" where
  "shelf_step (V_format now c conf) S (Inr x) S' = (confirmed now c conf \<and> erased c S S')"
| "shelf_step (V_format now c conf) S (Inl e) S' = (S' = S \<or> confirmed now c conf \<and> erased c S S')"
| "shelf_step (V_write now nid h path content sz ck) S (Inr x) S' = (mh_mode h = READ_WRITE \<and> stored_at (mh_barcode h) path content S S')"
| "shelf_step (V_metadata now c path content) S (Inr x) S' = stored_at c path content S S'"
| "shelf_step (V_read c path) S (Inr x) S' = (S' = S \<and> (\<exists>k. mk_barcode c = Inr k \<and> x = S k path))"
| "shelf_step (V_read_file h path) S (Inr x) S' = (S' = S \<and> x \<noteq> None \<and> (\<exists>k. mk_barcode (mh_barcode h) = Inr k \<and> x = S k path))"
| "shelf_step c S r S' = (S' = S)"

fun shelf_trace :: "(volume_call \<times> volume_result) list \<Rightarrow> shelf \<Rightarrow> shelf \<Rightarrow> bool" where
  "shelf_trace [] S S' = (S' = S)"
| "shelf_trace ((c, r) # xs) S S' = (\<exists>S1. shelf_step c S r S1 \<and> shelf_trace xs S1 S')"

text \<open>The calls that may change what is under a path of a tape.\<close>

fun touches :: "string \<Rightarrow> string \<Rightarrow> volume_call \<Rightarrow> bool" where
  "touches k p (V_format now c conf) = (mk_barcode c = Inr k)"
| "touches k p (V_write now nid h path content sz ck) = (mk_barcode (mh_barcode h) = Inr k \<and> path = p)"
| "touches k p (V_metadata now c path content) = (mk_barcode c = Inr k \<and> path = p)"
| "touches k p c = False"

lemma shelf_step_untouched: "shelf_step c S r S' \<Longrightarrow> \<not> touches k p c \<Longrightarrow> S' k p = S k p"
  by (cases "(c, S, r, S')" rule: shelf_step.cases) (auto simp: erased_def stored_at_def)

lemma shelf_trace_untouched: "shelf_trace xs S S' \<Longrightarrow> list_all (\<lambda>(c, r). \<not> touches k p c) xs \<Longrightarrow> S' k p = S k p"
  by (induction xs S S' rule: shelf_trace.induct) (auto dest: shelf_step_untouched)

section \<open>Implementations\<close>

primrec run_calls :: "('c \<Rightarrow> 's \<Rightarrow> 'r \<times> 's) \<Rightarrow> 'c list \<Rightarrow> 's \<Rightarrow> 'r list \<times> 's" where
  "run_calls f [] s = ([], s)"
| "run_calls f (c # cs) s = (case f c s of (r, s1) \<Rightarrow> case run_calls f cs s1 of (rs, s2) \<Rightarrow> (r # rs, s2))"

primrec calls_ok :: "('c \<Rightarrow> 's \<Rightarrow> 'r \<times> 's) \<Rightarrow> ('c \<Rightarrow> 's \<Rightarrow> bool) \<Rightarrow> 'c list \<Rightarrow> 's \<Rightarrow> bool" where
  "calls_ok f ok [] s = True"
| "calls_ok f ok (c # cs) s = (ok c s \<and> calls_ok f ok cs (snd (f c s)))"

locale tape_store =
  fixes perform :: "volume_call \<Rightarrow> 's \<Rightarrow> volume_result \<times> 's"
    and inv :: "'s \<Rightarrow> bool"
    and ok :: "volume_call \<Rightarrow> 's \<Rightarrow> bool"
    and shelf :: "'s \<Rightarrow> shelf"
  assumes keeps_inv: "inv s \<Longrightarrow> ok c s \<Longrightarrow> inv (snd (perform c s))"
    and simulates: "inv s \<Longrightarrow> ok c s \<Longrightarrow> shelf_step c (shelf s) (fst (perform c s)) (shelf (snd (perform c s)))"
begin

lemma trace:
  assumes "inv s" and "calls_ok perform ok cs s"
  shows "inv (snd (run_calls perform cs s)) \<and> shelf_trace (zip cs (fst (run_calls perform cs s))) (shelf s) (shelf (snd (run_calls perform cs s)))"
  using assms
proof (induction cs arbitrary: s)
  case (Cons c cs)
  obtain r s1 where step: "perform c s = (r, s1)" by fastforce
  obtain rs s2 where run: "run_calls perform cs s1 = (rs, s2)" by fastforce
  have "inv s1" "shelf_step c (shelf s) r (shelf s1)"
    using keeps_inv [of s c] simulates [of s c] Cons.prems step by auto
  moreover have "inv s2 \<and> shelf_trace (zip cs rs) (shelf s1) (shelf s2)"
    using Cons.IH [of s1] Cons.prems step run \<open>inv s1\<close> by simp
  ultimately show ?case using step run by auto
qed simp

lemma untouched:
  assumes "inv s" and "calls_ok perform ok cs s" and "list_all (\<lambda>c. \<not> touches k p c) cs"
  shows "shelf (snd (run_calls perform cs s)) k p = shelf s k p"
proof (rule shelf_trace_untouched [OF conjunct2 [OF trace [OF assms(1,2)]]])
  show "list_all (\<lambda>(c, r). \<not> touches k p c) (zip cs (fst (run_calls perform cs s)))"
    using assms(3) by (auto simp: list_all_iff dest: set_zip_leftD)
qed

end

section \<open>The LTFS backend\<close>

text \<open>The bytes under a path of a tape.\<close>

definition shelf_of :: "ltfs_backend \<Rightarrow> shelf" where
  "shelf_of B k p = map_option fr_content (dict_get (files_of B k) p)"

definition no_data :: "(ltfs_backend, 'a) op \<Rightarrow> ltfs_backend \<Rightarrow> volume_result \<times> ltfs_backend" where
  "no_data m B = (case m B of (Inl e, B') \<Rightarrow> (Inl e, B') | (Inr x, B') \<Rightarrow> (Inr None, B'))"

fun perform :: "(bytes \<Rightarrow> string) \<Rightarrow> volume_call \<Rightarrow> ltfs_backend \<Rightarrow> volume_result \<times> ltfs_backend" where
  "perform sha (V_format now c conf) B = no_data (ltfs_format now c conf) B"
| "perform sha (V_mount hid c mode) B = no_data (ltfs_mount hid c mode) B"
| "perform sha (V_unmount h) B = no_data (ltfs_unmount h) B"
| "perform sha (V_write now nid h path content sz ck) B = no_data (write_mounted_bytes sha now nid h path content sz ck) B"
| "perform sha (V_metadata now c path content) B = no_data (write_metadata_bytes sha now c path content) B"
| "perform sha (V_read c path) B = read_bytes c path B"
| "perform sha (V_read_file h path) B = bindM (ltfs_read_file sha h path) (\<lambda>(ck, content). returnM (Some content)) B"
| "perform sha (V_stat h path) B = no_data (ltfs_stat h path) B"
| "perform sha (V_library lc) B = (Inr None, B\<lparr>lt_library := run_call lc (lt_library B)\<rparr>)"

text \<open>What the backend asks of a caller: barcodes in normal form and fresh handle ids for mounts, handles that it
  gave out, and library calls that move media.\<close>

fun client_call :: "volume_call \<Rightarrow> ltfs_backend \<Rightarrow> bool" where
  "client_call (V_mount hid c mode) B = (barcode_pattern c \<and> dict_get (lt_active_mounts B) hid = None)"
| "client_call (V_unmount h) B = genuine h B"
| "client_call (V_write now nid h path content sz ck) B = genuine h B"
| "client_call (V_library lc) B = move_call lc"
| "client_call c B = True"

lemma shelf_of_quiet:
  assumes "quiet B B'"
  shows "shelf_of B' = shelf_of B"
proof (intro ext)
  fix k p
  have old: "dict_get (lt_tapes B') k = Some t" if "dict_get (lt_tapes B) k = Some t" for t using assms that by (simp add: quiet_def)
  have new: "tc_files t = []" if "dict_get (lt_tapes B') k = Some t" "dict_get (lt_tapes B) k = None" for t
    using assms that unfolding quiet_def new_tape_def by fastforce
  show "shelf_of B' k p = shelf_of B k p"
    by (cases "dict_get (lt_tapes B) k"; cases "dict_get (lt_tapes B') k") (auto simp: shelf_of_def files_of_def dest: old new)
qed

lemma shelf_of_tapes: "lt_tapes B = lt_tapes B' \<Longrightarrow> shelf_of B = shelf_of B'"
  by (simp add: shelf_of_def files_of_def fun_eq_iff)

lemma shelf_of_files:
  assumes "quiet B B'" and "dict_get (lt_tapes B') k = Some t"
  shows "map_option fr_content (dict_get (tc_files t) p) = shelf_of B k p"
  using assms(2) unfolding shelf_of_quiet [OF assms(1), symmetric] by (simp add: shelf_of_def files_of_def)

lemma shelf_of_tapes_quiet: "tapes_quiet B B' \<Longrightarrow> shelf_of B' = shelf_of B"
  unfolding tapes_quiet_def by (metis shelf_of_quiet shelf_of_tapes)

lemma shelf_of_format:
  assumes "quiet B B1" and "format_spec_post k B1 B'"
  shows "shelf_of B' = (shelf_of B)(k := Map.empty)"
  using assms(2) unfolding shelf_of_quiet [OF assms(1), symmetric]
  by (auto simp: format_spec_post_def shelf_of_def files_of_def formatted_tape_def fun_eq_iff)

lemma shelf_of_write:
  assumes "write_post k path content sz B B'"
  shows "shelf_of B' = (shelf_of B)(k := (shelf_of B k)(path \<mapsto> content))"
proof -
  obtain B1 t t' where q: "quiet B B1" and t: "dict_get (lt_tapes B1) k = Some t" "stored path content sz t t'"
    "dict_get (lt_tapes B') = (dict_get (lt_tapes B1))(k \<mapsto> t')" using assms by (auto simp: write_post_def)
  then show ?thesis
    unfolding shelf_of_quiet [OF q, symmetric] by (auto simp: stored_def shelf_of_def files_of_def fun_eq_iff dict_simps)
qed

lemma shelf_of_keeps: "keepsv files_of m \<Longrightarrow> shelf_of (snd (m B)) = shelf_of B"
  by (simp add: keepsv_def shelf_of_def fun_eq_iff)

text \<open>From the preservation and the effect of a call to its step.\<close>

lemma wp_perform:
  assumes "wp m Q E B" and "\<And>x B'. Q x B' \<Longrightarrow> ltfs_inv B' \<and> P (Inr None) B'" and "\<And>e B'. E e B' \<Longrightarrow> ltfs_inv B' \<and> P (Inl e) B'"
  shows "ltfs_inv (snd (no_data m B)) \<and> P (fst (no_data m B)) (snd (no_data m B))"
  using assms by (auto simp: wp_def no_data_def split: prod.splits sum.splits)

abbreviation sim_step :: "(bytes \<Rightarrow> string) \<Rightarrow> volume_call \<Rightarrow> ltfs_backend \<Rightarrow> bool" where
  "sim_step sha c B \<equiv> ltfs_inv (snd (perform sha c B)) \<and> shelf_step c (shelf_of B) (fst (perform sha c B)) (shelf_of (snd (perform sha c B)))"

lemma erasedI: "mk_barcode c = Inr k \<Longrightarrow> quiet B B1 \<Longrightarrow> format_spec_post k B1 B' \<Longrightarrow> erased c (shelf_of B) (shelf_of B')"
  unfolding erased_def using shelf_of_format by blast

lemma stored_atI: "mk_barcode c = Inr k \<Longrightarrow> write_post k path content n B B' \<Longrightarrow> stored_at c path content (shelf_of B) (shelf_of B')"
  unfolding stored_at_def using shelf_of_write by blast

lemma perform_format:
  assumes "ltfs_inv B"
  shows "sim_step sha (V_format now b conf) B"
  unfolding perform.simps
  by (rule wp_perform [OF wp_ltfs_format [OF assms]]) (auto intro: erasedI shelf_of_quiet)

lemma perform_same:
  assumes "wp m (\<lambda>_. ltfs_inv) (\<lambda>_. ltfs_inv) B" and "keepsv files_of m"
  shows "ltfs_inv (snd (no_data m B)) \<and> shelf_of (snd (no_data m B)) = shelf_of B"
  using assms(1) shelf_of_keeps [OF assms(2), of B] by (auto simp: wp_def no_data_def split: prod.splits sum.splits)

lemma perform_mount:
  assumes "ltfs_inv B" and "barcode_pattern b" and "dict_get (lt_active_mounts B) hid = None"
  shows "sim_step sha (V_mount hid b mode) B"
proof -
  have "wp (ltfs_mount hid b mode) (\<lambda>_. ltfs_inv) (\<lambda>_. ltfs_inv) B" by (rule wp_mono [OF wp_ltfs_mount [OF assms]]) auto
  from perform_same [OF this kf_mount] show ?thesis by simp
qed

lemma perform_unmount:
  assumes "ltfs_inv B" and "genuine h B"
  shows "sim_step sha (V_unmount h) B"
proof -
  have "wp (ltfs_unmount h) (\<lambda>_. ltfs_inv) (\<lambda>_. ltfs_inv) B" by (rule wp_mono [OF wp_ltfs_unmount [OF assms]]) auto
  from perform_same [OF this kf_unmount] show ?thesis by simp
qed

lemma perform_stat:
  assumes "ltfs_inv B"
  shows "sim_step sha (V_stat h path) B"
proof -
  have "wp (ltfs_stat h path) (\<lambda>_. ltfs_inv) (\<lambda>_. ltfs_inv) B" by (rule wp_mono [OF wp_ltfs_stat [OF assms]]) auto
  from perform_same [OF this kf_stat] show ?thesis by simp
qed

lemma perform_write:
  assumes "ltfs_inv B" and "genuine h B"
  shows "sim_step sha (V_write now nid h path content sz ck) B"
proof -
  have key: "mk_barcode k = Inr k" if i: "ltfs_inv B'" and w: "write_post k path content n B B'" for k n B'
  proof -
    obtain t where "dict_get (lt_tapes B') k = Some t" using w unfolding write_post_def by fastforce
    then have "tape_ok k t" using i by (simp add: ltfs_inv_def tapes_ok_def)
    then show ?thesis by (simp add: tape_ok_def mk_barcode_pattern)
  qed
  show ?thesis
    unfolding perform.simps
  proof (rule wp_perform [OF wp_write_mounted_bytes [OF assms]], goal_cases)
    case (1 x B')
    then have i: "ltfs_inv B'" and w: "write_post (mh_barcode h) path content (case sz of None \<Rightarrow> int (length content) | Some n \<Rightarrow> n) B B'"
      by simp_all
    have "stored_at (mh_barcode h) path content (shelf_of B) (shelf_of B')" by (rule stored_atI [OF key [OF i w] w])
    with 1 show ?case by simp
  next
    case (2 e B')
    then show ?case by (simp add: shelf_of_tapes_quiet)
  qed
qed

lemma perform_metadata:
  assumes "ltfs_inv B"
  shows "sim_step sha (V_metadata now b path content) B"
  unfolding perform.simps
  by (rule wp_perform [OF wp_write_metadata_bytes [OF assms]]) (auto intro: stored_atI shelf_of_quiet)

lemma perform_read:
  assumes "ltfs_inv B"
  shows "sim_step sha (V_read b path) B"
proof (cases "read_bytes b path B")
  case (Pair r B')
  then show ?thesis
    using wp_read_bytes [OF assms, of b path] by (cases r) (auto simp: wp_def shelf_of_quiet shelf_of_files)
qed

lemma perform_read_file:
  assumes "ltfs_inv B"
  shows "sim_step sha (V_read_file h path) B"
proof (cases "ltfs_read_file sha h path B")
  case (Pair r B')
  have content: "Some (fr_content q) = shelf_of B k path"
    if "quiet B B'" "dict_get (lt_tapes B') k = Some t" "dict_get (tc_files t) path = Some q" for k t q
    using shelf_of_files [OF that(1,2), of path] that(3) by simp
  from Pair show ?thesis
    using wp_ltfs_read_file [OF assms, of sha h path]
    by (cases r) (auto simp: wp_def bindM_def returnM_def shelf_of_quiet content split: prod.splits)
qed

lemma perform_library:
  assumes "ltfs_inv B" and "move_call lc"
  shows "sim_step sha (V_library lc) B"
proof -
  have "lib_inv (lt_library B)" "mounts_ok (lt_library B) (lt_active_mounts B)" using assms(1) by (simp_all add: ltfs_inv_def)
  then have "ltfs_inv (B\<lparr>lt_library := run_call lc (lt_library B)\<rparr>)"
    using mounts_ok_kept run_move_call_keeps_mounted run_call_inv assms by (auto simp: ltfs_inv_def)
  then show ?thesis using shelf_of_tapes [of "B\<lparr>lt_library := run_call lc (lt_library B)\<rparr>" B] by simp
qed

lemma perform_step: "ltfs_inv B \<Longrightarrow> client_call c B \<Longrightarrow> sim_step sha c B"
  by (cases c)
    (simp_all only: client_call.simps perform_format perform_mount perform_unmount perform_stat perform_write perform_metadata perform_read
      perform_read_file perform_library simp_thms)

interpretation ltfs: tape_store "perform sha" ltfs_inv client_call shelf_of for sha
  by unfold_locales (use perform_step in blast)+

section \<open>Properties\<close>

text \<open>C4. The LTFS backend refines the shelf of tapes: along every sequence of calls of a client, with the library's
  moves between them and whatever fails, the bytes on the tapes evolve as the shelf's, each call having the
  effect and returning the bytes that the shelf allows.\<close>

theorem ltfs_refines_shelf:
  assumes "ltfs_inv B" and "calls_ok (perform sha) client_call calls B" and "run_calls (perform sha) calls B = (results, B')"
  shows "shelf_trace (zip calls results) (shelf_of B) (shelf_of B')"
  using ltfs.trace [OF assms(1,2)] assms(3) by simp

text \<open>C14. What was written stays readable: once a write to a mounted volume has returned, a read of that path that
  returns gives the written bytes, through any calls in between that neither format the tape nor write the
  path again, remounts, moves of the cartridge and failures included.\<close>

theorem written_file_persists:
  assumes "ltfs_inv B" and "calls_ok (perform sha) client_call (V_write now nid h path content sz ck # calls) B"
    and "perform sha (V_write now nid h path content sz ck) B = (Inr x, B1)" and "mk_barcode (mh_barcode h) = Inr k"
    and "list_all (\<lambda>c. \<not> touches k path c) calls" and "mk_barcode b = Inr k"
    and "perform sha (V_read b path) (snd (run_calls (perform sha) calls B1)) = (Inr y, B2)"
  shows "y = Some content"
proof -
  let ?B = "snd (run_calls (perform sha) calls B1)"
  have ok: "client_call (V_write now nid h path content sz ck) B" "calls_ok (perform sha) client_call calls B1"
    using assms(2,3) by simp_all
  have inv: "ltfs_inv B1" using ltfs.keeps_inv [OF assms(1) ok(1), of sha] assms(3) by simp
  have "shelf_of B1 k path = Some content"
    using ltfs.simulates [OF assms(1) ok(1), of sha] assms(3,4) by (auto simp del: perform.simps simp: stored_at_def)
  then have kept: "shelf_of ?B k path = Some content"
    using ltfs.untouched [OF inv ok(2) assms(5)] by simp
  have "ltfs_inv ?B" using ltfs.trace [OF inv ok(2)] by simp
  from ltfs.simulates [OF this, of "V_read b path" sha] assms(7)
  have "shelf_step (V_read b path) (shelf_of ?B) (Inr y) (shelf_of B2)" by (simp del: perform.simps)
  with kept assms(6) show ?thesis by simp
qed

theorem ltfs_refines_shelf_witness:
  "\<exists>results B'. run_calls (perform (map char_of)) [V_write 0 ''n'' Sim_Ltfs_Props.demo_handle ''/a'' [1, 2] None None, V_read ''OB0001L8'' ''/a''] demo_mounted = (results, B')
     \<and> shelf_trace (zip [V_write 0 ''n'' Sim_Ltfs_Props.demo_handle ''/a'' [1, 2] None None, V_read ''OB0001L8'' ''/a''] results) (shelf_of demo_mounted) (shelf_of B')"
proof -
  let ?cs = "[V_write 0 ''n'' Sim_Ltfs_Props.demo_handle ''/a'' [1, 2] None None, V_read ''OB0001L8'' ''/a'']"
  obtain results B' where r: "run_calls (perform (map char_of)) ?cs demo_mounted = (results, B')" by fastforce
  have "calls_ok (perform (map char_of)) client_call ?cs demo_mounted" using demo_genuine by simp
  from ltfs_refines_shelf [OF demo_mounted_inv this r] r show ?thesis by blast
qed

theorem written_file_persists_witness:
  "fst (perform (map char_of) (V_read ''OB0001L8'' ''/a'') (snd (run_calls (perform (map char_of)) [V_unmount Sim_Ltfs_Props.demo_handle]
     (snd (perform (map char_of) (V_write 0 ''n'' Sim_Ltfs_Props.demo_handle ''/a'' [1, 2] None None) demo_mounted))))) = Inr (Some [1, 2])"
proof -
  let ?h = "Sim_Ltfs_Props.demo_handle"
  let ?w = "V_write 0 ''n'' ?h ''/a'' [1, 2] None None"
  let ?B1 = "snd (perform (map char_of) ?w demo_mounted)"
  let ?r = "perform (map char_of) (V_read ''OB0001L8'' ''/a'') (snd (run_calls (perform (map char_of)) [V_unmount ?h] ?B1))"
  have "fst (perform (map char_of) ?w demo_mounted) = Inr None" by code_simp
  then have w: "perform (map char_of) ?w demo_mounted = (Inr None, ?B1)" by (simp add: prod_eq_iff del: perform.simps)
  have "map_option am_handle (dict_get (lt_active_mounts ?B1) (mh_handle_id ?h)) = Some ?h" by code_simp
  then have "genuine ?h ?B1" by (auto simp: genuine_def simp del: perform.simps)
  then have ok: "calls_ok (perform (map char_of)) client_call [?w, V_unmount ?h] demo_mounted"
    using demo_genuine by (simp del: perform.simps)
  have k: "mk_barcode (mh_barcode ?h) = Inr ''OB0001L8''" "mk_barcode ''OB0001L8'' = Inr ''OB0001L8''" by code_simp+
  have "\<not> isl (fst ?r)" by code_simp
  then obtain y where "fst ?r = Inr y" by (metis isl_def sum.exhaust)
  then have r: "?r = (Inr y, snd ?r)" by (simp add: prod_eq_iff del: perform.simps)
  have "y = Some [1, 2]"
    by (rule written_file_persists [OF demo_mounted_inv ok w k(1) _ k(2) r]) simp
  then show ?thesis using \<open>fst ?r = Inr y\<close> by simp
qed

end
