(* ===== verification/Tape_States.thy ===== *)
theory Tape_States
  imports OB_Prelude
begin

text \<open>
  \<open>nas/state_machine.py\<close>: the lifecycle of a cartridge in the tape-native NAS. The transition table is
  the dictionary of the code; the step relation \<open>tape_step\<close> reads it, and the lifecycle theorems are by
  induction on sequences of events in which, as in the code, an event that is not in the table raises and
  leaves the cartridge where it is.
\<close>

section \<open>States, events, table\<close>

datatype tape_state = TP_ONLINE | TP_OFFLINE | TP_DEGRADED | TP_HYDRATING | TP_EXPORTING | TP_EXPORTED
  | TP_SEQUESTERED | TP_REPAIR_REQUIRED

datatype tape_event = TE_GO_OFFLINE | TE_BRING_ONLINE | TE_ERROR_DETECTED | TE_HYDRATE_START | TE_HYDRATE_DONE
  | TE_EXPORT_START | TE_EXPORT_DONE | TE_EXPORT_CANCEL | TE_IMPORT | TE_SEQUESTER | TE_OPERATOR_REPAIR
  | TE_OPERATOR_RELEASE | TE_REPAIR_DONE

datatype nas_file_state = NF_ONLINE_CACHED | NF_OFFLINE_ON_TAPE | NF_HYDRATING | NF_MISSING_TAPE | NF_FAILED
  | NF_CORRUPT | NF_EXPORTED

definition TRANSITIONS :: "(tape_state \<times> tape_event, tape_state) dict" where
  "TRANSITIONS =
    [((TP_ONLINE, TE_GO_OFFLINE), TP_OFFLINE),
     ((TP_ONLINE, TE_ERROR_DETECTED), TP_DEGRADED),
     ((TP_ONLINE, TE_HYDRATE_START), TP_HYDRATING),
     ((TP_ONLINE, TE_EXPORT_START), TP_EXPORTING),
     ((TP_ONLINE, TE_SEQUESTER), TP_SEQUESTERED),
     ((TP_OFFLINE, TE_BRING_ONLINE), TP_ONLINE),
     ((TP_OFFLINE, TE_SEQUESTER), TP_SEQUESTERED),
     ((TP_DEGRADED, TE_OPERATOR_REPAIR), TP_REPAIR_REQUIRED),
     ((TP_DEGRADED, TE_SEQUESTER), TP_SEQUESTERED),
     ((TP_DEGRADED, TE_GO_OFFLINE), TP_OFFLINE),
     ((TP_HYDRATING, TE_HYDRATE_DONE), TP_ONLINE),
     ((TP_HYDRATING, TE_ERROR_DETECTED), TP_DEGRADED),
     ((TP_EXPORTING, TE_EXPORT_DONE), TP_EXPORTED),
     ((TP_EXPORTING, TE_EXPORT_CANCEL), TP_ONLINE),
     ((TP_EXPORTED, TE_IMPORT), TP_OFFLINE),
     ((TP_SEQUESTERED, TE_OPERATOR_REPAIR), TP_REPAIR_REQUIRED),
     ((TP_SEQUESTERED, TE_OPERATOR_RELEASE), TP_ONLINE),
     ((TP_REPAIR_REQUIRED, TE_REPAIR_DONE), TP_ONLINE),
     ((TP_REPAIR_REQUIRED, TE_SEQUESTER), TP_SEQUESTERED)]"

definition transition :: "tape_state \<Rightarrow> tape_event \<Rightarrow> exc + tape_state" where
  "transition st ev = (case dict_get TRANSITIONS (st, ev) of Some st' \<Rightarrow> Inr st' | None \<Rightarrow> Inl InvalidTransitionError)"

definition file_state_for_tape :: "tape_state \<Rightarrow> nas_file_state" where
  "file_state_for_tape st =
     (if st = TP_EXPORTED then NF_EXPORTED
      else if st = TP_HYDRATING then NF_HYDRATING
      else if st \<in> {TP_SEQUESTERED, TP_REPAIR_REQUIRED} then NF_MISSING_TAPE
      else NF_OFFLINE_ON_TAPE)"

section \<open>Runs\<close>

text \<open>A cartridge that is sent events: a refused event leaves it where it is.\<close>

definition offer :: "tape_state \<Rightarrow> tape_event \<Rightarrow> tape_state" where
  "offer st ev = (case transition st ev of Inr st' \<Rightarrow> st' | Inl _ \<Rightarrow> st)"

inductive tape_step :: "tape_state \<Rightarrow> tape_event \<Rightarrow> tape_state \<Rightarrow> bool" where
  accepted: "transition st ev = Inr st' \<Longrightarrow> tape_step st ev st'"

inductive tape_path :: "tape_state \<Rightarrow> tape_event list \<Rightarrow> tape_state \<Rightarrow> bool" where
  path_nil: "tape_path st [] st"
| path_cons: "tape_step st ev st1 \<Longrightarrow> tape_path st1 evs st2 \<Longrightarrow> tape_path st (ev # evs) st2"

inductive_cases tape_path_consE: "tape_path st (ev # evs) st2"
inductive_cases tape_path_nilE: "tape_path st [] st2"

lemma transition_error: "transition st ev = Inl e \<Longrightarrow> e = InvalidTransitionError"
  by (simp add: transition_def split: option.splits)

text \<open>Into and out of quarantine and the vault, read off the table.\<close>

lemma leave_sequestered:
  "transition TP_SEQUESTERED ev = Inr st' \<Longrightarrow> ev \<in> {TE_OPERATOR_REPAIR, TE_OPERATOR_RELEASE}"
  by (cases ev) (simp_all add: transition_def TRANSITIONS_def)

lemma leave_exported: "transition TP_EXPORTED ev = Inr st' \<Longrightarrow> ev = TE_IMPORT \<and> st' = TP_OFFLINE"
  by (cases ev) (simp_all add: transition_def TRANSITIONS_def)

lemma enter_exported: "transition st ev = Inr TP_EXPORTED \<Longrightarrow> st = TP_EXPORTING \<and> ev = TE_EXPORT_DONE"
  by (cases st; cases ev) (simp_all add: transition_def TRANSITIONS_def)

lemma offer_sequestered:
  "ev \<notin> {TE_OPERATOR_REPAIR, TE_OPERATOR_RELEASE} \<Longrightarrow> offer TP_SEQUESTERED ev = TP_SEQUESTERED"
  using leave_sequestered [of ev] by (auto simp: offer_def split: sum.splits)

lemma offer_exported: "ev \<noteq> TE_IMPORT \<Longrightarrow> offer TP_EXPORTED ev = TP_EXPORTED"
  using leave_exported [of ev] by (auto simp: offer_def split: sum.splits)

lemma foldl_fixpoint: "(\<And>x. x \<in> set xs \<Longrightarrow> f a x = a) \<Longrightarrow> foldl f a xs = a"
  by (induction xs) simp_all

text \<open>C35. A cartridge in quarantine stays there, its files reported as missing, through every sequence of
  events without an operator's repair or release; one in the vault stays exported through every sequence
  without an import.\<close>

theorem quarantine_and_vault_hold:
  "(TE_OPERATOR_REPAIR \<notin> set evs \<and> TE_OPERATOR_RELEASE \<notin> set evs \<longrightarrow>
      foldl offer TP_SEQUESTERED evs = TP_SEQUESTERED
      \<and> file_state_for_tape (foldl offer TP_SEQUESTERED evs) = NF_MISSING_TAPE)
   \<and> (TE_IMPORT \<notin> set evs \<longrightarrow>
      foldl offer TP_EXPORTED evs = TP_EXPORTED \<and> file_state_for_tape (foldl offer TP_EXPORTED evs) = NF_EXPORTED)"
proof (intro conjI impI)
  assume no_op: "TE_OPERATOR_REPAIR \<notin> set evs \<and> TE_OPERATOR_RELEASE \<notin> set evs"
  show seq: "foldl offer TP_SEQUESTERED evs = TP_SEQUESTERED"
    by (rule foldl_fixpoint) (use no_op in \<open>metis offer_sequestered insertE singletonD\<close>)
  then show "file_state_for_tape (foldl offer TP_SEQUESTERED evs) = NF_MISSING_TAPE"
    by (simp add: file_state_for_tape_def)
next
  assume no_import: "TE_IMPORT \<notin> set evs"
  show exp: "foldl offer TP_EXPORTED evs = TP_EXPORTED"
    by (rule foldl_fixpoint) (use no_import in \<open>metis offer_exported\<close>)
  then show "file_state_for_tape (foldl offer TP_EXPORTED evs) = NF_EXPORTED"
    by (simp add: file_state_for_tape_def)
qed

theorem quarantine_and_vault_hold_witness:
  "foldl offer TP_SEQUESTERED [TE_BRING_ONLINE, TE_REPAIR_DONE] = TP_SEQUESTERED
   \<and> foldl offer TP_EXPORTED [TE_BRING_ONLINE, TE_REPAIR_DONE] = TP_EXPORTED"
  using quarantine_and_vault_hold [of "[TE_BRING_ONLINE, TE_REPAIR_DONE]"] by simp

section \<open>No dead ends\<close>

lemma path_step: "transition st ev = Inr st1 \<Longrightarrow> tape_path st1 evs st2 \<Longrightarrow> tape_path st (ev # evs) st2"
  by (blast intro: path_cons accepted)

fun way_home :: "tape_state \<Rightarrow> tape_event list" where
  "way_home TP_ONLINE = []"
| "way_home TP_OFFLINE = [TE_BRING_ONLINE]"
| "way_home TP_DEGRADED = [TE_GO_OFFLINE, TE_BRING_ONLINE]"
| "way_home TP_HYDRATING = [TE_HYDRATE_DONE]"
| "way_home TP_EXPORTING = [TE_EXPORT_CANCEL]"
| "way_home TP_EXPORTED = [TE_IMPORT, TE_BRING_ONLINE]"
| "way_home TP_SEQUESTERED = [TE_OPERATOR_RELEASE]"
| "way_home TP_REPAIR_REQUIRED = [TE_REPAIR_DONE]"

text \<open>From every state some accepted sequence of events brings the cartridge back online.\<close>

lemma online_reachable: "tape_path st (way_home st) TP_ONLINE"
  by (cases st) (simp_all add: path_nil path_step transition_def TRANSITIONS_def)

end
