(* ===== verification/Spec2Isabelle.thy ===== *)
theory Spec2Isabelle
  imports Sim_Snapshot Archive_Props Restore_Props Sharded_Props Sharded_Restore_Props Tape_Shelf Tape_States
begin

text \<open>
  A verification development for OpenBlade, an archive system for LTFS tape libraries (\<open>src/openblade\<close>).

  \<^bold>\<open>The program and its parts.\<close> A tape library has slots, import/export elements, drives and a changer; a
  cartridge in a drive is mounted as an LTFS volume. Jobs (archive, restore, verify, format, inventory) take
  drives through a scheduler that writes leases with fencing tokens into the catalog, ask the orchestrator for
  loads and unloads, mount, read and write volumes through the LTFS backend, and record files, instances,
  journal entries and their own state in the catalog. After a crash a recovery pass releases dead leases and a
  reconciliation protocol keeps drives of unknown state out of use until an operator has looked. Hydrated files
  are served from a checksum-addressed cache with a byte budget.

  \<^bold>\<open>Theories and the code they model.\<close>
  \<^item> \<open>OB_Prelude\<close>: operations that return or raise and keep the state they changed, \<open>try/except/finally\<close>, loops,
    a weakest-precondition calculus (\<open>wp_rules\<close>), preservation of invariants (\<open>keeps_intros\<close>) and of views of a
    state (\<open>kf_intros\<close>), Python's ordered \<open>dict\<close>.
  \<^item> \<open>Domain_Models\<close>: \<open>domain/models.py\<close>, \<open>errors.py\<close>, \<open>states.py\<close>, \<open>policies.py\<close>, \<open>capacity.py\<close>,
    \<open>media_allowlist.py\<close>. \<open>Tape_States\<close>: \<open>nas/state_machine.py\<close>. \<open>Protection\<close>: \<open>domain/protection.py\<close>,
    \<open>scalar_coordinate.py\<close>, \<open>wire.py\<close>.
  \<^item> \<open>Sim_Faults\<close>, \<open>Sim_Library\<close>, \<open>Sim_Ltfs\<close>: \<open>simulator/faults.py\<close>, \<open>fault_injection.py\<close>, \<open>library.py\<close>,
    \<open>drive.py\<close>, \<open>changer.py\<close>, \<open>ltfs_volume.py\<close>, the backends the tests and the default configuration run on.
    \<open>Sim_Library_Inv\<close>, \<open>Sim_Library_Props\<close>, \<open>Sim_Snapshot\<close>, \<open>Sim_Ltfs_Props\<close> hold their invariants and
    properties; \<open>Tape_Files\<close> the frame lemmas on the files of tapes; \<open>Tape_Shelf\<close> the abstract specification of
    the LTFS backend and its refinement.
  \<^item> \<open>Lease_Store\<close>, \<open>Catalog\<close>, \<open>Reconcile\<close>, \<open>File_Catalog\<close>: the tables of \<open>catalog/repository.py\<close> that jobs use, the
    lease stores of \<open>jobs/scheduler.py\<close> and \<open>jobs/reconcile.py\<close>. \<open>Lease_Props\<close> holds the properties of leases.
  \<^item> \<open>Drive_Scheduler\<close>: the rest of \<open>jobs/scheduler.py\<close>. \<open>Job_Queue\<close>: \<open>jobs/queue.py\<close> and \<open>jobs/recovery.py\<close>.
  \<^item> \<open>Tape_Orchestrator\<close>: \<open>nas/tape_orchestrator.py\<close> with \<open>catalog/export_policy.py\<close>. \<open>Job_Services\<close>:
    \<open>jobs/format.py\<close>, \<open>verify.py\<close>, \<open>inventory.py\<close> and \<open>nas/mailslot.py\<close>.
  \<^item> \<open>Shard_Engine\<close>: \<open>jobs/shard.py\<close>. \<open>Fuse_Cache\<close>: \<open>fuse/cache.py\<close>.
  \<^item> \<open>Job_Context\<close>: what the tape jobs share. \<open>Archive_Job\<close> with \<open>Archive_Props\<close>: \<open>jobs/archive.py\<close>;
    \<open>Restore_Job\<close> with \<open>Restore_Props\<close>: \<open>jobs/restore.py\<close>. \<open>Worker_Pool\<close>: the thread pools of the sharded jobs;
    \<open>Sharded_Archive\<close> with \<open>Sharded_Props\<close>: \<open>jobs/sharded_archive.py\<close>; \<open>Sharded_Restore\<close> with
    \<open>Sharded_Restore_Props\<close>: \<open>jobs/sharded_restore.py\<close>.

  \<^bold>\<open>State and operations.\<close> A class is a record (\<open>mock_library\<close>, \<open>ltfs_backend\<close>, \<open>catalog\<close>, \<open>scheduler\<close>,
  \<open>orchestrator\<close>, \<open>hydration_cache\<close>), an enumeration a datatype with the source's members, a method a definition
  with the source's name on that record, in the order of its guards and effects. A job's local variables that a
  handler reads after an exception are fields of the job's state, which extends the shared \<open>job_ctx\<close>.

  \<^bold>\<open>Interfaces.\<close> \<open>lease_store\<close> states what a scheduler relies on; both stores interpret it, so exclusion and fencing
  are proved once. \<open>tape_store\<close> states the simulation of the abstract shelf of tapes and lifts it to sequences of
  calls; the LTFS backend interprets it. \<open>catalog_frame\<close>, with its extensions \<open>log_frame\<close> and \<open>job_frame\<close>, states which
  parts of a job's state the shared steps leave alone, and \<open>shard_frame\<close> and \<open>shard_cleanup_frame\<close> which of them the
  steps of a sharded archive do; each job interprets them for the views its proofs follow: the files of the tapes, the
  local files, the instances of the catalog.

  \<^bold>\<open>What is shown.\<close>
  \<^item> Library and volumes: every reachable library has each cartridge in one place with a matching state; loads and
    unloads do exactly their move or raise and change nothing; a mounted cartridge stays in its drive; the LTFS
    backend refines a shelf of tapes, so that what was written is read back until it is overwritten or formatted.
  \<^item> Leases: no two live leases on a drive, tokens that only grow, no revival of a dead lease, equivalence of the
    two stores, termination of the wait for drives, and release that fails closed.
  \<^item> Recovery and reconciliation: exactly the jobs and leases of the dead are touched; a drive is pending exactly
    when the last event on it says so.
  \<^item> Orchestrator and services: every operation is logged; exports, formats, unloads and moves happen only with
    their guards satisfied; a safety token authorises one format. Where the code lets a guard be bypassed a theorem
    says so.
  \<^item> Jobs: an archive that returns has every file on a tape it reports; a restore that returns has the bytes of the
    latest instance, with the catalogued digest, at the destination; a batch never leaves unverified bytes under a
    destination; a restore without instance leaves its job running.
  \<^item> Sharded jobs, for every interleaving of their workers: an archive without errors has every file on the tape of its
    lane; the instances of a batch become archived together or not at all; no place on the tape climbs out of its
    directory; a restore that returns has verified bytes at its destination, and touches no other path. Files striped
    in blocks can be reassembled from their tapes (\<open>block_striped_file_recoverable\<close>).
  \<^item> Data: sharding and reassembly, snapshots, protection policies, the cache's integrity and its open files.

  \<^bold>\<open>Bounds and fuel.\<close> The scheduler's waiting loop takes one unit of fuel per attempt; \<open>acquire_drives_terminates\<close>
  shows that it has returned once there is a unit for an attempt at which the clock has passed the deadline. The
  jobs take \<open>av_attempts k\<close> rounds for their \<open>k\<close>-th call; with fewer rounds than the wait takes, the model of the
  job raises \<open>RuntimeError\<close>, so no theorem about a job that returns depends on the bound. Reassembly is a partial
  function into \<open>option\<close>; its round trip shows that it returns. Every other recursion terminates by its definition.

  \<^bold>\<open>Modelling choices.\<close> Clock readings, fresh identifiers, hash functions and messages of exceptions are arguments.
  A transaction is one atomic step, and what other processes do between two transactions of a wait is an arbitrary
  change of the catalog. Locks that only order threads are not modelled; one tape request reads its clock once.
  Strings are ASCII, JSON has no fractions. Errors of the operating system are left out but for files and
  directories in each other's place in a restore. A thread pool is a list of workers whose atomic steps a schedule
  interleaves; which of several failures it raises is the environment's choice.

  \<^bold>\<open>Not modelled.\<close> The AML emulator's HTTP routes, the REST API, the web console, the command line and the assistant
  (request parsing and rendering around these services); the hardware backends (they run external programs whose
  behaviour is not in the repository); the FUSE callbacks and hydration threads; the planning of
  tree restores; ingest, planning, access control, manifests and catalog rebuild of the NAS layer;
  configuration, deployment and database migration. The model of the tape jobs leaves out the fallback to a
  job-local scheduler, logging, and the counters the emulator derives from its media table.
\<close>

end
